(* ===== verification/Prelude.thy ===== *)
theory Prelude
  imports Complex_Main "HOL-Library.AList" "HOL-Library.Sublist" "HOL-Library.Char_ord"
    "HOL-Library.List_Lexorder" "HOL-Library.Product_Lexorder" "HOL-Library.Log_Nat"
begin

text \<open>
  Shared vocabulary of the development: the parts of Python and of its standard
  library that the services use (strings, slices, \<open>x or y\<close>, dictionaries, binary
  floating point), the exceptions they raise, and the generic lemmas about them.

  A Python \<open>str\<close> is a \<^typ>\<open>string\<close>, one \<^typ>\<open>char\<close> per code point. The services'
  texts are Russian and English, so a \<^typ>\<open>char\<close> is read through code page 1251, which
  holds every character of every literal of the sources: \<open>length\<close> then counts what
  \<open>len\<close> counts, and \<open>strip\<close> and \<open>lower\<close> are the ones of Python on these characters.
  A dictionary whose order matters is an association list under \<^const>\<open>AList.update\<close>,
  which replaces a value in place and appends a new key, as a Python dict does.
\<close>

named_theorems py_simps \<open>evaluation of the Python primitives\<close>
named_theorems len_bounds \<open>length bounds of text operations\<close>

section \<open>Exceptions and outcomes\<close>

text \<open>
  An operation that can raise and that changes state returns the exception or the
  value together with the state it leaves: effects before a \<open>raise\<close> stay.
\<close>

datatype exn =
    HTTPException int string
  | RuntimeError string
  | ValueError string
  | ParserChildEnqueueCancelled string
  | KeyError string
  | RecursionError
  | TypeError string
  | OverflowError string
  | LookupError string
  | AttributeError string

type_synonym ('a, 's) outcome = "(exn + 'a) \<times> 's"

text \<open>Sequencing: the continuation runs on the state that the first operation left.\<close>

definition obind :: "('a, 's) outcome \<Rightarrow> ('a \<Rightarrow> 's \<Rightarrow> ('b, 's) outcome) \<Rightarrow> ('b, 's) outcome" where
  "obind m f = (case m of (Inl e, s) \<Rightarrow> (Inl e, s) | (Inr x, s) \<Rightarrow> f x s)"

lemma obind_simps [simp]: "obind (Inl e, s) f = (Inl e, s)" "obind (Inr x, s) f = f x s"
  by (simp_all add: obind_def)

section \<open>Characters and strings\<close>

definition py_isspace :: "char \<Rightarrow> bool" where
  "py_isspace c \<longleftrightarrow> (let n = (of_char c :: nat) in
     (9 \<le> n \<and> n \<le> 13) \<or> (28 \<le> n \<and> n \<le> 32) \<or> n = 160)"

text \<open>Upper-case letters of code page 1251 outside the two regular ranges.\<close>

definition cp1251_upper :: "(nat \<times> nat) list" where
  "cp1251_upper = [(128, 144), (129, 131), (138, 154), (140, 156), (141, 157), (142, 158),
     (143, 159), (161, 162), (163, 188), (165, 180), (168, 184), (170, 186), (175, 191),
     (178, 179), (189, 190)]"

definition py_lower_char :: "char \<Rightarrow> char" where
  "py_lower_char c = (let n = (of_char c :: nat) in
     if (65 \<le> n \<and> n \<le> 90) \<or> (192 \<le> n \<and> n \<le> 223) then char_of (n + 32)
     else case map_of cp1251_upper n of Some m \<Rightarrow> char_of m | None \<Rightarrow> c)"

definition py_lower :: "string \<Rightarrow> string" where
  "py_lower s = map py_lower_char s"

definition py_lstrip :: "string \<Rightarrow> string" where
  "py_lstrip s = dropWhile py_isspace s"

definition py_rstrip :: "string \<Rightarrow> string" where
  "py_rstrip s = rev (dropWhile py_isspace (rev s))"

definition py_strip :: "string \<Rightarrow> string" where
  "py_strip s = py_rstrip (py_lstrip s)"

text \<open>A literal outside ASCII, by its bytes in code page 1251.\<close>

definition cp1251 :: "nat list \<Rightarrow> string" where
  "cp1251 ns = map char_of ns"

lemma length_cp1251 [simp]: "length (cp1251 ns) = length ns"
  by (simp add: cp1251_def)

text \<open>\<open>(x or "").strip()\<close> and \<open>(x or "").strip() or None\<close> on an optional text.\<close>

definition strip_opt :: "string option \<Rightarrow> string" where
  "strip_opt x = py_strip (case x of None \<Rightarrow> '''' | Some s \<Rightarrow> s)"

definition none_if_empty :: "string \<Rightarrow> string option" where
  "none_if_empty s = (if s = '''' then None else Some s)"

text \<open>\<open>x or y\<close> where the falsy values of \<open>x\<close> are \<open>None\<close> and zero, or \<open>None\<close> and \<open>""\<close>.\<close>

definition int_or :: "int option \<Rightarrow> int \<Rightarrow> int" where
  "int_or x d = (case x of None \<Rightarrow> d | Some v \<Rightarrow> if v = 0 then d else v)"

definition str_or :: "string option \<Rightarrow> string option \<Rightarrow> string option" where
  "str_or x y = (case x of Some (c # cs) \<Rightarrow> Some (c # cs) | _ \<Rightarrow> y)"

text \<open>The slices \<open>xs[:n]\<close> with \<open>n \<ge> 0\<close>, and \<open>xs[-k:]\<close> for any \<open>k\<close> (\<open>xs[-0:]\<close> is all of \<open>xs\<close>).\<close>

definition py_suffix :: "int \<Rightarrow> 'a list \<Rightarrow> 'a list" where
  "py_suffix k xs = (if k \<le> 0 then drop (nat (- k)) xs else drop (length xs - nat k) xs)"

section \<open>Searching and splitting\<close>

fun py_find :: "string \<Rightarrow> string \<Rightarrow> nat option" where
  "py_find pat [] = (if pat = [] then Some 0 else None)"
| "py_find pat (c # cs) =
     (if prefix pat (c # cs) then Some 0 else map_option Suc (py_find pat cs))"

definition py_contains :: "string \<Rightarrow> string \<Rightarrow> bool" where
  "py_contains pat s \<longleftrightarrow> py_find pat s \<noteq> None"

text \<open>\<open>a, b = s.split(sep, 1)\<close>: \<open>None\<close> where the unpacking raises.\<close>

definition py_split1 :: "string \<Rightarrow> string \<Rightarrow> (string \<times> string) option" where
  "py_split1 sep s = (case py_find sep s of
     None \<Rightarrow> None
   | Some i \<Rightarrow> Some (take i s, drop (i + length sep) s))"

text \<open>\<open>s.rsplit(sep, 1)\<close>: the last occurrence.\<close>

definition py_rsplit1 :: "string \<Rightarrow> string \<Rightarrow> (string \<times> string) option" where
  "py_rsplit1 sep s = (case py_find (rev sep) (rev s) of
     None \<Rightarrow> None
   | Some i \<Rightarrow> Some (take (length s - i - length sep) s, drop (length s - i) s))"

text \<open>\<open>s.split(c)\<close> on a one-character separator.\<close>

fun py_split_char :: "char \<Rightarrow> string \<Rightarrow> string list" where
  "py_split_char c [] = [[]]"
| "py_split_char c (x # xs) =
     (if x = c then [] # py_split_char c xs
      else case py_split_char c xs of [] \<Rightarrow> [[x]] | l # ls \<Rightarrow> (x # l) # ls)"

fun py_join :: "string \<Rightarrow> string list \<Rightarrow> string" where
  "py_join sep [] = ''''"
| "py_join sep [x] = x"
| "py_join sep (x # y # ys) = x @ sep @ py_join sep (y # ys)"

text \<open>\<open>s.splitlines()\<close>: the line boundaries of Python that code page 1251 has.\<close>

definition py_line_break :: "char \<Rightarrow> bool" where
  "py_line_break c \<longleftrightarrow> (let n = (of_char c :: nat) in
     (10 \<le> n \<and> n \<le> 13) \<or> (28 \<le> n \<and> n \<le> 30))"

fun py_splitlines :: "string \<Rightarrow> string list" where
  "py_splitlines [] = []"
| "py_splitlines (c # cs) =
     (if py_line_break c then
        (if of_char c = (13::nat) \<and> cs \<noteq> [] \<and> of_char (hd cs) = (10::nat)
         then [] # py_splitlines (tl cs) else [] # py_splitlines cs)
      else case py_splitlines cs of [] \<Rightarrow> [[c]] | l # ls \<Rightarrow> (c # l) # ls)"

text \<open>\<open>s.split()\<close>: the maximal runs of characters that are not blank.\<close>

fun py_split_by :: "(char \<Rightarrow> bool) \<Rightarrow> string \<Rightarrow> string list" where
  "py_split_by P [] = [[]]"
| "py_split_by P (x # xs) =
     (if P x then [] # py_split_by P xs
      else case py_split_by P xs of [] \<Rightarrow> [[x]] | l # ls \<Rightarrow> (x # l) # ls)"

definition py_words :: "string \<Rightarrow> string list" where
  "py_words s = filter (\<lambda>w. w \<noteq> []) (py_split_by py_isspace s)"

section \<open>Integers from text\<close>

text \<open>
  \<open>int(s)\<close> on a text: surrounding blanks, one sign, and digits that single underscores
  may separate; \<open>None\<close> where Python raises \<open>ValueError\<close>.
\<close>

definition digit_value :: "char \<Rightarrow> int option" where
  "digit_value c = (let n = (of_char c :: nat) in
     if 48 \<le> n \<and> n \<le> 57 then Some (int n - 48) else None)"

fun parse_digits :: "bool \<Rightarrow> int \<Rightarrow> string \<Rightarrow> int option" where
  "parse_digits after_digit acc [] = (if after_digit then Some acc else None)"
| "parse_digits after_digit acc (c # cs) =
     (if c = CHR ''_'' then (if after_digit then parse_digits False acc cs else None)
      else case digit_value c of None \<Rightarrow> None
        | Some d \<Rightarrow> parse_digits True (10 * acc + d) cs)"

definition py_int_of_string :: "string \<Rightarrow> int option" where
  "py_int_of_string s = (case py_strip s of
     [] \<Rightarrow> None
   | c # cs \<Rightarrow> if c = CHR ''-'' then map_option uminus (parse_digits False 0 cs)
              else if c = CHR ''+'' then parse_digits False 0 cs
              else parse_digits False 0 (c # cs))"

text \<open>\<open>str(n)\<close>.\<close>

fun nat_digits :: "nat \<Rightarrow> string" where
  "nat_digits n = (if n < 10 then [char_of (48 + n)] else nat_digits (n div 10) @ [char_of (48 + n mod 10)])"

declare nat_digits.simps [simp del]

definition py_str_int :: "int \<Rightarrow> string" where
  "py_str_int n = (if n < 0 then CHR ''-'' # nat_digits (nat (- n)) else nat_digits (nat n))"

section \<open>Binary floating point\<close>

text \<open>
  A Python \<open>float\<close> is the rational number it denotes, and every arithmetic operation
  rounds its exact result to the nearest value with a 53-bit significand, ties to even
  (IEEE 754 binary64 away from overflow and underflow, which the sizes in megabytes and
  tokens of these services do not reach). \<open>math.ceil\<close> and \<open>math.floor\<close> are exact.
\<close>

definition pow2 :: "int \<Rightarrow> rat" where
  "pow2 e = (if 0 \<le> e then 2 ^ nat e else 1 / 2 ^ nat (- e))"

definition round_half_even :: "rat \<Rightarrow> int" where
  "round_half_even x = (let n = \<lfloor>x\<rfloor>; d = x - of_int n in
     if d < 1 / 2 then n else if 1 / 2 < d then n + 1 else if even n then n else n + 1)"

definition binary_exponent :: "rat \<Rightarrow> int" where
  "binary_exponent x = (case quotient_of x of (p, q) \<Rightarrow>
     (let e = int (floorlog 2 (nat p)) - int (floorlog 2 (nat q))
      in if pow2 e \<le> x then e else e - 1))"

definition fl :: "rat \<Rightarrow> rat" where
  "fl x = (if x = 0 then 0 else
     (let e = binary_exponent \<bar>x\<bar> - 52
      in of_int (round_half_even (x / pow2 e)) * pow2 e))"

text \<open>\<open>a / b\<close> on integers and \<open>a * x\<close> of an integer and a float.\<close>

definition py_truediv :: "int \<Rightarrow> int \<Rightarrow> rat" where
  "py_truediv a b = fl (of_int a / of_int b)"

definition py_mul_float :: "int \<Rightarrow> rat \<Rightarrow> rat" where
  "py_mul_float a x = fl (fl (of_int a) * x)"

section \<open>Lemmas on the primitives\<close>

lemma length_py_lower [simp]: "length (py_lower s) = length s"
  by (simp add: py_lower_def)

text \<open>Lower case on the codes of the characters.\<close>

definition lower_code :: "nat \<Rightarrow> nat" where
  "lower_code n = (if (65 \<le> n \<and> n \<le> 90) \<or> (192 \<le> n \<and> n \<le> 223) then n + 32
     else case map_of cp1251_upper n of Some m \<Rightarrow> m | None \<Rightarrow> n)"

lemma lower_cp1251: "list_all (\<lambda>n. n < 256) ns \<Longrightarrow> py_lower (cp1251 ns) = cp1251 (map lower_code ns)"
  by (induction ns) (auto simp: py_lower_def cp1251_def py_lower_char_def lower_code_def Let_def split: option.split)

lemma lower_code_idem: "lower_code (lower_code n) = lower_code n"
proof (cases "(65 \<le> n \<and> n \<le> 90) \<or> (192 \<le> n \<and> n \<le> 223)")
  case True
  then show ?thesis by (auto simp: lower_code_def cp1251_upper_def)
next
  case False
  then show ?thesis by (simp add: lower_code_def cp1251_upper_def)
qed

lemma of_py_lower_char: "of_char (py_lower_char c) = lower_code (of_char c)"
proof -
  have "of_char c < (256::nat)" by (rule nat_of_char_less_256)
  then show ?thesis
    by (auto simp: py_lower_char_def lower_code_def Let_def cp1251_upper_def)
qed

lemma py_lower_char_idem [simp]: "py_lower_char (py_lower_char c) = py_lower_char c"
proof -
  have "(of_char (py_lower_char (py_lower_char c)) :: nat) = of_char (py_lower_char c)"
    by (simp only: of_py_lower_char lower_code_idem)
  then show ?thesis by simp
qed

lemma py_lower_idem [simp]: "py_lower (py_lower s) = py_lower s"
  by (simp add: py_lower_def)

lemma length_py_lstrip [len_bounds]: "length (py_lstrip s) \<le> length s"
  by (simp add: py_lstrip_def length_dropWhile_le)

lemma length_py_rstrip [len_bounds]: "length (py_rstrip s) \<le> length s"
  using length_dropWhile_le [of py_isspace "rev s"] by (simp add: py_rstrip_def)

lemma length_py_strip [len_bounds]: "length (py_strip s) \<le> length s"
  using length_py_rstrip [of "py_lstrip s"] length_py_lstrip [of s]
  by (simp add: py_strip_def)

lemma py_rstrip_last: "py_rstrip s \<noteq> [] \<Longrightarrow> \<not> py_isspace (last (py_rstrip s))"
  by (metis (no_types) hd_dropWhile last_rev py_rstrip_def rev_is_Nil_conv)

lemma py_rstrip_idle: "s = [] \<or> \<not> py_isspace (last s) \<Longrightarrow> py_rstrip s = s"
  by (cases s rule: rev_cases) (auto simp: py_rstrip_def)

lemma py_lstrip_idle: "s = [] \<or> \<not> py_isspace (hd s) \<Longrightarrow> py_lstrip s = s"
  by (cases s) (auto simp: py_lstrip_def)

lemma prefix_py_rstrip: "prefix (py_rstrip s) s"
  by (metis py_rstrip_def rev_rev_ident suffix_dropWhile suffix_to_prefix)

lemma py_strip_hd: "py_strip s \<noteq> [] \<Longrightarrow> \<not> py_isspace (hd (py_strip s))"
proof -
  assume ne: "py_strip s \<noteq> []"
  obtain r where r: "py_lstrip s = py_strip s @ r"
    using prefix_py_rstrip [of "py_lstrip s"] by (auto simp: py_strip_def prefix_def)
  with ne have "py_lstrip s \<noteq> []" and "hd (py_lstrip s) = hd (py_strip s)" by auto
  then show ?thesis by (metis hd_dropWhile py_lstrip_def)
qed

lemma py_strip_idem [simp]: "py_strip (py_strip s) = py_strip s"
proof -
  have "py_lstrip (py_strip s) = py_strip s"
    using py_strip_hd by (cases "py_strip s = []") (auto intro: py_lstrip_idle)
  moreover have "py_rstrip (py_strip s) = py_strip s"
    using py_rstrip_last [of "py_lstrip s"] by (auto simp: py_strip_def intro: py_rstrip_idle)
  ultimately show ?thesis by (simp add: py_strip_def)
qed

lemma py_find_correct:
  "py_find pat s = Some i \<Longrightarrow> s = take i s @ pat @ drop (i + length pat) s"
proof (induction s arbitrary: i)
  case Nil
  then show ?case by (auto split: if_splits)
next
  case (Cons c cs)
  then show ?case by (auto simp: prefix_def split: if_splits)
qed

lemma py_split1_join: "py_split1 sep s = Some (a, b) \<Longrightarrow> s = a @ sep @ b"
  using py_find_correct by (fastforce simp: py_split1_def split: option.splits)

lemma py_rsplit1_join: "py_rsplit1 sep s = Some (a, b) \<Longrightarrow> s = a @ sep @ b"
proof -
  assume "py_rsplit1 sep s = Some (a, b)"
  then obtain i where i: "py_find (rev sep) (rev s) = Some i"
    and ab: "a = take (length s - i - length sep) s" "b = drop (length s - i) s"
    by (auto simp: py_rsplit1_def split: option.splits)
  from py_find_correct [OF i]
  have "s = rev (drop (i + length sep) (rev s)) @ sep @ rev (take i (rev s))"
    by (metis append.assoc length_rev rev_append rev_rev_ident)
  moreover have "rev (drop (i + length sep) (rev s)) = a"
    by (simp add: ab(1) rev_drop)
  moreover have "rev (take i (rev s)) = b"
    by (simp add: ab(2) rev_take)
  ultimately show ?thesis by simp
qed

lemma py_strip_Nil [simp]: "py_strip [] = []"
  by (simp add: py_strip_def py_lstrip_def py_rstrip_def)

lemma strip_opt_None [simp]: "strip_opt None = ''''"
  by (simp add: strip_opt_def)

lemma int_or_simps [simp]: "int_or None d = d" "int_or (Some v) d = (if v = 0 then d else v)"
  by (simp_all add: int_or_def)

lemma none_if_empty_eq_Some [simp]: "none_if_empty s = Some t \<longleftrightarrow> s = t \<and> t \<noteq> ''''"
  by (auto simp: none_if_empty_def)

lemma none_if_empty_eq_None [simp]: "none_if_empty s = None \<longleftrightarrow> s = ''''"
  by (auto simp: none_if_empty_def)

lemma length_py_suffix_le: "0 < k \<Longrightarrow> int (length (py_suffix k xs)) \<le> k"
  by (simp add: py_suffix_def)

lemma set_py_suffix: "set (py_suffix k xs) \<subseteq> set xs"
  by (auto simp: py_suffix_def dest: in_set_dropD)

text \<open>Integers below \<open>2\<^sup>53\<close> are floats.\<close>

lemma round_half_even_of_int [simp]: "round_half_even (of_int n) = n"
  by (simp add: round_half_even_def Let_def)

lemma fl_of_int:
  assumes "0 \<le> n" and "n < 2 ^ 53"
  shows "fl (of_int n) = of_int n"
proof (cases "n = 0")
  case True
  then show ?thesis by (simp add: fl_def)
next
  case False
  define e where "e = binary_exponent (of_int n) - 52"
  have "floorlog 2 (nat n) \<le> 53"
    using assms by (intro floorlog_leI) (simp_all add: nat_less_iff)
  moreover have "floorlog 2 1 = 1" by (simp add: floorlog_def)
  ultimately have "e \<le> 0"
    by (simp add: e_def binary_exponent_def Let_def quotient_of_int)
  then have "of_int n / pow2 e = of_int (n * 2 ^ nat (- e))"
    by (simp add: pow2_def)
  then have "round_half_even (of_int n / pow2 e) = n * 2 ^ nat (- e)"
    by (simp only: round_half_even_of_int)
  moreover have "of_int (n * 2 ^ nat (- e)) * pow2 e = (of_int n :: rat)"
    using \<open>e \<le> 0\<close> by (simp add: pow2_def)
  ultimately show ?thesis
    using False assms by (simp add: fl_def Let_def e_def [symmetric])
qed

lemma fl_numeral: "fl 0 = 0" "fl 1 = 1" "numeral w < (2::int) ^ 53 \<Longrightarrow> fl (numeral w) = numeral w"
  using fl_of_int [of 0] fl_of_int [of 1] fl_of_int [of "numeral w"] by simp_all

end
