(* ===== verification/Config.thy ===== *)
theory Config
  imports Prelude
begin

text \<open>
  The settings that the modelled components read (\<open>config.py\<close>, class \<open>Settings\<close>): one
  record per block of the class, each extending the one before, with the defaults of the
  source. A component takes the whole record as an argument, so a deployment may set any
  value. Floats are the binary64 values nearest to the literals.
\<close>

record rate_settings =
  RATE_LIMIT_REQUESTS :: int
  RATE_LIMIT_WINDOW_SECONDS :: int
  LOGIN_RATE_LIMIT_REQUESTS :: int
  LOGIN_RATE_LIMIT_WINDOW_SECONDS :: int

record llm_settings = rate_settings +
  LLM_DEFAULT_CONTEXT_TOKENS :: int
  LLM_DEFAULT_MAX_OUTPUT_TOKENS :: int
  LLM_JOB_TIMEOUT_SECONDS :: int
  LLM_JOB_DEADLINE_SECONDS :: int
  LLM_JOB_TTL_SECONDS :: int
  LLM_EVENT_STREAM_TTL_SECONDS :: int
  LLM_WORKER_IDLE_SLEEP_SECONDS :: rat
  LLM_GPU_WEIGHT_MULTIPLIER :: rat
  LLM_CPU_WEIGHT_MULTIPLIER :: rat
  LLM_GPU_RUNTIME_OVERHEAD_MB :: int
  LLM_CPU_RUNTIME_OVERHEAD_MB :: int
  LLM_KV_CACHE_MB_PER_1K_TOKENS :: int
  LLM_PINNED_MODELS :: string

record file_settings = llm_settings +
  ENABLE_PARSER_STAGE :: bool
  ENABLE_PARSER_PUBLIC_CUTOVER :: bool
  PARSER_STAGING_ROOT :: string
  PARSER_JOB_TIMEOUT_SECONDS :: int
  PARSER_STAGING_TTL_SECONDS :: int
  FILE_PROCESSING_MAX_FILES :: int
  FILE_PROCESSING_MAX_FILE_SIZE_BYTES :: int
  FILE_PROCESSING_MAX_TOTAL_SIZE_BYTES :: int
  FILE_PROCESSING_MAX_DOCUMENT_CHARS :: int
  FILE_PROCESSING_MAX_PDF_PAGES :: int
  FILE_PROCESSING_IMAGE_MAX_DIMENSION :: int
  FILE_PROCESSING_OCR_TIMEOUT_SECONDS :: rat

record settings = file_settings +
  SCHEDULER_LOOP_INTERVAL_SECONDS :: rat
  SCHEDULER_REAPER_INTERVAL_SECONDS :: rat
  SCHEDULER_JOB_LEASE_SECONDS :: int
  SCHEDULER_HEARTBEAT_TTL_SECONDS :: int
  TARGET_HEARTBEAT_TTL_SECONDS :: int
  WORKER_HEARTBEAT_TTL_SECONDS :: int
  WORKER_CLAIM_BLOCK_TIMEOUT_SECONDS :: int
  WORKER_LEASE_RENEW_INTERVAL_SECONDS :: int
  SCHEDULER_QUEUE_SCAN_DEPTH :: int
  SCHEDULER_MAX_JOB_RETRIES :: int
  SCHEDULER_QUEUE_FACTOR :: int
  SCHEDULER_MIN_QUEUE_DEPTH :: int
  SCHEDULER_BACKPRESSURE_WORKER_WEIGHT :: int
  SCHEDULER_TOKEN_GRANULARITY_MB :: int
  SCHEDULER_GPU_SAFETY_MARGIN_MB :: int
  SCHEDULER_GPU_FRAGMENTATION_MARGIN_MB :: int
  SCHEDULER_RAM_SAFETY_MARGIN_MB :: int
  SCHEDULER_CPU_LOAD_SHED_THRESHOLD :: rat
  SCHEDULER_CHAT_RESERVED_RATIO :: rat
  SCHEDULER_SIEM_RESERVED_RATIO :: rat

text \<open>\<open>OLLAMA_MODEL_CATALOG_REFRESH_SECONDS\<close> belongs to the block of the model runtime.\<close>

definition OLLAMA_MODEL_CATALOG_REFRESH_SECONDS :: int where
  "OLLAMA_MODEL_CATALOG_REFRESH_SECONDS = 30"

definition default_settings :: settings where
  "default_settings = \<lparr>
    RATE_LIMIT_REQUESTS = 20,
    RATE_LIMIT_WINDOW_SECONDS = 60,
    LOGIN_RATE_LIMIT_REQUESTS = 5,
    LOGIN_RATE_LIMIT_WINDOW_SECONDS = 300,
    LLM_DEFAULT_CONTEXT_TOKENS = 4096,
    LLM_DEFAULT_MAX_OUTPUT_TOKENS = 1024,
    LLM_JOB_TIMEOUT_SECONDS = 300,
    LLM_JOB_DEADLINE_SECONDS = 420,
    LLM_JOB_TTL_SECONDS = 1800,
    LLM_EVENT_STREAM_TTL_SECONDS = 1800,
    LLM_WORKER_IDLE_SLEEP_SECONDS = fl (1 / 5),
    LLM_GPU_WEIGHT_MULTIPLIER = fl (11 / 10),
    LLM_CPU_WEIGHT_MULTIPLIER = fl (27 / 20),
    LLM_GPU_RUNTIME_OVERHEAD_MB = 768,
    LLM_CPU_RUNTIME_OVERHEAD_MB = 512,
    LLM_KV_CACHE_MB_PER_1K_TOKENS = 96,
    LLM_PINNED_MODELS = '''',
    ENABLE_PARSER_STAGE = False,
    ENABLE_PARSER_PUBLIC_CUTOVER = False,
    PARSER_STAGING_ROOT = ''/tmp/corporate-ai-parser-staging'',
    PARSER_JOB_TIMEOUT_SECONDS = 300,
    PARSER_STAGING_TTL_SECONDS = 3600,
    FILE_PROCESSING_MAX_FILES = 10,
    FILE_PROCESSING_MAX_FILE_SIZE_BYTES = 50 * 1024 * 1024,
    FILE_PROCESSING_MAX_TOTAL_SIZE_BYTES = 500 * 1024 * 1024,
    FILE_PROCESSING_MAX_DOCUMENT_CHARS = 12000,
    FILE_PROCESSING_MAX_PDF_PAGES = 20,
    FILE_PROCESSING_IMAGE_MAX_DIMENSION = 2000,
    FILE_PROCESSING_OCR_TIMEOUT_SECONDS = 30,
    SCHEDULER_LOOP_INTERVAL_SECONDS = 1 / 2,
    SCHEDULER_REAPER_INTERVAL_SECONDS = 5,
    SCHEDULER_JOB_LEASE_SECONDS = 30,
    SCHEDULER_HEARTBEAT_TTL_SECONDS = 15,
    TARGET_HEARTBEAT_TTL_SECONDS = 15,
    WORKER_HEARTBEAT_TTL_SECONDS = 15,
    WORKER_CLAIM_BLOCK_TIMEOUT_SECONDS = 1,
    WORKER_LEASE_RENEW_INTERVAL_SECONDS = 5,
    SCHEDULER_QUEUE_SCAN_DEPTH = 8,
    SCHEDULER_MAX_JOB_RETRIES = 2,
    SCHEDULER_QUEUE_FACTOR = 4,
    SCHEDULER_MIN_QUEUE_DEPTH = 64,
    SCHEDULER_BACKPRESSURE_WORKER_WEIGHT = 2,
    SCHEDULER_TOKEN_GRANULARITY_MB = 512,
    SCHEDULER_GPU_SAFETY_MARGIN_MB = 2048,
    SCHEDULER_GPU_FRAGMENTATION_MARGIN_MB = 1024,
    SCHEDULER_RAM_SAFETY_MARGIN_MB = 4096,
    SCHEDULER_CPU_LOAD_SHED_THRESHOLD = 90,
    SCHEDULER_CHAT_RESERVED_RATIO = 1 / 2,
    SCHEDULER_SIEM_RESERVED_RATIO = 1 / 4\<rparr>"

text \<open>The blocks of the model runtime and of the worker, which only the worker process reads.\<close>

record ollama_settings =
  OLLAMA_URL :: string
  OLLAMA_RETRY_ATTEMPTS :: int
  OLLAMA_RETRY_BACKOFF_SECONDS :: rat

record worker_settings = ollama_settings +
  WORKER_TARGET_ID :: string
  WORKER_NODE_ID :: string
  WORKER_TARGET_KIND :: string
  WORKER_GPU_INDEX :: "int option"

definition default_worker_settings :: worker_settings where
  "default_worker_settings = \<lparr>
    OLLAMA_URL = ''http://127.0.0.1:11434/api/chat'',
    OLLAMA_RETRY_ATTEMPTS = 3,
    OLLAMA_RETRY_BACKOFF_SECONDS = 1 / 2,
    WORKER_TARGET_ID = ''ollama-main'',
    WORKER_NODE_ID = ''local-node'',
    WORKER_TARGET_KIND = ''auto'',
    WORKER_GPU_INDEX = None\<rparr>"


text \<open>
  The blocks of the directory, of sessions, of the trusted proxy and of the local
  administrator, which the web tier reads, in the order of the class. \<open>DEFAULT_MODEL\<close> and
  \<open>ADMIN_DASHBOARD_USERS\<close> stand in later blocks.
\<close>

record ldap_settings =
  LDAP_DOMAIN :: string
  INSTALL_TEST_USER :: string
  KERBEROS_REALM :: string

record session_settings = ldap_settings +
  ACCESS_TOKEN_EXPIRE_MINUTES :: int
  REFRESH_TOKEN_EXPIRE_DAYS :: int
  COOKIE_SECURE :: bool
  COOKIE_SAMESITE :: string
  COOKIE_DOMAIN :: "string option"

record proxy_settings = session_settings +
  TRUSTED_AUTH_PROXY_ENABLED :: bool
  TRUSTED_PROXY_SOURCE_CIDRS :: string
  SSO_ENABLED :: bool
  SSO_LOGIN_PATH :: string
  SSO_SERVICE_PRINCIPAL :: string
  SSO_KEYTAB_PATH :: string

record auth_settings = proxy_settings +
  LOCAL_ADMIN_ENABLED :: bool
  LOCAL_ADMIN_USERNAME :: string
  LOCAL_ADMIN_PASSWORD_HASH :: string
  LOCAL_ADMIN_FORCE_ROTATE :: bool
  LOCAL_ADMIN_BOOTSTRAP_REQUIRED :: bool
  MODEL_ACCESS_CODING_GROUPS :: string
  MODEL_ACCESS_ADMIN_GROUPS :: string
  DEFAULT_MODEL :: "string option"
  ADMIN_DASHBOARD_USERS :: string

definition default_auth_settings :: auth_settings where
  "default_auth_settings = \<lparr>
    LDAP_DOMAIN = ''your-domain.local'',
    INSTALL_TEST_USER = '''',
    KERBEROS_REALM = ''YOUR-DOMAIN.LOCAL'',
    ACCESS_TOKEN_EXPIRE_MINUTES = 480,
    REFRESH_TOKEN_EXPIRE_DAYS = 7,
    COOKIE_SECURE = True,
    COOKIE_SAMESITE = ''lax'',
    COOKIE_DOMAIN = None,
    TRUSTED_AUTH_PROXY_ENABLED = False,
    TRUSTED_PROXY_SOURCE_CIDRS = ''127.0.0.1/32,::1/128'',
    SSO_ENABLED = False,
    SSO_LOGIN_PATH = ''/auth/sso/login'',
    SSO_SERVICE_PRINCIPAL = '''',
    SSO_KEYTAB_PATH = ''/etc/corporate-ai-sso/http.keytab'',
    LOCAL_ADMIN_ENABLED = False,
    LOCAL_ADMIN_USERNAME = ''admin_ai'',
    LOCAL_ADMIN_PASSWORD_HASH = '''',
    LOCAL_ADMIN_FORCE_ROTATE = False,
    LOCAL_ADMIN_BOOTSTRAP_REQUIRED = False,
    MODEL_ACCESS_CODING_GROUPS = '''',
    MODEL_ACCESS_ADMIN_GROUPS = '''',
    DEFAULT_MODEL = None,
    ADMIN_DASHBOARD_USERS = ''''\<rparr>"

end
