(* ===== verification/Redis_Store.thy ===== *)
theory Redis_Store
  imports Prelude
begin

text \<open>
  The interface to Redis. Redis is a service outside the repository, so it is a
  parameter of the model: a record of the commands that the sources call, over an
  abstract server state \<open>'s\<close>. The locale \<open>redis_store\<close> states their documented
  behaviour through a view of the server state as a keyspace, with one law per command.
  Keys are structured values (one constructor per key-building function of the sources);
  each constructor is used with one Redis type only, so the five kinds of values live in
  five components of the keyspace. A time to live is an argument of the commands and
  no part of the view: expiry is a step of the environment. \<open>mem_redis\<close> is the
  in-memory server used to evaluate the operations on concrete inputs.
\<close>

section \<open>The keyspace\<close>

record ('k, 'v, 'l, 'e) keyspace =
  strs :: "'k \<Rightarrow> 'v option"
  lists :: "'k \<Rightarrow> 'l list"
  zsets :: "'k \<Rightarrow> (string \<times> int) list"
  hashes :: "'k \<Rightarrow> string \<Rightarrow> int option"
  sets :: "'k \<Rightarrow> string set"
  streams :: "'k \<Rightarrow> 'e list"

text \<open>The inclusive, possibly negative index range of \<open>LRANGE\<close> and \<open>LTRIM\<close>.\<close>

definition redis_slice :: "int \<Rightarrow> int \<Rightarrow> 'a list \<Rightarrow> 'a list" where
  "redis_slice i j xs = (let n = int (length xs);
       a = (if i < 0 then max 0 (n + i) else i);
       b = (if j < 0 then n + j else min j (n - 1))
     in if b < a then [] else take (nat (b - a + 1)) (drop (nat a) xs))"

text \<open>A sorted set is kept in the order of Redis: by score, then by member.\<close>

definition zset_key :: "string \<times> int \<Rightarrow> int \<times> string" where
  "zset_key p = (snd p, fst p)"

definition zset_add :: "string \<Rightarrow> int \<Rightarrow> (string \<times> int) list \<Rightarrow> (string \<times> int) list" where
  "zset_add m sc z = insort_key zset_key (m, sc) (filter (\<lambda>p. fst p \<noteq> m) z)"

definition zset_rem :: "string \<Rightarrow> (string \<times> int) list \<Rightarrow> (string \<times> int) list" where
  "zset_rem m z = filter (\<lambda>p. fst p \<noteq> m) z"

definition zset_range :: "int \<Rightarrow> int \<Rightarrow> (string \<times> int) list \<Rightarrow> (string \<times> int) list" where
  "zset_range lo hi z = filter (\<lambda>p. lo \<le> snd p \<and> snd p \<le> hi) z"

definition hash_incr :: "string \<Rightarrow> int \<Rightarrow> (string \<Rightarrow> int option) \<Rightarrow> (string \<Rightarrow> int option)" where
  "hash_incr f d h = h(f := Some ((case h f of None \<Rightarrow> 0 | Some v \<Rightarrow> v) + d))"

section \<open>The commands\<close>

record ('s, 'k, 'v, 'l, 'e) redis =
  GET :: "'k \<Rightarrow> 's \<Rightarrow> 'v option"
  EXISTS :: "'k \<Rightarrow> 's \<Rightarrow> bool"
  SET :: "'k \<Rightarrow> 'v \<Rightarrow> 's \<Rightarrow> 's"
  SETEX :: "'k \<Rightarrow> 'v \<Rightarrow> int \<Rightarrow> 's \<Rightarrow> 's"
  DEL :: "'k \<Rightarrow> 's \<Rightarrow> 's"
  EXPIRE :: "'k \<Rightarrow> int \<Rightarrow> 's \<Rightarrow> 's"
  LRANGE :: "'k \<Rightarrow> int \<Rightarrow> int \<Rightarrow> 's \<Rightarrow> 'l list"
  LLEN :: "'k \<Rightarrow> 's \<Rightarrow> int"
  RPUSH :: "'k \<Rightarrow> 'l \<Rightarrow> 's \<Rightarrow> 's"
  LPUSH :: "'k \<Rightarrow> 'l \<Rightarrow> 's \<Rightarrow> 's"
  LTRIM :: "'k \<Rightarrow> int \<Rightarrow> int \<Rightarrow> 's \<Rightarrow> 's"
  LREM :: "'k \<Rightarrow> 'l \<Rightarrow> 's \<Rightarrow> int \<times> 's"
  RPOPLPUSH :: "'k \<Rightarrow> 'k \<Rightarrow> 's \<Rightarrow> 'l option \<times> 's"
  ZADD :: "'k \<Rightarrow> string \<Rightarrow> int \<Rightarrow> 's \<Rightarrow> 's"
  ZREM :: "'k \<Rightarrow> string \<Rightarrow> 's \<Rightarrow> 's"
  ZCARD :: "'k \<Rightarrow> 's \<Rightarrow> int"
  ZRANGEBYSCORE :: "'k \<Rightarrow> int \<Rightarrow> int \<Rightarrow> 's \<Rightarrow> string list"
  ZREMRANGEBYSCORE :: "'k \<Rightarrow> int \<Rightarrow> int \<Rightarrow> 's \<Rightarrow> 's"
  ZREVRANGE :: "'k \<Rightarrow> 's \<Rightarrow> (string \<times> int) list"
  HGET :: "'k \<Rightarrow> string \<Rightarrow> 's \<Rightarrow> int option"
  HGETALL :: "'k \<Rightarrow> 's \<Rightarrow> string \<Rightarrow> int option"
  HINCRBY :: "'k \<Rightarrow> string \<Rightarrow> int \<Rightarrow> 's \<Rightarrow> 's"
  HSET :: "'k \<Rightarrow> (string \<Rightarrow> int option) \<Rightarrow> 's \<Rightarrow> 's"
  HDEL :: "'k \<Rightarrow> string \<Rightarrow> 's \<Rightarrow> 's"
  SADD :: "'k \<Rightarrow> string \<Rightarrow> 's \<Rightarrow> 's"
  SREM :: "'k \<Rightarrow> string \<Rightarrow> 's \<Rightarrow> 's"
  SMEMBERS :: "'k \<Rightarrow> 's \<Rightarrow> string list"
  XADD :: "'k \<Rightarrow> 'e \<Rightarrow> 's \<Rightarrow> 's"
  XRANGE :: "'k \<Rightarrow> 's \<Rightarrow> 'e list"

text \<open>
  \<open>LREM k 1 v\<close> removes the first occurrence and reports how many it removed;
  \<open>(B)RPOPLPUSH\<close> takes from the tail of one list and pushes on the head of another, and
  returns nothing on an empty (or timed-out) source; \<open>SMEMBERS\<close> promises no order;
  \<open>EXISTS\<close> is only asked for keys that hold strings.
\<close>

locale redis_store =
  fixes R :: "('s, 'k, 'v, 'l, 'e) redis"
    and view :: "'s \<Rightarrow> ('k, 'v, 'l, 'e) keyspace"
  assumes get_law: "GET R k s = strs (view s) k"
    and exists_law: "strs (view s) k \<noteq> None \<Longrightarrow> EXISTS R k s"
    and not_exists_law: "strs (view s) k = None \<Longrightarrow> lists (view s) k = [] \<Longrightarrow> zsets (view s) k = [] \<Longrightarrow>
      hashes (view s) k = (\<lambda>_. None) \<Longrightarrow> sets (view s) k = {} \<Longrightarrow> streams (view s) k = [] \<Longrightarrow> \<not> EXISTS R k s"
    and set_law: "view (SET R k v s) = (view s)\<lparr>strs := (strs (view s))(k := Some v)\<rparr>"
    and setex_law: "view (SETEX R k v ttl s) = (view s)\<lparr>strs := (strs (view s))(k := Some v)\<rparr>"
    and del_law: "view (DEL R k s) = (view s)\<lparr>strs := (strs (view s))(k := None),
      lists := (lists (view s))(k := []), zsets := (zsets (view s))(k := []),
      hashes := (hashes (view s))(k := (\<lambda>_. None)), sets := (sets (view s))(k := {}),
      streams := (streams (view s))(k := [])\<rparr>"
    and expire_law: "view (EXPIRE R k ttl s) = view s"
    and lrange_law: "LRANGE R k i j s = redis_slice i j (lists (view s) k)"
    and llen_law: "LLEN R k s = int (length (lists (view s) k))"
    and rpush_law: "view (RPUSH R k v' s) =
      (view s)\<lparr>lists := (lists (view s))(k := lists (view s) k @ [v'])\<rparr>"
    and lpush_law: "view (LPUSH R k v' s) =
      (view s)\<lparr>lists := (lists (view s))(k := v' # lists (view s) k)\<rparr>"
    and ltrim_law: "view (LTRIM R k i j s) =
      (view s)\<lparr>lists := (lists (view s))(k := redis_slice i j (lists (view s) k))\<rparr>"
    and lrem_count_law: "fst (LREM R k v' s) = (if v' \<in> set (lists (view s) k) then 1 else 0)"
    and lrem_law: "view (snd (LREM R k v' s)) =
      (view s)\<lparr>lists := (lists (view s))(k := remove1 v' (lists (view s) k))\<rparr>"
    and rpoplpush_empty_law: "lists (view s) k = [] \<Longrightarrow> RPOPLPUSH R k k2 s = (None, s)"
    and rpoplpush_value_law: "lists (view s) k \<noteq> [] \<Longrightarrow>
      fst (RPOPLPUSH R k k2 s) = Some (last (lists (view s) k))"
    and rpoplpush_law: "lists (view s) k \<noteq> [] \<Longrightarrow> view (snd (RPOPLPUSH R k k2 s)) =
      (view s)\<lparr>lists := (let ls = (lists (view s))(k := butlast (lists (view s) k))
                        in ls(k2 := last (lists (view s) k) # ls k2))\<rparr>"
    and zadd_law: "view (ZADD R k m sc s) =
      (view s)\<lparr>zsets := (zsets (view s))(k := zset_add m sc (zsets (view s) k))\<rparr>"
    and zrem_law: "view (ZREM R k m s) =
      (view s)\<lparr>zsets := (zsets (view s))(k := zset_rem m (zsets (view s) k))\<rparr>"
    and zcard_law: "ZCARD R k s = int (length (zsets (view s) k))"
    and zrangebyscore_law: "ZRANGEBYSCORE R k lo hi s = map fst (zset_range lo hi (zsets (view s) k))"
    and zremrangebyscore_law: "view (ZREMRANGEBYSCORE R k lo hi s) = (view s)\<lparr>zsets :=
      (zsets (view s))(k := filter (\<lambda>p. \<not> (lo \<le> snd p \<and> snd p \<le> hi)) (zsets (view s) k))\<rparr>"
    and zrevrange_law: "ZREVRANGE R k s = rev (zsets (view s) k)"
    and hget_law: "HGET R k f s = hashes (view s) k f"
    and hgetall_law: "HGETALL R k s = hashes (view s) k"
    and hincrby_law: "view (HINCRBY R k f d s) =
      (view s)\<lparr>hashes := (hashes (view s))(k := hash_incr f d (hashes (view s) k))\<rparr>"
    and hset_law: "view (HSET R k h s) =
      (view s)\<lparr>hashes := (hashes (view s))(k := hashes (view s) k ++ h)\<rparr>"
    and hdel_law: "view (HDEL R k f s) =
      (view s)\<lparr>hashes := (hashes (view s))(k := (hashes (view s) k)(f := None))\<rparr>"
    and sadd_law: "view (SADD R k m s) =
      (view s)\<lparr>sets := (sets (view s))(k := insert m (sets (view s) k))\<rparr>"
    and srem_law: "view (SREM R k m s) =
      (view s)\<lparr>sets := (sets (view s))(k := sets (view s) k - {m})\<rparr>"
    and smembers_law: "finite (sets (view s) k) \<Longrightarrow>
      set (SMEMBERS R k s) = sets (view s) k \<and> distinct (SMEMBERS R k s)"
    and xadd_law: "view (XADD R k e s) =
      (view s)\<lparr>streams := (streams (view s))(k := streams (view s) k @ [e])\<rparr>"
    and xrange_law: "XRANGE R k s = streams (view s) k"
begin

lemmas redis_reads = get_law lrange_law llen_law lrem_count_law zcard_law zrangebyscore_law
  zrevrange_law hget_law hgetall_law xrange_law

lemmas redis_writes = set_law setex_law del_law expire_law rpush_law lpush_law ltrim_law lrem_law zadd_law
  zrem_law zremrangebyscore_law hincrby_law hset_law hdel_law sadd_law srem_law xadd_law

lemmas redis_laws = redis_reads redis_writes

end

section \<open>An in-memory server\<close>

definition mem_redis :: "(('k, 'v, 'l, 'e) keyspace, 'k, 'v, 'l, 'e) redis" where
  "mem_redis = \<lparr>
     GET = (\<lambda>k s. strs s k),
     EXISTS = (\<lambda>k s. strs s k \<noteq> None \<or> lists s k \<noteq> [] \<or> zsets s k \<noteq> [] \<or> streams s k \<noteq> []),
     SET = (\<lambda>k v s. s\<lparr>strs := (strs s)(k := Some v)\<rparr>),
     SETEX = (\<lambda>k v ttl s. s\<lparr>strs := (strs s)(k := Some v)\<rparr>),
     DEL = (\<lambda>k s. s\<lparr>strs := (strs s)(k := None), lists := (lists s)(k := []),
        zsets := (zsets s)(k := []), hashes := (hashes s)(k := (\<lambda>_. None)),
        sets := (sets s)(k := {}), streams := (streams s)(k := [])\<rparr>),
     EXPIRE = (\<lambda>k ttl s. s),
     LRANGE = (\<lambda>k i j s. redis_slice i j (lists s k)),
     LLEN = (\<lambda>k s. int (length (lists s k))),
     RPUSH = (\<lambda>k v s. s\<lparr>lists := (lists s)(k := lists s k @ [v])\<rparr>),
     LPUSH = (\<lambda>k v s. s\<lparr>lists := (lists s)(k := v # lists s k)\<rparr>),
     LTRIM = (\<lambda>k i j s. s\<lparr>lists := (lists s)(k := redis_slice i j (lists s k))\<rparr>),
     LREM = (\<lambda>k v s. (if v \<in> set (lists s k) then 1 else 0,
        s\<lparr>lists := (lists s)(k := remove1 v (lists s k))\<rparr>)),
     RPOPLPUSH = (\<lambda>k k2 s. if lists s k = [] then (None, s) else
        (Some (last (lists s k)),
         s\<lparr>lists := (let ls = (lists s)(k := butlast (lists s k))
                    in ls(k2 := last (lists s k) # ls k2))\<rparr>)),
     ZADD = (\<lambda>k m sc s. s\<lparr>zsets := (zsets s)(k := zset_add m sc (zsets s k))\<rparr>),
     ZREM = (\<lambda>k m s. s\<lparr>zsets := (zsets s)(k := zset_rem m (zsets s k))\<rparr>),
     ZCARD = (\<lambda>k s. int (length (zsets s k))),
     ZRANGEBYSCORE = (\<lambda>k lo hi s. map fst (zset_range lo hi (zsets s k))),
     ZREMRANGEBYSCORE = (\<lambda>k lo hi s. s\<lparr>zsets :=
        (zsets s)(k := filter (\<lambda>p. \<not> (lo \<le> snd p \<and> snd p \<le> hi)) (zsets s k))\<rparr>),
     ZREVRANGE = (\<lambda>k s. rev (zsets s k)),
     HGET = (\<lambda>k f s. hashes s k f),
     HGETALL = (\<lambda>k s. hashes s k),
     HINCRBY = (\<lambda>k f d s. s\<lparr>hashes := (hashes s)(k := hash_incr f d (hashes s k))\<rparr>),
     HSET = (\<lambda>k h s. s\<lparr>hashes := (hashes s)(k := hashes s k ++ h)\<rparr>),
     HDEL = (\<lambda>k f s. s\<lparr>hashes := (hashes s)(k := (hashes s k)(f := None))\<rparr>),
     SADD = (\<lambda>k m s. s\<lparr>sets := (sets s)(k := insert m (sets s k))\<rparr>),
     SREM = (\<lambda>k m s. s\<lparr>sets := (sets s)(k := sets s k - {m})\<rparr>),
     SMEMBERS = (\<lambda>k s. sorted_list_of_set (sets s k)),
     XADD = (\<lambda>k e s. s\<lparr>streams := (streams s)(k := streams s k @ [e])\<rparr>),
     XRANGE = (\<lambda>k s. streams s k)\<rparr>"

definition empty_keyspace :: "('k, 'v, 'l, 'e) keyspace" where
  "empty_keyspace = \<lparr>strs = (\<lambda>_. None), lists = (\<lambda>_. []), zsets = (\<lambda>_. []),
     hashes = (\<lambda>_ _. None), sets = (\<lambda>_. {}), streams = (\<lambda>_. [])\<rparr>"

interpretation mem: redis_store mem_redis "\<lambda>s. s"
  by unfold_locales (simp_all add: mem_redis_def Let_def)

section \<open>Lemmas on the data types\<close>

lemma zset_add_members [simp]: "fst ` set (zset_add m sc z) = insert m (fst ` set z)"
  by (auto simp: zset_add_def set_insort_key image_iff)

lemma zset_add_in [simp]: "(m, sc) \<in> set (zset_add m sc z)"
  by (simp add: zset_add_def set_insort_key)

lemma zset_rem_members [simp]: "fst ` set (zset_rem m z) = fst ` set z - {m}"
  by (auto simp: zset_rem_def)

lemma zset_rem_notin [simp]: "(m, sc) \<notin> set (zset_rem m z)"
  by (simp add: zset_rem_def)

lemma hash_incr_same [simp]: "hash_incr f d h f = Some ((case h f of None \<Rightarrow> 0 | Some v \<Rightarrow> v) + d)"
  by (simp add: hash_incr_def)

lemma hash_incr_other [simp]: "g \<noteq> f \<Longrightarrow> hash_incr f d h g = h g"
  by (simp add: hash_incr_def)

lemma redis_slice_all [simp]: "redis_slice 0 (- 1) xs = xs"
  by (cases xs) (simp_all add: redis_slice_def)

lemma redis_slice_suffix:
  assumes "0 < k" shows "redis_slice (- k) (- 1) xs = py_suffix k xs"
proof (cases "int (length xs) \<le> k")
  case True
  with assms show ?thesis by (cases xs) (simp_all add: redis_slice_def py_suffix_def)
next
  case False
  with assms show ?thesis
    by (simp add: redis_slice_def py_suffix_def max_def nat_diff_distrib)
qed

lemma redis_slice_take: "0 \<le> n \<Longrightarrow> redis_slice 0 n xs = take (nat n + 1) xs"
  by (cases "n < int (length xs)") (auto simp: redis_slice_def nat_add_distrib min_def Let_def)

end
