(* ===== verification/Jobs.thy ===== *)
theory Jobs
  imports Config Redis_Store Prompt_Budget
begin

text \<open>
  The data of the control plane (\<open>llm_gateway.py\<close>): statuses, workload classes and
  priorities, the job record that \<open>enqueue_job\<close> builds, the heartbeat payloads of
  targets and workers, the events of a job's stream, and the Redis keys. A job is stored
  as JSON under its key; the model stores the record itself. A field that the source
  initialises with \<open>None\<close>, or that a job lacks at first, is an option.
\<close>

section \<open>Enumerations\<close>

datatype job_status = Queued | Admitted | Running | Completed | Failed | Cancelled

definition TERMINAL_JOB_STATUSES :: "job_status list" where
  "TERMINAL_JOB_STATUSES = [Completed, Failed, Cancelled]"

abbreviation terminal :: "job_status \<Rightarrow> bool" where
  "terminal st \<equiv> st \<in> set TERMINAL_JOB_STATUSES"

datatype workload = Chat | Siem | Batch | Parse
datatype priority = P0 | P1 | P2 | P3
datatype job_kind = KindChat | KindFileChat | KindParse
datatype target_kind = Cpu | Gpu
datatype worker_pool = PoolChat | PoolSiem | PoolBatch | PoolParser

fun workload_str :: "workload \<Rightarrow> string" where
  "workload_str Chat = ''chat''"
| "workload_str Siem = ''siem''"
| "workload_str Batch = ''batch''"
| "workload_str Parse = ''parse''"

fun priority_str :: "priority \<Rightarrow> string" where
  "priority_str P0 = ''p0''"
| "priority_str P1 = ''p1''"
| "priority_str P2 = ''p2''"
| "priority_str P3 = ''p3''"

fun worker_pool_str :: "worker_pool \<Rightarrow> string" where
  "worker_pool_str PoolChat = ''chat''"
| "worker_pool_str PoolSiem = ''siem''"
| "worker_pool_str PoolBatch = ''batch''"
| "worker_pool_str PoolParser = ''parser''"

fun DEFAULT_PRIORITY_BY_WORKLOAD :: "workload \<Rightarrow> priority" where
  "DEFAULT_PRIORITY_BY_WORKLOAD Chat = P1"
| "DEFAULT_PRIORITY_BY_WORKLOAD Parse = P1"
| "DEFAULT_PRIORITY_BY_WORKLOAD Siem = P2"
| "DEFAULT_PRIORITY_BY_WORKLOAD Batch = P3"

definition QUEUE_ORDER :: "(workload \<times> priority) list" where
  "QUEUE_ORDER = [(Siem, P0), (Chat, P1), (Parse, P1), (Siem, P2), (Batch, P3)]"

definition LIFECYCLE_STAGE_PARSER_PREPARED :: string where
  "LIFECYCLE_STAGE_PARSER_PREPARED = ''parser_artifacts_prepared''"
definition LIFECYCLE_STAGE_CHILD_ENQUEUED :: string where
  "LIFECYCLE_STAGE_CHILD_ENQUEUED = ''child_enqueued''"
definition LIFECYCLE_STAGE_CHILD_COMPLETED :: string where
  "LIFECYCLE_STAGE_CHILD_COMPLETED = ''child_completed''"
definition LIFECYCLE_STAGE_CHILD_FAILED :: string where
  "LIFECYCLE_STAGE_CHILD_FAILED = ''child_failed''"
definition LIFECYCLE_STAGE_CHILD_CANCELLED :: string where
  "LIFECYCLE_STAGE_CHILD_CANCELLED = ''child_cancelled''"
definition DEFAULT_CHAT_THREAD_ID :: string where
  "DEFAULT_CHAT_THREAD_ID = ''default''"
definition DEADLINE_EXCEEDED_ERROR :: string where
  "DEADLINE_EXCEEDED_ERROR = ''Deadline exceeded''"

text \<open>Russian for ``service temporarily unavailable, try later''.\<close>

definition GENERIC_CHAT_ERROR :: string where
  "GENERIC_CHAT_ERROR =
     cp1251 [209, 229, 240, 226, 232, 241, 32, 226, 240, 229, 236, 229, 237, 237, 238, 32,
       237, 229, 228, 238, 241, 242, 243, 239, 229, 237, 46, 32, 207, 238, 239, 240,
       238, 225, 243, 233, 242, 229, 32, 239, 238, 231, 230, 229, 46]"

section \<open>Normalisation of request values\<close>

definition normalize_workload_class :: "string \<Rightarrow> workload" where
  "normalize_workload_class workload_class = (let normalized = py_lower (py_strip workload_class) in
     if normalized = ''chat'' then Chat
     else if normalized = ''siem'' then Siem
     else if normalized = ''batch'' then Batch
     else if normalized = ''parse'' then Parse
     else Chat)"

fun worker_pool_for_workload :: "workload \<Rightarrow> worker_pool" where
  "worker_pool_for_workload Parse = PoolParser"
| "worker_pool_for_workload Chat = PoolChat"
| "worker_pool_for_workload Siem = PoolSiem"
| "worker_pool_for_workload Batch = PoolBatch"

definition normalize_target_kind :: "string option \<Rightarrow> target_kind" where
  "normalize_target_kind value = (if py_lower (strip_opt value) = ''gpu'' then Gpu else Cpu)"

definition normalize_priority :: "workload \<Rightarrow> string option \<Rightarrow> priority" where
  "normalize_priority workload_class priority = (let candidate = py_lower (strip_opt priority) in
     if candidate = ''p0'' then P0
     else if candidate = ''p1'' then P1
     else if candidate = ''p2'' then P2
     else if candidate = ''p3'' then P3
     else DEFAULT_PRIORITY_BY_WORKLOAD workload_class)"

definition normalize_job_kind :: "string \<Rightarrow> job_kind" where
  "normalize_job_kind job_kind = (let normalized = py_lower (py_strip job_kind) in
     if normalized = ''chat'' then KindChat
     else if normalized = ''file_chat'' then KindFileChat
     else if normalized = ''parse'' then KindParse
     else KindChat)"

definition normalize_thread_id :: "string option \<Rightarrow> string" where
  "normalize_thread_id thread_id = (let normalized = strip_opt thread_id in
     if normalized = [] then DEFAULT_CHAT_THREAD_ID else normalized)"

section \<open>Records\<close>

record file_info =
  fi_name :: string
  fi_safe_name :: "string option"
  fi_size :: int
  fi_content_type :: "string option"

text \<open>Free-form dictionaries of a job (\<open>file_chat\<close>, \<open>parser_metadata\<close>), in insertion order.\<close>

datatype meta_val = MNone | MStr string | MInt int | MBool bool | MFiles "file_info list"

type_synonym metadata = "(string \<times> meta_val) list"

definition meta_update :: "metadata \<Rightarrow> metadata \<Rightarrow> metadata" where
  "meta_update m updates = fold (\<lambda>(k, v). AList.update k v) updates m"

record model_info =
  mi_name :: string
  mi_description :: string
  mi_size :: int
  mi_status :: string

type_synonym catalog = "(string \<times> model_info) list"

record model_profile =
  pf_model_key :: string
  pf_model_name :: string
  pf_weights_mb :: int
  pf_kv_cache_mb :: int
  pf_runtime_overhead_mb :: int
  pf_total_mb :: int
  pf_token_cost :: int

record admission_profile = model_profile +
  ap_dynamic_parallel_limit :: int
  ap_model_is_warm :: bool
  ap_cpu :: "(int \<times> bool \<times> bool) option"
    \<comment> \<open>on a CPU target: effective capacity tokens and the two override flags\<close>

record job =
  j_id :: string
  j_username :: string
  j_thread_id :: string
  j_job_kind :: job_kind
  j_workload_class :: workload
  j_priority :: priority
  j_target_kind :: target_kind
  j_worker_pool :: worker_pool
  j_model_key :: string
  j_model_name :: string
  j_model_info :: model_info
  j_prompt :: string
  j_history :: "message list"
  j_prompt_tokens :: int
  j_context_tokens :: int
  j_max_output_tokens :: int
  j_status :: job_status
  j_created_at :: int
  j_created_at_ms :: int
  j_enqueued_at_ms :: int
  j_admitted_at :: "int option"
  j_admitted_at_ms :: "int option"
  j_started_at :: "int option"
  j_started_at_ms :: "int option"
  j_finished_at :: "int option"
  j_finished_at_ms :: "int option"
  j_queue_wait_ms :: int
  j_deadline_at :: int
  j_retry_count :: int
  j_max_retries :: int
  j_cancel_requested :: bool
  j_error :: "string option"
  j_result :: "string option"
  j_assigned_target_id :: "string option"
  j_assigned_worker_id :: "string option"
  j_lease_until :: "int option"
  j_reserved_tokens :: int
  j_reserved_vram_mb :: int
  j_reserved_ram_mb :: int
  j_profile :: "admission_profile option"
  j_file_chat :: "metadata option"
  j_root_job_id :: "string option"
  j_parent_job_id :: "string option"
  j_staging_id :: "string option"
  j_parser_metadata :: "metadata option"
  j_lifecycle_stage :: "string option"
  j_child_job_id :: "string option"

record target =
  tg_target_id :: string
  tg_node_id :: string
  tg_target_kind :: string
  tg_cpu_count :: int
  tg_cpu_percent :: rat
  tg_ram_total_mb :: int
  tg_ram_free_mb :: int
  tg_vram_total_mb :: int
  tg_vram_free_mb :: int
  tg_loaded_models :: "string list"
  tg_pinned_models :: "string list"
  tg_base_capacity_tokens :: int
  tg_last_seen :: int

record worker_info =
  wk_worker_id :: string
  wk_worker_pool :: worker_pool
  wk_target_id :: string
  wk_target_kind :: string
  wk_active_jobs :: int
  wk_last_seen :: int

record scheduler_status =
  ss_last_seen :: int
  ss_scheduled :: int
  ss_pending_total :: int
  ss_targets :: int
  ss_workers :: int

text \<open>
  Events: the payloads the gateway and the worker emit. \<open>source_job_id\<close> is set on an
  event that a child job mirrors to its root.
\<close>

datatype event_body =
    EvQueued
  | EvAdmitted string int
  | EvRunning string
  | EvRequeuedReason string
  | EvRequeuedRetry int
  | EvCancelling
  | EvToken string
  | EvResult string
  | EvDone
  | EvErrorDone string
  | EvCancelledDone

record event =
  ev_job_id :: "string option"
  ev_source_job_id :: "string option"
  ev_body :: event_body

fun body_done :: "event_body \<Rightarrow> bool" where
  "body_done EvDone = True"
| "body_done (EvErrorDone _) = True"
| "body_done EvCancelledDone = True"
| "body_done _ = False"

definition own_event :: "string \<Rightarrow> event_body \<Rightarrow> event" where
  "own_event job_id b = \<lparr>ev_job_id = Some job_id, ev_source_job_id = None, ev_body = b\<rparr>"

definition bare_event :: "event_body \<Rightarrow> event" where
  "bare_event b = \<lparr>ev_job_id = None, ev_source_job_id = None, ev_body = b\<rparr>"

section \<open>Keys\<close>

datatype gkey =
    ModelCatalogKey
  | ModelCatalogTsKey
  | ActiveJobsZset
  | TargetsSetKey
  | WorkersSetKey
  | SchedulerHeartbeatKey
  | MetricsKey
  | PendingQueueKey workload priority
  | DispatchQueueKey worker_pool string
  | ProcessingQueueKey string
  | JobKey string
  | EventsKey string
  | TargetKey string
  | TargetUsageKey string
  | TargetModelsKey string
  | TargetLockKey string
  | WorkerKey string
  | JobLockKey string

fun key_string :: "gkey \<Rightarrow> string" where
  "key_string ModelCatalogKey = ''llm:model_catalog''"
| "key_string ModelCatalogTsKey = ''llm:model_catalog:ts''"
| "key_string ActiveJobsZset = ''llm:jobs:active''"
| "key_string TargetsSetKey = ''llm:targets''"
| "key_string WorkersSetKey = ''llm:workers''"
| "key_string SchedulerHeartbeatKey = ''llm:scheduler:heartbeat''"
| "key_string MetricsKey = ''llm:metrics''"
| "key_string (PendingQueueKey w p) = ''llm:queue:'' @ workload_str w @ '':'' @ priority_str p"
| "key_string (DispatchQueueKey pool t) = ''llm:dispatch:'' @ worker_pool_str pool @ '':'' @ t"
| "key_string (ProcessingQueueKey w) = ''llm:processing:'' @ w"
| "key_string (JobKey j) = ''llm:job:'' @ j"
| "key_string (EventsKey j) = ''llm:events:'' @ j"
| "key_string (TargetKey t) = ''llm:target:'' @ t"
| "key_string (TargetUsageKey t) = ''llm:target:'' @ t @ '':usage''"
| "key_string (TargetModelsKey t) = ''llm:target:'' @ t @ '':models''"
| "key_string (TargetLockKey t) = ''llm:target:'' @ t @ '':lock''"
| "key_string (WorkerKey w) = ''llm:worker:'' @ w"
| "key_string (JobLockKey j) = ''llm:job:'' @ j @ '':lock''"

datatype gval =
    GJob job
  | GTarget target
  | GWorker worker_info
  | GCatalog catalog
  | GInt int
  | GScheduler scheduler_status

type_synonym 's gredis = "('s, gkey, gval, string, event) redis"
type_synonym gspace = "(gkey, gval, string, event) keyspace"

section \<open>The gateway object\<close>

text \<open>
  The attributes of an \<open>LLMGateway\<close> and its surroundings: the Redis connection
  (\<open>None\<close> before \<open>connect\<close> and after \<open>close\<close>), the settings, the process environment,
  \<open>uuid5\<close> in the URL namespace as a hexadecimal text, and what the model runtime lists
  when it is asked. One operation reads the clock once.
\<close>

record 's gateway =
  gw_redis :: "'s gredis option"
  gw_cfg :: settings
  gw_env :: "string \<Rightarrow> string option"
  gw_uuid5 :: "string \<Rightarrow> string"
  gw_available_models :: catalog

record clock =
  now :: int
  now_ms :: int

lemma terminal_simps [simp]:
  "terminal Completed" "terminal Failed" "terminal Cancelled"
  "\<not> terminal Queued" "\<not> terminal Admitted" "\<not> terminal Running"
  by (simp_all add: TERMINAL_JOB_STATUSES_def)

end
