(* ===== verification/Gateway.thy ===== *)
theory Gateway
  imports Jobs
begin

text \<open>
  The job lifecycle of \<open>LLMGateway\<close> (\<open>llm_gateway.py\<close>): persistence and events of a job,
  heartbeats and the lists of active targets and workers, the capacity counters of a
  target, the terminal transitions, cancellation, and the synthesis of a parser root's
  terminal state from its child. Every operation takes the gateway object, the clock and
  the Redis server state and returns its result with the new state. An operation that
  holds a Redis lock is one step. The locale \<open>gateway_store\<close> states what a
  connected gateway relies on; the lemmas about the operations are proved in it.
\<close>

section \<open>Jobs and events\<close>

definition get_job :: "'s gateway \<Rightarrow> string \<Rightarrow> 's \<Rightarrow> job option" where
  "get_job g job_id s = (case gw_redis g of None \<Rightarrow> None
     | Some R \<Rightarrow> (case GET R (JobKey job_id) s of Some (GJob job) \<Rightarrow> Some job | _ \<Rightarrow> None))"

definition save_job :: "'s gateway \<Rightarrow> job \<Rightarrow> 's \<Rightarrow> (unit, 's) outcome" where
  "save_job g job s = (case gw_redis g of
       None \<Rightarrow> (Inl (RuntimeError ''Redis is required for job persistence''), s)
     | Some R \<Rightarrow> (Inr (), SETEX R (JobKey (j_id job)) (GJob job) (LLM_JOB_TTL_SECONDS (gw_cfg g)) s))"

text \<open>
  The callers of \<open>save_job\<close> hold a job that \<open>get_job\<close> returned, so Redis is connected and
  the exception cannot occur there; they go on with the state.
\<close>

abbreviation saved :: "'s gateway \<Rightarrow> job \<Rightarrow> 's \<Rightarrow> 's" where
  "saved g job s \<equiv> snd (save_job g job s)"

definition append_event :: "'s gateway \<Rightarrow> string \<Rightarrow> event \<Rightarrow> 's \<Rightarrow> 's" where
  "append_event g job_id ev s = (case gw_redis g of None \<Rightarrow> s
     | Some R \<Rightarrow> EXPIRE R (EventsKey job_id) (LLM_EVENT_STREAM_TTL_SECONDS (gw_cfg g))
                  (XADD R (EventsKey job_id) ev s))"

definition get_distinct_root_job_id :: "'s gateway \<Rightarrow> string \<Rightarrow> 's \<Rightarrow> string option" where
  "get_distinct_root_job_id g job_id s = (case get_job g job_id s of None \<Rightarrow> None
     | Some job \<Rightarrow> (let root_job_id = strip_opt (j_root_job_id job) in
         if root_job_id = [] \<or> root_job_id = job_id then None else Some root_job_id))"

definition build_root_mirrored_event :: "string \<Rightarrow> string \<Rightarrow> event \<Rightarrow> event" where
  "build_root_mirrored_event root_job_id child_job_id ev =
     ev\<lparr>ev_source_job_id := Some child_job_id,
        ev_job_id := (if ev_job_id ev \<noteq> None then Some root_job_id else None)\<rparr>"

definition emit_event :: "'s gateway \<Rightarrow> string \<Rightarrow> event \<Rightarrow> 's \<Rightarrow> 's" where
  "emit_event g job_id ev s = (let s = append_event g job_id ev s in
     if body_done (ev_body ev) then s
     else case get_distinct_root_job_id g job_id s of None \<Rightarrow> s
       | Some root_job_id \<Rightarrow>
           append_event g root_job_id (build_root_mirrored_event root_job_id job_id ev) s)"

section \<open>Heartbeats, active targets and workers\<close>

definition report_target_heartbeat :: "'s gateway \<Rightarrow> clock \<Rightarrow> target \<Rightarrow> 's \<Rightarrow> 's" where
  "report_target_heartbeat g c t s = (case gw_redis g of None \<Rightarrow> s
     | Some R \<Rightarrow> SADD R TargetsSetKey (tg_target_id t)
         (SETEX R (TargetKey (tg_target_id t)) (GTarget (t\<lparr>tg_last_seen := now c\<rparr>))
            (TARGET_HEARTBEAT_TTL_SECONDS (gw_cfg g)) s))"

definition report_worker_heartbeat :: "'s gateway \<Rightarrow> clock \<Rightarrow> worker_info \<Rightarrow> 's \<Rightarrow> 's" where
  "report_worker_heartbeat g c w s = (case gw_redis g of None \<Rightarrow> s
     | Some R \<Rightarrow> SADD R WorkersSetKey (wk_worker_id w)
         (SETEX R (WorkerKey (wk_worker_id w)) (GWorker (w\<lparr>wk_last_seen := now c\<rparr>))
            (WORKER_HEARTBEAT_TTL_SECONDS (gw_cfg g)) s))"

definition report_scheduler_heartbeat :: "'s gateway \<Rightarrow> clock \<Rightarrow> scheduler_status \<Rightarrow> 's \<Rightarrow> 's" where
  "report_scheduler_heartbeat g c payload s = (case gw_redis g of None \<Rightarrow> s
     | Some R \<Rightarrow> SETEX R SchedulerHeartbeatKey (GScheduler (payload\<lparr>ss_last_seen := now c\<rparr>))
         (SCHEDULER_HEARTBEAT_TTL_SECONDS (gw_cfg g)) s)"

definition get_scheduler_status :: "'s gateway \<Rightarrow> 's \<Rightarrow> scheduler_status option" where
  "get_scheduler_status g s = (case gw_redis g of None \<Rightarrow> None
     | Some R \<Rightarrow> (case GET R SchedulerHeartbeatKey s of Some (GScheduler d) \<Rightarrow> Some d | _ \<Rightarrow> None))"

definition read_target :: "'s gredis \<Rightarrow> 's \<Rightarrow> string \<Rightarrow> target option" where
  "read_target R s target_id =
     (case GET R (TargetKey target_id) s of Some (GTarget t) \<Rightarrow> Some t | _ \<Rightarrow> None)"

definition read_worker :: "'s gredis \<Rightarrow> 's \<Rightarrow> string \<Rightarrow> worker_info option" where
  "read_worker R s worker_id =
     (case GET R (WorkerKey worker_id) s of Some (GWorker w) \<Rightarrow> Some w | _ \<Rightarrow> None)"

definition list_active_targets :: "'s gateway \<Rightarrow> 's \<Rightarrow> target list \<times> 's" where
  "list_active_targets g s = (case gw_redis g of None \<Rightarrow> ([], s)
     | Some R \<Rightarrow> (let target_ids = SMEMBERS R TargetsSetKey s;
           targets = List.map_filter (read_target R s) target_ids;
           stale = filter (\<lambda>i. read_target R s i = None) target_ids
         in (targets, fold (SREM R TargetsSetKey) stale s)))"

definition list_active_workers :: "'s gateway \<Rightarrow> 's \<Rightarrow> worker_info list \<times> 's" where
  "list_active_workers g s = (case gw_redis g of None \<Rightarrow> ([], s)
     | Some R \<Rightarrow> (let worker_ids = SMEMBERS R WorkersSetKey s;
           workers = List.map_filter (read_worker R s) worker_ids;
           stale = filter (\<lambda>i. read_worker R s i = None) worker_ids
         in (workers, fold (SREM R WorkersSetKey) stale s)))"

text \<open>\<open>{target["target_id"]: target for target in ...}\<close>\<close>

definition target_index :: "target list \<Rightarrow> (string \<times> target) list" where
  "target_index targets = fold (\<lambda>t. AList.update (tg_target_id t) t) targets []"

definition list_working_workers :: "'s gateway \<Rightarrow> string option \<Rightarrow> 's \<Rightarrow> worker_info list \<times> 's" where
  "list_working_workers g workload_class s =
     (case list_active_workers g s of (workers, s) \<Rightarrow>
        if workers = [] then ([], s)
        else case list_active_targets g s of (active, s) \<Rightarrow>
          let targets = target_index active;
              expected_pool = (case workload_class of None \<Rightarrow> None
                | Some w \<Rightarrow> if w = [] then None
                           else Some (worker_pool_for_workload (normalize_workload_class w)))
          in (filter (\<lambda>w. (expected_pool = None \<or> Some (wk_worker_pool w) = expected_pool)
                \<and> wk_target_id w \<noteq> [] \<and> map_of targets (wk_target_id w) \<noteq> None) workers, s))"

definition has_worker_for_target_kind ::
  "'s gateway \<Rightarrow> workload \<Rightarrow> target_kind \<Rightarrow> 's \<Rightarrow> bool \<times> 's" where
  "has_worker_for_target_kind g workload_class kind s =
     (case list_active_workers g s of (workers, s) \<Rightarrow>
        if workers = [] then (False, s)
        else case list_active_targets g s of (active, s) \<Rightarrow>
          let targets = target_index active in
          (list_ex (\<lambda>w. wk_worker_pool w = worker_pool_for_workload workload_class
              \<and> (case map_of targets (wk_target_id w) of None \<Rightarrow> False
                 | Some t \<Rightarrow> normalize_target_kind (Some (tg_target_kind t)) = kind)) workers, s))"

definition select_target_kind :: "'s gateway \<Rightarrow> target_kind" where
  "select_target_kind g = (if gw_env g ''GPU_ENABLED'' = Some ''true'' then Gpu else Cpu)"

definition resolve_target_kind :: "'s gateway \<Rightarrow> workload \<Rightarrow> 's \<Rightarrow> target_kind \<times> 's" where
  "resolve_target_kind g workload_class s =
     (if select_target_kind g \<noteq> Gpu then (Cpu, s)
      else case has_worker_for_target_kind g workload_class Gpu s of
        (found, s) \<Rightarrow> (if found then Gpu else Cpu, s))"

definition downgrade_job_target_kind_if_needed :: "'s gateway \<Rightarrow> job \<Rightarrow> 's \<Rightarrow> job \<times> 's" where
  "downgrade_job_target_kind_if_needed g job s =
     (if j_target_kind job \<noteq> Gpu then (job, s)
      else case has_worker_for_target_kind g (j_workload_class job) Gpu s of
        (found, s) \<Rightarrow> (if found then job else job\<lparr>j_target_kind := Cpu\<rparr>, s))"

section \<open>Capacity counters of a target\<close>

record target_usage =
  us_reserved_vram_mb :: int
  us_reserved_ram_mb :: int
  us_reserved_tokens :: int
  us_active_jobs :: int
  us_reserved_tokens_chat :: int
  us_reserved_tokens_siem :: int
  us_reserved_tokens_batch :: int

definition workload_field :: "workload \<Rightarrow> string" where
  "workload_field w = ''reserved_tokens_'' @ workload_str w"

definition get_target_usage :: "'s gateway \<Rightarrow> string \<Rightarrow> 's \<Rightarrow> target_usage" where
  "get_target_usage g target_id s = (case gw_redis g of
       None \<Rightarrow> \<lparr>us_reserved_vram_mb = 0, us_reserved_ram_mb = 0, us_reserved_tokens = 0,
          us_active_jobs = 0, us_reserved_tokens_chat = 0, us_reserved_tokens_siem = 0,
          us_reserved_tokens_batch = 0\<rparr>
     | Some R \<Rightarrow> (let raw = HGETALL R (TargetUsageKey target_id) s;
           field = (\<lambda>f. case raw f of None \<Rightarrow> 0 | Some v \<Rightarrow> v)
         in \<lparr>us_reserved_vram_mb = field ''reserved_vram_mb'',
             us_reserved_ram_mb = field ''reserved_ram_mb'',
             us_reserved_tokens = field ''reserved_tokens'',
             us_active_jobs = field ''active_jobs'',
             us_reserved_tokens_chat = field (workload_field Chat),
             us_reserved_tokens_siem = field (workload_field Siem),
             us_reserved_tokens_batch = field (workload_field Batch)\<rparr>))"

text \<open>
  The increments of one reservation, \<open>sign\<close> times: the pipelines of \<open>try_admit_job\<close> and
  of \<open>_release_reserved_capacity\<close>.
\<close>

definition book_usage ::
  "'s gredis \<Rightarrow> string \<Rightarrow> workload \<Rightarrow> int \<Rightarrow> int \<Rightarrow> int \<Rightarrow> int \<Rightarrow> 's \<Rightarrow> 's" where
  "book_usage R target_id w tokens vram ram jobs s =
     (let k = TargetUsageKey target_id in
      HINCRBY R k ''active_jobs'' jobs
        (HINCRBY R k ''reserved_ram_mb'' ram
          (HINCRBY R k ''reserved_vram_mb'' vram
            (HINCRBY R k (workload_field w) tokens
              (HINCRBY R k ''reserved_tokens'' tokens s)))))"

text \<open>
  \<open>_release_reserved_capacity\<close>. The \<open>HSET\<close> is skipped by the source when the hash is
  empty, which it cannot be after the increments.
\<close>

definition release_reserved_capacity :: "'s gateway \<Rightarrow> job \<Rightarrow> 's \<Rightarrow> 's" where
  "release_reserved_capacity g job s = (case gw_redis g of None \<Rightarrow> s
     | Some R \<Rightarrow> (case j_assigned_target_id job of None \<Rightarrow> s
       | Some target_id \<Rightarrow> if target_id = [] then s else
           (let uk = TargetUsageKey target_id; mk = TargetModelsKey target_id;
                model_key = j_model_key job;
                s = book_usage R target_id (j_workload_class job) (- j_reserved_tokens job)
                      (- j_reserved_vram_mb job) (- j_reserved_ram_mb job) (- 1) s;
                s = (if model_key \<noteq> [] then HINCRBY R mk model_key (- 1) s else s);
                usage = HGETALL R uk s;
                s = HSET R uk (\<lambda>f. map_option (max 0) (usage f)) s
            in if model_key \<noteq> []
               then (if int_or (HGET R mk model_key s) 0 \<le> 0 then HDEL R mk model_key s else s)
               else s)))"

definition remove_from_processing :: "'s gateway \<Rightarrow> string option \<Rightarrow> string \<Rightarrow> 's \<Rightarrow> 's" where
  "remove_from_processing g worker_id job_id s = (case gw_redis g of None \<Rightarrow> s
     | Some R \<Rightarrow> (case worker_id of None \<Rightarrow> s
       | Some w \<Rightarrow> if w = [] then s else snd (LREM R (ProcessingQueueKey w) job_id s)))"

definition drop_active :: "'s gateway \<Rightarrow> string \<Rightarrow> 's \<Rightarrow> 's" where
  "drop_active g job_id s = (case gw_redis g of None \<Rightarrow> s
     | Some R \<Rightarrow> ZREM R ActiveJobsZset job_id s)"

section \<open>Requeueing\<close>

definition requeue_job_for_pending :: "'s gateway \<Rightarrow> clock \<Rightarrow> job \<Rightarrow> string \<Rightarrow> 's \<Rightarrow> 's" where
  "requeue_job_for_pending g c job reason s = (case gw_redis g of None \<Rightarrow> s
     | Some R \<Rightarrow> (case downgrade_job_target_kind_if_needed g job s of (job, s) \<Rightarrow>
         let job = job\<lparr>j_status := Queued, j_assigned_target_id := None,
               j_assigned_worker_id := None, j_admitted_at := None, j_admitted_at_ms := None,
               j_started_at := None, j_started_at_ms := None, j_enqueued_at_ms := now_ms c,
               j_queue_wait_ms := 0, j_lease_until := None, j_reserved_tokens := 0,
               j_reserved_vram_mb := 0, j_reserved_ram_mb := 0, j_profile := None\<rparr>;
             s = saved g job s;
             s = RPUSH R (PendingQueueKey (j_workload_class job) (j_priority job)) (j_id job) s
         in emit_event g (j_id job) (own_event (j_id job) (EvRequeuedReason reason)) s))"

section \<open>Terminal transitions\<close>

definition synthesized_root :: "clock \<Rightarrow> job \<Rightarrow> job_status \<Rightarrow> string \<Rightarrow> string \<Rightarrow> job \<Rightarrow> job" where
  "synthesized_root c child_job status lifecycle_stage child_job_id root_job =
     (let parser_metadata = (case j_parser_metadata root_job of None \<Rightarrow> [] | Some m \<Rightarrow> m);
          parser_metadata = AList.update ''phase'' (MStr lifecycle_stage) parser_metadata;
          parser_metadata = AList.update ''child_job_id'' (MStr child_job_id) parser_metadata;
          root = root_job\<lparr>j_status := status, j_finished_at := Some (now c),
            j_finished_at_ms := Some (now_ms c), j_child_job_id := Some child_job_id,
            j_lifecycle_stage := Some lifecycle_stage,
            j_parser_metadata := Some parser_metadata\<rparr>
      in case status of
           Completed \<Rightarrow> root\<lparr>j_result := j_result child_job, j_error := None\<rparr>
         | Failed \<Rightarrow> root\<lparr>j_error := str_or (j_error child_job) (Some GENERIC_CHAT_ERROR),
                         j_result := None\<rparr>
         | Cancelled \<Rightarrow> root\<lparr>j_result := None, j_error := None\<rparr>
         | _ \<Rightarrow> root)"

definition synthesize_root_terminal_state ::
  "'s gateway \<Rightarrow> clock \<Rightarrow> job \<Rightarrow> job_status \<Rightarrow> string \<Rightarrow> event \<Rightarrow> 's \<Rightarrow> 's" where
  "synthesize_root_terminal_state g c child_job status lifecycle_stage event_payload s =
     (let root_job_id = strip_opt (j_root_job_id child_job);
          child_job_id = py_strip (j_id child_job)
      in if root_job_id = [] \<or> child_job_id = [] \<or> root_job_id = child_job_id then s
         else case get_job g root_job_id s of None \<Rightarrow> s
           | Some root_job \<Rightarrow>
               if terminal (j_status root_job) then s
               else append_event g root_job_id
                      (build_root_mirrored_event root_job_id child_job_id event_payload)
                      (saved g (synthesized_root c child_job status lifecycle_stage
                         child_job_id root_job) s))"

definition mark_job_completed ::
  "'s gateway \<Rightarrow> clock \<Rightarrow> string \<Rightarrow> string \<Rightarrow> string option \<Rightarrow> 's \<Rightarrow> 's" where
  "mark_job_completed g c job_id response_text worker_id s = (case get_job g job_id s of None \<Rightarrow> s
     | Some job \<Rightarrow>
        (let job = job\<lparr>j_status := Completed, j_finished_at := Some (now c),
               j_finished_at_ms := Some (now_ms c), j_result := Some response_text\<rparr>;
             s = saved g job s;
             terminal_event = bare_event EvDone;
             s = append_event g job_id terminal_event s;
             s = synthesize_root_terminal_state g c job Completed LIFECYCLE_STAGE_CHILD_COMPLETED
                   terminal_event s;
             s = release_reserved_capacity g job s;
             s = remove_from_processing g (str_or worker_id (j_assigned_worker_id job)) job_id s
         in drop_active g job_id s))"

definition mark_job_failed_from_record ::
  "'s gateway \<Rightarrow> clock \<Rightarrow> job \<Rightarrow> string \<Rightarrow> string option \<Rightarrow> 's \<Rightarrow> 's" where
  "mark_job_failed_from_record g c job error_text worker_id s =
     (let job = job\<lparr>j_status := Failed, j_finished_at := Some (now c),
            j_finished_at_ms := Some (now_ms c), j_error := Some error_text\<rparr>;
          s = saved g job s;
          terminal_event = bare_event (EvErrorDone error_text);
          s = append_event g (j_id job) terminal_event s;
          s = synthesize_root_terminal_state g c job Failed LIFECYCLE_STAGE_CHILD_FAILED
                terminal_event s;
          s = release_reserved_capacity g job s;
          s = remove_from_processing g (str_or worker_id (j_assigned_worker_id job)) (j_id job) s
      in drop_active g (j_id job) s)"

definition mark_job_failed ::
  "'s gateway \<Rightarrow> clock \<Rightarrow> string \<Rightarrow> string \<Rightarrow> string option \<Rightarrow> 's \<Rightarrow> 's" where
  "mark_job_failed g c job_id error_text worker_id s = (case get_job g job_id s of None \<Rightarrow> s
     | Some job \<Rightarrow> mark_job_failed_from_record g c job error_text worker_id s)"

definition mark_job_cancelled ::
  "'s gateway \<Rightarrow> clock \<Rightarrow> string \<Rightarrow> string option \<Rightarrow> 's \<Rightarrow> 's" where
  "mark_job_cancelled g c job_id worker_id s = (case get_job g job_id s of None \<Rightarrow> s
     | Some job \<Rightarrow> if terminal (j_status job) then s else
        (let job = job\<lparr>j_status := Cancelled, j_finished_at := Some (now c),
               j_finished_at_ms := Some (now_ms c)\<rparr>;
             s = saved g job s;
             terminal_event = bare_event EvCancelledDone;
             s = append_event g job_id terminal_event s;
             s = synthesize_root_terminal_state g c job Cancelled LIFECYCLE_STAGE_CHILD_CANCELLED
                   terminal_event s;
             s = release_reserved_capacity g job s;
             s = remove_from_processing g (str_or worker_id (j_assigned_worker_id job)) job_id s
         in drop_active g job_id s))"

definition mark_job_waiting_on_child ::
  "'s gateway \<Rightarrow> string \<Rightarrow> string \<Rightarrow> string \<Rightarrow> metadata option \<Rightarrow> string option \<Rightarrow> 's \<Rightarrow> 's" where
  "mark_job_waiting_on_child g job_id child_job_id lifecycle_stage parser_metadata_updates worker_id s =
     (case get_job g job_id s of None \<Rightarrow> s
     | Some job \<Rightarrow>
        (let release_snapshot = job;
             merged = meta_update (case j_parser_metadata job of None \<Rightarrow> [] | Some m \<Rightarrow> m)
               (case parser_metadata_updates of None \<Rightarrow> [] | Some u \<Rightarrow> u);
             job = job\<lparr>j_child_job_id := none_if_empty (py_strip child_job_id),
               j_lifecycle_stage := none_if_empty (py_strip lifecycle_stage),
               j_parser_metadata := (if merged = [] then None else Some merged),
               j_assigned_target_id := None, j_assigned_worker_id := None,
               j_lease_until := None, j_reserved_tokens := 0, j_reserved_vram_mb := 0,
               j_reserved_ram_mb := 0, j_profile := None\<rparr>;
             s = saved g job s;
             s = release_reserved_capacity g release_snapshot s;
             s = remove_from_processing g
                   (str_or worker_id (j_assigned_worker_id release_snapshot)) job_id s
         in drop_active g job_id s))"

section \<open>Cancellation\<close>

text \<open>
  \<open>cancel_job\<close> and \<open>_propagate_cancel_to_linked_child\<close> call each other along the chain of
  linked children. \<open>depth\<close> is the interpreter's recursion budget: at zero the call raises
  \<open>RecursionError\<close>, as a cyclic chain of running jobs does.
\<close>

fun cancel_job ::
  "nat \<Rightarrow> 's gateway \<Rightarrow> clock \<Rightarrow> string \<Rightarrow> string option \<Rightarrow> 's \<Rightarrow> (bool, 's) outcome"
and propagate_cancel_to_linked_child ::
  "nat \<Rightarrow> 's gateway \<Rightarrow> clock \<Rightarrow> job \<Rightarrow> 's \<Rightarrow> (bool, 's) outcome"
where
  "cancel_job 0 g c job_id username s = (Inl RecursionError, s)"
| "cancel_job (Suc depth) g c job_id username s = (case get_job g job_id s of
     None \<Rightarrow> (Inr False, s)
   | Some job \<Rightarrow>
       if (case username of Some (x # xs) \<Rightarrow> j_username job \<noteq> x # xs | _ \<Rightarrow> False)
       then (Inl (HTTPException 403 ''Forbidden''), s)
       else if terminal (j_status job) then (Inr False, s)
       else case gw_redis g of None \<Rightarrow> (Inr False, s)
       | Some R \<Rightarrow>
         if j_cancel_requested job then (Inr True, s)
         else if j_status job = Queued then
           (Inr True, mark_job_cancelled g c job_id None
              (snd (LREM R (PendingQueueKey (j_workload_class job) (j_priority job)) job_id s)))
         else if j_status job = Admitted \<and> str_or (j_assigned_target_id job) None \<noteq> None then
           (Inr True, mark_job_cancelled g c job_id None
              (snd (LREM R (DispatchQueueKey (j_worker_pool job) (the (j_assigned_target_id job))) job_id s)))
         else case propagate_cancel_to_linked_child depth g c job s of
             (Inl e, s) \<Rightarrow> (Inl e, s)
           | (Inr True, s) \<Rightarrow> (Inr True, s)
           | (Inr False, s) \<Rightarrow>
               (Inr True, emit_event g job_id (own_event job_id EvCancelling)
                  (saved g (job\<lparr>j_cancel_requested := True\<rparr>) s)))"
| "propagate_cancel_to_linked_child 0 g c root_job s = (Inl RecursionError, s)"
| "propagate_cancel_to_linked_child (Suc depth) g c root_job s =
     (let child_job_id = strip_opt (j_child_job_id root_job) in
      if child_job_id = [] \<or> py_strip (j_id root_job) = [] then (Inr False, s)
      else case get_job g child_job_id s of None \<Rightarrow> (Inr False, s)
      | Some child_job \<Rightarrow>
          if terminal (j_status child_job) then (Inr False, s)
          else case gw_redis g of None \<Rightarrow> (Inr False, s)
          | Some R \<Rightarrow>
            if j_status child_job = Queued then
              (Inr True, mark_job_cancelled g c child_job_id None
                 (snd (LREM R (PendingQueueKey (j_workload_class child_job) (j_priority child_job)) child_job_id s)))
            else if j_status child_job = Admitted \<and> str_or (j_assigned_target_id child_job) None \<noteq> None then
              (Inr True, mark_job_cancelled g c child_job_id None
                 (snd (LREM R (DispatchQueueKey (j_worker_pool child_job) (the (j_assigned_target_id child_job))) child_job_id s)))
            else if j_status child_job = Running then cancel_job depth g c child_job_id None s
            else (Inr False, s))"

definition is_cancel_requested :: "'s gateway \<Rightarrow> string \<Rightarrow> 's \<Rightarrow> bool" where
  "is_cancel_requested g job_id s = (case get_job g job_id s of None \<Rightarrow> False
     | Some job \<Rightarrow> j_cancel_requested job)"

definition is_linked_child_job :: "job \<Rightarrow> bool" where
  "is_linked_child_job job \<longleftrightarrow> (let root_job_id = strip_opt (j_root_job_id job);
     job_id = py_strip (j_id job) in root_job_id \<noteq> [] \<and> job_id \<noteq> [] \<and> root_job_id \<noteq> job_id)"

definition cancel_stale_requested_job :: "'s gateway \<Rightarrow> clock \<Rightarrow> job \<Rightarrow> 's \<Rightarrow> bool \<times> 's" where
  "cancel_stale_requested_job g c job s =
     (if \<not> is_linked_child_job job then (False, s)
      else if \<not> j_cancel_requested job then (False, s)
      else if j_status job \<noteq> Running \<and> j_status job \<noteq> Admitted then (False, s)
      else let s = (case gw_redis g of None \<Rightarrow> s
             | Some R \<Rightarrow> if j_status job = Admitted \<and> str_or (j_assigned_target_id job) None \<noteq> None
                 then snd (LREM R (DispatchQueueKey (j_worker_pool job) (the (j_assigned_target_id job))) (j_id job) s)
                 else s)
           in (True, mark_job_cancelled g c (j_id job) (j_assigned_worker_id job) s))"

section \<open>Metrics\<close>

definition increment_metric :: "'s gateway \<Rightarrow> string \<Rightarrow> int \<Rightarrow> 's \<Rightarrow> 's" where
  "increment_metric g key amount s = (case gw_redis g of None \<Rightarrow> s
     | Some R \<Rightarrow> HINCRBY R MetricsKey key amount s)"

definition observe_job_latency :: "'s gateway \<Rightarrow> clock \<Rightarrow> job \<Rightarrow> 's \<Rightarrow> 's" where
  "observe_job_latency g c job s = (case gw_redis g of None \<Rightarrow> s
     | Some R \<Rightarrow> (let created_at = int_or (Some (j_created_at job)) (now c);
           finished_at = int_or (j_finished_at job) (now c);
           latency_ms = max 0 ((finished_at - created_at) * 1000)
         in HINCRBY R MetricsKey ''job_latency_count'' 1
              (HINCRBY R MetricsKey ''job_latency_total_ms'' latency_ms s)))"

section \<open>The state as the operations see it\<close>

definition jobs :: "gspace \<Rightarrow> string \<Rightarrow> job option" where
  "jobs v job_id = (case strs v (JobKey job_id) of Some (GJob job) \<Rightarrow> Some job | _ \<Rightarrow> None)"

definition usage :: "gspace \<Rightarrow> string \<Rightarrow> string \<Rightarrow> int" where
  "usage v t f = (case hashes v (TargetUsageKey t) f of None \<Rightarrow> 0 | Some n \<Rightarrow> n)"

definition model_refs :: "gspace \<Rightarrow> string \<Rightarrow> string \<Rightarrow> int" where
  "model_refs v t m = (case hashes v (TargetModelsKey t) m of None \<Rightarrow> 0 | Some n \<Rightarrow> n)"

text \<open>What one reservation adds to a field of the usage hash of its target.\<close>

definition charge :: "workload \<Rightarrow> int \<Rightarrow> int \<Rightarrow> int \<Rightarrow> int \<Rightarrow> string \<Rightarrow> int" where
  "charge w tokens vram ram n f =
     (if f = ''reserved_tokens'' then tokens else 0) + (if f = workload_field w then tokens else 0)
     + (if f = ''reserved_vram_mb'' then vram else 0) + (if f = ''reserved_ram_mb'' then ram else 0)
     + (if f = ''active_jobs'' then n else 0)"

definition job_charge :: "job \<Rightarrow> string \<Rightarrow> int" where
  "job_charge j = charge (j_workload_class j) (j_reserved_tokens j) (j_reserved_vram_mb j) (j_reserved_ram_mb j) 1"

lemma jobs_upd:
  "strs v = (strs u)(JobKey i := Some (GJob j)) \<Longrightarrow> jobs v = (jobs u)(i := Some j)"
  by (auto simp: jobs_def fun_eq_iff)

lemma jobs_cong: "strs v = strs u \<Longrightarrow> jobs v = jobs u"
  by (simp add: jobs_def fun_eq_iff)

lemma usage_cong: "hashes v = hashes u \<Longrightarrow> usage v = usage u"
  by (simp add: usage_def fun_eq_iff)

lemma model_refs_cong: "hashes v = hashes u \<Longrightarrow> model_refs v = model_refs u"
  by (simp add: model_refs_def fun_eq_iff)

lemma view_frame [simp]:
  "jobs (v\<lparr>lists := l\<rparr>) = jobs v" "jobs (v\<lparr>zsets := z\<rparr>) = jobs v" "jobs (v\<lparr>hashes := h\<rparr>) = jobs v"
  "jobs (v\<lparr>sets := x\<rparr>) = jobs v" "jobs (v\<lparr>streams := e\<rparr>) = jobs v"
  "usage (v\<lparr>strs := d\<rparr>) = usage v" "usage (v\<lparr>lists := l\<rparr>) = usage v" "usage (v\<lparr>zsets := z\<rparr>) = usage v"
  "usage (v\<lparr>sets := x\<rparr>) = usage v" "usage (v\<lparr>streams := e\<rparr>) = usage v"
  "model_refs (v\<lparr>strs := d\<rparr>) = model_refs v" "model_refs (v\<lparr>lists := l\<rparr>) = model_refs v"
  "model_refs (v\<lparr>zsets := z\<rparr>) = model_refs v" "model_refs (v\<lparr>sets := x\<rparr>) = model_refs v"
  "model_refs (v\<lparr>streams := e\<rparr>) = model_refs v"
  by (simp_all add: jobs_def usage_def model_refs_def fun_eq_iff)

lemma jobs_strs_upd [simp]: "jobs (v\<lparr>strs := (strs v)(JobKey i := Some (GJob j))\<rparr>) = (jobs v)(i := Some j)"
  by (auto simp: jobs_def fun_eq_iff)

text \<open>
  A connected gateway: its operations run against a server that obeys the laws of
  \<open>redis_store\<close>.
\<close>

locale gateway_store = redis_store R view
  for R :: "('s, gkey, gval, string, event) redis" and view :: "'s \<Rightarrow> gspace" +
  fixes g :: "'s gateway"
  assumes connected: "gw_redis g = Some R"
begin

subsection \<open>Jobs and events\<close>

lemma get_job_eq [simp]: "get_job g i s = jobs (view s) i"
  by (simp add: get_job_def connected get_law jobs_def)

lemma saved_view [simp]:
  "view (saved g j s) = (view s)\<lparr>strs := (strs (view s))(JobKey (j_id j) := Some (GJob j))\<rparr>"
  by (simp add: save_job_def connected setex_law)

lemma jobs_saved [simp]: "jobs (view (saved g j s)) = (jobs (view s))(j_id j := Some j)"
  by (rule jobs_upd) simp

lemma append_event_view [simp]: "view (append_event g i ev s) =
    (view s)\<lparr>streams := (streams (view s))(EventsKey i := streams (view s) (EventsKey i) @ [ev])\<rparr>"
  by (simp add: append_event_def connected expire_law xadd_law)

lemma emit_event_frame [simp]:
  "strs (view (emit_event g i ev s)) = strs (view s)"
  "lists (view (emit_event g i ev s)) = lists (view s)"
  "zsets (view (emit_event g i ev s)) = zsets (view s)"
  "hashes (view (emit_event g i ev s)) = hashes (view s)"
  "sets (view (emit_event g i ev s)) = sets (view s)"
  by (simp_all add: emit_event_def Let_def split: option.splits)

lemma jobs_emit_event [simp]: "jobs (view (emit_event g i ev s)) = jobs (view s)"
  by (rule jobs_cong) simp

subsection \<open>Targets and workers\<close>

lemma srem_fold:
  "view (fold (SREM R k) xs s) = (view s)\<lparr>sets := (sets (view s))(k := sets (view s) k - set xs)\<rparr>"
proof (induction xs arbitrary: s)
  case Nil
  then show ?case by simp
next
  case (Cons x xs)
  have "view (fold (SREM R k) (x # xs) s) = (view s)\<lparr>sets :=
      (sets (view s))(k := sets (view s) k - {x} - set xs)\<rparr>"
    by (simp only: fold_simps Cons.IH srem_law) (simp add: fun_upd_def cong: if_cong)
  moreover have "sets (view s) k - {x} - set xs = sets (view s) k - set (x # xs)" by auto
  ultimately show ?case by (simp only:)
qed

lemma active_frame [simp]:
  "strs (view (snd (list_active_targets g s))) = strs (view s)"
  "lists (view (snd (list_active_targets g s))) = lists (view s)"
  "zsets (view (snd (list_active_targets g s))) = zsets (view s)"
  "hashes (view (snd (list_active_targets g s))) = hashes (view s)"
  "streams (view (snd (list_active_targets g s))) = streams (view s)"
  "strs (view (snd (list_active_workers g s))) = strs (view s)"
  "lists (view (snd (list_active_workers g s))) = lists (view s)"
  "zsets (view (snd (list_active_workers g s))) = zsets (view s)"
  "hashes (view (snd (list_active_workers g s))) = hashes (view s)"
  "streams (view (snd (list_active_workers g s))) = streams (view s)"
  by (simp_all add: list_active_targets_def list_active_workers_def connected Let_def srem_fold)

lemma has_worker_frame [simp]:
  "strs (view (snd (has_worker_for_target_kind g w k s))) = strs (view s)"
  "lists (view (snd (has_worker_for_target_kind g w k s))) = lists (view s)"
  "zsets (view (snd (has_worker_for_target_kind g w k s))) = zsets (view s)"
  "hashes (view (snd (has_worker_for_target_kind g w k s))) = hashes (view s)"
  "streams (view (snd (has_worker_for_target_kind g w k s))) = streams (view s)"
  by (simp_all add: has_worker_for_target_kind_def case_prod_beta Let_def)

lemma downgrade_frame [simp]:
  "strs (view (snd (downgrade_job_target_kind_if_needed g j s))) = strs (view s)"
  "lists (view (snd (downgrade_job_target_kind_if_needed g j s))) = lists (view s)"
  "zsets (view (snd (downgrade_job_target_kind_if_needed g j s))) = zsets (view s)"
  "hashes (view (snd (downgrade_job_target_kind_if_needed g j s))) = hashes (view s)"
  "streams (view (snd (downgrade_job_target_kind_if_needed g j s))) = streams (view s)"
  by (simp_all add: downgrade_job_target_kind_if_needed_def case_prod_beta)

lemma downgrade_job: "fst (downgrade_job_target_kind_if_needed g j s) =
    j\<lparr>j_target_kind := (if j_target_kind j = Gpu
        \<and> fst (has_worker_for_target_kind g (j_workload_class j) Gpu s) then Gpu else Cpu)\<rparr>"
  by (cases "j_target_kind j")
    (auto simp: downgrade_job_target_kind_if_needed_def case_prod_beta)

lemma resolve_frame [simp]:
  "strs (view (snd (resolve_target_kind g w s))) = strs (view s)"
  "lists (view (snd (resolve_target_kind g w s))) = lists (view s)"
  "zsets (view (snd (resolve_target_kind g w s))) = zsets (view s)"
  "hashes (view (snd (resolve_target_kind g w s))) = hashes (view s)"
  "streams (view (snd (resolve_target_kind g w s))) = streams (view s)"
  by (simp_all add: resolve_target_kind_def case_prod_beta)

subsection \<open>Counters\<close>

lemma book_usage_frame [simp]:
  "strs (view (book_usage R t w a b c n s)) = strs (view s)"
  "lists (view (book_usage R t w a b c n s)) = lists (view s)"
  "zsets (view (book_usage R t w a b c n s)) = zsets (view s)"
  "sets (view (book_usage R t w a b c n s)) = sets (view s)"
  "streams (view (book_usage R t w a b c n s)) = streams (view s)"
  by (simp_all add: book_usage_def Let_def hincrby_law)

end

text \<open>
  A release takes one reservation off the counters of its target, where no counter goes
  below zero, and one reference off its model, and touches nothing else.
\<close>

lemma hash_incr_value:
  "(case hash_incr f d h x of None \<Rightarrow> 0 | Some n \<Rightarrow> n)
    = (case h x of None \<Rightarrow> 0 | Some n \<Rightarrow> n) + (if x = f then d else 0)"
  by (simp add: hash_incr_def)

lemma workload_field_neq [simp]:
  "workload_field w \<noteq> ''reserved_tokens''" "workload_field w \<noteq> ''reserved_vram_mb''"
  "workload_field w \<noteq> ''reserved_ram_mb''" "workload_field w \<noteq> ''active_jobs''"
  by (cases w; simp add: workload_field_def)+

context gateway_store
begin

lemma book_usage_hashes:
  "usage (view (book_usage R t w a b c n s)) t' f =
     usage (view s) t' f + (if t' = t then charge w a b c n f else 0)"
  "model_refs (view (book_usage R t w a b c n s)) = model_refs (view s)"
  by (auto simp: usage_def model_refs_def fun_eq_iff book_usage_def Let_def hincrby_law hash_incr_value
      charge_def)

lemma release_frame [simp]:
  "strs (view (release_reserved_capacity g j s)) = strs (view s)"
  "lists (view (release_reserved_capacity g j s)) = lists (view s)"
  "zsets (view (release_reserved_capacity g j s)) = zsets (view s)"
  "sets (view (release_reserved_capacity g j s)) = sets (view s)"
  "streams (view (release_reserved_capacity g j s)) = streams (view s)"
  by (simp_all add: release_reserved_capacity_def connected Let_def hincrby_law hset_law hdel_law
      split: option.split)

lemma release_hashes:
  "usage (view (release_reserved_capacity g j s)) t f =
    (if j_assigned_target_id j = Some t \<and> t \<noteq> [] then max 0 (usage (view s) t f - job_charge j f)
     else usage (view s) t f)
    \<and> model_refs (view (release_reserved_capacity g j s)) t m =
    (if j_assigned_target_id j = Some t \<and> t \<noteq> [] \<and> m = j_model_key j \<and> m \<noteq> []
     then max 0 (model_refs (view s) t m - 1) else model_refs (view s) t m)"
proof (cases "\<exists>t'. j_assigned_target_id j = Some t' \<and> t' \<noteq> []")
  case False
  then have "release_reserved_capacity g j s = s"
    by (auto simp: release_reserved_capacity_def connected split: option.split)
  with False show ?thesis by auto
next
  case True
  then obtain t' where t': "j_assigned_target_id j = Some t'" "t' \<noteq> []" by auto
  define s1 where "s1 = book_usage R t' (j_workload_class j) (- j_reserved_tokens j)
      (- j_reserved_vram_mb j) (- j_reserved_ram_mb j) (- 1) s"
  define s2 where "s2 = (if j_model_key j \<noteq> [] then HINCRBY R (TargetModelsKey t') (j_model_key j) (- 1) s1 else s1)"
  define s3 where "s3 = HSET R (TargetUsageKey t') (\<lambda>f. map_option (max 0) (HGETALL R (TargetUsageKey t') s2 f)) s2"
  have rel: "release_reserved_capacity g j s = (if j_model_key j \<noteq> []
      then (if int_or (HGET R (TargetModelsKey t') (j_model_key j) s3) 0 \<le> 0
            then HDEL R (TargetModelsKey t') (j_model_key j) s3 else s3) else s3)"
    using t' by (simp add: release_reserved_capacity_def connected Let_def s1_def s2_def s3_def)
  have "usage (view (release_reserved_capacity g j s)) t f = usage (view s3) t f"
    by (simp add: rel usage_def hdel_law)
  also have "\<dots> = (if t = t' then max 0 (usage (view s2) t f) else usage (view s2) t f)"
    by (auto simp: usage_def s3_def hset_law hgetall_law map_add_def split: option.split)
  also have "usage (view s2) t f = usage (view s1) t f"
    by (simp add: s2_def usage_def hincrby_law)
  also have "\<dots> = usage (view s) t f - (if t = t' then job_charge j f else 0)"
    by (simp add: s1_def book_usage_hashes job_charge_def charge_def)
  finally have u: "usage (view (release_reserved_capacity g j s)) t f = (if t = t'
      then max 0 (usage (view s) t f - (if t = t' then job_charge j f else 0))
      else usage (view s) t f - (if t = t' then job_charge j f else 0))" .
  have refs: "model_refs (view s3) t m = model_refs (view s) t m
      - (if t = t' \<and> m = j_model_key j \<and> m \<noteq> [] then 1 else 0)" for t m
    by (auto simp: s3_def s2_def s1_def model_refs_def hset_law hincrby_law hash_incr_value
        book_usage_hashes(2) [unfolded model_refs_def fun_eq_iff, rule_format])
  have get: "int_or (HGET R (TargetModelsKey t') x s3) 0 = model_refs (view s3) t' x" for x
    by (simp add: hget_law model_refs_def int_or_def split: option.split)
  have del: "model_refs (view (HDEL R (TargetModelsKey t') x s3)) t m =
      (if t = t' \<and> m = x then 0 else model_refs (view s3) t m)" for x t m
    by (simp add: model_refs_def hdel_law)
  show ?thesis
    unfolding u using t' by (auto simp: rel get del refs max_def)
qed

lemmas release_usage = release_hashes [THEN conjunct1]

lemmas release_model_refs = release_hashes [THEN conjunct2]

lemma remove_from_processing_view [simp]:
  "view (remove_from_processing g w i s) = (case w of None \<Rightarrow> view s
     | Some w \<Rightarrow> if w = [] then view s else (view s)\<lparr>lists :=
         (lists (view s))(ProcessingQueueKey w := remove1 i (lists (view s) (ProcessingQueueKey w)))\<rparr>)"
  by (simp add: remove_from_processing_def connected lrem_law split: option.split)

lemma drop_active_view [simp]: "view (drop_active g i s) = (view s)\<lparr>zsets :=
    (zsets (view s))(ActiveJobsZset := zset_rem i (zsets (view s) ActiveJobsZset))\<rparr>"
  by (simp add: drop_active_def connected zrem_law)

end

section \<open>A gateway on the in-memory server\<close>

definition mem_gateway :: "settings \<Rightarrow> gspace gateway" where
  "mem_gateway cfg = \<lparr>gw_redis = Some mem_redis, gw_cfg = cfg, gw_env = (\<lambda>_. None),
     gw_uuid5 = (\<lambda>name. ''uuid5-'' @ name), gw_available_models = []\<rparr>"

interpretation memg: gateway_store mem_redis "\<lambda>s. s" "mem_gateway cfg" for cfg
  by unfold_locales (simp add: mem_gateway_def)

end
