(* ===== verification/Lifecycle.thy ===== *)
theory Lifecycle
  imports Gateway
begin

text \<open>
  Correctness of the job lifecycle of the gateway. The ledger invariant says that the
  capacity counters of every target are the sums of the reservations of the jobs that
  hold it; the lemmas show which operations keep it, and what settling a child adds to it
  while its parser root is not yet parked. Further lemmas say what a terminal
  transition writes, and that cancellation and root synthesis never alter a terminal job.
\<close>

section \<open>Sums over the job table\<close>

definition total :: "(job \<Rightarrow> int) \<Rightarrow> (string \<Rightarrow> job option) \<Rightarrow> int" where
  "total W J = (\<Sum>i\<in>dom J. W (the (J i)))"

definition weight_at :: "(job \<Rightarrow> int) \<Rightarrow> (string \<Rightarrow> job option) \<Rightarrow> string \<Rightarrow> int" where
  "weight_at W J i = (case J i of None \<Rightarrow> 0 | Some j \<Rightarrow> W j)"

lemma total_upd:
  assumes "finite (dom J)"
  shows "total W (J(i := Some j)) = total W J - weight_at W J i + W j"
proof -
  have "(\<Sum>k\<in>dom J - {i}. W (the ((J(i := Some j)) k))) = (\<Sum>k\<in>dom J - {i}. W (the (J k)))"
    by (rule sum.cong) auto
  moreover have "total W J = weight_at W J i + (\<Sum>k\<in>dom J - {i}. W (the (J k)))"
    using assms by (cases "i \<in> dom J") (auto simp: total_def weight_at_def sum.remove domIff)
  moreover have "total W (J(i := Some j)) = W j + (\<Sum>k\<in>dom J - {i}. W (the ((J(i := Some j)) k)))"
    using assms by (simp add: total_def sum.insert_remove)
  ultimately show ?thesis by simp
qed

lemma weight_le_total:
  assumes "finite (dom J)" and "\<And>j. j \<in> ran J \<Longrightarrow> 0 \<le> W j"
  shows "weight_at W J i \<le> total W J"
proof -
  have nonneg: "k \<in> dom J \<Longrightarrow> 0 \<le> W (the (J k))" for k
    using assms(2) by (metis domD option.sel ranI)
  show ?thesis
  proof (cases "i \<in> dom J")
    case True
    then have "W (the (J i)) \<le> (\<Sum>i\<in>dom J. W (the (J i)))"
      using nonneg assms(1) by (intro member_le_sum) auto
    with True show ?thesis by (auto simp: total_def weight_at_def domIff split: option.split)
  next
    case False
    then have "weight_at W J i = 0" by (simp add: weight_at_def domIff)
    then show ?thesis by (simp add: total_def sum_nonneg nonneg)
  qed
qed

section \<open>The ledger\<close>

definition holds :: "string \<Rightarrow> job \<Rightarrow> bool" where
  "holds t j \<longleftrightarrow> j_assigned_target_id j = Some t \<and> (j_status j = Admitted \<or> j_status j = Running)"

definition held :: "string \<Rightarrow> string \<Rightarrow> job \<Rightarrow> int" where
  "held t f j = (if holds t j then job_charge j f else 0)"

definition held_model :: "string \<Rightarrow> string \<Rightarrow> job \<Rightarrow> int" where
  "held_model t m j = (if holds t j \<and> j_model_key j = m then 1 else 0)"

definition wf_job :: "job \<Rightarrow> bool" where
  "wf_job j \<longleftrightarrow> 0 \<le> j_reserved_tokens j \<and> 0 \<le> j_reserved_vram_mb j \<and> 0 \<le> j_reserved_ram_mb j
     \<and> j_assigned_target_id j \<noteq> Some []
     \<and> (j_status j = Queued \<longrightarrow> j_assigned_target_id j = None)"

definition wf_jobs :: "(string \<Rightarrow> job option) \<Rightarrow> bool" where
  "wf_jobs J \<longleftrightarrow> finite (dom J) \<and> (\<forall>i j. J i = Some j \<longrightarrow> j_id j = i \<and> wf_job j)"

definition ledger :: "gspace \<Rightarrow> bool" where
  "ledger v \<longleftrightarrow> wf_jobs (jobs v)
     \<and> (\<forall>t f. usage v t f = total (held t f) (jobs v))
     \<and> (\<forall>t m. m \<noteq> [] \<longrightarrow> model_refs v t m = total (held_model t m) (jobs v))"

lemma wf_jobs_upd: "wf_jobs J \<Longrightarrow> j_id j = i \<Longrightarrow> wf_job j \<Longrightarrow> wf_jobs (J(i := Some j))"
  by (auto simp: wf_jobs_def)

lemma wf_jobsD: "wf_jobs J \<Longrightarrow> J i = Some j \<Longrightarrow> j_id j = i \<and> wf_job j"
  by (simp add: wf_jobs_def)

lemma wf_jobs_ran: "wf_jobs J \<Longrightarrow> j \<in> ran J \<Longrightarrow> wf_job j"
  by (auto simp: wf_jobs_def ran_def)

lemma job_charge_nonneg: "wf_job j \<Longrightarrow> 0 \<le> job_charge j f"
  by (simp add: wf_job_def job_charge_def charge_def)

lemma held_nonneg: "wf_job j \<Longrightarrow> 0 \<le> held t f j"
  by (simp add: held_def job_charge_nonneg)

lemma held_model_nonneg: "0 \<le> held_model t m j"
  by (simp add: held_model_def)

lemma held_eq:
  "wf_job j \<Longrightarrow> \<not> terminal (j_status j) \<Longrightarrow>
    held t f j = (if j_assigned_target_id j = Some t \<and> t \<noteq> [] then job_charge j f else 0)"
  "wf_job j \<Longrightarrow> \<not> terminal (j_status j) \<Longrightarrow>
    held_model t m j = (if j_assigned_target_id j = Some t \<and> t \<noteq> [] \<and> j_model_key j = m then 1 else 0)"
  by (cases "j_status j"; force simp: held_def held_model_def holds_def wf_job_def)+

lemma held_zero:
  "\<not> holds t j \<Longrightarrow> held t f j = 0" "\<not> holds t j \<Longrightarrow> held_model t m j = 0"
  by (simp_all add: held_def held_model_def)

text \<open>A change of one job keeps the ledger if the counters move by the change of its weight.\<close>

lemma ledger_step:
  assumes "ledger v" and "jobs v' = (jobs v)(i := Some j)" and "j_id j = i" and "wf_job j"
    and "\<And>t f. usage v' t f = usage v t f - weight_at (held t f) (jobs v) i + held t f j"
    and "\<And>t m. m \<noteq> [] \<Longrightarrow> model_refs v' t m =
      model_refs v t m - weight_at (held_model t m) (jobs v) i + held_model t m j"
  shows "ledger v'"
  using assms by (auto simp: ledger_def wf_jobs_upd total_upd wf_jobs_def)

lemma ledger_same_weight:
  assumes "ledger v" and "jobs v' = (jobs v)(i := Some j)" and "j_id j = i" and "wf_job j"
    and "hashes v' = hashes v"
    and "\<And>t f. weight_at (held t f) (jobs v) i = held t f j"
    and "\<And>t m. weight_at (held_model t m) (jobs v) i = held_model t m j"
  shows "ledger v'"
  using assms(1-4) by (rule ledger_step) (simp_all add: assms usage_cong [of v' v] model_refs_cong [of v' v])

lemma ledger_cong:
  "ledger v \<Longrightarrow> jobs v' = jobs v \<Longrightarrow> usage v' = usage v \<Longrightarrow> model_refs v' = model_refs v \<Longrightarrow> ledger v'"
  by (simp add: ledger_def)

text \<open>The counters still include the reservation of one settled job, which nobody has returned yet.\<close>

definition ledger_owing :: "job option \<Rightarrow> gspace \<Rightarrow> bool" where
  "ledger_owing x v \<longleftrightarrow> wf_jobs (jobs v)
     \<and> (\<forall>t f. usage v t f = total (held t f) (jobs v) + (case x of None \<Rightarrow> 0 | Some r \<Rightarrow> held t f r))
     \<and> (\<forall>t m. m \<noteq> [] \<longrightarrow> model_refs v t m = total (held_model t m) (jobs v) + (case x of None \<Rightarrow> 0 | Some r \<Rightarrow> held_model t m r))"

lemma ledger_owing_none [simp]: "ledger_owing None v \<longleftrightarrow> ledger v"
  by (simp add: ledger_owing_def ledger_def)

lemma active_charge: "job_charge r ''active_jobs'' = 1"
  by (simp add: job_charge_def charge_def workload_field_neq [symmetric])

lemma ledger_owing_some: "ledger_owing (Some r) v \<Longrightarrow> ledger v \<longleftrightarrow> (\<forall>t. \<not> holds t r)"
proof (cases "\<exists>t. holds t r")
  case True
  assume owing: "ledger_owing (Some r) v"
  from True obtain t where "held t ''active_jobs'' r = 1" by (auto simp: held_def active_charge)
  with owing have "usage v t ''active_jobs'' = total (held t ''active_jobs'') (jobs v) + 1" by (simp add: ledger_owing_def)
  then have "\<not> ledger v" by (auto simp: ledger_def)
  then show ?thesis using True by simp
qed (simp add: ledger_owing_def ledger_def held_zero)

lemma ledger_weight_le:
  assumes "ledger v" and "jobs v i = Some j"
  shows "held t f j \<le> usage v t f" and "m \<noteq> [] \<Longrightarrow> held_model t m j \<le> model_refs v t m"
proof -
  have wf: "wf_jobs (jobs v)" and fin: "finite (dom (jobs v))"
    using assms(1) by (simp_all add: ledger_def wf_jobs_def)
  show "held t f j \<le> usage v t f"
    using weight_le_total [OF fin, of "held t f" i] wf_jobs_ran [OF wf] assms
    by (simp add: held_nonneg ledger_def weight_at_def)
  show "m \<noteq> [] \<Longrightarrow> held_model t m j \<le> model_refs v t m"
    using weight_le_total [OF fin, of "held_model t m" i] assms
    by (simp add: held_model_nonneg ledger_def weight_at_def)
qed

section \<open>Terminal transitions\<close>

text \<open>Two versions of a job with the same reservation.\<close>

definition same_claim :: "job \<Rightarrow> job \<Rightarrow> bool" where
  "same_claim j k \<longleftrightarrow> j_id j = j_id k \<and> j_assigned_target_id j = j_assigned_target_id k
     \<and> j_reserved_tokens j = j_reserved_tokens k \<and> j_reserved_vram_mb j = j_reserved_vram_mb k
     \<and> j_reserved_ram_mb j = j_reserved_ram_mb k \<and> j_model_key j = j_model_key k
     \<and> j_workload_class j = j_workload_class k"

lemma same_claim_charge: "same_claim j k \<Longrightarrow> job_charge j = job_charge k"
  by (simp add: same_claim_def job_charge_def)

lemma same_claim_wf: "same_claim j k \<Longrightarrow> wf_job k \<Longrightarrow> j_status j \<noteq> Queued \<Longrightarrow> wf_job j"
  by (simp add: same_claim_def wf_job_def)

lemma same_claim_held:
  assumes "same_claim j k" and "(j_status j \<in> {Admitted, Running}) = (j_status k \<in> {Admitted, Running})"
  shows "held t f j = held t f k" and "held_model t m j = held_model t m k"
proof -
  have "holds t j = holds t k" using assms by (auto simp: holds_def same_claim_def)
  with assms(1) show "held t f j = held t f k" and "held_model t m j = held_model t m k"
    by (simp_all add: held_def held_model_def same_claim_charge) (simp add: same_claim_def)
qed

text \<open>The root job that a terminal transition of a linked child also settles.\<close>

definition open_root :: "(string \<Rightarrow> job option) \<Rightarrow> job \<Rightarrow> job option" where
  "open_root J j = (if \<not> is_linked_child_job j then None
     else case J (strip_opt (j_root_job_id j)) of None \<Rightarrow> None
       | Some rt \<Rightarrow> if terminal (j_status rt) then None else Some rt)"

text \<open>The common tail of the three terminal transitions, from saving the job on.\<close>

definition finish_job ::
  "'s gateway \<Rightarrow> clock \<Rightarrow> job \<Rightarrow> string \<Rightarrow> event_body \<Rightarrow> string option \<Rightarrow> 's \<Rightarrow> 's" where
  "finish_job g c j stage b worker_id s =
     drop_active g (j_id j) (remove_from_processing g (str_or worker_id (j_assigned_worker_id j)) (j_id j)
       (release_reserved_capacity g j
         (synthesize_root_terminal_state g c j (j_status j) stage (bare_event b)
           (append_event g (j_id j) (bare_event b) (saved g j s)))))"

lemma open_root_simps:
  "open_root J (j\<lparr>j_status := st\<rparr>) = open_root J j"
  "open_root J (j\<lparr>j_finished_at := x\<rparr>) = open_root J j"
  "open_root J (j\<lparr>j_finished_at_ms := x\<rparr>) = open_root J j"
  "open_root J (j\<lparr>j_result := r\<rparr>) = open_root J j"
  "open_root J (j\<lparr>j_error := r\<rparr>) = open_root J j"
  "open_root J (j\<lparr>j_retry_count := n\<rparr>) = open_root J j"
  by (simp_all add: open_root_def is_linked_child_job_def)

lemma linked_child_root_distinct: "is_linked_child_job j \<Longrightarrow> strip_opt (j_root_job_id j) \<noteq> j_id j"
  by (metis is_linked_child_job_def py_strip_idem strip_opt_def)

lemma open_root_upd: "open_root (J(j_id j := x)) j = open_root J j"
  using linked_child_root_distinct [of j] by (simp add: open_root_def)

lemma synthesized_root_simps [simp]:
  "j_id (synthesized_root c ch st stage cid r) = j_id r"
  "j_status (synthesized_root c ch st stage cid r) = st"
  "j_assigned_target_id (synthesized_root c ch st stage cid r) = j_assigned_target_id r"
  "j_reserved_tokens (synthesized_root c ch st stage cid r) = j_reserved_tokens r"
  "j_reserved_vram_mb (synthesized_root c ch st stage cid r) = j_reserved_vram_mb r"
  "j_reserved_ram_mb (synthesized_root c ch st stage cid r) = j_reserved_ram_mb r"
  "j_child_job_id (synthesized_root c ch st stage cid r) = Some cid"
  "j_model_key (synthesized_root c ch st stage cid r) = j_model_key r"
  "j_workload_class (synthesized_root c ch st stage cid r) = j_workload_class r"
  "j_lifecycle_stage (synthesized_root c ch st stage cid r) = Some stage"
  by (simp_all add: synthesized_root_def Let_def split: job_status.split)

lemma synthesized_root_wf:
  "wf_job r \<Longrightarrow> terminal st \<Longrightarrow> wf_job (synthesized_root c ch st stage cid r)"
  by (auto simp: wf_job_def)

context gateway_store
begin

lemma synthesize_eq: "synthesize_root_terminal_state g c j st stage ev s =
    (case open_root (jobs (view s)) j of None \<Rightarrow> s
     | Some rt \<Rightarrow> append_event g (strip_opt (j_root_job_id j))
         (build_root_mirrored_event (strip_opt (j_root_job_id j)) (py_strip (j_id j)) ev)
         (saved g (synthesized_root c j st stage (py_strip (j_id j)) rt) s))"
  by (auto simp: synthesize_root_terminal_state_def open_root_def is_linked_child_job_def Let_def
      split: option.split)

lemma synthesize_frame [simp]:
  "lists (view (synthesize_root_terminal_state g c j st stage ev s)) = lists (view s)"
  "zsets (view (synthesize_root_terminal_state g c j st stage ev s)) = zsets (view s)"
  "hashes (view (synthesize_root_terminal_state g c j st stage ev s)) = hashes (view s)"
  "sets (view (synthesize_root_terminal_state g c j st stage ev s)) = sets (view s)"
  by (simp_all add: synthesize_eq split: option.split)

lemma jobs_append_event [simp]: "jobs (view (append_event g i ev s)) = jobs (view s)"
  by (rule jobs_cong) simp

lemma jobs_synthesize: "jobs (view (synthesize_root_terminal_state g c j st stage ev s)) =
    (case open_root (jobs (view s)) j of None \<Rightarrow> jobs (view s)
     | Some rt \<Rightarrow> (jobs (view s))(j_id rt := Some (synthesized_root c j st stage (py_strip (j_id j)) rt)))"
  by (simp add: synthesize_eq del: saved_view append_event_view split: option.split)

lemma finish_frame:
  "jobs (view (finish_job g c j stage b w s)) =
     jobs (view (synthesize_root_terminal_state g c j (j_status j) stage (bare_event b)
       (append_event g (j_id j) (bare_event b) (saved g j s))))"
  "usage (view (finish_job g c j stage b w s)) = usage (view (release_reserved_capacity g j s))"
  "model_refs (view (finish_job g c j stage b w s)) = model_refs (view (release_reserved_capacity g j s))"
proof -
  let ?s = "synthesize_root_terminal_state g c j (j_status j) stage (bare_event b)
       (append_event g (j_id j) (bare_event b) (saved g j s))"
  have u: "usage (view ?s) = usage (view s)" "model_refs (view ?s) = model_refs (view s)"
    by (auto intro: usage_cong model_refs_cong)
  show "jobs (view (finish_job g c j stage b w s)) = jobs (view ?s)"
    by (rule jobs_cong) (simp add: finish_job_def split: option.split)
  have h: "hashes (view (finish_job g c j stage b w s)) = hashes (view (release_reserved_capacity g j ?s))"
    by (simp add: finish_job_def split: option.split)
  show "usage (view (finish_job g c j stage b w s)) = usage (view (release_reserved_capacity g j s))"
    and "model_refs (view (finish_job g c j stage b w s)) = model_refs (view (release_reserved_capacity g j s))"
    unfolding usage_cong [OF h] model_refs_cong [OF h] fun_eq_iff release_usage release_model_refs u by simp_all
qed

lemma finish_jobs:
  "jobs (view (finish_job g c j stage b w s)) = (case open_root ((jobs (view s))(j_id j := Some j)) j of
      None \<Rightarrow> (jobs (view s))(j_id j := Some j)
    | Some rt \<Rightarrow> (jobs (view s))(j_id j := Some j,
        j_id rt := Some (synthesized_root c j (j_status j) stage (py_strip (j_id j)) rt)))"
  unfolding finish_frame jobs_synthesize
  by (simp only: jobs_append_event jobs_saved)

text \<open>Taking a released reservation off the ledger.\<close>

lemma release_ledger:
  assumes led: "ledger (view s)" and i: "jobs (view s) i = Some j" and nt: "\<not> terminal (j_status j)"
    and "jobs v = (jobs (view s))(i := Some j')" and "j_id j' = i" and "wf_job j'"
    and rel: "same_claim j'' j" and idle: "\<And>t. \<not> holds t j'"
    and u: "usage v = usage (view (release_reserved_capacity g j'' s))"
    and m: "model_refs v = model_refs (view (release_reserved_capacity g j'' s))"
  shows "ledger v"
proof (rule ledger_step [OF led assms(4-6)])
  have wf: "wf_job j" using led i by (auto simp: ledger_def wf_jobs_def)
  fix t f
  show "usage v t f = usage (view s) t f - weight_at (held t f) (jobs (view s)) i + held t f j'"
    using ledger_weight_le(1) [OF led i, of t f] rel i
    by (auto simp: u release_usage weight_at_def held_zero(1) [OF idle] held_eq [OF wf nt]
        same_claim_def same_claim_charge [OF rel] split: if_splits)
next
  have wf: "wf_job j" using led i by (auto simp: ledger_def wf_jobs_def)
  fix t x assume "x \<noteq> ([]::string)"
  then show "model_refs v t x = model_refs (view s) t x
      - weight_at (held_model t x) (jobs (view s)) i + held_model t x j'"
    using ledger_weight_le(2) [OF led i, of x t] rel i
    by (auto simp: m release_model_refs weight_at_def held_zero(2) [OF idle] held_eq [OF wf nt]
        same_claim_def)
qed

lemma finish_owing:
  assumes led: "ledger (view s)" and i: "jobs (view s) (j_id j) = Some j0"
    and nt: "\<not> terminal (j_status j0)" and t: "terminal (j_status j)" and same: "same_claim j j0"
  shows "ledger_owing (open_root (jobs (view s)) j) (view (finish_job g c j stage b w s))"
proof -
  let ?v = "view (finish_job g c j stage b w s)"
  define v1 where "v1 = (view s)\<lparr>strs := (strs (view s))(JobKey (j_id j) := Some (GJob j)), hashes := hashes ?v\<rparr>"
  have wfJ: "wf_jobs (jobs (view s))" using led by (simp add: ledger_def)
  have jobs1: "jobs v1 = (jobs (view s))(j_id j := Some j)"
    by (rule jobs_upd) (simp add: v1_def)
  have u1: "usage v1 = usage ?v" and m1: "model_refs v1 = model_refs ?v"
    by (auto intro: usage_cong model_refs_cong simp: v1_def)
  have wf: "wf_job j"
    using same_claim_wf [OF same] wf_jobsD [OF wfJ i] t by (metis terminal_simps(4))
  have led1: "ledger v1"
    by (rule release_ledger [OF led i nt jobs1 refl wf same])
      (use t in \<open>auto simp: holds_def u1 m1 finish_frame\<close>)
  show ?thesis
  proof (cases "open_root (jobs (view s)) j")
    case None
    then have "ledger ?v"
      by (intro ledger_cong [OF led1]) (simp_all add: finish_jobs open_root_upd jobs1 u1 m1)
    with None show ?thesis by simp
  next
    case (Some r)
    then have r: "jobs (view s) (strip_opt (j_root_job_id j)) = Some r"
      and distinct: "strip_opt (j_root_job_id j) \<noteq> j_id j"
      using linked_child_root_distinct by (auto simp: open_root_def split: if_splits option.splits)
    then have rid: "j_id r = strip_opt (j_root_job_id j)" and wr: "wf_job r"
      using wf_jobsD [OF wfJ r] by auto
    let ?r = "synthesized_root c j (j_status j) stage (py_strip (j_id j)) r"
    have idle: "\<not> holds t ?r" for t
      using t by (auto simp: holds_def)
    have J: "jobs ?v = (jobs v1)(j_id r := Some ?r)"
      by (simp add: finish_jobs open_root_upd Some jobs1)
    have at: "jobs v1 (j_id r) = Some r" using r rid distinct by (simp add: jobs1)
    have fin: "finite (dom (jobs v1))" using led1 by (simp add: ledger_def wf_jobs_def)
    have "wf_jobs (jobs ?v)"
      unfolding J using led1 by (intro wf_jobs_upd) (simp_all add: ledger_def synthesized_root_wf wr t)
    then show ?thesis
      using led1 by (simp add: Some ledger_owing_def ledger_def J total_upd [OF fin] weight_at_def at held_zero [OF idle] u1 m1)
  qed
qed

lemma finish_ledger:
  assumes "ledger (view s)" and "jobs (view s) (j_id j) = Some j0"
    and "\<not> terminal (j_status j0)" and "terminal (j_status j)" and "same_claim j j0"
    and "\<And>r t. open_root (jobs (view s)) j = Some r \<Longrightarrow> \<not> holds t r"
  shows "ledger (view (finish_job g c j stage b w s))"
  using finish_owing [OF assms(1-5), of c stage b w] ledger_owing_some assms(6)
  by (cases "open_root (jobs (view s)) j") fastforce+

lemma mark_job_completed_eq:
  "jobs (view s) i = Some j \<Longrightarrow> j_id j = i \<Longrightarrow> mark_job_completed g c i r w s =
    finish_job g c (j\<lparr>j_status := Completed, j_finished_at := Some (now c),
      j_finished_at_ms := Some (now_ms c), j_result := Some r\<rparr>) LIFECYCLE_STAGE_CHILD_COMPLETED EvDone w s"
  by (simp add: mark_job_completed_def finish_job_def Let_def)

lemma mark_job_failed_from_record_eq:
  "mark_job_failed_from_record g c j e w s =
    finish_job g c (j\<lparr>j_status := Failed, j_finished_at := Some (now c),
      j_finished_at_ms := Some (now_ms c), j_error := Some e\<rparr>) LIFECYCLE_STAGE_CHILD_FAILED (EvErrorDone e) w s"
  by (simp add: mark_job_failed_from_record_def finish_job_def Let_def)

lemma mark_job_cancelled_eq:
  "jobs (view s) i = Some j \<Longrightarrow> j_id j = i \<Longrightarrow> mark_job_cancelled g c i w s =
    (if terminal (j_status j) then s else
      finish_job g c (j\<lparr>j_status := Cancelled, j_finished_at := Some (now c),
        j_finished_at_ms := Some (now_ms c)\<rparr>) LIFECYCLE_STAGE_CHILD_CANCELLED EvCancelledDone w s)"
  by (simp add: mark_job_cancelled_def finish_job_def Let_def)

lemma mark_ledger:
  assumes "ledger (view s)" and "jobs (view s) i = Some j" and "\<not> terminal (j_status j)"
    and "\<And>r t. open_root (jobs (view s)) j = Some r \<Longrightarrow> \<not> holds t r"
  shows "ledger (view (mark_job_completed g c i txt w s))"
    and "ledger (view (mark_job_failed g c i txt w s))"
    and "ledger (view (mark_job_cancelled g c i w s))"
    and "ledger (view (mark_job_failed_from_record g c (j\<lparr>j_retry_count := n\<rparr>) txt w s))"
    and "ledger (view (mark_job_failed_from_record g c j txt w s))"
proof -
  have id: "j_id j = i"
    using assms(1,2) by (simp add: ledger_def wf_jobs_def)
  note fin = finish_ledger [OF assms(1) _ assms(3)]
  show "ledger (view (mark_job_completed g c i txt w s))"
    unfolding mark_job_completed_eq [OF assms(2) id]
    using assms id by (intro fin) (simp_all add: same_claim_def open_root_simps)
  have failed: "ledger (view (mark_job_failed_from_record g c (j\<lparr>j_retry_count := k\<rparr>) txt w s))" for k
    unfolding mark_job_failed_from_record_eq
    using assms id by (intro fin) (simp_all add: same_claim_def open_root_simps)
  from failed show "ledger (view (mark_job_failed_from_record g c (j\<lparr>j_retry_count := n\<rparr>) txt w s))" .
  from failed [of "j_retry_count j"] show from_rec: "ledger (view (mark_job_failed_from_record g c j txt w s))"
    by simp
  from from_rec show "ledger (view (mark_job_failed g c i txt w s))"
    by (simp add: mark_job_failed_def assms(2))
  show "ledger (view (mark_job_cancelled g c i w s))"
    unfolding mark_job_cancelled_eq [OF assms(2) id] if_not_P [OF assms(3)]
    using assms id by (intro fin) (simp_all add: same_claim_def open_root_simps)
qed

lemma mark_owing:
  assumes led: "ledger (view s)" and j: "jobs (view s) i = Some j" and nt: "\<not> terminal (j_status j)"
    and s': "s' = mark_job_completed g c i txt w s \<or> s' = mark_job_failed g c i txt w s \<or> s' = mark_job_cancelled g c i w s"
  shows "\<exists>k stage b. s' = finish_job g c k stage b w s \<and> j_id k = i \<and> terminal (j_status k) \<and> open_root (jobs (view s)) k = open_root (jobs (view s)) j"
    and "ledger_owing (open_root (jobs (view s)) j) (view s')"
proof -
  have id: "j_id j = i" using led j by (simp add: ledger_def wf_jobs_def)
  have "\<exists>k stage b. s' = finish_job g c k stage b w s \<and> j_id k = i \<and> terminal (j_status k) \<and> same_claim k j
      \<and> open_root (jobs (view s)) k = open_root (jobs (view s)) j"
    using s'
  proof (elim disjE)
    assume "s' = mark_job_completed g c i txt w s"
    then show ?thesis
      unfolding mark_job_completed_eq [OF j id] by (intro exI conjI, assumption) (simp_all add: id same_claim_def open_root_simps)
  next
    assume "s' = mark_job_failed g c i txt w s"
    then have "s' = mark_job_failed_from_record g c j txt w s" by (simp add: mark_job_failed_def j)
    then show ?thesis
      unfolding mark_job_failed_from_record_eq by (intro exI conjI, assumption) (simp_all add: id same_claim_def open_root_simps)
  next
    assume "s' = mark_job_cancelled g c i w s"
    then show ?thesis
      unfolding mark_job_cancelled_eq [OF j id] if_not_P [OF nt]
      by (intro exI conjI, assumption) (simp_all add: id same_claim_def open_root_simps)
  qed
  then obtain k stage b where k: "s' = finish_job g c k stage b w s" "j_id k = i" "terminal (j_status k)" "same_claim k j"
    "open_root (jobs (view s)) k = open_root (jobs (view s)) j" by blast
  then show "\<exists>k stage b. s' = finish_job g c k stage b w s \<and> j_id k = i \<and> terminal (j_status k) \<and> open_root (jobs (view s)) k = open_root (jobs (view s)) j"
    by blast
  show "ledger_owing (open_root (jobs (view s)) j) (view s')"
    using finish_owing [OF led _ nt k(3,4), of c stage b w] j k by simp
qed

lemma waiting_view:
  assumes "jobs (view s) i = Some j"
  shows "\<exists>j'. jobs (view (mark_job_waiting_on_child g i cid stage upd w s)) = (jobs (view s))(j_id j := Some j')
      \<and> j_id j' = j_id j \<and> j_assigned_target_id j' = None \<and> j_status j' = j_status j
      \<and> j_reserved_tokens j' = 0 \<and> j_reserved_vram_mb j' = 0 \<and> j_reserved_ram_mb j' = 0
      \<and> j_child_job_id j' = none_if_empty (py_strip cid) \<and> j_root_job_id j' = j_root_job_id j
    \<and> usage (view (mark_job_waiting_on_child g i cid stage upd w s)) = usage (view (release_reserved_capacity g j s))
    \<and> model_refs (view (mark_job_waiting_on_child g i cid stage upd w s)) = model_refs (view (release_reserved_capacity g j s))
    \<and> zsets (view (mark_job_waiting_on_child g i cid stage upd w s)) =
        (zsets (view s))(ActiveJobsZset := zset_rem i (zsets (view s) ActiveJobsZset))"
proof -
  define m where "m = meta_update (case j_parser_metadata j of None \<Rightarrow> [] | Some m \<Rightarrow> m)
               (case upd of None \<Rightarrow> [] | Some u \<Rightarrow> u)"
  define j' where "j' = j\<lparr>j_child_job_id := none_if_empty (py_strip cid),
               j_lifecycle_stage := none_if_empty (py_strip stage),
               j_parser_metadata := (if m = [] then None else Some m),
               j_assigned_target_id := None, j_assigned_worker_id := None,
               j_lease_until := None, j_reserved_tokens := 0, j_reserved_vram_mb := 0,
               j_reserved_ram_mb := 0, j_profile := None\<rparr>"
  define s1 where "s1 = saved g j' s"
  let ?s = "mark_job_waiting_on_child g i cid stage upd w s"
  have eq: "?s = drop_active g i (remove_from_processing g (str_or w (j_assigned_worker_id j)) i
      (release_reserved_capacity g j s1))"
    by (simp add: mark_job_waiting_on_child_def assms Let_def s1_def j'_def m_def)
  have "jobs (view ?s) = jobs (view s1)"
    by (rule jobs_cong) (simp add: eq split: option.split)
  moreover have "jobs (view s1) = (jobs (view s))(j_id j := Some j')"
    unfolding s1_def by (simp only: jobs_saved) (simp add: j'_def)
  moreover have h: "hashes (view ?s) = hashes (view (release_reserved_capacity g j s1))"
    by (simp add: eq split: option.split)
  have u: "usage (view s1) = usage (view s)" "model_refs (view s1) = model_refs (view s)"
    by (auto intro: usage_cong model_refs_cong simp: s1_def)
  have "usage (view ?s) = usage (view (release_reserved_capacity g j s))"
    and "model_refs (view ?s) = model_refs (view (release_reserved_capacity g j s))"
    unfolding usage_cong [OF h] model_refs_cong [OF h] fun_eq_iff release_usage release_model_refs u by simp_all
  moreover have "zsets (view ?s) = (zsets (view s))(ActiveJobsZset := zset_rem i (zsets (view s) ActiveJobsZset))"
    by (simp add: eq s1_def split: option.split)
  ultimately show ?thesis by (intro exI [of _ j']) (simp add: j'_def)
qed

lemma waiting_ledger:
  assumes "ledger (view s)" and i: "jobs (view s) i = Some j" and nt: "\<not> terminal (j_status j)"
  shows "ledger (view (mark_job_waiting_on_child g i cid stage upd w s))"
proof -
  have id: "j_id j = i" using assms(1,2) by (simp add: ledger_def wf_jobs_def)
  obtain j' where j': "jobs (view (mark_job_waiting_on_child g i cid stage upd w s)) = (jobs (view s))(i := Some j')"
    "j_id j' = i" "j_assigned_target_id j' = None"
    "j_reserved_tokens j' = 0" "j_reserved_vram_mb j' = 0" "j_reserved_ram_mb j' = 0"
    "usage (view (mark_job_waiting_on_child g i cid stage upd w s)) = usage (view (release_reserved_capacity g j s))"
    "model_refs (view (mark_job_waiting_on_child g i cid stage upd w s)) = model_refs (view (release_reserved_capacity g j s))"
    using waiting_view [OF i, of cid stage upd w] id by auto
  show ?thesis
    by (rule release_ledger [OF assms j'(1)]) (use j' in \<open>simp_all add: wf_job_def holds_def same_claim_def\<close>)
qed

text \<open>Parking a job that was settled before it was parked returns what it still owes.\<close>

lemma park_pays:
  assumes owing: "ledger_owing (Some r) (view s)" and r': "jobs (view s) i = Some r'" "same_claim r' r" "terminal (j_status r')"
    and r: "wf_job r" "\<not> terminal (j_status r)"
  shows "ledger (view (mark_job_waiting_on_child g i cid stage upd w s))"
proof -
  let ?v = "view (mark_job_waiting_on_child g i cid stage upd w s)"
  have wf: "wf_jobs (jobs (view s))" and fin: "finite (dom (jobs (view s)))" using owing by (simp_all add: ledger_owing_def wf_jobs_def)
  have id: "j_id r' = i" using wf_jobsD [OF wf r'(1)] by simp
  obtain j' where j': "jobs ?v = (jobs (view s))(i := Some j')" "j_id j' = i" "j_assigned_target_id j' = None"
    "j_reserved_tokens j' = 0" "j_reserved_vram_mb j' = 0" "j_reserved_ram_mb j' = 0"
    "usage ?v = usage (view (release_reserved_capacity g r' s))" "model_refs ?v = model_refs (view (release_reserved_capacity g r' s))"
    using waiting_view [OF r'(1), of cid stage upd w] id by auto
  have "wf_job j'" using j' by (simp add: wf_job_def)
  have idle: "\<not> holds t j'" "\<not> holds t r'" for t using j'(3) r'(3) by (auto simp: holds_def)
  have sums: "total (held t f) (jobs ?v) = total (held t f) (jobs (view s))" "total (held_model t m) (jobs ?v) = total (held_model t m) (jobs (view s))"
    for t f m by (simp_all add: j'(1) total_upd [OF fin] weight_at_def r'(1) held_zero [OF idle(1)] held_zero [OF idle(2)])
  have nonneg: "0 \<le> total (held t f) (jobs (view s))" "0 \<le> total (held_model t m) (jobs (view s))" for t f m
    using wf by (auto simp: total_def wf_jobs_def intro!: sum_nonneg held_nonneg held_model_nonneg)
  show ?thesis
    unfolding ledger_def sums
  proof (intro conjI allI impI)
    show "wf_jobs (jobs ?v)" unfolding j'(1) using wf j'(2) \<open>wf_job j'\<close> by (rule wf_jobs_upd)
    show "usage ?v t f = total (held t f) (jobs (view s))" for t f
      using owing r'(2) nonneg(1) [of t f]
      by (auto simp: ledger_owing_def j'(7) release_usage held_eq(1) [OF r] same_claim_charge [OF r'(2)] same_claim_def)
    show "model_refs ?v t m = total (held_model t m) (jobs (view s))" if "m \<noteq> []" for t m
      using that owing r'(2) nonneg(2) [of t m]
      by (auto simp: ledger_owing_def j'(8) release_model_refs held_eq(2) [OF r] same_claim_def)
  qed
qed

lemma mark_then_park:
  assumes led: "ledger (view s)" and j: "jobs (view s) i = Some j" and nt: "\<not> terminal (j_status j)"
    and s': "s' = mark_job_completed g c i txt w s \<or> s' = mark_job_failed g c i txt w s \<or> s' = mark_job_cancelled g c i w s"
    and r: "open_root (jobs (view s)) j = Some r"
  shows "ledger (view (mark_job_waiting_on_child g (j_id r) cid stage upd w' s'))"
proof -
  obtain k stage' b where k: "s' = finish_job g c k stage' b w s" "j_id k = i" "terminal (j_status k)" "open_root (jobs (view s)) k = Some r"
    using mark_owing(1) [OF led j nt s'] r by auto
  let ?r = "synthesized_root c k (j_status k) stage' (py_strip (j_id k)) r"
  have at: "jobs (view s') (j_id r) = Some ?r" by (simp add: k(1) finish_jobs open_root_upd k(4))
  have settled: "same_claim ?r r" "terminal (j_status ?r)" using k(3) by (simp_all add: same_claim_def)
  have "\<exists>x. jobs (view s) x = Some r \<and> \<not> terminal (j_status r)"
    using r by (auto simp: open_root_def split: if_splits option.splits)
  then have "wf_job r" "\<not> terminal (j_status r)" using led by (auto simp: ledger_def wf_jobs_def)
  then show ?thesis using mark_owing(2) [OF led j nt s'] unfolding r by (intro park_pays [OF _ at settled])
qed

subsection \<open>Cancellation\<close>

text \<open>
  What a cancellation can do to the state: nothing, settle one job that is not terminal
  as cancelled after taking it from one queue, or mark one such job as cancel-requested.
\<close>

definition cancel_effect :: "clock \<Rightarrow> 's \<Rightarrow> 's \<Rightarrow> bool" where
  "cancel_effect c s s' \<longleftrightarrow> s' = s
     \<or> (\<exists>k j q. jobs (view s) k = Some j \<and> \<not> terminal (j_status j)
          \<and> s' = mark_job_cancelled g c k None (snd (LREM R q k s)))
     \<or> (\<exists>k j. jobs (view s) k = Some j \<and> \<not> terminal (j_status j)
          \<and> s' = emit_event g k (own_event k EvCancelling) (saved g (j\<lparr>j_cancel_requested := True\<rparr>) s))"

lemma cancel_effect_same [simp]: "cancel_effect c s s"
  by (simp add: cancel_effect_def)

lemma cancel_effect_settle: "jobs (view s) k = Some j \<Longrightarrow> \<not> terminal (j_status j) \<Longrightarrow>
    cancel_effect c s (mark_job_cancelled g c k None (snd (LREM R q k s)))"
  by (auto simp: cancel_effect_def)

lemma cancel_effect_request: "jobs (view s) k = Some j \<Longrightarrow> \<not> terminal (j_status j) \<Longrightarrow>
    cancel_effect c s (emit_event g k (own_event k EvCancelling) (saved g (j\<lparr>j_cancel_requested := True\<rparr>) s))"
  by (auto simp: cancel_effect_def)

lemma cancel_job_effect:
  "h = g \<Longrightarrow> cancel_effect c s (snd (cancel_job d h c i u s))
     \<and> (fst (cancel_job d h c i u s) \<noteq> Inr True \<longrightarrow> snd (cancel_job d h c i u s) = s)"
  "h = g \<Longrightarrow> cancel_effect c s (snd (propagate_cancel_to_linked_child d h c r s))
     \<and> (fst (propagate_cancel_to_linked_child d h c r s) \<noteq> Inr True
        \<longrightarrow> snd (propagate_cancel_to_linked_child d h c r s) = s)"
proof (induction d h c i u s and d h c r s rule: cancel_job_propagate_cancel_to_linked_child.induct)
  case (2 d h c i u s)
  show ?case
  proof (cases "jobs (view s) i")
    case None
    with 2 show ?thesis by (simp add: connected)
  next
    case (Some j)
    show ?thesis
    proof (cases "terminal (j_status j) \<or> (case u of Some (x # xs) \<Rightarrow> j_username j \<noteq> x # xs | _ \<Rightarrow> False)
        \<or> j_cancel_requested j \<or> j_status j = Queued
        \<or> j_status j = Admitted \<and> str_or (j_assigned_target_id j) None \<noteq> None")
      case True
      with 2 Some show ?thesis
        by (auto simp: connected intro: cancel_effect_settle)
    next
      case False
      define p where "p = propagate_cancel_to_linked_child d g c j s"
      have "cancel_effect c s (snd p) \<and> (fst p \<noteq> Inr True \<longrightarrow> snd p = s)"
        unfolding p_def using 2 Some False by (simp add: connected)
      moreover have "cancel_job (Suc d) g c i u s = (case p of (Inl e, s) \<Rightarrow> (Inl e, s)
           | (Inr True, s) \<Rightarrow> (Inr True, s)
           | (Inr False, s) \<Rightarrow> (Inr True, emit_event g i (own_event i EvCancelling)
                  (saved g (j\<lparr>j_cancel_requested := True\<rparr>) s)))"
        using False Some by (auto simp: connected p_def)
      ultimately show ?thesis
        using 2(2) False Some
        by (cases p) (auto split: sum.splits bool.splits intro: cancel_effect_request)
    qed
  qed
next
  case (4 d h c r s)
  then show ?case
    by (auto simp: Let_def connected split: option.split intro: cancel_effect_settle)
qed simp_all

text \<open>No terminal job changes when another job is settled or a cancellation is processed.\<close>

lemma finish_other_terminal:
  assumes "wf_jobs (jobs (view s))" and "jobs (view s) k = Some jk" and "terminal (j_status jk)" and "k \<noteq> j_id j"
  shows "jobs (view (finish_job g c j stage b w s)) k = Some jk"
  using assms wf_jobsD [OF assms(1)]
  by (auto simp: finish_jobs open_root_upd open_root_def split: option.split if_splits)

lemma lrem_jobs [simp]: "jobs (view (snd (LREM R q k s))) = jobs (view s)"
  "usage (view (snd (LREM R q k s))) = usage (view s)"
  "model_refs (view (snd (LREM R q k s))) = model_refs (view s)"
  by (auto intro: jobs_cong usage_cong model_refs_cong simp: lrem_law)

lemma lrem_ledger [simp]: "ledger (view (snd (LREM R q k s))) = ledger (view s)"
  by (simp add: ledger_def)

lemma cancel_effect_terminal:
  assumes "cancel_effect c s s'" and wf: "wf_jobs (jobs (view s))"
    and k: "jobs (view s) k = Some jk" "terminal (j_status jk)"
  shows "jobs (view s') k = Some jk"
  using assms(1) unfolding cancel_effect_def
proof (elim disjE exE conjE)
  fix i j q assume i: "jobs (view s) i = Some j" "\<not> terminal (j_status j)"
    and s': "s' = mark_job_cancelled g c i None (snd (LREM R q i s))"
  have "i \<noteq> k" using i k by auto
  moreover have "j_id j = i" using wf_jobsD [OF wf i(1)] by simp
  ultimately show ?thesis
    unfolding s' using i k wf
    by (subst mark_job_cancelled_eq [where j = j]) (auto intro: finish_other_terminal)
next
  fix i j assume i: "jobs (view s) i = Some j" "\<not> terminal (j_status j)"
    and s': "s' = emit_event g i (own_event i EvCancelling) (saved g (j\<lparr>j_cancel_requested := True\<rparr>) s)"
  then have "i \<noteq> k" and "j_id j = i" using k wf_jobsD [OF wf i(1)] by auto
  then show ?thesis using k unfolding s' jobs_emit_event jobs_saved by simp
qed (use k in simp)

lemma cancel_effect_ledger:
  assumes "cancel_effect c s s'" and led: "ledger (view s)"
    and idle: "\<And>i j r t. jobs (view s) i = Some j \<Longrightarrow> \<not> terminal (j_status j) \<Longrightarrow>
      open_root (jobs (view s)) j = Some r \<Longrightarrow> \<not> holds t r"
  shows "ledger (view s')"
  using assms(1) unfolding cancel_effect_def
proof (elim disjE exE conjE)
  fix i j q assume "jobs (view s) i = Some j" "\<not> terminal (j_status j)"
    and s': "s' = mark_job_cancelled g c i None (snd (LREM R q i s))"
  then show ?thesis
    unfolding s' using led idle by (intro mark_ledger(3)) auto
next
  fix i j assume i: "jobs (view s) i = Some j" "\<not> terminal (j_status j)"
    and s': "s' = emit_event g i (own_event i EvCancelling) (saved g (j\<lparr>j_cancel_requested := True\<rparr>) s)"
  have wf: "j_id j = i" "wf_job j" using led i by (auto simp: ledger_def wf_jobs_def)
  have J: "jobs (view s') = (jobs (view s))(i := Some (j\<lparr>j_cancel_requested := True\<rparr>))"
    unfolding s' jobs_emit_event jobs_saved by (simp add: wf)
  show ?thesis
    by (rule ledger_same_weight [OF led J])
      (use i wf in \<open>simp_all add: s' weight_at_def wf_job_def same_claim_held same_claim_def\<close>)
qed (use led in simp)

end

text \<open>What a terminal transition writes for the job, its root, the other jobs, the streams and the lease set.\<close>

context gateway_store
begin

lemma finish_streams:
  "streams (view (finish_job g c j stage b w s)) =
    (case open_root (jobs (view s)) j of
       None \<Rightarrow> (streams (view s))(EventsKey (j_id j) := streams (view s) (EventsKey (j_id j)) @ [bare_event b])
     | Some r \<Rightarrow> (streams (view s))(EventsKey (j_id j) := streams (view s) (EventsKey (j_id j)) @ [bare_event b],
         EventsKey (strip_opt (j_root_job_id j)) := streams (view s) (EventsKey (strip_opt (j_root_job_id j)))
           @ [(bare_event b)\<lparr>ev_source_job_id := Some (py_strip (j_id j))\<rparr>]))"
proof -
  have "open_root (jobs (view (append_event g (j_id j) (bare_event b) (saved g j s)))) j = open_root (jobs (view s)) j"
    by (simp only: jobs_append_event jobs_saved open_root_upd)
  moreover have "open_root (jobs (view s)) j = Some r \<Longrightarrow> strip_opt (j_root_job_id j) \<noteq> j_id j" for r
    using linked_child_root_distinct by (auto simp: open_root_def split: if_splits)
  ultimately show ?thesis
    by (auto simp: finish_job_def synthesize_eq build_root_mirrored_event_def bare_event_def split: option.split)
qed

lemma finish_zsets:
  "zsets (view (finish_job g c j stage b w s)) =
    (zsets (view s))(ActiveJobsZset := zset_rem (j_id j) (zsets (view s) ActiveJobsZset))"
  by (simp add: finish_job_def split: option.split)

end

context gateway_store
begin

lemma cancel_refused:
  "jobs (view s) i = None \<Longrightarrow> cancel_job (Suc d) g c i u s = (Inr False, s)"
  "jobs (view s) i = Some j \<Longrightarrow> j_username j \<noteq> a # x
    \<Longrightarrow> cancel_job (Suc d) g c i (Some (a # x)) s = (Inl (HTTPException 403 ''Forbidden''), s)"
  "jobs (view s) i = Some j \<Longrightarrow> j_username j = a # x \<Longrightarrow> terminal (j_status j)
    \<Longrightarrow> cancel_job (Suc d) g c i (Some (a # x)) s = (Inr False, s)"
  by simp_all

lemma cancel_queued:
  assumes "wf_jobs (jobs (view s))" and i: "jobs (view s) i = Some j" and "j_username j = a # x"
    and "j_status j = Queued" and "\<not> j_cancel_requested j" and q: "q = PendingQueueKey (j_workload_class j) (j_priority j)"
  shows "fst (cancel_job (Suc d) g c i (Some (a # x)) s) = Inr True"
    and "\<exists>j'. jobs (view (snd (cancel_job (Suc d) g c i (Some (a # x)) s))) i = Some j' \<and> j_status j' = Cancelled"
    and "lists (view (snd (cancel_job (Suc d) g c i (Some (a # x)) s))) q = remove1 i (lists (view s) q)"
proof -
  define k where "k = j\<lparr>j_status := Cancelled, j_finished_at := Some (now c), j_finished_at_ms := Some (now_ms c)\<rparr>"
  have id: "j_id j = i" using wf_jobsD [OF assms(1,2)] by simp
  have kid: "j_id k = i" and kst: "j_status k = Cancelled" by (simp_all add: k_def id)
  let ?s = "snd (LREM R q i s)"
  have "jobs (view ?s) i = Some j" by (simp add: i)
  then have eq: "cancel_job (Suc d) g c i (Some (a # x)) s
      = (Inr True, finish_job g c k LIFECYCLE_STAGE_CHILD_CANCELLED EvCancelledDone None ?s)"
    using assms mark_job_cancelled_eq [of ?s i j c None] by (simp add: connected k_def id q)
  show "fst (cancel_job (Suc d) g c i (Some (a # x)) s) = Inr True" unfolding eq by simp
  have "open_root ((jobs (view s))(i := Some k)) k \<noteq> Some r \<or> j_id r \<noteq> i" for r
    using open_root_upd [of "jobs (view s)" k "Some k"] linked_child_root_distinct [of k] wf_jobsD [OF assms(1)] kid
    by (auto simp: open_root_def split: if_splits option.splits)
  then show "\<exists>j'. jobs (view (snd (cancel_job (Suc d) g c i (Some (a # x)) s))) i = Some j' \<and> j_status j' = Cancelled"
    unfolding eq by (auto simp: finish_jobs kid kst split: option.split)
  show "lists (view (snd (cancel_job (Suc d) g c i (Some (a # x)) s))) q = remove1 i (lists (view s) q)"
    unfolding eq by (simp add: finish_job_def lrem_law q split: option.split)
qed

lemma cancel_running:
  assumes "wf_jobs (jobs (view s))" and i: "jobs (view s) i = Some j" and "j_username j = a # x"
    and "j_status j = Running" and "\<not> j_cancel_requested j" and "strip_opt (j_child_job_id j) = []"
  shows "cancel_job (Suc (Suc d)) g c i (Some (a # x)) s =
    (Inr True, emit_event g i (own_event i EvCancelling) (saved g (j\<lparr>j_cancel_requested := True\<rparr>) s))"
  using assms by (simp add: connected)

lemma emit_event_streams: "ev \<in> set (streams (view (emit_event g i ev s)) (EventsKey i))"
  by (simp add: emit_event_def Let_def split: option.split)

end

section \<open>A state for the examples\<close>

text \<open>One running chat job that holds four tokens and 100 MB of RAM on target \<open>t1\<close>.\<close>

definition demo_model :: model_info where
  "demo_model = \<lparr>mi_name = ''m'', mi_description = '''', mi_size = 0, mi_status = ''active''\<rparr>"

definition demo_job :: job where
  "demo_job = \<lparr>j_id = ''j1'', j_username = ''ann'', j_thread_id = ''default'', j_job_kind = KindChat,
     j_workload_class = Chat, j_priority = P1, j_target_kind = Cpu, j_worker_pool = PoolChat,
     j_model_key = ''m'', j_model_name = ''m'', j_model_info = demo_model, j_prompt = ''hi'',
     j_history = [], j_prompt_tokens = 1, j_context_tokens = 3000, j_max_output_tokens = 1000,
     j_status = Running, j_created_at = 100, j_created_at_ms = 100000, j_enqueued_at_ms = 100000,
     j_admitted_at = Some 101, j_admitted_at_ms = Some 101000, j_started_at = Some 102,
     j_started_at_ms = Some 102000, j_finished_at = None, j_finished_at_ms = None,
     j_queue_wait_ms = 2000, j_deadline_at = 520, j_retry_count = 0, j_max_retries = 2,
     j_cancel_requested = False, j_error = None, j_result = None,
     j_assigned_target_id = Some ''t1'', j_assigned_worker_id = Some ''w1'',
     j_lease_until = Some 132, j_reserved_tokens = 4, j_reserved_vram_mb = 0,
     j_reserved_ram_mb = 100, j_profile = None, j_file_chat = None, j_root_job_id = None,
     j_parent_job_id = None, j_staging_id = None, j_parser_metadata = None,
     j_lifecycle_stage = None, j_child_job_id = None\<rparr>"

definition demo_space :: gspace where
  "demo_space = empty_keyspace\<lparr>strs := (\<lambda>k. if k = JobKey ''j1'' then Some (GJob demo_job) else None),
     hashes := (\<lambda>k. if k = TargetUsageKey ''t1'' then
         [''reserved_tokens'' \<mapsto> 4, ''reserved_tokens_chat'' \<mapsto> 4, ''reserved_ram_mb'' \<mapsto> 100, ''active_jobs'' \<mapsto> 1]
       else if k = TargetModelsKey ''t1'' then [''m'' \<mapsto> 1] else (\<lambda>_. None)),
     zsets := (\<lambda>k. if k = ActiveJobsZset then [(''j1'', 132)] else []),
     lists := (\<lambda>k. if k = ProcessingQueueKey ''w1'' then [''j1''] else [])\<rparr>"

lemma demo_jobs: "jobs demo_space = [''j1'' \<mapsto> demo_job]"
  by (auto simp: jobs_def demo_space_def)

lemma demo_total: "total W (jobs demo_space) = W demo_job"
  by (simp add: total_def demo_jobs)

lemma demo_ledger: "ledger demo_space"
proof -
  have "usage demo_space t f = held t f demo_job" for t f
    by (auto simp: usage_def demo_space_def empty_keyspace_def held_def holds_def demo_job_def job_charge_def
        charge_def workload_field_def)
  moreover have "model_refs demo_space t m = held_model t m demo_job" for t m
    by (auto simp: model_refs_def demo_space_def empty_keyspace_def held_model_def holds_def demo_job_def)
  moreover have "wf_jobs (jobs demo_space)"
    by (auto simp: wf_jobs_def demo_jobs wf_job_def demo_job_def split: if_splits)
  ultimately show ?thesis by (simp add: ledger_def demo_total)
qed

lemma demo_no_root: "open_root J demo_job = None"
  by (simp add: open_root_def is_linked_child_job_def demo_job_def)

section \<open>Properties\<close>

text \<open>
  C2: what the terminal transitions do to the capacity counters, exactly. Take a state whose
  counters are the sums of the reservations held on each target, and a job that is not
  terminal. Parking it keeps this. Completing, failing or cancelling it keeps it if it has no
  open parser root. If it has one, the root is settled with it, and the counters are the sums
  plus what the root held, so they agree with the sums just if it held nothing; they agree
  again once the worker of the root parks it, whatever the root held.
\<close>

theorem terminal_transitions_ledger:
  assumes "gateway_store R view g" and "ledger (view s)" and "jobs (view s) i = Some j" and "\<not> terminal (j_status j)"
    and "s' = mark_job_completed g c i txt w s \<or> s' = mark_job_failed g c i txt w s \<or> s' = mark_job_cancelled g c i w s"
  shows "ledger (view (mark_job_waiting_on_child g i cid stage upd w s))
    \<and> (case open_root (jobs (view s)) j of
         None \<Rightarrow> ledger (view s')
       | Some r \<Rightarrow> ledger_owing (Some r) (view s') \<and> (ledger (view s') \<longleftrightarrow> (\<forall>t. \<not> holds t r))
           \<and> ledger (view (mark_job_waiting_on_child g (j_id r) cid stage upd w' s')))"
proof (cases "open_root (jobs (view s)) j")
  case None
  then show ?thesis
    using gateway_store.waiting_ledger [OF assms(1-4)] gateway_store.mark_owing(2) [OF assms] by simp
next
  case (Some r)
  then have "ledger_owing (Some r) (view s')" using gateway_store.mark_owing(2) [OF assms] by simp
  then show ?thesis
    using gateway_store.waiting_ledger [OF assms(1-4)] gateway_store.mark_then_park [OF assms Some] ledger_owing_some
    by (simp add: Some)
qed

text \<open>A parser root and its child, both running on the same target.\<close>

definition demo_root :: job where
  "demo_root = demo_job\<lparr>j_id := ''p1'', j_reserved_tokens := 7\<rparr>"

definition demo_child :: job where
  "demo_child = demo_job\<lparr>j_root_job_id := Some ''p1''\<rparr>"

definition family_space :: gspace where
  "family_space = demo_space\<lparr>strs := (\<lambda>k. if k = JobKey ''j1'' then Some (GJob demo_child) else if k = JobKey ''p1'' then Some (GJob demo_root) else None),
     hashes := (\<lambda>k. if k = TargetUsageKey ''t1'' then
         [''reserved_tokens'' \<mapsto> 11, ''reserved_tokens_chat'' \<mapsto> 11, ''reserved_ram_mb'' \<mapsto> 200, ''active_jobs'' \<mapsto> 2]
       else if k = TargetModelsKey ''t1'' then [''m'' \<mapsto> 2] else (\<lambda>_. None))\<rparr>"

lemma family_jobs: "jobs family_space = [''j1'' \<mapsto> demo_child, ''p1'' \<mapsto> demo_root]"
  by (auto simp: jobs_def family_space_def fun_eq_iff)

lemma family_ledger: "ledger family_space"
proof -
  have sums: "total W (jobs family_space) = W demo_child + W demo_root" for W by (simp add: total_def family_jobs)
  have "usage family_space t f = held t f demo_child + held t f demo_root" for t f
    by (auto simp: usage_def family_space_def held_def holds_def demo_child_def demo_root_def demo_job_def job_charge_def
        charge_def workload_field_def)
  moreover have "model_refs family_space t m = held_model t m demo_child + held_model t m demo_root" for t m
    by (auto simp: model_refs_def family_space_def held_model_def holds_def demo_child_def demo_root_def demo_job_def)
  moreover have "wf_jobs (jobs family_space)"
    by (auto simp: wf_jobs_def family_jobs wf_job_def demo_child_def demo_root_def demo_job_def split: if_splits)
  ultimately show ?thesis by (simp add: ledger_def sums)
qed

lemma family_root: "open_root (jobs family_space) demo_child = Some demo_root"
proof -
  have "py_strip ''p1'' = ''p1''" "py_strip ''j1'' = ''j1''" by code_simp+
  then show ?thesis
    by (simp add: open_root_def is_linked_child_job_def strip_opt_def family_jobs demo_child_def demo_root_def demo_job_def)
qed

theorem terminal_transitions_ledger_witness:
  "\<not> ledger (mark_job_completed (mem_gateway default_settings) \<lparr>now = 110, now_ms = 110000\<rparr> ''j1'' ''ok'' (Some ''w1'') family_space)
   \<and> ledger (mark_job_waiting_on_child (mem_gateway default_settings) ''p1'' ''j1'' ''child_enqueued'' None (Some ''w1'')
       (mark_job_completed (mem_gateway default_settings) \<lparr>now = 110, now_ms = 110000\<rparr> ''j1'' ''ok'' (Some ''w1'') family_space))
   \<and> ledger (mark_job_cancelled (mem_gateway default_settings) \<lparr>now = 110, now_ms = 110000\<rparr> ''j1'' (Some ''w1'') demo_space)"
proof -
  have j: "jobs family_space ''j1'' = Some demo_child" "\<not> terminal (j_status demo_child)" "jobs demo_space ''j1'' = Some demo_job" "\<not> terminal (j_status demo_job)"
    by (simp_all add: family_jobs demo_jobs demo_child_def demo_job_def)
  have root: "j_id demo_root = ''p1''" "holds ''t1'' demo_root" by (simp_all add: demo_root_def demo_job_def holds_def)
  note inst = terminal_transitions_ledger [where view = "\<lambda>s. s", OF memg.gateway_store_axioms [of default_settings]]
  show ?thesis
    using inst [OF family_ledger j(1,2) disjI1 [OF refl]] inst [OF demo_ledger j(3,4) disjI2 [OF disjI2 [OF refl]]] root
    by (auto simp: family_root demo_no_root)
qed

text \<open>
  C6: completing a job writes its result and finish time, appends the \<open>done\<close> event as the
  last event of its stream and ends its lease; if the job is the child of an open parser
  root, the root becomes completed with the same result and no error, and its stream also
  ends with a \<open>done\<close> event that names the child; no other job changes.
\<close>

theorem completion_settles:
  assumes "gateway_store R view g" and "wf_jobs (jobs (view s))" and "jobs (view s) i = Some j"
    and s': "s' = mark_job_completed g c i answer w s"
  shows "(\<exists>j'. jobs (view s') i = Some j' \<and> j_status j' = Completed \<and> j_result j' = Some answer
        \<and> j_finished_at j' = Some (now c))
    \<and> last (streams (view s') (EventsKey i)) = bare_event EvDone
    \<and> i \<notin> fst ` set (zsets (view s') ActiveJobsZset)
    \<and> (case open_root (jobs (view s)) j of
         None \<Rightarrow> (\<forall>k. k \<noteq> i \<longrightarrow> jobs (view s') k = jobs (view s) k)
       | Some r \<Rightarrow> (\<exists>r'. jobs (view s') (j_id r) = Some r' \<and> j_status r' = Completed
             \<and> j_result r' = Some answer \<and> j_error r' = None \<and> j_child_job_id r' = Some (py_strip i))
           \<and> last (streams (view s') (EventsKey (j_id r)))
               = (bare_event EvDone)\<lparr>ev_source_job_id := Some (py_strip i)\<rparr>
           \<and> (\<forall>k. k \<noteq> i \<and> k \<noteq> j_id r \<longrightarrow> jobs (view s') k = jobs (view s) k))"
proof -
  define f where "f = j\<lparr>j_status := Completed, j_finished_at := Some (now c),
      j_finished_at_ms := Some (now_ms c), j_result := Some answer\<rparr>"
  have id: "j_id j = i" using wf_jobsD [OF assms(2,3)] by simp
  have f: "j_id f = i" "j_status f = Completed" "j_result f = Some answer" "j_finished_at f = Some (now c)"
    "j_root_job_id f = j_root_job_id j"
    by (simp_all add: f_def id)
  have s'f: "s' = finish_job g c f LIFECYCLE_STAGE_CHILD_COMPLETED EvDone w s"
    unfolding s' f_def by (rule gateway_store.mark_job_completed_eq [OF assms(1,3) id])
  have rt: "open_root (jobs (view s)) f = open_root (jobs (view s)) j"
    by (simp add: f_def open_root_simps)
  have dist: "j_id r \<noteq> i \<and> strip_opt (j_root_job_id j) = j_id r" if "open_root (jobs (view s)) j = Some r" for r
    using that linked_child_root_distinct [of j] wf_jobsD [OF assms(2)] id
    by (auto simp: open_root_def split: if_splits option.splits)
  note upd = open_root_upd [of "jobs (view s)" f "Some f", unfolded f rt]
  show ?thesis
    unfolding s'f gateway_store.finish_jobs [OF assms(1)] gateway_store.finish_streams [OF assms(1)]
      gateway_store.finish_zsets [OF assms(1)] f rt upd
    using dist by (auto simp: f synthesized_root_def split: option.split)
qed

theorem completion_settles_witness:
  "(\<exists>j'. jobs (mark_job_completed (mem_gateway default_settings) \<lparr>now = 110, now_ms = 110000\<rparr> ''j1'' ''ok'' (Some ''w1'') demo_space) ''j1''
      = Some j' \<and> j_status j' = Completed \<and> j_result j' = Some ''ok'' \<and> j_finished_at j' = Some 110)"
  using completion_settles [where view = "\<lambda>s. s" and c = "\<lparr>now = 110, now_ms = 110000\<rparr>" and answer = "''ok''" and w = "Some ''w1''",
      OF memg.gateway_store_axioms [of default_settings], of demo_space "''j1''" demo_job, OF _ _ refl] demo_ledger
  by (simp add: demo_jobs ledger_def)

text \<open>
  C7: cancellation is safe: whatever job is cancelled by whomever, no terminal job
  changes, and unless the request is accepted (the result is \<open>True\<close>) nothing changes at all.
\<close>

theorem cancel_safe:
  assumes "gateway_store R view g" and "wf_jobs (jobs (view s))"
  shows "(jobs (view s) k = Some jk \<and> terminal (j_status jk)
       \<longrightarrow> jobs (view (snd (cancel_job depth g c i u s))) k = Some jk)
    \<and> (fst (cancel_job depth g c i u s) \<noteq> Inr True \<longrightarrow> snd (cancel_job depth g c i u s) = s)"
  using gateway_store.cancel_job_effect(1) [OF assms(1) refl, of c s depth i u]
    gateway_store.cancel_effect_terminal [OF assms(1) _ assms(2)] by blast

theorem cancel_safe_witness:
  "snd (cancel_job 9 (mem_gateway default_settings) \<lparr>now = 110, now_ms = 110000\<rparr> ''j1'' (Some ''bob'') demo_space) = demo_space"
proof -
  have "fst (cancel_job 9 (mem_gateway default_settings) \<lparr>now = 110, now_ms = 110000\<rparr> ''j1'' (Some ''bob'') demo_space) \<noteq> Inr True"
    by (simp add: eval_nat_numeral demo_jobs demo_job_def)
  then show ?thesis
    using cancel_safe [where view = "\<lambda>s. s", OF memg.gateway_store_axioms [of default_settings], of demo_space] demo_ledger
    by (simp add: ledger_def)
qed

text \<open>
  The decision of a cancellation. A missing or terminal job gives \<open>False\<close>, a job of
  another user is refused with status 403, a queued job becomes cancelled and leaves its
  pending queue, and a running job without a linked child is marked for its worker, which
  sees the request, while its stream announces it.
\<close>

theorem cancel_decision:
  assumes "gateway_store R view g" and "wf_jobs (jobs (view s))"
    and r: "r = cancel_job (Suc (Suc depth)) g c i (Some (a # name)) s"
  shows "(jobs (view s) i = None \<longrightarrow> r = (Inr False, s))
    \<and> (jobs (view s) i = Some j \<and> j_username j \<noteq> a # name \<longrightarrow> r = (Inl (HTTPException 403 ''Forbidden''), s))
    \<and> (jobs (view s) i = Some j \<and> j_username j = a # name \<and> terminal (j_status j) \<longrightarrow> r = (Inr False, s))
    \<and> (jobs (view s) i = Some j \<and> j_username j = a # name \<and> j_status j = Queued \<and> \<not> j_cancel_requested j
        \<longrightarrow> fst r = Inr True
          \<and> (\<exists>j'. jobs (view (snd r)) i = Some j' \<and> j_status j' = Cancelled)
          \<and> lists (view (snd r)) (PendingQueueKey (j_workload_class j) (j_priority j))
              = remove1 i (lists (view s) (PendingQueueKey (j_workload_class j) (j_priority j))))
    \<and> (jobs (view s) i = Some j \<and> j_username j = a # name \<and> j_status j = Running \<and> \<not> j_cancel_requested j
          \<and> strip_opt (j_child_job_id j) = []
        \<longrightarrow> fst r = Inr True \<and> jobs (view (snd r)) = (jobs (view s))(i := Some (j\<lparr>j_cancel_requested := True\<rparr>))
          \<and> is_cancel_requested g i (snd r)
          \<and> own_event i EvCancelling \<in> set (streams (view (snd r)) (EventsKey i)))"
proof -
  have id: "jobs (view s) i = Some j \<Longrightarrow> j_id j = i" using wf_jobsD [OF assms(2)] by simp
  note queued = gateway_store.cancel_queued [OF assms(1,2) _ _ _ _ refl, of i j a name "Suc depth" c]
  note running = gateway_store.cancel_running [OF assms(1,2), of i j a name depth c]
  note jobs = gateway_store.jobs_emit_event [OF assms(1)] gateway_store.jobs_saved [OF assms(1)]
  show ?thesis
    unfolding r is_cancel_requested_def
    using gateway_store.cancel_refused [OF assms(1)] queued running id gateway_store.emit_event_streams [OF assms(1)]
    by (simp add: gateway_store.get_job_eq [OF assms(1)] jobs del: cancel_job.simps)
qed

theorem cancel_decision_witness:
  "cancel_job 2 (mem_gateway default_settings) \<lparr>now = 110, now_ms = 110000\<rparr> ''j1'' (Some ''bob'') demo_space
     = (Inl (HTTPException 403 ''Forbidden''), demo_space)
   \<and> is_cancel_requested (mem_gateway default_settings) ''j1''
      (snd (cancel_job 2 (mem_gateway default_settings) \<lparr>now = 110, now_ms = 110000\<rparr> ''j1'' (Some ''ann'') demo_space))"
  using cancel_decision [where view = "\<lambda>s. s" and depth = 0 and c = "\<lparr>now = 110, now_ms = 110000\<rparr>"
        and a = "CHR ''b''" and name = "''ob''" and j = demo_job and i = "''j1''",
      OF memg.gateway_store_axioms [of default_settings], of demo_space, OF _ refl]
    cancel_decision [where view = "\<lambda>s. s" and depth = 0 and c = "\<lparr>now = 110, now_ms = 110000\<rparr>"
        and a = "CHR ''a''" and name = "''nn''" and j = demo_job and i = "''j1''",
      OF memg.gateway_store_axioms [of default_settings], of demo_space, OF _ refl] demo_ledger
  by (simp add: demo_jobs ledger_def numeral_2_eq_2 demo_job_def del: cancel_job.simps)

text \<open>
  Cancellation conserves capacity: if the counters are the sums of the held
  reservations and no open root of an unfinished child holds a reservation, they still
  are after any cancellation, also of a running job, a linked child or a chain of jobs.
\<close>

theorem cancel_ledger:
  assumes "gateway_store R view g" and "ledger (view s)"
    and "\<And>i j r t. jobs (view s) i = Some j \<Longrightarrow> \<not> terminal (j_status j) \<Longrightarrow>
      open_root (jobs (view s)) j = Some r \<Longrightarrow> \<not> holds t r"
  shows "ledger (view (snd (cancel_job depth g c i u s)))"
  using gateway_store.cancel_job_effect(1) [OF assms(1) refl, of c s depth i u]
    gateway_store.cancel_effect_ledger [OF assms(1) _ assms(2)] assms(3) by blast

theorem cancel_ledger_witness:
  "ledger (snd (cancel_job 9 (mem_gateway default_settings) \<lparr>now = 110, now_ms = 110000\<rparr> ''j1'' (Some ''ann'') demo_space))"
  by (rule cancel_ledger [where view = "\<lambda>s. s", OF memg.gateway_store_axioms, OF demo_ledger])
    (auto simp: demo_jobs demo_no_root split: if_splits)

end
