(* ===== verification/Admission.thy ===== *)
theory Admission
  imports Lifecycle
begin

text \<open>
  Resource-aware admission (\<open>llm_gateway.py\<close>): the memory and token profile of a model,
  the decision whether a target can take a job, backpressure at the entrance, the
  enqueueing of a job and of the child job of a parser root, the admission of a pending
  job on a target and its claim by a worker. The lemmas show that the decision respects
  the token, video memory and RAM budgets of the target, and that admission and claim
  keep the ledger.
\<close>

section \<open>Timing fields\<close>

text \<open>The job fields are integers here, so \<open>_safe_int\<close> only maps \<open>None\<close> to zero.\<close>

definition compute_queue_wait_ms :: "job \<Rightarrow> int" where
  "compute_queue_wait_ms job = (let started_at_ms = int_or (j_started_at_ms job) 0 in
     if started_at_ms \<le> 0 then 0
     else let enqueued_at_ms = int_or (Some (j_enqueued_at_ms job)) (j_created_at_ms job) in
       if enqueued_at_ms \<le> 0 then 0 else max 0 (started_at_ms - enqueued_at_ms))"

definition compute_total_job_ms :: "job \<Rightarrow> int" where
  "compute_total_job_ms job = (let finished_at_ms = int_or (j_finished_at_ms job) 0;
       created_at_ms = int_or (Some (j_created_at_ms job)) (j_enqueued_at_ms job)
     in if finished_at_ms \<le> 0 \<or> created_at_ms \<le> 0 then 0
        else max 0 (finished_at_ms - created_at_ms))"

section \<open>Model profile\<close>

definition build_model_profile ::
  "settings \<Rightarrow> string \<Rightarrow> string \<Rightarrow> model_info option \<Rightarrow> int \<Rightarrow> int \<Rightarrow> int \<Rightarrow> target_kind \<Rightarrow> model_profile"
where
  "build_model_profile cfg model_key model_name info prompt_tokens context_tokens max_output_tokens kind =
     (let size_bytes = (case info of None \<Rightarrow> 0 | Some m \<Rightarrow> mi_size m);
          size_mb = max 256 \<lceil>py_truediv size_bytes (1024 * 1024)\<rceil>;
          kv_tokens = max prompt_tokens context_tokens + max_output_tokens;
          kv_cache_mb = max 64 \<lceil>fl (py_truediv kv_tokens 1000 * fl (of_int (LLM_KV_CACHE_MB_PER_1K_TOKENS cfg)))\<rceil>;
          weights_mb = max 256 \<lceil>py_mul_float size_mb
            (if kind = Gpu then LLM_GPU_WEIGHT_MULTIPLIER cfg else LLM_CPU_WEIGHT_MULTIPLIER cfg)\<rceil>;
          runtime_overhead_mb =
            (if kind = Gpu then LLM_GPU_RUNTIME_OVERHEAD_MB cfg else LLM_CPU_RUNTIME_OVERHEAD_MB cfg);
          total_mb = weights_mb + kv_cache_mb + runtime_overhead_mb;
          token_cost = max 1 \<lceil>py_truediv total_mb (max (SCHEDULER_TOKEN_GRANULARITY_MB cfg) 1)\<rceil>
      in \<lparr>pf_model_key = model_key, pf_model_name = model_name, pf_weights_mb = weights_mb,
          pf_kv_cache_mb = kv_cache_mb, pf_runtime_overhead_mb = runtime_overhead_mb,
          pf_total_mb = total_mb, pf_token_cost = token_cost\<rparr>)"

section \<open>The admission decision\<close>

text \<open>The keys of a job that the decision reads; a capacity probe has no \<open>target_kind\<close>.\<close>

record admission_request =
  ar_workload_class :: workload
  ar_model_key :: string
  ar_model_name :: string
  ar_model_info :: "model_info option"
  ar_prompt_tokens :: int
  ar_context_tokens :: int
  ar_max_output_tokens :: int
  ar_target_kind :: "target_kind option"

definition job_request :: "job \<Rightarrow> admission_request" where
  "job_request job = \<lparr>ar_workload_class = j_workload_class job, ar_model_key = j_model_key job,
     ar_model_name = j_model_name job, ar_model_info = Some (j_model_info job),
     ar_prompt_tokens = j_prompt_tokens job, ar_context_tokens = j_context_tokens job,
     ar_max_output_tokens = j_max_output_tokens job, ar_target_kind = Some (j_target_kind job)\<rparr>"

record admission =
  ad_reserved_tokens :: int
  ad_reserved_vram_mb :: int
  ad_reserved_ram_mb :: int
  ad_profile :: admission_profile

definition request_profile :: "settings \<Rightarrow> admission_request \<Rightarrow> target_kind \<Rightarrow> model_profile" where
  "request_profile cfg job kind = build_model_profile cfg (ar_model_key job) (ar_model_name job)
     (ar_model_info job) (ar_prompt_tokens job)
     (int_or (Some (ar_context_tokens job)) (LLM_DEFAULT_CONTEXT_TOKENS cfg))
     (int_or (Some (ar_max_output_tokens job)) (LLM_DEFAULT_MAX_OUTPUT_TOKENS cfg)) kind"

definition cpu_single_slot_override :: "target_kind \<Rightarrow> target_usage \<Rightarrow> int \<Rightarrow> int \<Rightarrow> bool" where
  "cpu_single_slot_override kind us token_cost base_tokens \<longleftrightarrow>
     kind = Cpu \<and> us_active_jobs us = 0 \<and> us_reserved_tokens us = 0 \<and> base_tokens < token_cost"

text \<open>The token gates: total capacity, the shares protected for chat and SIEM.\<close>

definition token_gate :: "settings \<Rightarrow> workload \<Rightarrow> target_usage \<Rightarrow> int \<Rightarrow> int \<Rightarrow> bool" where
  "token_gate cfg workload_class us effective_tokens token_cost =
     (let chat_reserved_cap = max 1 \<lfloor>py_mul_float effective_tokens (SCHEDULER_CHAT_RESERVED_RATIO cfg)\<rfloor>;
          siem_reserved_cap = max 0 \<lfloor>py_mul_float effective_tokens (SCHEDULER_SIEM_RESERVED_RATIO cfg)\<rfloor>;
          chat_used = us_reserved_tokens_chat us;
          siem_used = us_reserved_tokens_siem us;
          total_reserved = us_reserved_tokens us;
          protected_unused = max (chat_reserved_cap - chat_used) 0 + max (siem_reserved_cap - siem_used) 0;
          available_unreserved = max 0 (effective_tokens - total_reserved - protected_unused);
          siem_can_use_reserved = (siem_used + token_cost \<le> siem_reserved_cap);
          siem_can_borrow = (token_cost \<le>
            max 0 (effective_tokens - total_reserved - max (chat_reserved_cap - chat_used) 0))
      in \<not> effective_tokens < total_reserved + token_cost
         \<and> \<not> (workload_class = Batch \<and> available_unreserved < token_cost)
         \<and> \<not> (workload_class = Siem \<and> \<not> siem_can_use_reserved \<and> \<not> siem_can_borrow))"

definition model_is_warm :: "'s gateway \<Rightarrow> admission_request \<Rightarrow> target \<Rightarrow> 's \<Rightarrow> bool" where
  "model_is_warm g job tgt s = (let
       model_ref = (case gw_redis g of None \<Rightarrow> 0
         | Some R \<Rightarrow> int_or (HGET R (TargetModelsKey (tg_target_id tgt)) (ar_model_key job) s) 0)
     in ar_model_key job \<in> set (tg_loaded_models tgt) \<or> ar_model_key job \<in> set (tg_pinned_models tgt)
        \<or> 0 < model_ref)"

definition evaluate_gpu ::
  "settings \<Rightarrow> model_profile \<Rightarrow> target \<Rightarrow> target_usage \<Rightarrow> bool \<Rightarrow> admission option" where
  "evaluate_gpu cfg profile tgt us warm =
     (let base_free_vram = max 0 (tg_vram_free_mb tgt - SCHEDULER_GPU_SAFETY_MARGIN_MB cfg
            - SCHEDULER_GPU_FRAGMENTATION_MARGIN_MB cfg);
          avg_parallel_cost = max (pf_kv_cache_mb profile + pf_runtime_overhead_mb profile)
            (SCHEDULER_TOKEN_GRANULARITY_MB cfg);
          dynamic_parallel_limit = max 1 (base_free_vram div max avg_parallel_cost 1);
          required_vram = pf_kv_cache_mb profile + pf_runtime_overhead_mb profile
            + (if warm then 0 else pf_weights_mb profile);
          effective_vram = base_free_vram - us_reserved_vram_mb us
      in if dynamic_parallel_limit \<le> us_active_jobs us \<or> effective_vram < required_vram then None
         else Some \<lparr>ad_reserved_tokens = pf_token_cost profile, ad_reserved_vram_mb = required_vram,
           ad_reserved_ram_mb = 0,
           ad_profile = model_profile.extend profile (admission_profile.fields dynamic_parallel_limit warm None)\<rparr>)"

definition evaluate_cpu ::
  "settings \<Rightarrow> workload \<Rightarrow> model_profile \<Rightarrow> target \<Rightarrow> target_usage \<Rightarrow> bool \<Rightarrow> int \<Rightarrow> bool \<Rightarrow> admission option"
where
  "evaluate_cpu cfg workload_class profile tgt us warm effective_tokens single_slot =
     (let base_free_ram = max 0 (tg_ram_free_mb tgt - SCHEDULER_RAM_SAFETY_MARGIN_MB cfg);
          avg_parallel_cost = max (pf_kv_cache_mb profile + pf_runtime_overhead_mb profile)
            (SCHEDULER_TOKEN_GRANULARITY_MB cfg);
          cpu_parallel_limit = max 1 (min (int_or (Some (tg_cpu_count tgt)) 1)
            (base_free_ram div max avg_parallel_cost 1));
          required_ram = pf_kv_cache_mb profile + pf_runtime_overhead_mb profile
            + (if warm then 0 else pf_weights_mb profile);
          effective_ram = base_free_ram - us_reserved_ram_mb us;
          cold_start_override = (workload_class = Chat \<and> us_active_jobs us = 0
            \<and> us_reserved_tokens us = 0 \<and> us_reserved_ram_mb us = 0 \<and> \<not> warm
            \<and> 0 < effective_ram \<and> effective_ram < required_ram)
      in if SCHEDULER_CPU_LOAD_SHED_THRESHOLD cfg \<le> tg_cpu_percent tgt \<and> 0 < us_active_jobs us then None
         else if cpu_parallel_limit \<le> us_active_jobs us then None
         else if effective_ram < required_ram \<and> \<not> cold_start_override then None
         else Some \<lparr>ad_reserved_tokens = pf_token_cost profile, ad_reserved_vram_mb = 0,
           ad_reserved_ram_mb = required_ram,
           ad_profile = model_profile.extend profile (admission_profile.fields cpu_parallel_limit warm
             (Some (effective_tokens, single_slot, cold_start_override)))\<rparr>)"

definition evaluate_target_admission ::
  "'s gateway \<Rightarrow> admission_request \<Rightarrow> target \<Rightarrow> target_usage \<Rightarrow> 's \<Rightarrow> admission option" where
  "evaluate_target_admission g job tgt us s =
     (let cfg = gw_cfg g;
          kind = normalize_target_kind (Some (tg_target_kind tgt));
          job_kind = (case ar_target_kind job of None \<Rightarrow> normalize_target_kind None | Some k \<Rightarrow> k)
      in if job_kind \<noteq> kind then None
         else let profile = request_profile cfg job kind;
              base_tokens = max 1 (int_or (Some (tg_base_capacity_tokens tgt)) 1);
              token_cost = pf_token_cost profile;
              single_slot = cpu_single_slot_override kind us token_cost base_tokens;
              effective_tokens = (if single_slot then token_cost else base_tokens)
            in if \<not> token_gate cfg (ar_workload_class job) us effective_tokens token_cost then None
               else let warm = model_is_warm g job tgt s in
                 if kind = Gpu then evaluate_gpu cfg profile tgt us warm
                 else evaluate_cpu cfg (ar_workload_class job) profile tgt us warm effective_tokens single_slot)"

section \<open>The model catalogue\<close>

definition set_model_catalog :: "'s gateway \<Rightarrow> clock \<Rightarrow> catalog \<Rightarrow> 's \<Rightarrow> 's" where
  "set_model_catalog g c cat s = (case gw_redis g of None \<Rightarrow> s
     | Some R \<Rightarrow> SETEX R ModelCatalogTsKey (GInt (now c)) (OLLAMA_MODEL_CATALOG_REFRESH_SECONDS * 2)
                  (SETEX R ModelCatalogKey (GCatalog cat) (OLLAMA_MODEL_CATALOG_REFRESH_SECONDS * 2) s))"

definition get_model_catalog :: "'s gateway \<Rightarrow> clock \<Rightarrow> 's \<Rightarrow> catalog \<times> 's" where
  "get_model_catalog g c s = (case gw_redis g of None \<Rightarrow> (gw_available_models g, s)
     | Some R \<Rightarrow> (case GET R ModelCatalogKey s of
           Some (GCatalog (m # ms)) \<Rightarrow> (m # ms, s)
         | _ \<Rightarrow> (let live_catalog = gw_available_models g in
             (live_catalog, if live_catalog \<noteq> [] then set_model_catalog g c live_catalog s else s))))"

definition get_model_catalog_age_seconds :: "'s gateway \<Rightarrow> clock \<Rightarrow> 's \<Rightarrow> int option" where
  "get_model_catalog_age_seconds g c s = (case gw_redis g of None \<Rightarrow> None
     | Some R \<Rightarrow> (case GET R ModelCatalogTsKey s of Some (GInt ts) \<Rightarrow> Some (max 0 (now c - ts)) | _ \<Rightarrow> None))"

definition model_probe_candidates :: "catalog \<Rightarrow> catalog" where
  "model_probe_candidates cat = sort_key (\<lambda>item. (mi_size (snd item), fst item)) cat"

definition probe_request :: "settings \<Rightarrow> workload \<Rightarrow> string \<times> model_info \<Rightarrow> admission_request" where
  "probe_request cfg workload_class item = \<lparr>ar_workload_class = workload_class,
     ar_model_key = fst item, ar_model_name = mi_name (snd item), ar_model_info = Some (snd item),
     ar_prompt_tokens = 8, ar_context_tokens = LLM_DEFAULT_CONTEXT_TOKENS cfg,
     ar_max_output_tokens = LLM_DEFAULT_MAX_OUTPUT_TOKENS cfg, ar_target_kind = None\<rparr>"

definition active_pairs :: "worker_info list \<Rightarrow> (worker_pool \<times> string) set" where
  "active_pairs workers = set (map (\<lambda>w. (wk_worker_pool w, wk_target_id w)) workers)"

definition can_accept_workload :: "'s gateway \<Rightarrow> clock \<Rightarrow> workload \<Rightarrow> 's \<Rightarrow> bool \<times> 's" where
  "can_accept_workload g c workload_class s =
     (case list_active_targets g s of (targets, s) \<Rightarrow>
        if targets = [] then (False, s)
        else case list_active_workers g s of (workers, s) \<Rightarrow>
          case get_model_catalog g c s of (cat, s) \<Rightarrow>
            let pairs = active_pairs workers; candidates = model_probe_candidates cat
            in if candidates = [] then (False, s)
               else (list_ex (\<lambda>t. (worker_pool_for_workload workload_class, tg_target_id t) \<in> pairs
                   \<and> list_ex (\<lambda>m. evaluate_target_admission g (probe_request (gw_cfg g) workload_class m) t
                       (get_target_usage g (tg_target_id t) s) s \<noteq> None) candidates) targets, s))"

definition has_available_capacity :: "'s gateway \<Rightarrow> clock \<Rightarrow> 's \<Rightarrow> bool \<times> 's" where
  "has_available_capacity g c s = can_accept_workload g c Chat s"

section \<open>Backpressure and runtime state\<close>

definition get_total_pending_jobs :: "'s gateway \<Rightarrow> 's \<Rightarrow> int" where
  "get_total_pending_jobs g s = (case gw_redis g of None \<Rightarrow> 0
     | Some R \<Rightarrow> (\<Sum>(w, p)\<leftarrow>QUEUE_ORDER. LLEN R (PendingQueueKey w p) s))"

definition dynamic_queue_limit :: "'s gateway \<Rightarrow> 's \<Rightarrow> int \<times> 's" where
  "dynamic_queue_limit g s =
     (case list_active_targets g s of (targets, s) \<Rightarrow>
      case list_active_workers g s of (workers, s) \<Rightarrow>
        let cfg = gw_cfg g;
            cluster_tokens = (\<Sum>t\<leftarrow>targets. max 1 (tg_base_capacity_tokens t));
            worker_bias = len workers * SCHEDULER_BACKPRESSURE_WORKER_WEIGHT cfg
        in (max (SCHEDULER_MIN_QUEUE_DEPTH cfg)
              (cluster_tokens * SCHEDULER_QUEUE_FACTOR cfg + worker_bias), s))"

record queue_pressure =
  qp_queue_depth :: int
  qp_threshold :: int
  qp_workers :: int

definition get_queue_pressure :: "'s gateway \<Rightarrow> 's \<Rightarrow> queue_pressure \<times> 's" where
  "get_queue_pressure g s =
     (case list_active_workers g s of (workers, s) \<Rightarrow>
        let queue_depth = get_total_pending_jobs g s in
        case dynamic_queue_limit g s of (threshold, s) \<Rightarrow>
          (\<lparr>qp_queue_depth = queue_depth, qp_threshold = threshold, qp_workers = len workers\<rparr>, s))"

record runtime_state =
  rs_pending :: "((workload \<times> priority) \<times> int) list"
  rs_active_jobs :: int
  rs_targets :: int
  rs_workers :: int

definition get_runtime_state :: "'s gateway \<Rightarrow> 's \<Rightarrow> runtime_state \<times> 's" where
  "get_runtime_state g s = (case gw_redis g of
       None \<Rightarrow> (\<lparr>rs_pending = [], rs_active_jobs = 0, rs_targets = 0, rs_workers = 0\<rparr>, s)
     | Some R \<Rightarrow>
        (let pending = map (\<lambda>(w, p). ((w, p), LLEN R (PendingQueueKey w p) s)) QUEUE_ORDER;
             active_jobs = ZCARD R ActiveJobsZset s
         in case list_active_targets g s of (targets, s) \<Rightarrow>
            case list_active_workers g s of (workers, s) \<Rightarrow>
              (\<lparr>rs_pending = pending, rs_active_jobs = active_jobs, rs_targets = len targets,
                rs_workers = len workers\<rparr>, s)))"

record basic_metrics =
  bm_queue_depth :: int
  bm_active_jobs :: int
  bm_failed_jobs :: int
  bm_rejected_jobs :: int
  bm_job_latency_total_ms :: int
  bm_job_latency_count :: int

definition get_basic_metrics :: "'s gateway \<Rightarrow> 's \<Rightarrow> basic_metrics \<times> 's" where
  "get_basic_metrics g s =
     (case get_runtime_state g s of (state, s) \<Rightarrow>
        let raw = (case gw_redis g of None \<Rightarrow> (\<lambda>_. None) | Some R \<Rightarrow> HGETALL R MetricsKey s);
            field = (\<lambda>f. case raw f of None \<Rightarrow> 0 | Some n \<Rightarrow> n)
        in (\<lparr>bm_queue_depth = sum_list (map snd (rs_pending state)),
             bm_active_jobs = rs_active_jobs state,
             bm_failed_jobs = field ''failed_jobs'', bm_rejected_jobs = field ''rejected_jobs'',
             bm_job_latency_total_ms = field ''job_latency_total_ms'',
             bm_job_latency_count = field ''job_latency_count''\<rparr>, s))"

section \<open>Enqueueing\<close>

text \<open>The arguments of \<open>enqueue_job\<close>, with those it defaults to \<open>None\<close> as options.\<close>

record enqueue_request =
  eq_username :: string
  eq_model_key :: string
  eq_model_name :: string
  eq_prompt :: string
  eq_history :: "message list"
  eq_thread_id :: "string option"
  eq_job_kind :: string
  eq_file_chat :: "metadata option"
  eq_workload_class :: string
  eq_priority :: "string option"
  eq_context_tokens :: "int option"
  eq_max_output_tokens :: "int option"
  eq_root_job_id :: "string option"
  eq_parent_job_id :: "string option"
  eq_staging_id :: "string option"
  eq_parser_metadata :: "metadata option"
  eq_lifecycle_stage :: "string option"
  eq_child_job_id :: "string option"
  eq_job_id_override :: "string option"

definition new_job ::
  "settings \<Rightarrow> clock \<Rightarrow> enqueue_request \<Rightarrow> string \<Rightarrow> workload \<Rightarrow> priority \<Rightarrow> target_kind \<Rightarrow> model_info \<Rightarrow> job"
where
  "new_job cfg c rq job_id workload_class prio kind info = \<lparr>
     j_id = job_id,
     j_username = eq_username rq,
     j_thread_id = normalize_thread_id (eq_thread_id rq),
     j_job_kind = normalize_job_kind (eq_job_kind rq),
     j_workload_class = workload_class,
     j_priority = prio,
     j_target_kind = kind,
     j_worker_pool = worker_pool_for_workload workload_class,
     j_model_key = eq_model_key rq,
     j_model_name = eq_model_name rq,
     j_model_info = info,
     j_prompt = eq_prompt rq,
     j_history = eq_history rq,
     j_prompt_tokens = approximate_token_count (eq_prompt rq)
       + (\<Sum>m\<leftarrow>eq_history rq. approximate_token_count (m_content m)),
     j_context_tokens = int_or (eq_context_tokens rq) (LLM_DEFAULT_CONTEXT_TOKENS cfg),
     j_max_output_tokens = int_or (eq_max_output_tokens rq) (LLM_DEFAULT_MAX_OUTPUT_TOKENS cfg),
     j_status = Queued,
     j_created_at = now c,
     j_created_at_ms = now_ms c,
     j_enqueued_at_ms = now_ms c,
     j_admitted_at = None,
     j_admitted_at_ms = None,
     j_started_at = None,
     j_started_at_ms = None,
     j_finished_at = None,
     j_finished_at_ms = None,
     j_queue_wait_ms = 0,
     j_deadline_at = now c + LLM_JOB_DEADLINE_SECONDS cfg,
     j_retry_count = 0,
     j_max_retries = SCHEDULER_MAX_JOB_RETRIES cfg,
     j_cancel_requested = False,
     j_error = None,
     j_result = None,
     j_assigned_target_id = None,
     j_assigned_worker_id = None,
     j_lease_until = None,
     j_reserved_tokens = 0,
     j_reserved_vram_mb = 0,
     j_reserved_ram_mb = 0,
     j_profile = None,
     j_file_chat = eq_file_chat rq,
     j_root_job_id = none_if_empty (strip_opt (eq_root_job_id rq)),
     j_parent_job_id = none_if_empty (strip_opt (eq_parent_job_id rq)),
     j_staging_id = none_if_empty (strip_opt (eq_staging_id rq)),
     j_parser_metadata = eq_parser_metadata rq,
     j_lifecycle_stage = none_if_empty (strip_opt (eq_lifecycle_stage rq)),
     j_child_job_id = none_if_empty (strip_opt (eq_child_job_id rq))\<rparr>"

text \<open>
  \<open>uuid\<close> is the value \<open>uuid.uuid4().hex\<close> would give. The effects before an exception
  are those of the listings (stale set members removed, the catalogue cached).
\<close>

definition enqueue_job ::
  "'s gateway \<Rightarrow> clock \<Rightarrow> string \<Rightarrow> enqueue_request \<Rightarrow> 's \<Rightarrow> (string, 's) outcome" where
  "enqueue_job g c uuid rq s = (case gw_redis g of
       None \<Rightarrow> (Inl (HTTPException 503 ''LLM control plane unavailable''), s)
     | Some R \<Rightarrow>
        (let requested_job_id = strip_opt (eq_job_id_override rq) in
         if requested_job_id \<noteq> [] \<and> get_job g requested_job_id s \<noteq> None then (Inr requested_job_id, s)
         else
          (let workload_class = normalize_workload_class (eq_workload_class rq);
               prio = normalize_priority workload_class (eq_priority rq);
               total_pending = get_total_pending_jobs g s
           in case dynamic_queue_limit g s of (limit, s) \<Rightarrow>
              if limit \<le> total_pending then (Inl (HTTPException 503 ''LLM queue is saturated''), s)
              else case get_model_catalog g c s of (cat, s) \<Rightarrow>
                let job_id = (if requested_job_id \<noteq> [] then requested_job_id else uuid) in
                if cat = [] then (Inl (HTTPException 503 ''No LLM models available''), s)
                else case (case map_of cat (eq_model_key rq) of None \<Rightarrow> map_of cat (eq_model_name rq)
                           | Some m \<Rightarrow> Some m) of
                    None \<Rightarrow> (Inl (HTTPException 404 (''LLM model not found: '' @
                        (let missing = py_strip (if eq_model_name rq \<noteq> [] then eq_model_name rq else eq_model_key rq)
                         in if missing = [] then ''unknown'' else missing))), s)
                  | Some info \<Rightarrow>
                    (case resolve_target_kind g workload_class s of (kind, s) \<Rightarrow>
                       let job = new_job (gw_cfg g) c rq job_id workload_class prio kind info;
                           s = SETEX R (JobKey job_id) (GJob job) (LLM_JOB_TTL_SECONDS (gw_cfg g)) s;
                           s = RPUSH R (PendingQueueKey workload_class prio) job_id s;
                           s = XADD R (EventsKey job_id) (own_event job_id EvQueued) s
                       in (Inr job_id, EXPIRE R (EventsKey job_id)
                             (LLM_EVENT_STREAM_TTL_SECONDS (gw_cfg g)) s)))))"

definition derived_child_job_id :: "'s gateway \<Rightarrow> string \<Rightarrow> string" where
  "derived_child_job_id g root_job_id = gw_uuid5 g (''parser-child:'' @ py_strip root_job_id)"

definition get_linked_child_job_id :: "'s gateway \<Rightarrow> string \<Rightarrow> 's \<Rightarrow> (string option, 's) outcome" where
  "get_linked_child_job_id g root_job_id s = (case get_job g root_job_id s of
       None \<Rightarrow> (Inr None, s)
     | Some root_job \<Rightarrow>
        (let existing_child_id = strip_opt (j_child_job_id root_job) in
         if existing_child_id \<noteq> [] then
           (case get_job g existing_child_id s of
              None \<Rightarrow> (Inl (RuntimeError ''Linked child job is missing''), s)
            | Some _ \<Rightarrow> (Inr (Some existing_child_id), s))
         else let derived_child_id = derived_child_job_id g root_job_id in
           (case get_job g derived_child_id s of None \<Rightarrow> (Inr None, s)
            | Some _ \<Rightarrow> (Inr (Some derived_child_id),
                saved g (root_job\<lparr>j_child_job_id := Some derived_child_id\<rparr>) s))))"

text \<open>The dictionary \<open>prepared_llm_job\<close> that the parser stage hands over.\<close>

record prepared_job =
  pl_job_kind :: "string option"
  pl_model_key :: string
  pl_model_name :: string
  pl_prompt :: string
  pl_history :: "message list"
  pl_thread_id :: "string option"
  pl_file_chat :: "metadata option"
  pl_workload_class :: "string option"
  pl_staging_id :: "string option"

definition child_request :: "string \<Rightarrow> job \<Rightarrow> string \<Rightarrow> prepared_job \<Rightarrow> enqueue_request" where
  "child_request root_job_id root_job child_job_id pl = \<lparr>
     eq_username = j_username root_job, eq_model_key = pl_model_key pl,
     eq_model_name = pl_model_name pl, eq_prompt = pl_prompt pl, eq_history = pl_history pl,
     eq_thread_id = pl_thread_id pl, eq_job_kind = ''file_chat'', eq_file_chat = pl_file_chat pl,
     eq_workload_class = the (str_or (pl_workload_class pl) (Some ''chat'')), eq_priority = None,
     eq_context_tokens = None, eq_max_output_tokens = None, eq_root_job_id = Some root_job_id,
     eq_parent_job_id = Some root_job_id,
     eq_staging_id = none_if_empty (strip_opt (str_or (pl_staging_id pl) (j_staging_id root_job))),
     eq_parser_metadata = None, eq_lifecycle_stage = None, eq_child_job_id = None,
     eq_job_id_override = Some child_job_id\<rparr>"

definition enqueue_child_job_once ::
  "'s gateway \<Rightarrow> clock \<Rightarrow> string \<Rightarrow> string \<Rightarrow> prepared_job \<Rightarrow> 's \<Rightarrow> (string \<times> bool, 's) outcome" where
  "enqueue_child_job_once g c uuid root_job_id pl s = (case get_job g root_job_id s of
       None \<Rightarrow> (Inl (RuntimeError ''Parser root job not found''), s)
     | Some root_job \<Rightarrow>
        (let existing_child_id = strip_opt (j_child_job_id root_job);
             child_job_id = derived_child_job_id g root_job_id;
             link = (\<lambda>child_job_id created s.
               let root_job = (case get_job g root_job_id s of Some r \<Rightarrow> r | None \<Rightarrow> root_job)
               in (Inr (child_job_id, created), saved g (root_job\<lparr>j_child_job_id := Some child_job_id\<rparr>) s))
         in if existing_child_id \<noteq> [] then
              (case get_job g existing_child_id s of
                 None \<Rightarrow> (Inl (RuntimeError ''Linked child job is missing''), s)
               | Some _ \<Rightarrow> (Inr (existing_child_id, False), s))
            else if terminal (j_status root_job) \<or> j_cancel_requested root_job
            then (Inl (ParserChildEnqueueCancelled ''Parser root was cancelled before child enqueue''), s)
            else case get_job g child_job_id s of
              Some _ \<Rightarrow> link child_job_id False s
            | None \<Rightarrow>
                if py_lower (strip_opt (pl_job_kind pl)) \<noteq> ''file_chat''
                then (Inl (RuntimeError ''Prepared child job must be file_chat''), s)
                else case enqueue_job g c uuid (child_request root_job_id root_job child_job_id pl) s of
                    (Inl e, s) \<Rightarrow> (Inl e, s)
                  | (Inr child_job_id, s) \<Rightarrow> link child_job_id True s))"

section \<open>Admission and claim\<close>

definition list_pending_candidates :: "'s gateway \<Rightarrow> int \<Rightarrow> 's \<Rightarrow> (gkey \<times> job) list" where
  "list_pending_candidates g scan_depth s = (case gw_redis g of None \<Rightarrow> []
     | Some R \<Rightarrow> concat (map (\<lambda>(w, p). let queue_key = PendingQueueKey w p in
         List.map_filter (\<lambda>job_id. case get_job g job_id s of None \<Rightarrow> None
             | Some job \<Rightarrow> if j_status job = Queued then Some (queue_key, job) else None)
           (LRANGE R queue_key 0 (max (scan_depth - 1) 0) s)) QUEUE_ORDER))"

definition admitted_job :: "settings \<Rightarrow> clock \<Rightarrow> string \<Rightarrow> admission \<Rightarrow> job \<Rightarrow> job" where
  "admitted_job cfg c target_id ad job =
     job\<lparr>j_status := Admitted, j_assigned_target_id := Some target_id,
         j_admitted_at := Some (now c), j_admitted_at_ms := Some (now_ms c),
         j_lease_until := Some (now c + SCHEDULER_JOB_LEASE_SECONDS cfg),
         j_reserved_tokens := ad_reserved_tokens ad, j_reserved_vram_mb := ad_reserved_vram_mb ad,
         j_reserved_ram_mb := ad_reserved_ram_mb ad, j_profile := Some (ad_profile ad)\<rparr>"

text \<open>The second half of \<open>try_admit_job\<close>, after the job has left its pending queue.\<close>

definition commit_admission ::
  "'s gredis \<Rightarrow> 's gateway \<Rightarrow> clock \<Rightarrow> string \<Rightarrow> string \<Rightarrow> admission \<Rightarrow> job \<Rightarrow> 's \<Rightarrow> 's" where
  "commit_admission R g c job_id target_id ad job s =
     (let s = book_usage R target_id (j_workload_class job) (ad_reserved_tokens ad)
            (ad_reserved_vram_mb ad) (ad_reserved_ram_mb ad) 1 s;
          s = HINCRBY R (TargetModelsKey target_id) (j_model_key job) 1 s;
          job = admitted_job (gw_cfg g) c target_id ad job;
          s = saved g job s;
          s = ZADD R ActiveJobsZset job_id (now c + SCHEDULER_JOB_LEASE_SECONDS (gw_cfg g)) s;
          s = RPUSH R (DispatchQueueKey (j_worker_pool job) target_id) job_id s
      in emit_event g job_id (own_event job_id (EvAdmitted target_id (ad_reserved_tokens ad))) s)"

definition try_admit_job :: "'s gateway \<Rightarrow> clock \<Rightarrow> string \<Rightarrow> gkey \<Rightarrow> target \<Rightarrow> 's \<Rightarrow> bool \<times> 's" where
  "try_admit_job g c job_id queue_key tgt s = (case gw_redis g of None \<Rightarrow> (False, s)
     | Some R \<Rightarrow> (case get_job g job_id s of None \<Rightarrow> (False, s)
       | Some job0 \<Rightarrow> if j_status job0 \<noteq> Queued then (False, s)
         else case downgrade_job_target_kind_if_needed g job0 s of (job, s) \<Rightarrow>
          (let target_id = tg_target_id tgt;
               s = (if j_target_kind job \<noteq> j_target_kind job0 then saved g job s else s);
               us = get_target_usage g target_id s
           in case evaluate_target_admission g (job_request job) tgt us s of None \<Rightarrow> (False, s)
             | Some ad \<Rightarrow> (case LREM R queue_key job_id s of (removed, s) \<Rightarrow>
                 if removed = 0 then (False, s)
                 else (True, commit_admission R g c job_id target_id ad job s)))))"

definition deadline_passed :: "clock \<Rightarrow> job \<Rightarrow> bool" where
  "deadline_passed c job \<longleftrightarrow> j_deadline_at job \<noteq> 0 \<and> j_deadline_at job \<le> now c"

definition claim_dispatch_job ::
  "'s gateway \<Rightarrow> clock \<Rightarrow> string \<Rightarrow> worker_pool \<Rightarrow> string \<Rightarrow> string option \<Rightarrow> 's \<Rightarrow> job option \<times> 's" where
  "claim_dispatch_job g c worker_id pool target_id expected_target_kind s = (case gw_redis g of
       None \<Rightarrow> (None, s)
     | Some R \<Rightarrow> (let destination = ProcessingQueueKey worker_id in
        case RPOPLPUSH R (DispatchQueueKey pool target_id) destination s of
          (None, s) \<Rightarrow> (None, s)
        | (Some job_id, s) \<Rightarrow> if job_id = [] then (None, s) else
           (case get_job g job_id s of None \<Rightarrow> (None, snd (LREM R destination job_id s))
            | Some job \<Rightarrow>
               if (case expected_target_kind of None \<Rightarrow> False
                   | Some k \<Rightarrow> j_target_kind job \<noteq> normalize_target_kind (Some k))
               then (let s = snd (LREM R destination job_id s);
                         s = release_reserved_capacity g job s;
                         s = ZREM R ActiveJobsZset job_id s
                     in (None, requeue_job_for_pending g c job ''target_kind_mismatch'' s))
               else if deadline_passed c job
               then (None, mark_job_failed g c job_id DEADLINE_EXCEEDED_ERROR (Some worker_id) s)
               else let
                   job = job\<lparr>j_status := Running, j_assigned_worker_id := Some worker_id,
                     j_started_at := Some (int_or (j_started_at job) (now c)),
                     j_started_at_ms := Some (int_or (j_started_at_ms job) (now_ms c))\<rparr>;
                   lease_until = now c + SCHEDULER_JOB_LEASE_SECONDS (gw_cfg g);
                   job = job\<lparr>j_queue_wait_ms := compute_queue_wait_ms job, j_lease_until := Some lease_until\<rparr>;
                   s = saved g job s;
                   s = ZADD R ActiveJobsZset job_id lease_until s
                 in (Some job, emit_event g job_id (own_event job_id (EvRunning target_id)) s))))"

definition renew_job_lease :: "'s gateway \<Rightarrow> clock \<Rightarrow> string \<Rightarrow> 's \<Rightarrow> 's" where
  "renew_job_lease g c job_id s = (case gw_redis g of None \<Rightarrow> s
     | Some R \<Rightarrow> (case get_job g job_id s of None \<Rightarrow> s
       | Some job \<Rightarrow> if j_status job \<noteq> Admitted \<and> j_status job \<noteq> Running then s
         else let lease_until = now c + SCHEDULER_JOB_LEASE_SECONDS (gw_cfg g)
           in ZADD R ActiveJobsZset job_id lease_until
                (saved g (job\<lparr>j_lease_until := Some lease_until\<rparr>) s)))"

section \<open>The decision\<close>

lemma build_model_profile_bounds:
  "1 \<le> pf_token_cost (build_model_profile cfg k n info p c m kind)"
  "64 \<le> pf_kv_cache_mb (build_model_profile cfg k n info p c m kind)"
  "256 \<le> pf_weights_mb (build_model_profile cfg k n info p c m kind)"
  "pf_runtime_overhead_mb (build_model_profile cfg k n info p c m kind) =
     (if kind = Gpu then LLM_GPU_RUNTIME_OVERHEAD_MB cfg else LLM_CPU_RUNTIME_OVERHEAD_MB cfg)"
  by (simp_all add: build_model_profile_def Let_def)

lemma request_profile_bounds:
  "1 \<le> pf_token_cost (request_profile cfg rq kind)"
  "64 \<le> pf_kv_cache_mb (request_profile cfg rq kind)"
  "256 \<le> pf_weights_mb (request_profile cfg rq kind)"
  "pf_runtime_overhead_mb (request_profile cfg rq kind) =
     (if kind = Gpu then LLM_GPU_RUNTIME_OVERHEAD_MB cfg else LLM_CPU_RUNTIME_OVERHEAD_MB cfg)"
  unfolding request_profile_def by (rule build_model_profile_bounds)+

lemma token_gate_total: "token_gate cfg w us eff cost \<Longrightarrow> us_reserved_tokens us + cost \<le> eff"
  by (simp add: token_gate_def Let_def)

lemma evaluate_cases:
  assumes "evaluate_target_admission g rq t us s = Some ad"
  obtains kind prof eff single where
    "kind = normalize_target_kind (Some (tg_target_kind t))"
    "kind = (case ar_target_kind rq of None \<Rightarrow> Cpu | Some k \<Rightarrow> k)"
    "prof = request_profile (gw_cfg g) rq kind"
    "single = cpu_single_slot_override kind us (pf_token_cost prof) (max 1 (tg_base_capacity_tokens t))"
    "eff = (if single then pf_token_cost prof else max 1 (tg_base_capacity_tokens t))"
    "token_gate (gw_cfg g) (ar_workload_class rq) us eff (pf_token_cost prof)"
    "kind = Gpu \<Longrightarrow> evaluate_gpu (gw_cfg g) prof t us (model_is_warm g rq t s) = Some ad"
    "kind = Cpu \<Longrightarrow> evaluate_cpu (gw_cfg g) (ar_workload_class rq) prof t us (model_is_warm g rq t s) eff single = Some ad"
proof -
  have base: "max 1 (int_or (Some (tg_base_capacity_tokens t)) 1) = max 1 (tg_base_capacity_tokens t)"
    by simp
  have none: "normalize_target_kind None = Cpu" by (simp add: normalize_target_kind_def py_lower_def)
  show thesis
    using assms that [OF refl _ refl refl refl]
    unfolding evaluate_target_admission_def Let_def base none
    by (cases "normalize_target_kind (Some (tg_target_kind t))") (auto split: if_splits)
qed

text \<open>The memory of one more job beside the weights, as the parallelism limits count it, and the memory a job reserves.\<close>

definition job_slot :: "settings \<Rightarrow> model_profile \<Rightarrow> int" where
  "job_slot cfg prof = max (max (pf_kv_cache_mb prof + pf_runtime_overhead_mb prof) (SCHEDULER_TOKEN_GRANULARITY_MB cfg)) 1"

definition job_need :: "model_profile \<Rightarrow> bool \<Rightarrow> int" where
  "job_need prof warm = pf_kv_cache_mb prof + pf_runtime_overhead_mb prof + (if warm then 0 else pf_weights_mb prof)"

lemma slots_fit: "n < max 1 (base div job_slot cfg prof) \<Longrightarrow> n \<le> 0 \<or> (n + 1) * job_slot cfg prof \<le> base"
proof -
  assume n: "n < max 1 (base div job_slot cfg prof)"
  have "0 < job_slot cfg prof" by (simp add: job_slot_def)
  then have "(n + 1) * job_slot cfg prof \<le> base" if "n + 1 \<le> base div job_slot cfg prof"
    using mult_right_mono [OF that, of "job_slot cfg prof"] div_mult_mod_eq [of base "job_slot cfg prof"]
      pos_mod_sign [of "job_slot cfg prof" base] by linarith
  then show ?thesis using n by linarith
qed

lemma evaluate_gpu_fits:
  assumes "evaluate_gpu cfg prof t us warm = Some ad"
  shows "ad_reserved_tokens ad = pf_token_cost prof"
    and "ad_reserved_ram_mb ad = 0"
    and "ad_reserved_vram_mb ad = pf_kv_cache_mb prof + pf_runtime_overhead_mb prof + (if warm then 0 else pf_weights_mb prof)"
    and "us_reserved_vram_mb us + ad_reserved_vram_mb ad
      \<le> max 0 (tg_vram_free_mb t - SCHEDULER_GPU_SAFETY_MARGIN_MB cfg - SCHEDULER_GPU_FRAGMENTATION_MARGIN_MB cfg)"
    and "us_active_jobs us \<le> 0 \<or> (us_active_jobs us + 1) * job_slot cfg prof
      \<le> max 0 (tg_vram_free_mb t - SCHEDULER_GPU_SAFETY_MARGIN_MB cfg - SCHEDULER_GPU_FRAGMENTATION_MARGIN_MB cfg)"
proof -
  define base where "base = max 0 (tg_vram_free_mb t - SCHEDULER_GPU_SAFETY_MARGIN_MB cfg
    - SCHEDULER_GPU_FRAGMENTATION_MARGIN_MB cfg)"
  define slots where "slots = base div job_slot cfg prof"
  define need where "need = pf_kv_cache_mb prof + pf_runtime_overhead_mb prof + (if warm then 0 else pf_weights_mb prof)"
  note gpu = assms [unfolded evaluate_gpu_def Let_def, folded base_def job_slot_def, folded slots_def need_def]
  have "us_active_jobs us < max 1 slots" using gpu by (auto split: if_splits)
  then show "us_active_jobs us \<le> 0 \<or> (us_active_jobs us + 1) * job_slot cfg prof
      \<le> max 0 (tg_vram_free_mb t - SCHEDULER_GPU_SAFETY_MARGIN_MB cfg - SCHEDULER_GPU_FRAGMENTATION_MARGIN_MB cfg)"
    unfolding base_def [symmetric] slots_def by (rule slots_fit)
  show "ad_reserved_tokens ad = pf_token_cost prof" and "ad_reserved_ram_mb ad = 0"
    using gpu by (auto split: if_splits)
  show vram: "ad_reserved_vram_mb ad = pf_kv_cache_mb prof + pf_runtime_overhead_mb prof + (if warm then 0 else pf_weights_mb prof)"
    unfolding need_def [symmetric] using gpu by (auto split: if_splits)
  show "us_reserved_vram_mb us + ad_reserved_vram_mb ad
      \<le> max 0 (tg_vram_free_mb t - SCHEDULER_GPU_SAFETY_MARGIN_MB cfg - SCHEDULER_GPU_FRAGMENTATION_MARGIN_MB cfg)"
    unfolding vram base_def [symmetric] need_def [symmetric] using gpu by (simp split: if_splits)
qed

lemma evaluate_cpu_fits:
  assumes "evaluate_cpu cfg w prof t us warm eff single = Some ad"
  shows "ad_reserved_tokens ad = pf_token_cost prof"
    and "ad_reserved_vram_mb ad = 0"
    and "ad_reserved_ram_mb ad = pf_kv_cache_mb prof + pf_runtime_overhead_mb prof + (if warm then 0 else pf_weights_mb prof)"
    and "us_reserved_ram_mb us + ad_reserved_ram_mb ad \<le> max 0 (tg_ram_free_mb t - SCHEDULER_RAM_SAFETY_MARGIN_MB cfg)
      \<or> w = Chat \<and> us_active_jobs us = 0 \<and> us_reserved_tokens us = 0 \<and> us_reserved_ram_mb us = 0
        \<and> \<not> warm \<and> 0 < max 0 (tg_ram_free_mb t - SCHEDULER_RAM_SAFETY_MARGIN_MB cfg)"
    and "us_active_jobs us < max 1 (int_or (Some (tg_cpu_count t)) 1)"
    and "SCHEDULER_CPU_LOAD_SHED_THRESHOLD cfg \<le> tg_cpu_percent t \<longrightarrow> \<not> 0 < us_active_jobs us"
    and "us_active_jobs us \<le> 0 \<or> us_active_jobs us + 1 \<le> int_or (Some (tg_cpu_count t)) 1
      \<and> (us_active_jobs us + 1) * job_slot cfg prof \<le> max 0 (tg_ram_free_mb t - SCHEDULER_RAM_SAFETY_MARGIN_MB cfg)"
proof -
  define base where "base = max 0 (tg_ram_free_mb t - SCHEDULER_RAM_SAFETY_MARGIN_MB cfg)"
  define slots where "slots = base div job_slot cfg prof"
  define need where "need = pf_kv_cache_mb prof + pf_runtime_overhead_mb prof + (if warm then 0 else pf_weights_mb prof)"
  define cpus where "cpus = int_or (Some (tg_cpu_count t)) 1"
  note cpu = assms [unfolded evaluate_cpu_def Let_def, folded base_def job_slot_def, folded slots_def need_def cpus_def]
  show "ad_reserved_tokens ad = pf_token_cost prof" and "ad_reserved_vram_mb ad = 0"
    using cpu by (auto split: if_splits)
  show ram: "ad_reserved_ram_mb ad = pf_kv_cache_mb prof + pf_runtime_overhead_mb prof + (if warm then 0 else pf_weights_mb prof)"
    unfolding need_def [symmetric] using cpu by (auto split: if_splits)
  show "us_reserved_ram_mb us + ad_reserved_ram_mb ad \<le> max 0 (tg_ram_free_mb t - SCHEDULER_RAM_SAFETY_MARGIN_MB cfg)
      \<or> w = Chat \<and> us_active_jobs us = 0 \<and> us_reserved_tokens us = 0 \<and> us_reserved_ram_mb us = 0
        \<and> \<not> warm \<and> 0 < max 0 (tg_ram_free_mb t - SCHEDULER_RAM_SAFETY_MARGIN_MB cfg)"
    unfolding ram base_def [symmetric] need_def [symmetric] using cpu
    by (cases "base - us_reserved_ram_mb us < need") (simp_all split: if_splits)
  have "us_active_jobs us < max 1 (min cpus slots)"
    by (rule ccontr) (use cpu in \<open>simp add: not_less split: if_splits\<close>)
  then show "us_active_jobs us < max 1 (int_or (Some (tg_cpu_count t)) 1)"
    unfolding cpus_def [symmetric] by linarith
  have "us_active_jobs us < max 1 (base div job_slot cfg prof)" "us_active_jobs us < max 1 cpus"
    using \<open>us_active_jobs us < max 1 (min cpus slots)\<close> unfolding slots_def by linarith+
  then show "us_active_jobs us \<le> 0 \<or> us_active_jobs us + 1 \<le> int_or (Some (tg_cpu_count t)) 1
      \<and> (us_active_jobs us + 1) * job_slot cfg prof \<le> max 0 (tg_ram_free_mb t - SCHEDULER_RAM_SAFETY_MARGIN_MB cfg)"
    unfolding base_def [symmetric] cpus_def [symmetric] using slots_fit by fastforce
  show "SCHEDULER_CPU_LOAD_SHED_THRESHOLD cfg \<le> tg_cpu_percent t \<longrightarrow> \<not> 0 < us_active_jobs us"
    using cpu by (simp split: if_splits)
qed

lemma evaluate_nonneg:
  assumes "evaluate_target_admission g rq t us s = Some ad"
    and "0 \<le> LLM_GPU_RUNTIME_OVERHEAD_MB (gw_cfg g)" and "0 \<le> LLM_CPU_RUNTIME_OVERHEAD_MB (gw_cfg g)"
  shows "1 \<le> ad_reserved_tokens ad \<and> 0 \<le> ad_reserved_vram_mb ad \<and> 0 \<le> ad_reserved_ram_mb ad"
proof (rule evaluate_cases [OF assms(1)])
  fix kind prof eff single
  assume k: "kind = normalize_target_kind (Some (tg_target_kind t))"
    and prof: "prof = request_profile (gw_cfg g) rq kind"
    and gpu: "kind = Gpu \<Longrightarrow> evaluate_gpu (gw_cfg g) prof t us (model_is_warm g rq t s) = Some ad"
    and cpu: "kind = Cpu \<Longrightarrow> evaluate_cpu (gw_cfg g) (ar_workload_class rq) prof t us (model_is_warm g rq t s) eff single = Some ad"
  have b: "1 \<le> pf_token_cost prof" "64 \<le> pf_kv_cache_mb prof" "256 \<le> pf_weights_mb prof"
    "0 \<le> pf_runtime_overhead_mb prof"
    using request_profile_bounds [of "gw_cfg g" rq kind] assms(2,3) by (simp_all add: prof)
  show ?thesis
    using b evaluate_gpu_fits(1-3) [OF gpu] evaluate_cpu_fits(1-3) [OF cpu] by (cases kind) auto
qed

lemma evaluate_budget:
  assumes "evaluate_target_admission g rq t us s = Some ad" and kind: "kind = normalize_target_kind (Some (tg_target_kind t))"
  shows "us_reserved_tokens us + ad_reserved_tokens ad \<le> max 1 (tg_base_capacity_tokens t)
      \<or> kind = Cpu \<and> us_active_jobs us = 0 \<and> us_reserved_tokens us = 0"
    and "kind = Gpu \<Longrightarrow> ad_reserved_ram_mb ad = 0 \<and> us_reserved_vram_mb us + ad_reserved_vram_mb ad \<le>
        max 0 (tg_vram_free_mb t - SCHEDULER_GPU_SAFETY_MARGIN_MB (gw_cfg g) - SCHEDULER_GPU_FRAGMENTATION_MARGIN_MB (gw_cfg g))"
    and "1 \<le> ad_reserved_tokens ad"
proof (atomize (full), rule evaluate_cases [OF assms(1)])
  fix kind' prof eff single
  assume k: "kind' = normalize_target_kind (Some (tg_target_kind t))"
    and prof: "prof = request_profile (gw_cfg g) rq kind'"
    and single: "single = cpu_single_slot_override kind' us (pf_token_cost prof) (max 1 (tg_base_capacity_tokens t))"
    and eff: "eff = (if single then pf_token_cost prof else max 1 (tg_base_capacity_tokens t))"
    and gate: "token_gate (gw_cfg g) (ar_workload_class rq) us eff (pf_token_cost prof)"
    and gpu: "kind' = Gpu \<Longrightarrow> evaluate_gpu (gw_cfg g) prof t us (model_is_warm g rq t s) = Some ad"
    and cpu: "kind' = Cpu \<Longrightarrow> evaluate_cpu (gw_cfg g) (ar_workload_class rq) prof t us (model_is_warm g rq t s) eff single = Some ad"
  have cost: "ad_reserved_tokens ad = pf_token_cost prof"
    using evaluate_gpu_fits(1) [OF gpu] evaluate_cpu_fits(1) [OF cpu] by (cases kind') auto
  have "us_reserved_tokens us + ad_reserved_tokens ad \<le> max 1 (tg_base_capacity_tokens t)
        \<or> kind = Cpu \<and> us_active_jobs us = 0 \<and> us_reserved_tokens us = 0"
    using token_gate_total [OF gate] k kind
    by (cases single) (auto simp: eff single cost cpu_single_slot_override_def)
  then show "(us_reserved_tokens us + ad_reserved_tokens ad \<le> max 1 (tg_base_capacity_tokens t)
        \<or> kind = Cpu \<and> us_active_jobs us = 0 \<and> us_reserved_tokens us = 0)
    \<and> (kind = Gpu \<longrightarrow> ad_reserved_ram_mb ad = 0 \<and> us_reserved_vram_mb us + ad_reserved_vram_mb ad \<le>
        max 0 (tg_vram_free_mb t - SCHEDULER_GPU_SAFETY_MARGIN_MB (gw_cfg g) - SCHEDULER_GPU_FRAGMENTATION_MARGIN_MB (gw_cfg g)))
    \<and> 1 \<le> ad_reserved_tokens ad"
    using evaluate_gpu_fits(2,4) [OF gpu] cost request_profile_bounds(1) [of "gw_cfg g" rq kind'] k kind prof
    by (intro conjI impI) (simp_all only:)
qed

lemma evaluate_kind:
  "evaluate_target_admission g rq t us s = Some ad \<Longrightarrow>
    (case ar_target_kind rq of None \<Rightarrow> Cpu | Some k \<Rightarrow> k) = normalize_target_kind (Some (tg_target_kind t))"
  by (erule evaluate_cases) simp

lemma model_is_warm_cong:
  assumes "gateway_store R view g" and "hashes (view s) = hashes (view s')"
  shows "model_is_warm g rq t s = model_is_warm g rq t s'"
proof -
  have "HGET R k f s = HGET R k f s'" for k f
    using redis_store.hget_law [OF gateway_store.axioms(1) [OF assms(1)]] assms(2) by simp
  then show ?thesis
    using gateway_store.axioms(2) [OF assms(1)] by (simp add: model_is_warm_def gateway_store_axioms_def)
qed

section \<open>Admission of a job\<close>

definition retargeted :: "target_kind \<Rightarrow> job \<Rightarrow> job" where
  "retargeted k job = job\<lparr>j_target_kind := k\<rparr>"

lemma retargeted_simps [simp]:
  "j_id (retargeted k j) = j_id j" "j_status (retargeted k j) = j_status j"
  "j_worker_pool (retargeted k j) = j_worker_pool j" "j_model_key (retargeted k j) = j_model_key j"
  "j_workload_class (retargeted k j) = j_workload_class j"
  "j_assigned_target_id (retargeted k j) = j_assigned_target_id j"
  "j_root_job_id (retargeted k j) = j_root_job_id j" "j_target_kind (retargeted k j) = k"
  "retargeted (j_target_kind j) j = j"
  by (simp_all add: retargeted_def)

lemma retargeted_same_claim: "same_claim (retargeted k j) j"
  by (simp add: same_claim_def retargeted_def)

lemma admitted_job_simps [simp]:
  "j_id (admitted_job cfg c t ad j) = j_id j" "j_status (admitted_job cfg c t ad j) = Admitted"
  "j_assigned_target_id (admitted_job cfg c t ad j) = Some t"
  "j_worker_pool (admitted_job cfg c t ad j) = j_worker_pool j"
  "j_model_key (admitted_job cfg c t ad j) = j_model_key j"
  "j_root_job_id (admitted_job cfg c t ad j) = j_root_job_id j"
  "job_charge (admitted_job cfg c t ad j) = charge (j_workload_class j) (ad_reserved_tokens ad)
     (ad_reserved_vram_mb ad) (ad_reserved_ram_mb ad) 1"
  by (simp_all add: admitted_job_def job_charge_def)

context gateway_store
begin

lemma get_target_usage_eq:
  "us_reserved_tokens (get_target_usage g t s) = usage (view s) t ''reserved_tokens''"
  "us_reserved_vram_mb (get_target_usage g t s) = usage (view s) t ''reserved_vram_mb''"
  "us_reserved_ram_mb (get_target_usage g t s) = usage (view s) t ''reserved_ram_mb''"
  "us_active_jobs (get_target_usage g t s) = usage (view s) t ''active_jobs''"
  "us_reserved_tokens_chat (get_target_usage g t s) = usage (view s) t (workload_field Chat)"
  "us_reserved_tokens_siem (get_target_usage g t s) = usage (view s) t (workload_field Siem)"
  by (simp_all add: get_target_usage_def connected hgetall_law usage_def Let_def)

lemma get_target_usage_cong:
  "hashes (view s) = hashes (view s') \<Longrightarrow> get_target_usage g t s = get_target_usage g t s'"
  by (simp add: get_target_usage_def connected hgetall_law)

lemma evaluate_cong:
  "hashes (view s) = hashes (view s') \<Longrightarrow>
    evaluate_target_admission g rq t us s = evaluate_target_admission g rq t us s'"
  by (simp only: evaluate_target_admission_def model_is_warm_cong [OF gateway_store_axioms, of s s'])

lemma commit_admission_view:
  shows "jobs (view (commit_admission R g c i t ad j s)) =
      (jobs (view s))(j_id j := Some (admitted_job (gw_cfg g) c t ad j))"
    and "usage (view (commit_admission R g c i t ad j s)) t' f = usage (view s) t' f
      + (if t' = t then job_charge (admitted_job (gw_cfg g) c t ad j) f else 0)"
    and "model_refs (view (commit_admission R g c i t ad j s)) t' m = model_refs (view s) t' m
      + (if t' = t \<and> m = j_model_key j then 1 else 0)"
    and "lists (view (commit_admission R g c i t ad j s)) = (lists (view s))(DispatchQueueKey (j_worker_pool j) t :=
      lists (view s) (DispatchQueueKey (j_worker_pool j) t) @ [i])"
    and "zsets (view (commit_admission R g c i t ad j s)) = (zsets (view s))(ActiveJobsZset :=
      zset_add i (now c + SCHEDULER_JOB_LEASE_SECONDS (gw_cfg g)) (zsets (view s) ActiveJobsZset))"
proof -
  define s1 where "s1 = book_usage R t (j_workload_class j) (ad_reserved_tokens ad)
            (ad_reserved_vram_mb ad) (ad_reserved_ram_mb ad) 1 s"
  define s2 where "s2 = HINCRBY R (TargetModelsKey t) (j_model_key j) 1 s1"
  define s3 where "s3 = saved g (admitted_job (gw_cfg g) c t ad j) s2"
  note eq = commit_admission_def [of R g c i t ad j s, unfolded Let_def, folded s1_def, folded s2_def, folded s3_def]
  have "jobs (view (commit_admission R g c i t ad j s)) = jobs (view s3)"
    by (rule jobs_cong) (simp add: eq rpush_law zadd_law)
  moreover have "jobs (view s2) = jobs (view s)"
    by (rule jobs_cong) (simp add: s2_def s1_def hincrby_law)
  ultimately show "jobs (view (commit_admission R g c i t ad j s)) =
      (jobs (view s))(j_id j := Some (admitted_job (gw_cfg g) c t ad j))"
    by (simp add: s3_def del: saved_view)
  have h: "hashes (view (commit_admission R g c i t ad j s)) = hashes (view s2)"
    by (simp add: eq s3_def rpush_law zadd_law)
  have u: "usage (view s2) = usage (view s1)"
    by (simp add: s2_def usage_def fun_eq_iff hincrby_law)
  show "usage (view (commit_admission R g c i t ad j s)) t' f = usage (view s) t' f
      + (if t' = t then job_charge (admitted_job (gw_cfg g) c t ad j) f else 0)"
    unfolding usage_cong [OF h] u by (simp add: s1_def book_usage_hashes(1))
  have "model_refs (view s2) t' m = model_refs (view s1) t' m + (if t' = t \<and> m = j_model_key j then 1 else 0)"
    by (simp add: s2_def model_refs_def hincrby_law hash_incr_value)
  then show "model_refs (view (commit_admission R g c i t ad j s)) t' m = model_refs (view s) t' m
      + (if t' = t \<and> m = j_model_key j then 1 else 0)"
    unfolding model_refs_cong [OF h] by (simp add: s1_def book_usage_hashes(2))
  show "lists (view (commit_admission R g c i t ad j s)) = (lists (view s))(DispatchQueueKey (j_worker_pool j) t :=
      lists (view s) (DispatchQueueKey (j_worker_pool j) t) @ [i])"
    and "zsets (view (commit_admission R g c i t ad j s)) = (zsets (view s))(ActiveJobsZset :=
      zset_add i (now c + SCHEDULER_JOB_LEASE_SECONDS (gw_cfg g)) (zsets (view s) ActiveJobsZset))"
    by (simp_all add: eq s3_def s2_def s1_def rpush_law zadd_law hincrby_law)
qed

text \<open>
  The two outcomes of \<open>try_admit_job\<close>. Without admission only the target kind of the
  queued job can change. With admission the job was queued and in the given queue, and
  the decision was positive for the counters of the target.
\<close>

definition retargeting :: "string \<Rightarrow> job \<Rightarrow> target_kind \<Rightarrow> 's \<Rightarrow> 's \<Rightarrow> bool" where
  "retargeting i j k s s1 \<longleftrightarrow> jobs (view s1) = (jobs (view s))(i := Some (retargeted k j))
     \<and> hashes (view s1) = hashes (view s) \<and> lists (view s1) = lists (view s) \<and> zsets (view s1) = zsets (view s)"

lemma try_admit_cases:
  assumes wf: "wf_jobs (jobs (view s))" and res: "try_admit_job g c i q t s = (ok, s')"
  obtains (refused) "\<not> ok" "s' = s"
  | (kept) j k where "\<not> ok" "jobs (view s) i = Some j" "j_status j = Queued" "retargeting i j k s s'"
  | (admitted) j k ad s1 where "ok" "jobs (view s) i = Some j" "j_status j = Queued"
      "i \<in> set (lists (view s) q)" "retargeting i j k s s1"
      "evaluate_target_admission g (job_request (retargeted k j)) t (get_target_usage g (tg_target_id t) s) s = Some ad"
      "s' = commit_admission R g c i (tg_target_id t) ad (retargeted k j) (snd (LREM R q i s1))"
proof (cases "\<exists>j. jobs (view s) i = Some j \<and> j_status j = Queued")
  case False
  then have "try_admit_job g c i q t s = (False, s)"
    by (auto simp: try_admit_job_def connected split: option.split)
  with res refused show thesis by simp
next
  case True
  then obtain j where j: "jobs (view s) i = Some j" "j_status j = Queued" by blast
  have id: "j_id j = i" using wf_jobsD [OF wf j(1)] by simp
  obtain d s0 k where d: "downgrade_job_target_kind_if_needed g j s = (d, s0)" "d = retargeted k j"
    using downgrade_job [of j s] by (cases "downgrade_job_target_kind_if_needed g j s") (simp add: retargeted_def)
  define s1 where "s1 = (if k \<noteq> j_target_kind j then saved g (retargeted k j) s0 else s0)"
  have fr: "strs (view s0) = strs (view s)" "hashes (view s0) = hashes (view s)"
    "lists (view s0) = lists (view s)" "zsets (view s0) = zsets (view s)"
    using downgrade_frame [of j s] by (simp_all add: d(1))
  have re: "retargeting i j k s s1"
  proof (cases "k = j_target_kind j")
    case True
    then show ?thesis using fr j jobs_cong [OF fr(1)] by (auto simp: retargeting_def s1_def)
  next
    case False
    then show ?thesis using fr id jobs_saved [of "retargeted k j" s0] jobs_cong [OF fr(1)]
      by (auto simp: retargeting_def s1_def)
  qed
  then have h1: "hashes (view s1) = hashes (view s)" and l1: "lists (view s1) = lists (view s)"
    by (simp_all add: retargeting_def)
  define ev where "ev = evaluate_target_admission g (job_request (retargeted k j)) t (get_target_usage g (tg_target_id t) s1) s1"
  have ev: "evaluate_target_admission g (job_request (retargeted k j)) t (get_target_usage g (tg_target_id t) s) s = ev"
    unfolding ev_def get_target_usage_cong [OF h1] evaluate_cong [OF h1] ..
  have eq: "try_admit_job g c i q t s = (case ev of None \<Rightarrow> (False, s1)
     | Some ad \<Rightarrow> if fst (LREM R q i s1) = 0 then (False, snd (LREM R q i s1))
        else (True, commit_admission R g c i (tg_target_id t) ad (retargeted k j) (snd (LREM R q i s1))))"
    using j d by (cases "k = j_target_kind j")
      (simp_all add: try_admit_job_def connected case_prod_beta Let_def s1_def ev_def split: option.split)
  show thesis
  proof (cases "ev = None \<or> i \<notin> set (lists (view s) q)")
    case True
    then have "\<not> ok" and "s' = s1 \<or> s' = snd (LREM R q i s1) \<and> i \<notin> set (lists (view s) q)"
      using res eq by (auto simp: lrem_count_law l1 split: option.splits if_splits)
    moreover from this(2) have "retargeting i j k s s'"
      using re by (auto simp: retargeting_def lrem_law remove1_idem)
    ultimately show thesis using j by (intro kept)
  next
    case False
    then obtain ad where "ev = Some ad" and "i \<in> set (lists (view s) q)" by auto
    then show thesis
      using res eq j re ev by (intro admitted [of j k s1 ad]) (auto simp: lrem_count_law l1)
  qed
qed

lemma retargeting_ledger:
  assumes led: "ledger (view s)" and i: "jobs (view s) i = Some j" and re: "retargeting i j k s s'"
  shows "ledger (view s')"
proof -
  have wf: "j_id j = i" "wf_job j" using led i by (auto simp: ledger_def wf_jobs_def)
  have J: "jobs (view s') = (jobs (view s))(i := Some (retargeted k j))"
    and h: "hashes (view s') = hashes (view s)"
    using re by (simp_all add: retargeting_def)
  have wfr: "wf_job (retargeted k j)" using wf by (simp add: wf_job_def retargeted_def)
  show ?thesis
    by (rule ledger_same_weight [OF led J])
      (use i wf wfr h in \<open>simp_all add: weight_at_def same_claim_held [OF retargeted_same_claim]\<close>)
qed

lemma try_admit_ledger:
  assumes led: "ledger (view s)" and t: "tg_target_id t \<noteq> []"
    and overhead: "0 \<le> LLM_GPU_RUNTIME_OVERHEAD_MB (gw_cfg g)" "0 \<le> LLM_CPU_RUNTIME_OVERHEAD_MB (gw_cfg g)"
  shows "ledger (view (snd (try_admit_job g c i q t s)))"
proof -
  obtain ok s' where res: "try_admit_job g c i q t s = (ok, s')" by fastforce
  have wfJ: "wf_jobs (jobs (view s))" using led by (simp add: ledger_def)
  from wfJ res have "ledger (view s')"
  proof (cases rule: try_admit_cases)
    case refused
    with led show ?thesis by simp
  next
    case (kept j k)
    with led show ?thesis by (blast intro: retargeting_ledger)
  next
    case (admitted j k ad s1)
    define a where "a = admitted_job (gw_cfg g) c (tg_target_id t) ad (retargeted k j)"
    have wf: "j_id j = i" "wf_job j" using wf_jobsD [OF wfJ admitted(2)] by simp_all
    have none: "j_assigned_target_id j = None" using wf admitted(3) by (simp add: wf_job_def)
    have re: "jobs (view s1) = (jobs (view s))(i := Some (retargeted k j))"
      "usage (view s1) = usage (view s)" "model_refs (view s1) = model_refs (view s)"
      using admitted(5) usage_cong [of "view s1" "view s"] model_refs_cong [of "view s1" "view s"]
      by (simp_all add: retargeting_def)
    have ad: "0 \<le> ad_reserved_tokens ad" "0 \<le> ad_reserved_vram_mb ad" "0 \<le> ad_reserved_ram_mb ad"
      using evaluate_nonneg [OF admitted(6) overhead] by auto
    have J: "jobs (view s') = (jobs (view s))(i := Some a)"
      by (simp add: admitted(7) commit_admission_view(1) re wf a_def)
    have wfa: "j_id a = i" "wf_job a"
      using wf t ad by (simp_all add: a_def wf_job_def admitted_job_def)
    have hold: "holds t' a \<longleftrightarrow> t' = tg_target_id t" for t'
      by (auto simp: holds_def a_def)
    have zero: "weight_at (held t' f) (jobs (view s)) i = 0" "weight_at (held_model t' f) (jobs (view s)) i = 0" for t' f
      using none by (simp_all add: weight_at_def admitted(2) held_def held_model_def holds_def)
    show ?thesis
      by (rule ledger_step [OF led J wfa])
        (auto simp: admitted(7) commit_admission_view re zero held_def held_model_def hold [unfolded a_def] a_def)
  qed
  then show ?thesis by (simp add: res)
qed

end

section \<open>Enqueueing\<close>

context gateway_store
begin

lemma catalog_frame [simp]:
  "jobs (view (snd (get_model_catalog g c s))) = jobs (view s)"
  "lists (view (snd (get_model_catalog g c s))) = lists (view s)"
  "zsets (view (snd (get_model_catalog g c s))) = zsets (view s)"
  "hashes (view (snd (get_model_catalog g c s))) = hashes (view s)"
  "streams (view (snd (get_model_catalog g c s))) = streams (view s)"
  by (auto simp: get_model_catalog_def set_model_catalog_def connected Let_def setex_law jobs_def fun_eq_iff
      split: option.split gval.split list.split)

lemma dynamic_limit_frame [simp]:
  "strs (view (snd (dynamic_queue_limit g s))) = strs (view s)"
  "lists (view (snd (dynamic_queue_limit g s))) = lists (view s)"
  "zsets (view (snd (dynamic_queue_limit g s))) = zsets (view s)"
  "hashes (view (snd (dynamic_queue_limit g s))) = hashes (view s)"
  "streams (view (snd (dynamic_queue_limit g s))) = streams (view s)"
  by (simp_all add: dynamic_queue_limit_def case_prod_beta Let_def)

lemma jobs_frames [simp]:
  "jobs (view (snd (dynamic_queue_limit g s))) = jobs (view s)"
  "jobs (view (snd (resolve_target_kind g w s))) = jobs (view s)"
  by (auto intro: jobs_cong)

lemma pending_total: "get_total_pending_jobs g s = (\<Sum>(w, p)\<leftarrow>QUEUE_ORDER. len (lists (view s) (PendingQueueKey w p)))"
  by (simp add: get_total_pending_jobs_def connected llen_law)

text \<open>Everything but the sets of targets and workers and the cached catalogue is as before.\<close>

definition unchanged :: "'s \<Rightarrow> 's \<Rightarrow> bool" where
  "unchanged s s' \<longleftrightarrow> jobs (view s') = jobs (view s) \<and> lists (view s') = lists (view s)
     \<and> zsets (view s') = zsets (view s) \<and> hashes (view s') = hashes (view s) \<and> streams (view s') = streams (view s)"

lemma unchanged_ledger: "ledger (view s) \<Longrightarrow> unchanged s s' \<Longrightarrow> ledger (view s')"
  using ledger_cong [of "view s" "view s'"] usage_cong [of "view s'" "view s"]
    model_refs_cong [of "view s'" "view s"] by (simp add: unchanged_def)

lemma enqueue_cases:
  assumes res: "enqueue_job g c uuid rq s = (r, s')"
  obtains (existing) "r = Inr (strip_opt (eq_job_id_override rq))" "s' = s"
      "strip_opt (eq_job_id_override rq) \<noteq> []" "jobs (view s) (strip_opt (eq_job_id_override rq)) \<noteq> None"
  | (failed) e where "r = Inl e" "unchanged s s'"
  | (queued) i w p kind info s1 where "r = Inr i"
      "i = (if strip_opt (eq_job_id_override rq) \<noteq> [] then strip_opt (eq_job_id_override rq) else uuid)"
      "strip_opt (eq_job_id_override rq) \<noteq> [] \<Longrightarrow> jobs (view s) i = None"
      "w = normalize_workload_class (eq_workload_class rq)" "p = normalize_priority w (eq_priority rq)"
      "get_total_pending_jobs g s < fst (dynamic_queue_limit g s)" "unchanged s s1"
      "view s' = (view s1)\<lparr>
        strs := (strs (view s1))(JobKey i := Some (GJob (new_job (gw_cfg g) c rq i w p kind info))),
        lists := (lists (view s1))(PendingQueueKey w p := lists (view s1) (PendingQueueKey w p) @ [i]),
        streams := (streams (view s1))(EventsKey i := streams (view s1) (EventsKey i) @ [own_event i EvQueued])\<rparr>"
proof (cases "strip_opt (eq_job_id_override rq) \<noteq> [] \<and> jobs (view s) (strip_opt (eq_job_id_override rq)) \<noteq> None")
  case True
  with res have "r = Inr (strip_opt (eq_job_id_override rq))" "s' = s"
    by (auto simp: enqueue_job_def connected)
  with True existing show thesis by blast
next
  case False
  define w where "w = normalize_workload_class (eq_workload_class rq)"
  define p where "p = normalize_priority w (eq_priority rq)"
  define i where "i = (if strip_opt (eq_job_id_override rq) \<noteq> [] then strip_opt (eq_job_id_override rq) else uuid)"
  define s1 where "s1 = snd (dynamic_queue_limit g s)"
  define s2 where "s2 = snd (get_model_catalog g c s1)"
  define s3 where "s3 = snd (resolve_target_kind g w s2)"
  have un: "unchanged s s1" "unchanged s s2" "unchanged s s3"
    by (simp_all add: unchanged_def s1_def s2_def s3_def)
  note enq = res [unfolded enqueue_job_def connected option.case get_job_eq Let_def case_prod_beta if_not_P [OF False],
      folded w_def, folded p_def i_def, folded s1_def, folded s2_def, folded s3_def]
  show thesis
  proof (cases "\<exists>e. r = Inl e")
    case True
    with enq un show thesis by (auto intro: failed split: if_splits option.splits)
  next
    case ok: False
    have limit: "get_total_pending_jobs g s < fst (dynamic_queue_limit g s)"
      by (rule ccontr) (use enq ok in \<open>auto simp: not_less\<close>)
    with enq ok obtain kind info where "r = Inr i"
      "s' = EXPIRE R (EventsKey i) (LLM_EVENT_STREAM_TTL_SECONDS (gw_cfg g)) (XADD R (EventsKey i) (own_event i EvQueued)
         (RPUSH R (PendingQueueKey w p) i (SETEX R (JobKey i) (GJob (new_job (gw_cfg g) c rq i w p kind info))
           (LLM_JOB_TTL_SECONDS (gw_cfg g)) s3)))"
      by (auto split: if_splits option.splits)
    then show thesis
      using False limit un(3) by (intro queued [of i w p s3 kind info])
        (auto simp: i_def w_def p_def expire_law xadd_law rpush_law setex_law)
  qed
qed

lemma new_job_wf: "wf_job (new_job cfg c rq i w p kind info)"
  by (simp add: new_job_def wf_job_def)

lemma enqueue_ledger:
  assumes led: "ledger (view s)" and fresh: "jobs (view s) uuid = None"
  shows "ledger (view (snd (enqueue_job g c uuid rq s)))"
proof -
  obtain r s' where res: "enqueue_job g c uuid rq s = (r, s')" by fastforce
  then have "ledger (view s')"
  proof (cases rule: enqueue_cases)
    case (queued i w p kind info s1)
    let ?j = "new_job (gw_cfg g) c rq i w p kind info"
    have J: "jobs (view s') = (jobs (view s1))(i := Some ?j)"
      by (rule jobs_upd) (simp add: queued(8))
    have none: "jobs (view s1) i = None"
      using queued(2,3,7) fresh by (auto simp: unchanged_def split: if_splits)
    show ?thesis
      by (rule ledger_same_weight [OF unchanged_ledger [OF led queued(7)] J])
        (simp_all add: new_job_wf weight_at_def none queued(8) held_def held_model_def holds_def, simp_all add: new_job_def)
  qed (use led in \<open>auto intro: unchanged_ledger\<close>)
  then show ?thesis by (simp add: res)
qed

end

section \<open>Capacity after an admission\<close>

lemma charge_fields:
  "charge w a b c n ''reserved_tokens'' = a" "charge w a b c n ''reserved_vram_mb'' = b"
  "charge w a b c n ''reserved_ram_mb'' = c" "charge w a b c n ''active_jobs'' = n"
  by (cases w; simp add: charge_def workload_field_def)+

context gateway_store
begin

lemma admitted_usage:
  assumes led: "ledger (view s)" and t: "tg_target_id t \<noteq> []"
    and overhead: "0 \<le> LLM_GPU_RUNTIME_OVERHEAD_MB (gw_cfg g)" "0 \<le> LLM_CPU_RUNTIME_OVERHEAD_MB (gw_cfg g)"
    and res: "try_admit_job g c i q t s = (True, s')"
  obtains j k ad us where "jobs (view s) i = Some j" "j_status j = Queued" "us = get_target_usage g (tg_target_id t) s"
    "evaluate_target_admission g (job_request (retargeted k j)) t us s = Some ad"
    "jobs (view s') = (jobs (view s))(i := Some (admitted_job (gw_cfg g) c (tg_target_id t) ad (retargeted k j)))"
    "total (held (tg_target_id t) ''reserved_tokens'') (jobs (view s')) = us_reserved_tokens us + ad_reserved_tokens ad"
    "total (held (tg_target_id t) ''reserved_vram_mb'') (jobs (view s')) = us_reserved_vram_mb us + ad_reserved_vram_mb ad"
    "total (held (tg_target_id t) ''active_jobs'') (jobs (view s')) = us_active_jobs us + 1"
    "i \<in> set (lists (view s) q)"
    "lists (view s') = (let ls = (lists (view s))(q := remove1 i (lists (view s) q));
        d = DispatchQueueKey (j_worker_pool j) (tg_target_id t) in ls(d := ls d @ [i]))"
proof -
  have wfJ: "wf_jobs (jobs (view s))" using led by (simp add: ledger_def)
  have "ledger (view s')"
    using try_admit_ledger [OF led t overhead, of c i q] by (simp add: res)
  then have tot: "total (held t' f) (jobs (view s')) = usage (view s') t' f" for t' f
    by (simp add: ledger_def)
  from wfJ res show thesis
  proof (cases rule: try_admit_cases)
    case (admitted j k ad s1)
    have u: "usage (view s1) = usage (view s)" and l: "lists (view s1) = lists (view s)"
      and J1: "jobs (view s1) = (jobs (view s))(i := Some (retargeted k j))"
      using admitted(5) usage_cong [of "view s1" "view s"] by (simp_all add: retargeting_def)
    have id: "j_id j = i" using wf_jobsD [OF wfJ admitted(2)] by simp
    have "total (held (tg_target_id t) f) (jobs (view s')) = usage (view s) (tg_target_id t) f
        + charge (j_workload_class j) (ad_reserved_tokens ad) (ad_reserved_vram_mb ad) (ad_reserved_ram_mb ad) 1 f" for f
      unfolding tot by (simp add: admitted(7) commit_admission_view u)
    moreover have "jobs (view s') = (jobs (view s))(i := Some (admitted_job (gw_cfg g) c (tg_target_id t) ad (retargeted k j)))"
      by (simp add: admitted(7) commit_admission_view J1 id)
    moreover have "lists (view s') = (let ls = (lists (view s))(q := remove1 i (lists (view s) q));
        d = DispatchQueueKey (j_worker_pool j) (tg_target_id t) in ls(d := ls d @ [i]))"
      by (simp add: admitted(7) commit_admission_view l lrem_law Let_def)
    ultimately show thesis
      using admitted(4) by (intro that [OF admitted(2,3) refl admitted(6)]) (simp_all add: charge_fields get_target_usage_eq)
  qed simp_all
qed

end

section \<open>An example target\<close>

definition demo_cfg :: settings where
  "demo_cfg = default_settings\<lparr>LLM_CPU_WEIGHT_MULTIPLIER := 1, LLM_CPU_RUNTIME_OVERHEAD_MB := 384\<rparr>"

definition demo_target :: target where
  "demo_target = \<lparr>tg_target_id = ''t1'', tg_node_id = ''n1'', tg_target_kind = ''cpu'', tg_cpu_count = 8,
     tg_cpu_percent = 10, tg_ram_total_mb = 32768, tg_ram_free_mb = 16384, tg_vram_total_mb = 0,
     tg_vram_free_mb = 0, tg_loaded_models = [], tg_pinned_models = [], tg_base_capacity_tokens = 16, tg_last_seen = 100\<rparr>"

lemma demo_profile: "request_profile demo_cfg (job_request demo_job) Cpu =
    \<lparr>pf_model_key = ''m'', pf_model_name = ''m'', pf_weights_mb = 256, pf_kv_cache_mb = 384,
     pf_runtime_overhead_mb = 384, pf_total_mb = 1024, pf_token_cost = 2\<rparr>"
  by (simp add: request_profile_def build_model_profile_def job_request_def demo_job_def demo_model_def demo_cfg_def
      default_settings_def Let_def py_truediv_def py_mul_float_def fl_numeral)

lemma demo_kind: "normalize_target_kind (Some (tg_target_kind demo_target)) = Cpu"
  by (simp add: normalize_target_kind_def demo_target_def strip_opt_def py_strip_def py_lstrip_def py_rstrip_def
      py_isspace_def py_lower_def py_lower_char_def cp1251_upper_def)

lemma demo_warm: "model_is_warm (mem_gateway demo_cfg) (job_request demo_job) demo_target empty_keyspace = False"
  by (simp add: model_is_warm_def mem_gateway_def mem_redis_def empty_keyspace_def demo_target_def)

lemma demo_admission: "\<exists>ad. evaluate_target_admission (mem_gateway demo_cfg) (job_request demo_job) demo_target
    (get_target_usage (mem_gateway demo_cfg) ''t1'' empty_keyspace) empty_keyspace = Some ad \<and> ad_reserved_tokens ad = 2"
proof -
  have r: "py_mul_float 16 (1 / 2) = 8" "py_mul_float 16 (1 / 4) = 4"
    by (simp_all add: py_mul_float_def fl_numeral)
  have cfg: "gw_cfg (mem_gateway demo_cfg) = demo_cfg" by (simp add: mem_gateway_def)
  have us: "get_target_usage (mem_gateway demo_cfg) ''t1'' empty_keyspace = \<lparr>us_reserved_vram_mb = 0,
      us_reserved_ram_mb = 0, us_reserved_tokens = 0, us_active_jobs = 0, us_reserved_tokens_chat = 0,
      us_reserved_tokens_siem = 0, us_reserved_tokens_batch = 0\<rparr>"
    by (simp add: get_target_usage_def mem_gateway_def mem_redis_def empty_keyspace_def)
  have rq: "ar_target_kind (job_request demo_job) = Some Cpu" "ar_workload_class (job_request demo_job) = Chat"
    by (simp_all add: job_request_def demo_job_def)
  show ?thesis
    unfolding evaluate_target_admission_def Let_def us cfg demo_kind demo_profile demo_warm rq
    by (simp add: cpu_single_slot_override_def token_gate_def demo_target_def evaluate_cpu_def demo_cfg_def
        default_settings_def r)
qed

text \<open>The same job while it waits in its pending queue.\<close>

definition queued_job :: job where
  "queued_job = demo_job\<lparr>j_status := Queued, j_assigned_target_id := None, j_assigned_worker_id := None,
     j_lease_until := None, j_reserved_tokens := 0, j_reserved_ram_mb := 0\<rparr>"

definition queued_space :: gspace where
  "queued_space = empty_keyspace\<lparr>strs := (\<lambda>k. if k = JobKey ''j1'' then Some (GJob queued_job) else None),
     lists := (\<lambda>k. if k = PendingQueueKey Chat P1 then [''j1''] else [])\<rparr>"

lemma queued_jobs: "jobs queued_space = [''j1'' \<mapsto> queued_job]"
  by (auto simp: jobs_def queued_space_def)

lemma queued_ledger: "ledger queued_space"
proof -
  have "wf_jobs (jobs queued_space)"
    by (auto simp: wf_jobs_def queued_jobs wf_job_def queued_job_def demo_job_def split: if_splits)
  then show ?thesis
    by (simp add: ledger_def queued_jobs total_def held_def held_model_def holds_def usage_def model_refs_def)
      (simp add: queued_space_def empty_keyspace_def queued_job_def)
qed

lemma queued_admitted: "fst (try_admit_job (mem_gateway demo_cfg) c ''j1'' (PendingQueueKey Chat P1) demo_target queued_space)"
proof -
  have rq: "job_request queued_job = job_request demo_job"
    by (simp add: job_request_def queued_job_def)
  have h: "hashes queued_space = hashes (empty_keyspace :: gspace)"
    by (simp add: queued_space_def)
  have "downgrade_job_target_kind_if_needed (mem_gateway demo_cfg) queued_job queued_space = (queued_job, queued_space)"
    by (simp add: downgrade_job_target_kind_if_needed_def queued_job_def demo_job_def)
  moreover have "\<exists>ad. evaluate_target_admission (mem_gateway demo_cfg) (job_request queued_job) demo_target
      (get_target_usage (mem_gateway demo_cfg) (tg_target_id demo_target) queued_space) queued_space = Some ad"
    using demo_admission memg.evaluate_cong [OF h] memg.get_target_usage_cong [OF h]
    by (auto simp: rq demo_target_def)
  moreover have "fst (LREM mem_redis (PendingQueueKey Chat P1) ''j1'' queued_space) = 1"
    by (simp add: mem_redis_def queued_space_def)
  moreover have "j_status queued_job = Queued" by (simp add: queued_job_def)
  ultimately show ?thesis
    by (auto simp: try_admit_job_def memg.connected queued_jobs case_prod_beta)
qed

text \<open>An ordinary chat request, and a server that knows one model.\<close>

definition demo_request :: enqueue_request where
  "demo_request = \<lparr>eq_username = ''ann'', eq_model_key = ''m'', eq_model_name = ''m'', eq_prompt = ''hi'',
     eq_history = [], eq_thread_id = None, eq_job_kind = ''chat'', eq_file_chat = None,
     eq_workload_class = ''chat'', eq_priority = None, eq_context_tokens = None, eq_max_output_tokens = None,
     eq_root_job_id = None, eq_parent_job_id = None, eq_staging_id = None, eq_parser_metadata = None,
     eq_lifecycle_stage = None, eq_child_job_id = None, eq_job_id_override = None\<rparr>"

definition catalog_space :: gspace where
  "catalog_space = empty_keyspace\<lparr>strs := [ModelCatalogKey \<mapsto> GCatalog [(''m'', demo_model)]]\<rparr>"

lemma catalog_enqueue: "fst (enqueue_job (mem_gateway default_settings) c ''u1'' demo_request catalog_space) = Inr ''u1''"
proof -
  let ?g = "mem_gateway default_settings"
  have t: "list_active_targets ?g catalog_space = ([], catalog_space)"
    and w: "list_active_workers ?g catalog_space = ([], catalog_space)"
    by (simp_all add: list_active_targets_def list_active_workers_def mem_gateway_def mem_redis_def catalog_space_def
        empty_keyspace_def List.map_filter_def)
  then have "dynamic_queue_limit ?g catalog_space = (64, catalog_space)"
    by (simp add: dynamic_queue_limit_def mem_gateway_def default_settings_def)
  moreover have "get_total_pending_jobs ?g catalog_space = 0"
    by (simp add: memg.pending_total QUEUE_ORDER_def catalog_space_def empty_keyspace_def)
  moreover have "get_model_catalog ?g c catalog_space = ([(''m'', demo_model)], catalog_space)"
    by (simp add: get_model_catalog_def mem_gateway_def mem_redis_def catalog_space_def)
  moreover have "gw_redis ?g = Some mem_redis" by (simp add: mem_gateway_def)
  ultimately show ?thesis
    by (simp add: enqueue_job_def demo_request_def case_prod_beta Let_def)
qed

section \<open>Properties\<close>

text \<open>
  The shares protected for interactive work are kept. A batch job is only admitted if
  the unused parts of the chat share and of the SIEM share still fit beside it, and a SIEM
  job only within its own share or if the unused part of the chat share still fits.
\<close>

theorem protected_shares:
  assumes "token_gate cfg w us eff cost" and "0 < cost"
    and "chat_cap = max 1 \<lfloor>py_mul_float eff (SCHEDULER_CHAT_RESERVED_RATIO cfg)\<rfloor>"
    and "siem_cap = max 0 \<lfloor>py_mul_float eff (SCHEDULER_SIEM_RESERVED_RATIO cfg)\<rfloor>"
  shows "us_reserved_tokens us + cost \<le> eff
    \<and> (w = Batch \<longrightarrow> us_reserved_tokens us + cost + max (chat_cap - us_reserved_tokens_chat us) 0
          + max (siem_cap - us_reserved_tokens_siem us) 0 \<le> eff)
    \<and> (w = Siem \<longrightarrow> us_reserved_tokens_siem us + cost \<le> siem_cap
        \<or> us_reserved_tokens us + cost + max (chat_cap - us_reserved_tokens_chat us) 0 \<le> eff)"
proof -
  define a where "a = max (chat_cap - us_reserved_tokens_chat us) 0"
  define b where "b = max (siem_cap - us_reserved_tokens_siem us) 0"
  note gate = assms(1) [unfolded token_gate_def Let_def, folded assms(3,4), folded a_def b_def]
  show ?thesis
    unfolding a_def [symmetric] b_def [symmetric] using gate assms(2) by linarith
qed

theorem protected_shares_witness:
  "us_reserved_tokens \<lparr>us_reserved_vram_mb = 0, us_reserved_ram_mb = 0, us_reserved_tokens = 2, us_active_jobs = 1,
     us_reserved_tokens_chat = 2, us_reserved_tokens_siem = 0, us_reserved_tokens_batch = 0\<rparr> + 1 \<le> (8 :: int)"
proof -
  have r: "py_mul_float 8 (1 / 2) = 4" "py_mul_float 8 (1 / 4) = 2"
    by (simp_all add: py_mul_float_def fl_numeral)
  show ?thesis
    by (rule protected_shares [where cfg = default_settings and w = Batch and eff = 8 and cost = 1, OF _ _ refl refl, THEN conjunct1])
      (simp_all add: token_gate_def default_settings_def r)
qed

text \<open>
  C4: an admission respects every budget of the target. It is only granted for the kind of
  the target and reserves the cost of the job in tokens. Tokens: with it the reserved tokens
  stay within the capacity, which is the base capacity or, for a single job on an idle CPU
  target, the cost of this job; a batch job also leaves the unused shares of chat and SIEM
  free, a SIEM job stays within its share or leaves that of chat free. Memory: it reserves
  cache, overhead and the weights of a model that is not warm; with it the reserved video
  memory of a GPU target, or the RAM of a CPU target, stays within what is free after the
  margins, except for one cold-starting chat job on an idle CPU target. Parallelism: a job is
  alone, or all active jobs with it, at the memory of this one, fit into the free memory, and
  on a CPU target they are at most as many as processors. An overloaded CPU target takes no
  second job.
\<close>

theorem admission_safe:
  assumes "evaluate_target_admission g rq t us s = Some ad" and "kind = normalize_target_kind (Some (tg_target_kind t))"
    and "prof = request_profile (gw_cfg g) rq kind" and "warm = model_is_warm g rq t s"
    and "free_vram = max 0 (tg_vram_free_mb t - SCHEDULER_GPU_SAFETY_MARGIN_MB (gw_cfg g) - SCHEDULER_GPU_FRAGMENTATION_MARGIN_MB (gw_cfg g))"
    and "free_ram = max 0 (tg_ram_free_mb t - SCHEDULER_RAM_SAFETY_MARGIN_MB (gw_cfg g))"
  shows "(case ar_target_kind rq of None \<Rightarrow> Cpu | Some k \<Rightarrow> k) = kind
    \<and> ad_reserved_tokens ad = pf_token_cost prof \<and> 1 \<le> ad_reserved_tokens ad
    \<and> (\<exists>eff chat siem. (eff = max 1 (tg_base_capacity_tokens t)
            \<or> kind = Cpu \<and> us_active_jobs us = 0 \<and> us_reserved_tokens us = 0 \<and> eff = ad_reserved_tokens ad)
        \<and> chat = max (max 1 \<lfloor>py_mul_float eff (SCHEDULER_CHAT_RESERVED_RATIO (gw_cfg g))\<rfloor> - us_reserved_tokens_chat us) 0
        \<and> siem = max 0 \<lfloor>py_mul_float eff (SCHEDULER_SIEM_RESERVED_RATIO (gw_cfg g))\<rfloor>
        \<and> us_reserved_tokens us + ad_reserved_tokens ad \<le> eff
        \<and> (ar_workload_class rq = Batch \<longrightarrow>
            us_reserved_tokens us + ad_reserved_tokens ad + chat + max (siem - us_reserved_tokens_siem us) 0 \<le> eff)
        \<and> (ar_workload_class rq = Siem \<longrightarrow> us_reserved_tokens_siem us + ad_reserved_tokens ad \<le> siem
            \<or> us_reserved_tokens us + ad_reserved_tokens ad + chat \<le> eff))
    \<and> (kind = Gpu \<longrightarrow> ad_reserved_ram_mb ad = 0 \<and> ad_reserved_vram_mb ad = job_need prof warm
        \<and> us_reserved_vram_mb us + ad_reserved_vram_mb ad \<le> free_vram
        \<and> (us_active_jobs us \<le> 0 \<or> (us_active_jobs us + 1) * job_slot (gw_cfg g) prof \<le> free_vram))
    \<and> (kind = Cpu \<longrightarrow> ad_reserved_vram_mb ad = 0 \<and> ad_reserved_ram_mb ad = job_need prof warm
        \<and> (us_reserved_ram_mb us + ad_reserved_ram_mb ad \<le> free_ram
           \<or> ar_workload_class rq = Chat \<and> us_active_jobs us = 0 \<and> us_reserved_tokens us = 0 \<and> us_reserved_ram_mb us = 0
             \<and> \<not> warm \<and> 0 < free_ram)
        \<and> (us_active_jobs us \<le> 0 \<or> us_active_jobs us + 1 \<le> int_or (Some (tg_cpu_count t)) 1
             \<and> (us_active_jobs us + 1) * job_slot (gw_cfg g) prof \<le> free_ram)
        \<and> (SCHEDULER_CPU_LOAD_SHED_THRESHOLD (gw_cfg g) \<le> tg_cpu_percent t \<longrightarrow> us_active_jobs us \<le> 0))"
proof (rule evaluate_cases [OF assms(1)])
  fix kind' prof' eff single
  assume k: "kind' = normalize_target_kind (Some (tg_target_kind t))" "kind' = (case ar_target_kind rq of None \<Rightarrow> Cpu | Some k \<Rightarrow> k)"
    and prof: "prof' = request_profile (gw_cfg g) rq kind'"
    and single: "single = cpu_single_slot_override kind' us (pf_token_cost prof') (max 1 (tg_base_capacity_tokens t))"
    and eff: "eff = (if single then pf_token_cost prof' else max 1 (tg_base_capacity_tokens t))"
    and gate: "token_gate (gw_cfg g) (ar_workload_class rq) us eff (pf_token_cost prof')"
    and gpu: "kind' = Gpu \<Longrightarrow> evaluate_gpu (gw_cfg g) prof' t us (model_is_warm g rq t s) = Some ad"
    and cpu: "kind' = Cpu \<Longrightarrow> evaluate_cpu (gw_cfg g) (ar_workload_class rq) prof' t us (model_is_warm g rq t s) eff single = Some ad"
  have eqs: "kind' = kind" "prof' = prof" "model_is_warm g rq t s = warm" using k prof assms by simp_all
  have cost: "ad_reserved_tokens ad = pf_token_cost prof"
    using evaluate_gpu_fits(1) [OF gpu] evaluate_cpu_fits(1) [OF cpu] eqs by (cases kind) auto
  have pos: "1 \<le> pf_token_cost prof" using request_profile_bounds(1) assms(3) by simp
  have eff': "eff = max 1 (tg_base_capacity_tokens t)
      \<or> kind = Cpu \<and> us_active_jobs us = 0 \<and> us_reserved_tokens us = 0 \<and> eff = ad_reserved_tokens ad"
    using eqs by (auto simp: eff single cost cpu_single_slot_override_def)
  have pos': "0 < pf_token_cost prof" using pos by simp
  have "kind = Gpu \<Longrightarrow> evaluate_gpu (gw_cfg g) prof t us warm = Some ad"
    "kind = Cpu \<Longrightarrow> evaluate_cpu (gw_cfg g) (ar_workload_class rq) prof t us warm eff single = Some ad" using gpu cpu eqs by simp_all
  note on_gpu = evaluate_gpu_fits [OF this(1), folded job_need_def assms(5)]
    and on_cpu = evaluate_cpu_fits [OF this(2), folded job_need_def assms(6), unfolded not_less]
  note shares = protected_shares [OF gate [unfolded eqs] pos' refl refl, folded cost]
  show ?thesis
  proof (intro conjI impI)
    show "(case ar_target_kind rq of None \<Rightarrow> Cpu | Some k \<Rightarrow> k) = kind" using k(2) eqs by simp
    show "ad_reserved_tokens ad = pf_token_cost prof" "1 \<le> ad_reserved_tokens ad" using cost pos by simp_all
    show "\<exists>eff chat siem. (eff = max 1 (tg_base_capacity_tokens t)
            \<or> kind = Cpu \<and> us_active_jobs us = 0 \<and> us_reserved_tokens us = 0 \<and> eff = ad_reserved_tokens ad)
        \<and> chat = max (max 1 \<lfloor>py_mul_float eff (SCHEDULER_CHAT_RESERVED_RATIO (gw_cfg g))\<rfloor> - us_reserved_tokens_chat us) 0
        \<and> siem = max 0 \<lfloor>py_mul_float eff (SCHEDULER_SIEM_RESERVED_RATIO (gw_cfg g))\<rfloor>
        \<and> us_reserved_tokens us + ad_reserved_tokens ad \<le> eff
        \<and> (ar_workload_class rq = Batch \<longrightarrow>
            us_reserved_tokens us + ad_reserved_tokens ad + chat + max (siem - us_reserved_tokens_siem us) 0 \<le> eff)
        \<and> (ar_workload_class rq = Siem \<longrightarrow> us_reserved_tokens_siem us + ad_reserved_tokens ad \<le> siem
            \<or> us_reserved_tokens us + ad_reserved_tokens ad + chat \<le> eff)"
      by (intro exI [of _ eff] exI conjI, rule eff', rule refl, rule refl) (use shares in blast)+
  qed (rule on_gpu(2-5) on_cpu(2-5,7) on_cpu(6) [THEN mp]; assumption)+
qed

theorem admission_safe_witness:
  "\<exists>ad. evaluate_target_admission (mem_gateway demo_cfg) (job_request demo_job) demo_target
      (get_target_usage (mem_gateway demo_cfg) ''t1'' empty_keyspace) empty_keyspace = Some ad
    \<and> 1 \<le> ad_reserved_tokens ad \<and> ad_reserved_vram_mb ad = 0
    \<and> ad_reserved_ram_mb ad = job_need (request_profile (gw_cfg (mem_gateway demo_cfg)) (job_request demo_job) Cpu)
        (model_is_warm (mem_gateway demo_cfg) (job_request demo_job) demo_target empty_keyspace)"
proof -
  obtain ad where ad: "evaluate_target_admission (mem_gateway demo_cfg) (job_request demo_job) demo_target
      (get_target_usage (mem_gateway demo_cfg) ''t1'' empty_keyspace) empty_keyspace = Some ad"
    using demo_admission by blast
  note safe = admission_safe [OF ad demo_kind [symmetric] refl refl refl refl]
  have "1 \<le> ad_reserved_tokens ad" using safe by (elim conjE) assumption
  moreover have "ad_reserved_vram_mb ad = 0
      \<and> ad_reserved_ram_mb ad = job_need (request_profile (gw_cfg (mem_gateway demo_cfg)) (job_request demo_job) Cpu)
          (model_is_warm (mem_gateway demo_cfg) (job_request demo_job) demo_target empty_keyspace)"
    using safe by (elim conjE) simp
  ultimately show ?thesis using ad by blast
qed

text \<open>
  C3: no target is over-committed. From a state whose counters match the held
  reservations, an admission leads to such a state again, and in it the tokens held on the
  target stay within its base capacity (or a CPU target runs that single job), and the
  video memory held on a GPU target stays within what it reports free minus the margins.
\<close>

theorem no_overcommit:
  assumes "gateway_store R view g" and "ledger (view s)" and "tg_target_id t \<noteq> []"
    and "0 \<le> LLM_GPU_RUNTIME_OVERHEAD_MB (gw_cfg g)" and "0 \<le> LLM_CPU_RUNTIME_OVERHEAD_MB (gw_cfg g)"
    and "try_admit_job g c i q t s = (True, s')" and "kind = normalize_target_kind (Some (tg_target_kind t))"
  shows "ledger (view s')
    \<and> (total (held (tg_target_id t) ''reserved_tokens'') (jobs (view s')) \<le> max 1 (tg_base_capacity_tokens t)
       \<or> kind = Cpu \<and> total (held (tg_target_id t) ''active_jobs'') (jobs (view s')) = 1)
    \<and> (kind = Gpu \<longrightarrow> total (held (tg_target_id t) ''reserved_vram_mb'') (jobs (view s')) \<le>
        max 0 (tg_vram_free_mb t - SCHEDULER_GPU_SAFETY_MARGIN_MB (gw_cfg g) - SCHEDULER_GPU_FRAGMENTATION_MARGIN_MB (gw_cfg g)))"
proof (rule gateway_store.admitted_usage [OF assms(1-6)])
  fix j k ad us
  assume ev: "evaluate_target_admission g (job_request (retargeted k j)) t us s = Some ad"
    and tot: "total (held (tg_target_id t) ''reserved_tokens'') (jobs (view s')) = us_reserved_tokens us + ad_reserved_tokens ad"
      "total (held (tg_target_id t) ''reserved_vram_mb'') (jobs (view s')) = us_reserved_vram_mb us + ad_reserved_vram_mb ad"
      "total (held (tg_target_id t) ''active_jobs'') (jobs (view s')) = us_active_jobs us + 1"
  have "ledger (view s')"
    using gateway_store.try_admit_ledger [OF assms(1-5), of c i q] by (simp add: assms(6))
  then show ?thesis
    unfolding tot using evaluate_budget(1,2) [OF ev assms(7)] by auto
qed

theorem no_overcommit_witness:
  "ledger (snd (try_admit_job (mem_gateway demo_cfg) \<lparr>now = 110, now_ms = 110000\<rparr> ''j1'' (PendingQueueKey Chat P1) demo_target queued_space))"
proof -
  obtain s' where s': "try_admit_job (mem_gateway demo_cfg) \<lparr>now = 110, now_ms = 110000\<rparr> ''j1'' (PendingQueueKey Chat P1) demo_target queued_space
      = (True, s')"
    using queued_admitted [of "\<lparr>now = 110, now_ms = 110000\<rparr>"] by (cases "try_admit_job (mem_gateway demo_cfg) \<lparr>now = 110, now_ms = 110000\<rparr> ''j1'' (PendingQueueKey Chat P1) demo_target queued_space") simp
  have "tg_target_id demo_target \<noteq> []" and "0 \<le> LLM_GPU_RUNTIME_OVERHEAD_MB (gw_cfg (mem_gateway demo_cfg))"
    and "0 \<le> LLM_CPU_RUNTIME_OVERHEAD_MB (gw_cfg (mem_gateway demo_cfg))"
    by (simp_all add: demo_target_def mem_gateway_def demo_cfg_def default_settings_def)
  from no_overcommit [where view = "\<lambda>s. s", OF memg.gateway_store_axioms queued_ledger this s' refl]
  show ?thesis by (simp add: s')
qed

text \<open>
  C5: the queue is bounded. A request for a fresh job is refused with status 503 as soon as
  the pending jobs reach the dynamic limit; a refused request (for whatever reason) leaves
  jobs, queues, leases, counters and streams as they were; an accepted one stores a queued
  job under a new identifier, appends it to the pending queue of its workload and priority
  and announces it on its stream; a repeated request for an existing identifier changes nothing.
\<close>

theorem enqueue_backpressure:
  assumes "gateway_store R view g" and "enqueue_job g c uuid rq s = (r, s')" and "jobs (view s) uuid = None"
  shows "(fst (dynamic_queue_limit g s) \<le> get_total_pending_jobs g s \<and> strip_opt (eq_job_id_override rq) = []
        \<longrightarrow> r = Inl (HTTPException 503 ''LLM queue is saturated''))
    \<and> (case r of
        Inl e \<Rightarrow> jobs (view s') = jobs (view s) \<and> lists (view s') = lists (view s) \<and> zsets (view s') = zsets (view s)
          \<and> hashes (view s') = hashes (view s) \<and> streams (view s') = streams (view s)
      | Inr i \<Rightarrow> (jobs (view s) i \<noteq> None \<and> s' = s)
          \<or> (jobs (view s) i = None \<and> get_total_pending_jobs g s < fst (dynamic_queue_limit g s)
            \<and> (\<exists>j. jobs (view s') = (jobs (view s))(i := Some j) \<and> j_id j = i \<and> j_status j = Queued
                \<and> j_username j = eq_username rq \<and> j_prompt j = eq_prompt rq \<and> j_assigned_target_id j = None
                \<and> lists (view s') = (lists (view s))(PendingQueueKey (j_workload_class j) (j_priority j) :=
                    lists (view s) (PendingQueueKey (j_workload_class j) (j_priority j)) @ [i])
                \<and> last (streams (view s') (EventsKey i)) = own_event i EvQueued)))"
proof -
  have sat: "r = Inl (HTTPException 503 ''LLM queue is saturated'')"
    if "fst (dynamic_queue_limit g s) \<le> get_total_pending_jobs g s" "strip_opt (eq_job_id_override rq) = []"
    using that assms(2) gateway_store.connected [OF assms(1)]
    by (simp add: enqueue_job_def Let_def case_prod_beta)
  show ?thesis
  proof (rule gateway_store.enqueue_cases [OF assms(1,2)])
    fix i w p kind info s1
    assume q: "r = Inr i" "i = (if strip_opt (eq_job_id_override rq) \<noteq> [] then strip_opt (eq_job_id_override rq) else uuid)"
      "strip_opt (eq_job_id_override rq) \<noteq> [] \<Longrightarrow> jobs (view s) i = None"
      "get_total_pending_jobs g s < fst (dynamic_queue_limit g s)" "gateway_store.unchanged view s s1"
      and v: "view s' = (view s1)\<lparr>
        strs := (strs (view s1))(JobKey i := Some (GJob (new_job (gw_cfg g) c rq i w p kind info))),
        lists := (lists (view s1))(PendingQueueKey w p := lists (view s1) (PendingQueueKey w p) @ [i]),
        streams := (streams (view s1))(EventsKey i := streams (view s1) (EventsKey i) @ [own_event i EvQueued])\<rparr>"
    let ?j = "new_job (gw_cfg g) c rq i w p kind info"
    have none: "jobs (view s) i = None" using q(2,3) assms(3) by (auto split: if_splits)
    have "jobs (view s') = (jobs (view s1))(i := Some ?j)"
      by (rule jobs_upd) (simp add: v)
    with q(5) have "jobs (view s') = (jobs (view s))(i := Some ?j)" and "lists (view s1) = lists (view s)"
      by (simp_all add: gateway_store.unchanged_def [OF assms(1)])
    then show ?thesis
      using q(1,4) none sat by (auto intro!: exI [of _ ?j] simp: v new_job_def)
  qed (use sat in \<open>auto simp: gateway_store.unchanged_def [OF assms(1)]\<close>)
qed

theorem enqueue_backpressure_witness:
  "\<exists>j. jobs (snd (enqueue_job (mem_gateway default_settings) \<lparr>now = 1, now_ms = 1000\<rparr> ''u1'' demo_request catalog_space)) = [''u1'' \<mapsto> j]
     \<and> j_status j = Queued \<and> j_username j = ''ann''"
proof -
  obtain s' where s': "enqueue_job (mem_gateway default_settings) \<lparr>now = 1, now_ms = 1000\<rparr> ''u1'' demo_request catalog_space = (Inr ''u1'', s')"
    using catalog_enqueue [of "\<lparr>now = 1, now_ms = 1000\<rparr>"]
    by (cases "enqueue_job (mem_gateway default_settings) \<lparr>now = 1, now_ms = 1000\<rparr> ''u1'' demo_request catalog_space") simp
  have "jobs catalog_space = Map.empty" and user: "eq_username demo_request = ''ann''"
    by (simp_all add: jobs_def catalog_space_def fun_eq_iff demo_request_def)
  with enqueue_backpressure [where view = "\<lambda>s. s", OF memg.gateway_store_axioms s'] show ?thesis
    by (auto simp: s' user)
qed

end
