(* ===== verification/Scheduler.thy ===== *)
theory Scheduler
  imports Admission
begin

text \<open>
  The scheduler process (\<open>scheduler.py\<close>) and the recovery of stale jobs
  (\<open>LLMGateway.requeue_stale_jobs\<close>): one pass of the schedule loop picks a target for
  every pending candidate and tries to admit it there; one pass of the reaper looks at
  the active jobs whose lease has run out.
\<close>

section \<open>The reaper\<close>

text \<open>The body of the loop over the stale job identifiers; the result says whether the job counts as recovered.\<close>

definition reap_job :: "'s gateway \<Rightarrow> clock \<Rightarrow> string \<Rightarrow> 's \<Rightarrow> bool \<times> 's" where
  "reap_job g c job_id s = (case gw_redis g of None \<Rightarrow> (False, s)
     | Some R \<Rightarrow> (case get_job g job_id s of
         None \<Rightarrow> (False, ZREM R ActiveJobsZset job_id s)
       | Some job \<Rightarrow>
          if terminal (j_status job) then (False, ZREM R ActiveJobsZset job_id s)
          else if now c < int_or (j_lease_until job) 0 then (False, s)
          else case cancel_stale_requested_job g c job s of
            (True, s) \<Rightarrow> (False, s)
          | (False, s) \<Rightarrow>
             if deadline_passed c job then
               (let s = mark_job_failed_from_record g c job DEADLINE_EXCEEDED_ERROR (j_assigned_worker_id job) s;
                    s = increment_metric g ''failed_jobs'' 1 s
                in (False, observe_job_latency g c
                      (case get_job g job_id s of Some j \<Rightarrow> j | None \<Rightarrow> job) s))
             else let retry_count = j_retry_count job + 1 in
               if int_or (Some (j_max_retries job)) (SCHEDULER_MAX_JOB_RETRIES (gw_cfg g)) < retry_count
               then (False, mark_job_failed_from_record g c (job\<lparr>j_retry_count := retry_count\<rparr>)
                       GENERIC_CHAT_ERROR (j_assigned_worker_id job) s)
               else let
                   s = release_reserved_capacity g job s;
                   s = remove_from_processing g (j_assigned_worker_id job) job_id s;
                   s = ZREM R ActiveJobsZset job_id s
                 in case downgrade_job_target_kind_if_needed g (job\<lparr>j_retry_count := retry_count\<rparr>) s of
                   (job, s) \<Rightarrow>
                     let job = job\<lparr>j_status := Queued, j_assigned_target_id := None,
                           j_assigned_worker_id := None, j_lease_until := None,
                           j_reserved_tokens := 0, j_reserved_vram_mb := 0, j_reserved_ram_mb := 0\<rparr>;
                         s = saved g job s;
                         s = RPUSH R (PendingQueueKey (j_workload_class job) (j_priority job)) job_id s
                     in (True, emit_event g job_id (own_event job_id (EvRequeuedRetry retry_count)) s)))"

definition requeue_stale_jobs :: "'s gateway \<Rightarrow> clock \<Rightarrow> 's \<Rightarrow> int \<times> 's" where
  "requeue_stale_jobs g c s = (case gw_redis g of None \<Rightarrow> (0, s)
     | Some R \<Rightarrow> fold (\<lambda>job_id (recovered, s). case reap_job g c job_id s of
           (r, s) \<Rightarrow> (if r then recovered + 1 else recovered, s))
         (ZRANGEBYSCORE R ActiveJobsZset 0 (now c) s) (0, s))"

section \<open>The schedule loop\<close>

definition target_score :: "string \<Rightarrow> target \<Rightarrow> target_usage \<Rightarrow> int \<times> int \<times> int \<times> string" where
  "target_score model_key t us =
     (if model_key \<in> set (tg_loaded_models t) \<or> model_key \<in> set (tg_pinned_models t) then 0 else 1,
      us_active_jobs us,
      - int_or (Some (tg_vram_free_mb t)) (tg_ram_free_mb t),
      tg_target_id t)"

definition pick_target ::
  "'s gateway \<Rightarrow> job \<Rightarrow> (string \<times> target) list \<Rightarrow> (worker_pool \<times> string) set \<Rightarrow> 's \<Rightarrow> target option" where
  "pick_target g job targets pairs s =
     (let eligible = map (\<lambda>t. (target_score (j_model_key job) t (get_target_usage g (tg_target_id t) s), t))
            (filter (\<lambda>t. (j_worker_pool job, tg_target_id t) \<in> pairs) (map snd targets))
      in case sort_key fst eligible of [] \<Rightarrow> None | (_, t) # _ \<Rightarrow> Some t)"

definition schedule_candidates ::
  "'s gateway \<Rightarrow> clock \<Rightarrow> (string \<times> target) list \<Rightarrow> (worker_pool \<times> string) set \<Rightarrow> (gkey \<times> job) list \<Rightarrow> int \<times> 's \<Rightarrow> int \<times> 's"
where
  "schedule_candidates g c targets pairs = fold (\<lambda>(queue_key, job) (admitted, s).
     case pick_target g job targets pairs s of None \<Rightarrow> (admitted, s)
     | Some t \<Rightarrow> (case try_admit_job g c (j_id job) queue_key t s of
         (ok, s) \<Rightarrow> (if ok then admitted + 1 else admitted, s)))"

definition schedule_once :: "'s gateway \<Rightarrow> clock \<Rightarrow> 's \<Rightarrow> int \<times> 's" where
  "schedule_once g c s = (case list_active_workers g s of (workers, s) \<Rightarrow>
     if workers = [] then (0, s)
     else case list_active_targets g s of (active, s) \<Rightarrow>
       let targets = target_index active in
       if targets = [] then (0, s)
       else schedule_candidates g c targets (active_pairs workers)
              (list_pending_candidates g (SCHEDULER_QUEUE_SCAN_DEPTH (gw_cfg g)) s) (0, s))"

text \<open>One turn of \<open>schedule_loop\<close>, without its sleep.\<close>

definition schedule_turn :: "'s gateway \<Rightarrow> clock \<Rightarrow> 's \<Rightarrow> 's" where
  "schedule_turn g c s = (case schedule_once g c s of (scheduled, s) \<Rightarrow>
     case get_runtime_state g s of (state, s) \<Rightarrow>
       report_scheduler_heartbeat g c \<lparr>ss_last_seen = now c, ss_scheduled = scheduled,
         ss_pending_total = sum_list (map snd (rs_pending state)), ss_targets = rs_targets state,
         ss_workers = rs_workers state\<rparr> s)"

end
