(* ===== verification/Control_Plane.thy ===== *)
theory Control_Plane
  imports Scheduler
begin

text \<open>
  The control plane as a transition system: the operations of the gateway that web tier,
  scheduler, reaper and workers call, in any order, as one step relation on the Redis
  state, without conditions on their order. Every step is labelled with whether it is a race:
  it settles or parks a job that is settled already, it settles a child whose parser root
  still holds capacity, it claims an id that was left behind in a dispatch queue, or it writes
  back a copy of a job that is out of date. The capacity ledger of \<open>Lifecycle\<close> is an invariant
  of the runs without races, such as a pass of the scheduler, and in any run only a race can
  break it. The reaper and a worker can do so: together they revive a job that was already
  reported as failed.
\<close>

section \<open>Single operations keep the ledger\<close>

definition root_idle :: "(string \<Rightarrow> job option) \<Rightarrow> job \<Rightarrow> bool" where
  "root_idle J j \<longleftrightarrow> (\<forall>r. open_root J j = Some r \<longrightarrow> (\<forall>t. \<not> holds t r))"

definition live :: "job \<Rightarrow> bool" where
  "live j \<longleftrightarrow> j_status j = Admitted \<or> j_status j = Running"

text \<open>Settling job \<open>i\<close> also settles an open root that still holds a reservation.\<close>

definition family_race :: "(string \<Rightarrow> job option) \<Rightarrow> string \<Rightarrow> bool" where
  "family_race J i \<longleftrightarrow> (\<exists>j. J i = Some j \<and> \<not> terminal (j_status j) \<and> \<not> root_idle J j)"

text \<open>The job is settled already.\<close>

definition settled :: "(string \<Rightarrow> job option) \<Rightarrow> string \<Rightarrow> bool" where
  "settled J i \<longleftrightarrow> (\<exists>j. J i = Some j \<and> terminal (j_status j))"

text \<open>The next id of a dispatch queue belongs to a job that is no longer admitted, or whose root is not parked.\<close>

definition claim_race :: "gspace \<Rightarrow> worker_pool \<Rightarrow> string \<Rightarrow> bool" where
  "claim_race v pool tid \<longleftrightarrow> lists v (DispatchQueueKey pool tid) \<noteq> []
     \<and> (\<exists>j. jobs v (last (lists v (DispatchQueueKey pool tid))) = Some j \<and> \<not> (live j \<and> root_idle (jobs v) j))"

text \<open>A copy of a job that no longer agrees with the stored job on its status or reservation.\<close>

definition stale_copy :: "(string \<Rightarrow> job option) \<Rightarrow> job \<Rightarrow> bool" where
  "stale_copy J j \<longleftrightarrow> \<not> (\<exists>k. J (j_id j) = Some k \<and> same_claim j k \<and> j_status j = j_status k)"

context gateway_store
begin

lemma ledger_frame: "ledger (view s) \<Longrightarrow> jobs (view s') = jobs (view s) \<Longrightarrow> hashes (view s') = hashes (view s) \<Longrightarrow> ledger (view s')"
  by (rule ledger_cong) (assumption, assumption, erule usage_cong, erule model_refs_cong)

lemma jobs_writes [simp]:
  "jobs (view (RPUSH R q v s)) = jobs (view s)" "jobs (view (ZADD R k m sc s)) = jobs (view s)"
  "jobs (view (ZREM R k m s)) = jobs (view s)" "jobs (view (release_reserved_capacity g j s)) = jobs (view s)"
  "jobs (view (snd (downgrade_job_target_kind_if_needed g j s))) = jobs (view s)"
  by (rule jobs_cong, simp add: rpush_law zadd_law zrem_law)+

lemma hashes_saved [simp]: "hashes (view (saved g j s)) = hashes (view s)"
  by simp

text \<open>A job saved with the same claim.\<close>

lemma saved_ledger:
  assumes led: "ledger (view s)" and i: "jobs (view s) i = Some j" and same: "same_claim j' j"
    and status: "(j_status j' \<in> {Admitted, Running}) = (j_status j \<in> {Admitted, Running})" "j_status j' = Queued \<longrightarrow> j_status j = Queued"
    and J: "jobs (view s') = (jobs (view s))(i := Some j')" and h: "hashes (view s') = hashes (view s)"
  shows "ledger (view s')"
proof -
  have wf: "j_id j = i" "wf_job j" using led i by (auto simp: ledger_def wf_jobs_def)
  have "j_id j' = i" "wf_job j'" using wf same status(2) by (auto simp: same_claim_def wf_job_def)
  then show ?thesis
    by (rule ledger_same_weight [OF led J]) (use i h same_claim_held [OF same status(1)] in \<open>simp_all add: weight_at_def\<close>)
qed

lemma release_cong:
  assumes "hashes (view s') = hashes (view s)"
  shows "usage (view (release_reserved_capacity g j s')) = usage (view (release_reserved_capacity g j s))"
    "model_refs (view (release_reserved_capacity g j s')) = model_refs (view (release_reserved_capacity g j s))"
  by (intro ext, simp only: release_usage release_model_refs usage_cong [OF assms] model_refs_cong [OF assms])+

text \<open>A job that goes back to its pending queue after its reservation was released.\<close>

lemma requeued_ledger:
  assumes led: "ledger (view s)" and i: "jobs (view s) i = Some j" and nt: "\<not> terminal (j_status j)"
    and J: "jobs (view s') = (jobs (view s))(i := Some j')" and j': "j_id j' = i" "j_status j' = Queued" "j_assigned_target_id j' = None"
      "j_reserved_tokens j' = 0" "j_reserved_vram_mb j' = 0" "j_reserved_ram_mb j' = 0"
    and u: "hashes (view u) = hashes (view s)" and h: "hashes (view s') = hashes (view (release_reserved_capacity g j u))"
  shows "ledger (view s')"
proof -
  have "usage (view s') = usage (view (release_reserved_capacity g j s))"
    "model_refs (view s') = model_refs (view (release_reserved_capacity g j s))"
    using usage_cong [OF h] model_refs_cong [OF h] release_cong [OF u] by simp_all
  then show ?thesis
    by (rule release_ledger [OF led i nt J j'(1), rotated 3]) (use j' in \<open>simp_all add: wf_job_def holds_def same_claim_def\<close>)
qed

lemma requeue_job_view:
  "\<exists>j'. jobs (view (requeue_job_for_pending g c j reason s)) = (jobs (view s))(j_id j := Some j')
     \<and> j_id j' = j_id j \<and> j_status j' = Queued \<and> j_assigned_target_id j' = None
     \<and> j_reserved_tokens j' = 0 \<and> j_reserved_vram_mb j' = 0 \<and> j_reserved_ram_mb j' = 0"
  "hashes (view (requeue_job_for_pending g c j reason s)) = hashes (view s)"
proof -
  define s1 where "s1 = snd (downgrade_job_target_kind_if_needed g j s)"
  define j' where "j' = (fst (downgrade_job_target_kind_if_needed g j s))\<lparr>j_status := Queued, j_assigned_target_id := None,
               j_assigned_worker_id := None, j_admitted_at := None, j_admitted_at_ms := None,
               j_started_at := None, j_started_at_ms := None, j_enqueued_at_ms := now_ms c,
               j_queue_wait_ms := 0, j_lease_until := None, j_reserved_tokens := 0,
               j_reserved_vram_mb := 0, j_reserved_ram_mb := 0, j_profile := None\<rparr>"
  have id: "j_id j' = j_id j" by (simp add: j'_def downgrade_job)
  have eq: "requeue_job_for_pending g c j reason s = emit_event g (j_id j') (own_event (j_id j') (EvRequeuedReason reason))
      (RPUSH R (PendingQueueKey (j_workload_class j') (j_priority j')) (j_id j') (saved g j' s1))"
    by (simp add: requeue_job_for_pending_def connected case_prod_beta Let_def s1_def j'_def)
  have "jobs (view (requeue_job_for_pending g c j reason s)) = (jobs (view s))(j_id j := Some j')"
    unfolding eq jobs_emit_event jobs_writes jobs_saved by (simp add: s1_def id)
  then show "\<exists>j'. jobs (view (requeue_job_for_pending g c j reason s)) = (jobs (view s))(j_id j := Some j')
     \<and> j_id j' = j_id j \<and> j_status j' = Queued \<and> j_assigned_target_id j' = None
     \<and> j_reserved_tokens j' = 0 \<and> j_reserved_vram_mb j' = 0 \<and> j_reserved_ram_mb j' = 0"
    by (intro exI [of _ j']) (simp add: id, simp add: j'_def)
  show "hashes (view (requeue_job_for_pending g c j reason s)) = hashes (view s)"
    by (simp add: eq rpush_law s1_def)
qed

lemma claim_ledger:
  assumes led: "ledger (view s)"
    and head: "\<And>j. lists (view s) (DispatchQueueKey pool tid) \<noteq> [] \<Longrightarrow> jobs (view s) (last (lists (view s) (DispatchQueueKey pool tid))) = Some j
      \<Longrightarrow> live j \<and> root_idle (jobs (view s)) j"
  shows "ledger (view (snd (claim_dispatch_job g c w pool tid kind s)))"
proof (cases "lists (view s) (DispatchQueueKey pool tid) = []")
  case True
  then show ?thesis using led by (simp add: claim_dispatch_job_def connected rpoplpush_empty_law)
next
  case False
  define i where "i = last (lists (view s) (DispatchQueueKey pool tid))"
  define s0 where "s0 = snd (RPOPLPUSH R (DispatchQueueKey pool tid) (ProcessingQueueKey w) s)"
  define s1 where "s1 = snd (LREM R (ProcessingQueueKey w) i s0)"
  have pop: "RPOPLPUSH R (DispatchQueueKey pool tid) (ProcessingQueueKey w) s = (Some i, s0)"
    using rpoplpush_value_law [OF False, of "ProcessingQueueKey w"] by (simp add: i_def s0_def prod_eq_iff)
  have frame: "jobs (view s0) = jobs (view s)" "hashes (view s0) = hashes (view s)" "jobs (view s1) = jobs (view s)" "hashes (view s1) = hashes (view s)"
    by (simp_all add: s1_def s0_def rpoplpush_law [OF False] lrem_law)
  have led0: "ledger (view s0)" and led1: "ledger (view s1)" using ledger_frame [OF led] frame by simp_all
  show ?thesis
  proof (cases "i = [] \<or> jobs (view s) i = None")
    case True
    then show ?thesis using led0 led1 by (auto simp: claim_dispatch_job_def connected pop frame s1_def Let_def)
  next
    case False
    then obtain j where i: "i \<noteq> []" and j: "jobs (view s) i = Some j" by auto
    have ok: "live j" "root_idle (jobs (view s)) j" using head j \<open>lists (view s) (DispatchQueueKey pool tid) \<noteq> []\<close> by (auto simp: i_def)
    have nt: "\<not> terminal (j_status j)" using ok(1) by (auto simp: live_def)
    have id: "j_id j = i" using led j by (simp add: ledger_def wf_jobs_def)
    let ?bad = "case kind of None \<Rightarrow> False | Some k \<Rightarrow> j_target_kind j \<noteq> normalize_target_kind (Some k)"
    define s2 where "s2 = ZREM R ActiveJobsZset i (release_reserved_capacity g j s1)"
    define k where "k = (let job = j\<lparr>j_status := Running, j_assigned_worker_id := Some w, j_started_at := Some (int_or (j_started_at j) (now c)),
        j_started_at_ms := Some (int_or (j_started_at_ms j) (now_ms c))\<rparr> in
        job\<lparr>j_queue_wait_ms := compute_queue_wait_ms job, j_lease_until := Some (now c + SCHEDULER_JOB_LEASE_SECONDS (gw_cfg g))\<rparr>)"
    have eq: "snd (claim_dispatch_job g c w pool tid kind s) =
        (if ?bad then requeue_job_for_pending g c j ''target_kind_mismatch'' s2
         else if deadline_passed c j then mark_job_failed g c i DEADLINE_EXCEEDED_ERROR (Some w) s0
         else emit_event g i (own_event i (EvRunning tid)) (ZADD R ActiveJobsZset i (now c + SCHEDULER_JOB_LEASE_SECONDS (gw_cfg g)) (saved g k s0)))"
      using i by (simp add: claim_dispatch_job_def connected pop frame j Let_def s1_def s2_def k_def)
    have requeue: "ledger (view (requeue_job_for_pending g c j ''target_kind_mismatch'' s2))"
    proof -
      obtain j' where "jobs (view (requeue_job_for_pending g c j ''target_kind_mismatch'' s2)) = (jobs (view s))(i := Some j')"
        "j_id j' = i" "j_status j' = Queued" "j_assigned_target_id j' = None" "j_reserved_tokens j' = 0" "j_reserved_vram_mb j' = 0" "j_reserved_ram_mb j' = 0"
        using requeue_job_view(1) [of c j "''target_kind_mismatch''" s2] id frame by (auto simp: s2_def)
      then show ?thesis
        by (rule requeued_ledger [OF led j nt _ _ _ _ _ _ _ frame(4)]) (simp add: requeue_job_view(2) s2_def zrem_law)
    qed
    have failed: "ledger (view (mark_job_failed g c i DEADLINE_EXCEEDED_ERROR (Some w) s0))"
      using mark_ledger(2) [OF led0, of i j] j nt ok(2) by (auto simp: frame root_idle_def)
    have "same_claim k j" "j_status k = Running" by (simp_all add: k_def Let_def same_claim_def)
    then have running: "ledger (view (emit_event g i (own_event i (EvRunning tid)) (ZADD R ActiveJobsZset i (now c + SCHEDULER_JOB_LEASE_SECONDS (gw_cfg g)) (saved g k s0))))"
      by (intro saved_ledger [OF led j]) (use ok(1) id frame in \<open>auto simp: live_def zadd_law same_claim_def simp del: saved_view\<close>)
    show ?thesis unfolding eq using requeue failed running by simp
  qed
qed

lemma renew_ledger: "ledger (view s) \<Longrightarrow> ledger (view (renew_job_lease g c i s))"
proof (cases "jobs (view s) i")
  case None
  assume "ledger (view s)"
  then show ?thesis using None by (simp add: renew_job_lease_def connected)
next
  case (Some j)
  assume led: "ledger (view s)"
  then have id: "j_id j = i" using Some by (simp add: ledger_def wf_jobs_def)
  define until where "until = now c + SCHEDULER_JOB_LEASE_SECONDS (gw_cfg g)"
  have "ledger (view (ZADD R ActiveJobsZset i until (saved g (j\<lparr>j_lease_until := Some until\<rparr>) s)))"
    by (rule saved_ledger [OF led Some, where j' = "j\<lparr>j_lease_until := Some until\<rparr>"])
      (auto simp: zadd_law same_claim_def id simp del: saved_view)
  then show ?thesis using led Some by (simp add: renew_job_lease_def connected Let_def until_def)
qed

lemma metric_ledger:
  "ledger (view (increment_metric g key n s)) = ledger (view s)" "ledger (view (observe_job_latency g c job s)) = ledger (view s)"
  by (auto simp: increment_metric_def observe_job_latency_def connected Let_def hincrby_law ledger_def jobs_def usage_def model_refs_def fun_eq_iff)

lemma reap_ledger:
  assumes led: "ledger (view s)" and idle: "\<not> family_race (jobs (view s)) i"
  shows "ledger (view (snd (reap_job g c i s)))"
proof (cases "\<exists>j. jobs (view s) i = Some j \<and> \<not> terminal (j_status j) \<and> \<not> now c < int_or (j_lease_until j) 0")
  case False
  have "ledger (view (ZREM R ActiveJobsZset i s))" by (rule ledger_frame [OF led]) (simp_all add: zrem_law)
  then show ?thesis using False led by (auto simp: reap_job_def connected split: option.split)
next
  case True
  then obtain j where j: "jobs (view s) i = Some j" "\<not> terminal (j_status j)" and due: "\<not> now c < int_or (j_lease_until j) 0" by blast
  have id: "j_id j = i" using led j by (simp add: ledger_def wf_jobs_def)
  have root: "\<And>r t. open_root (jobs (view s)) j = Some r \<Longrightarrow> \<not> holds t r" using idle j by (auto simp: family_race_def root_idle_def)
  note marks = mark_ledger [OF led j root]
  define retry where "retry = j_retry_count j + 1"
  define s1 where "s1 = ZREM R ActiveJobsZset i (remove_from_processing g (j_assigned_worker_id j) i (release_reserved_capacity g j s))"
  define s2 where "s2 = snd (downgrade_job_target_kind_if_needed g (j\<lparr>j_retry_count := retry\<rparr>) s1)"
  define k where "k = (fst (downgrade_job_target_kind_if_needed g (j\<lparr>j_retry_count := retry\<rparr>) s1))\<lparr>j_status := Queued, j_assigned_target_id := None,
      j_assigned_worker_id := None, j_lease_until := None, j_reserved_tokens := 0, j_reserved_vram_mb := 0, j_reserved_ram_mb := 0\<rparr>"
  define sf where "sf = mark_job_failed_from_record g c j DEADLINE_EXCEEDED_ERROR (j_assigned_worker_id j) s"
  have kid: "j_id k = i" by (simp add: k_def downgrade_job id)
  have eq: "snd (reap_job g c i s) = (if fst (cancel_stale_requested_job g c j s) then snd (cancel_stale_requested_job g c j s)
      else if deadline_passed c j then observe_job_latency g c
          (case get_job g i (increment_metric g ''failed_jobs'' 1 sf) of Some x \<Rightarrow> x | None \<Rightarrow> j) (increment_metric g ''failed_jobs'' 1 sf)
      else if int_or (Some (j_max_retries j)) (SCHEDULER_MAX_JOB_RETRIES (gw_cfg g)) < retry
      then mark_job_failed_from_record g c (j\<lparr>j_retry_count := retry\<rparr>) GENERIC_CHAT_ERROR (j_assigned_worker_id j) s
      else emit_event g i (own_event i (EvRequeuedRetry retry)) (RPUSH R (PendingQueueKey (j_workload_class k) (j_priority k)) i (saved g k s2)))"
  proof -
    have unstale: "snd (cancel_stale_requested_job g c j s) = s" if "\<not> fst (cancel_stale_requested_job g c j s)"
      using that by (auto simp: cancel_stale_requested_job_def Let_def split: if_splits)
    show ?thesis
      using j due unstale unfolding reap_job_def connected option.case get_job_eq
      by (simp add: case_prod_beta Let_def sf_def s1_def s2_def k_def retry_def split: bool.split)
  qed
  have stale: "ledger (view (snd (cancel_stale_requested_job g c j s)))" if "fst (cancel_stale_requested_job g c j s)"
  proof -
    have "ledger (view (mark_job_cancelled g c i w (snd (LREM R q i s))))" for q w
      using mark_ledger(3) [of "snd (LREM R q i s)" i j] led j root by simp
    then show ?thesis using that marks(3) id by (auto simp: cancel_stale_requested_job_def connected Let_def split: if_splits)
  qed
  have requeued: "ledger (view (emit_event g i (own_event i (EvRequeuedRetry retry)) (RPUSH R (PendingQueueKey (j_workload_class k) (j_priority k)) i (saved g k s2))))"
  proof (rule requeued_ledger [OF led j, where u = s and j' = k])
    have "jobs (view s2) = jobs (view s)"
      unfolding s2_def jobs_writes by (rule jobs_cong) (simp add: s1_def zrem_law split: option.split)
    then show "jobs (view (emit_event g i (own_event i (EvRequeuedRetry retry)) (RPUSH R (PendingQueueKey (j_workload_class k) (j_priority k)) i (saved g k s2))))
        = (jobs (view s))(i := Some k)"
      unfolding jobs_emit_event jobs_writes jobs_saved by (simp add: kid)
    show "hashes (view (emit_event g i (own_event i (EvRequeuedRetry retry)) (RPUSH R (PendingQueueKey (j_workload_class k) (j_priority k)) i (saved g k s2))))
        = hashes (view (release_reserved_capacity g j s))"
      by (simp add: rpush_law s2_def s1_def zrem_law split: option.split)
  qed (simp_all add: kid, simp_all add: k_def)
  have "ledger (view sf)" by (simp add: sf_def marks(5))
  then show ?thesis unfolding eq using stale requeued marks(4) by (simp add: metric_ledger)
qed

lemma link_ledger:
  assumes "ledger (view s)" and "jobs (view s) i = Some r"
  shows "ledger (view (saved g (r\<lparr>j_child_job_id := x\<rparr>) s))"
proof -
  have "j_id r = i" using assms by (simp add: ledger_def wf_jobs_def)
  then show ?thesis
    by (intro saved_ledger [OF assms, where j' = "r\<lparr>j_child_job_id := x\<rparr>"]) (auto simp: same_claim_def simp del: saved_view)
qed

lemma enqueue_child_ledger:
  assumes led: "ledger (view s)" and fresh: "jobs (view s) uuid = None"
  shows "ledger (view (snd (enqueue_child_job_once g c uuid i pl s)))"
proof (cases "jobs (view s) i")
  case None
  then show ?thesis using led by (simp add: enqueue_child_job_once_def)
next
  case (Some r)
  define cid where "cid = derived_child_job_id g i"
  define rq where "rq = child_request i r cid pl"
  obtain res s' where enq: "enqueue_job g c uuid rq s = (res, s')" by fastforce
  have led': "ledger (view s')" using enqueue_ledger [OF led fresh, of c rq] enq by simp
  have "\<exists>r'. jobs (view s') i = Some r'"
    using enq
  proof (cases rule: enqueue_cases)
    case (queued k w p kind info u)
    then have "jobs (view s') = (jobs (view u))(k := Some (new_job (gw_cfg g) c rq k w p kind info))" "jobs (view u) = jobs (view s)"
      by (auto intro: jobs_upd simp: unchanged_def)
    then show ?thesis using Some by auto
  qed (use Some in \<open>auto simp: unchanged_def\<close>)
  then obtain r' where r': "jobs (view s') i = Some r'" by blast
  note link = link_ledger [OF led Some] link_ledger [OF led' r']
  show ?thesis
    unfolding enqueue_child_job_once_def get_job_eq Some option.case Let_def cid_def [symmetric] rq_def [symmetric] enq
    using led led' link by (auto simp: r' Some simp del: saved_view split: option.split sum.split)
qed

lemma heartbeat_ledger:
  "ledger (view (report_target_heartbeat g c t s)) = ledger (view s)"
  "ledger (view (report_worker_heartbeat g c w s)) = ledger (view s)"
  "ledger (view (report_scheduler_heartbeat g c p s)) = ledger (view s)"
  "ledger (view (set_model_catalog g c cat s)) = ledger (view s)"
proof -
  have "ledger (view s') = ledger (view s)" if "jobs (view s') = jobs (view s)" "hashes (view s') = hashes (view s)" for s' s
    using ledger_frame [of s s'] ledger_frame [of s' s] that by auto
  note same = this
  show "ledger (view (report_target_heartbeat g c t s)) = ledger (view s)"
    by (rule same) (auto simp: report_target_heartbeat_def connected sadd_law setex_law jobs_def fun_eq_iff)
  show "ledger (view (report_worker_heartbeat g c w s)) = ledger (view s)"
    by (rule same) (auto simp: report_worker_heartbeat_def connected sadd_law setex_law jobs_def fun_eq_iff)
  show "ledger (view (report_scheduler_heartbeat g c p s)) = ledger (view s)"
    by (rule same) (auto simp: report_scheduler_heartbeat_def connected setex_law jobs_def fun_eq_iff)
  show "ledger (view (set_model_catalog g c cat s)) = ledger (view s)"
    by (rule same) (auto simp: set_model_catalog_def connected setex_law jobs_def fun_eq_iff)
qed

lemma listing_ledger:
  "ledger (view s) \<Longrightarrow> ledger (view (snd (list_active_workers g s)))" "ledger (view s) \<Longrightarrow> ledger (view (snd (list_active_targets g s)))"
  by (rule ledger_frame, assumption, rule jobs_cong, simp_all)+

end

section \<open>The step relation\<close>

text \<open>
  One rule per operation of the gateway that changes the state, for any arguments, and one
  for the worker that writes back a copy of a parser job (\<open>worker.py\<close>, line 758), read at any
  time before. Each operation is one step. Fresh identifiers are not in use; targets have a
  name. The first argument after the gateway says whether the step is a race.
\<close>

inductive plane_step :: "('s \<Rightarrow> gspace) \<Rightarrow> 's gateway \<Rightarrow> bool \<Rightarrow> 's \<Rightarrow> 's \<Rightarrow> bool" for view g where
  enqueue: "jobs (view s) uuid = None \<Longrightarrow> plane_step view g False s (snd (enqueue_job g c uuid rq s))"
| enqueue_child: "jobs (view s) uuid = None \<Longrightarrow> plane_step view g False s (snd (enqueue_child_job_once g c uuid i pl s))"
| admit: "tg_target_id t \<noteq> [] \<Longrightarrow> plane_step view g False s (snd (try_admit_job g c i q t s))"
| claim: "plane_step view g (claim_race (view s) pool tid) s (snd (claim_dispatch_job g c w pool tid kind s))"
| renew: "plane_step view g False s (renew_job_lease g c i s)"
| complete: "plane_step view g (settled (jobs (view s)) i \<or> family_race (jobs (view s)) i) s (mark_job_completed g c i answer w s)"
| fail: "plane_step view g (settled (jobs (view s)) i \<or> family_race (jobs (view s)) i) s (mark_job_failed g c i error w s)"
| cancelled: "plane_step view g (family_race (jobs (view s)) i) s (mark_job_cancelled g c i w s)"
| park: "plane_step view g (settled (jobs (view s)) i) s (mark_job_waiting_on_child g i cid stage updates w s)"
| cancel: "s' = snd (cancel_job depth g c i user s)
    \<Longrightarrow> plane_step view g (\<exists>k. family_race (jobs (view s)) k \<and> settled (jobs (view s')) k) s s'"
| reap: "plane_step view g (family_race (jobs (view s)) i) s (snd (reap_job g c i s))"
| write_back: "plane_step view g (stale_copy (jobs (view s)) j) s (saved g (j\<lparr>j_parser_metadata := m, j_lifecycle_stage := stage\<rparr>) s)"
| target_heartbeat: "plane_step view g False s (report_target_heartbeat g c t s)"
| worker_heartbeat: "plane_step view g False s (report_worker_heartbeat g c wi s)"
| scheduler_heartbeat: "plane_step view g False s (report_scheduler_heartbeat g c status s)"
| catalog: "plane_step view g False s (set_model_catalog g c cat s)"
| event: "plane_step view g False s (emit_event g i ev s)"
| workers: "plane_step view g False s (snd (list_active_workers g s))"
| targets: "plane_step view g False s (snd (list_active_targets g s))"


abbreviation orderly_run :: "('s \<Rightarrow> gspace) \<Rightarrow> 's gateway \<Rightarrow> 's \<Rightarrow> 's \<Rightarrow> bool" where
  "orderly_run view g \<equiv> (plane_step view g False)\<^sup>*\<^sup>*"

context gateway_store
begin

text \<open>Completing, failing or cancelling a job without a race.\<close>

lemma settle_ledger:
  assumes led: "ledger (view s)" and family: "\<not> family_race (jobs (view s)) i"
  shows "ledger (view (mark_job_cancelled g c i w s))"
    and "\<not> settled (jobs (view s)) i \<Longrightarrow> ledger (view (mark_job_completed g c i txt w s))"
    and "\<not> settled (jobs (view s)) i \<Longrightarrow> ledger (view (mark_job_failed g c i txt w s))"
proof -
  have "ledger (view (mark_job_cancelled g c i w s))
    \<and> (\<not> settled (jobs (view s)) i \<longrightarrow> ledger (view (mark_job_completed g c i txt w s)) \<and> ledger (view (mark_job_failed g c i txt w s)))"
  proof (cases "\<exists>j. jobs (view s) i = Some j \<and> \<not> terminal (j_status j)")
    case True
    then obtain j where j: "jobs (view s) i = Some j" "\<not> terminal (j_status j)" by blast
    have "\<not> holds t r" if "open_root (jobs (view s)) j = Some r" for r t
      using that family j by (auto simp: family_race_def root_idle_def)
    then show ?thesis using mark_ledger(1-3) [OF led j] by blast
  next
    case False
    then show ?thesis
      using led by (auto simp: settled_def mark_job_completed_def mark_job_failed_def mark_job_cancelled_def split: option.split)
  qed
  then show "ledger (view (mark_job_cancelled g c i w s))"
    and "\<not> settled (jobs (view s)) i \<Longrightarrow> ledger (view (mark_job_completed g c i txt w s))"
    and "\<not> settled (jobs (view s)) i \<Longrightarrow> ledger (view (mark_job_failed g c i txt w s))" by blast+
qed

lemma mark_cancelled_settled:
  assumes "jobs (view s) k = Some j" and "j_id j = k"
  shows "settled (jobs (view (mark_job_cancelled g c k w s))) k"
  using assms by (cases "terminal (j_status j)")
    (auto simp: settled_def mark_job_cancelled_eq [OF assms] finish_jobs split: option.split)

text \<open>A cancellation without a race settles only jobs whose open root, if there is one, holds nothing.\<close>

lemma cancel_step_ledger:
  assumes "cancel_effect c s s'" and led: "ledger (view s)"
    and orderly: "\<And>k. family_race (jobs (view s)) k \<Longrightarrow> \<not> settled (jobs (view s')) k"
  shows "ledger (view s')"
  using assms(1) unfolding cancel_effect_def
proof (elim disjE exE conjE)
  fix k j q assume k: "jobs (view s) k = Some j" "\<not> terminal (j_status j)" and s': "s' = mark_job_cancelled g c k None (snd (LREM R q k s))"
  have id: "j_id j = k" using led k by (simp add: ledger_def wf_jobs_def)
  have "settled (jobs (view s')) k" unfolding s' by (rule mark_cancelled_settled [OF _ id]) (simp add: k)
  then have "\<not> family_race (jobs (view s)) k" using orderly by blast
  then show ?thesis unfolding s' using led by (intro settle_ledger(1)) simp_all
next
  fix k j assume k: "jobs (view s) k = Some j" "\<not> terminal (j_status j)"
    and s': "s' = emit_event g k (own_event k EvCancelling) (saved g (j\<lparr>j_cancel_requested := True\<rparr>) s)"
  have id: "j_id j = k" using led k by (simp add: ledger_def wf_jobs_def)
  have J: "jobs (view s') = (jobs (view s))(k := Some (j\<lparr>j_cancel_requested := True\<rparr>))"
    unfolding s' jobs_emit_event jobs_saved by (simp add: id)
  show ?thesis
    by (rule saved_ledger [OF led k(1) _ _ _ J]) (simp_all add: same_claim_def s')
qed (use led in simp)

lemma park_ledger:
  assumes "ledger (view s)" and "\<not> settled (jobs (view s)) i"
  shows "ledger (view (mark_job_waiting_on_child g i cid stage upd w s))"
proof (cases "jobs (view s) i")
  case None
  then show ?thesis using assms(1) by (simp add: mark_job_waiting_on_child_def)
next
  case (Some j)
  then show ?thesis using assms by (intro waiting_ledger) (auto simp: settled_def)
qed

lemma write_back_ledger:
  assumes led: "ledger (view s)" and "\<not> stale_copy (jobs (view s)) j"
  shows "ledger (view (saved g (j\<lparr>j_parser_metadata := m, j_lifecycle_stage := stage\<rparr>) s))"
proof -
  let ?j = "j\<lparr>j_parser_metadata := m, j_lifecycle_stage := stage\<rparr>"
  obtain k where k: "jobs (view s) (j_id j) = Some k" "same_claim j k" "j_status j = j_status k"
    using assms(2) by (auto simp: stale_copy_def)
  show ?thesis
    by (rule saved_ledger [OF led k(1), where j' = ?j]) (use k in \<open>auto simp: same_claim_def simp del: saved_view\<close>)
qed

lemma orderly_step_ledger:
  assumes "plane_step view g False s s'" and led: "ledger (view s)"
    and overhead: "0 \<le> LLM_GPU_RUNTIME_OVERHEAD_MB (gw_cfg g)" "0 \<le> LLM_CPU_RUNTIME_OVERHEAD_MB (gw_cfg g)"
  shows "ledger (view s')"
  using assms(1)
proof cases
  case (claim pool tid c w kind)
  show ?thesis unfolding claim(2) by (rule claim_ledger [OF led]) (use claim(1) in \<open>auto simp: claim_race_def\<close>)
next
  case (cancel depth c i user)
  have "cancel_effect c s s'" unfolding cancel(2) using cancel_job_effect(1) [of g] by blast
  then show ?thesis by (rule cancel_step_ledger [OF _ led]) (use cancel(1) in blast)
next
  case (event i ev)
  show ?thesis unfolding event by (rule ledger_frame [OF led]) simp_all
qed (use led overhead in \<open>auto simp: heartbeat_ledger
      intro: enqueue_ledger enqueue_child_ledger try_admit_ledger renew_ledger settle_ledger park_ledger write_back_ledger
        reap_ledger listing_ledger simp del: saved_view\<close>)

lemma orderly_run_ledger:
  assumes "orderly_run view g s s'" and "ledger (view s)"
    and "0 \<le> LLM_GPU_RUNTIME_OVERHEAD_MB (gw_cfg g)" "0 \<le> LLM_CPU_RUNTIME_OVERHEAD_MB (gw_cfg g)"
  shows "ledger (view s')"
  using assms(1,2) by (induction rule: rtranclp_induct) (auto intro: orderly_step_ledger assms)

end


section \<open>A pass of the scheduler is a run\<close>

context gateway_store
begin

lemma schedule_candidates_run:
  assumes "\<And>t. t \<in> snd ` set targets \<Longrightarrow> tg_target_id t \<noteq> []"
  shows "orderly_run view g (snd x) (snd (schedule_candidates g c targets pairs cands x))"
  unfolding schedule_candidates_def
proof (induction cands arbitrary: x)
  case Nil
  then show ?case by simp
next
  case (Cons qj cands)
  obtain q j n s where qj: "qj = (q, j)" and x: "x = (n, s)" by (cases qj, cases x) auto
  show ?case
  proof (cases "pick_target g j targets pairs s")
    case None
    then show ?thesis using Cons.IH [of x] by (simp add: qj x)
  next
    case (Some t)
    have "t \<in> snd ` set targets"
    proof -
      define xs where "xs = map (\<lambda>t. (target_score (j_model_key j) t (get_target_usage g (tg_target_id t) s), t))
            (filter (\<lambda>t. (j_worker_pool j, tg_target_id t) \<in> pairs) (map snd targets))"
      obtain k ys where "sort_key fst xs = (k, t) # ys"
        using Some by (cases "sort_key fst xs") (auto simp: pick_target_def xs_def [symmetric])
      then have "(k, t) \<in> set xs" by (metis list.set_intros(1) set_sort)
      then show ?thesis by (auto simp: xs_def image_iff)
    qed
    moreover obtain ok s' where admit: "try_admit_job g c (j_id j) q t s = (ok, s')" by fastforce
    ultimately have "plane_step view g False s s'" using assms plane_step.admit [of t view g s c "j_id j" q] by simp
    then show ?thesis
      using Cons.IH [of "(if ok then n + 1 else n, s')"]
      by (auto simp: qj x Some admit intro: converse_rtranclp_into_rtranclp)
  qed
qed

lemma target_index_values: "t \<in> snd ` set (target_index ts) \<Longrightarrow> t \<in> set ts"
proof -
  have "snd ` set (fold (\<lambda>t. AList.update (tg_target_id t) t) ts acc) \<subseteq> set ts \<union> snd ` set acc" for acc
  proof (induction ts arbitrary: acc)
    case (Cons t ts)
    have "snd ` set (AList.update (tg_target_id t) t acc) \<subseteq> insert t (snd ` set acc)"
      by (induction acc) auto
    then have "set ts \<union> snd ` set (AList.update (tg_target_id t) t acc) \<subseteq> set (t # ts) \<union> snd ` set acc" by auto
    then show ?case using order_trans [OF Cons.IH [of "AList.update (tg_target_id t) t acc"]] by simp
  qed simp
  from this [of "[]"] show "t \<in> snd ` set (target_index ts) \<Longrightarrow> t \<in> set ts" by (auto simp: target_index_def)
qed

lemma schedule_once_run:
  assumes "\<And>t i. read_target R s i = Some t \<Longrightarrow> tg_target_id t \<noteq> []"
  shows "orderly_run view g s (snd (schedule_once g c s))"
proof -
  define s1 s2 where "s1 = snd (list_active_workers g s)" and "s2 = snd (list_active_targets g s1)"
  have steps: "orderly_run view g s s1" "orderly_run view g s s2"
    using plane_step.workers [of view g s] plane_step.targets [of view g s1]
    by (auto simp: s1_def s2_def intro: rtranclp.rtrancl_into_rtrancl)
  have "read_target R s1 = read_target R s" by (auto simp: read_target_def fun_eq_iff get_law s1_def)
  then have named: "tg_target_id t \<noteq> []" if "t \<in> set (fst (list_active_targets g s1))" for t
    using that assms by (auto simp: list_active_targets_def connected Let_def map_filter_def)
  let ?targets = "target_index (fst (list_active_targets g s1))"
  have "orderly_run view g s2 (snd (schedule_candidates g c ?targets pairs cands (0, s2)))" for pairs cands
    using schedule_candidates_run [where targets = ?targets and c = c and pairs = pairs and cands = cands and x = "(0, s2)"]
      named target_index_values by auto
  with steps(2) have "orderly_run view g s (snd (schedule_candidates g c ?targets pairs cands (0, s2)))" for pairs cands
    by (rule rtranclp_trans)
  then show ?thesis using steps
    by (simp add: schedule_once_def case_prod_beta Let_def s1_def s2_def)
qed

section \<open>A stale dispatch entry\<close>

lemma stale_claim:
  assumes led: "ledger (view s)" and j: "jobs (view s) i = Some j" "j_status j = Admitted" and i: "i \<noteq> []"
    and "\<not> now c < int_or (j_lease_until j) 0" "\<not> j_cancel_requested j" "\<not> deadline_passed c j"
    and "int_or (Some (j_max_retries j)) (SCHEDULER_MAX_JOB_RETRIES (gw_cfg g)) \<le> j_retry_count j"
    and tgt: "j_assigned_target_id j = Some tid" and queue: "lists (view s) (DispatchQueueKey pool tid) = ids @ [i]"
    and kind: "normalize_target_kind (Some kd) = j_target_kind j" and idle: "root_idle (jobs (view s)) j"
  shows "\<exists>k k'. jobs (view (snd (reap_job g c i s))) i = Some k \<and> j_status k = Failed \<and> ledger (view (snd (reap_job g c i s)))
    \<and> fst (claim_dispatch_job g c w pool tid (Some kd) (snd (reap_job g c i s))) = Some k' \<and> j_status k' = Running
    \<and> jobs (view (snd (claim_dispatch_job g c w pool tid (Some kd) (snd (reap_job g c i s))))) i = Some k'
    \<and> \<not> ledger (view (snd (claim_dispatch_job g c w pool tid (Some kd) (snd (reap_job g c i s)))))"
proof -
  have id: "j_id j = i" and wfj: "wf_job j" using led j by (auto simp: ledger_def wf_jobs_def)
  define k where "k = j\<lparr>j_retry_count := j_retry_count j + 1, j_status := Failed, j_finished_at := Some (now c),
      j_finished_at_ms := Some (now_ms c), j_error := Some GENERIC_CHAT_ERROR\<rparr>"
  define s1 where "s1 = finish_job g c k LIFECYCLE_STAGE_CHILD_FAILED (EvErrorDone GENERIC_CHAT_ERROR) (j_assigned_worker_id j) s"
  have reap: "snd (reap_job g c i s) = s1"
    using assms by (simp add: reap_job_def connected cancel_stale_requested_job_def Let_def mark_job_failed_from_record_eq k_def s1_def)
  have led1: "ledger (view s1)" using reap_ledger [OF led, of i c] idle j reap by (auto simp: family_race_def)
  have keyed: "\<And>i j. jobs (view s) i = Some j \<Longrightarrow> j_id j = i" using led by (simp add: ledger_def wf_jobs_def)
  have kid: "j_id k = i" by (simp add: k_def id)
  have k1: "jobs (view s1) i = Some k"
  proof -
    have "i \<noteq> j_id r" if "open_root ((jobs (view s))(j_id k := Some k)) k = Some r" for r
      using that linked_child_root_distinct [of k] keyed kid unfolding open_root_upd
      by (auto simp: open_root_def split: if_splits option.splits)
    then show ?thesis by (simp add: s1_def finish_jobs kid split: option.split)
  qed
  have q1: "lists (view s1) (DispatchQueueKey pool tid) = ids @ [i]"
    by (simp add: s1_def finish_job_def queue split: option.split)
  then have ne: "lists (view s1) (DispatchQueueKey pool tid) \<noteq> []" by simp
  define s2 where "s2 = snd (RPOPLPUSH R (DispatchQueueKey pool tid) (ProcessingQueueKey w) s1)"
  have pop: "RPOPLPUSH R (DispatchQueueKey pool tid) (ProcessingQueueKey w) s1 = (Some i, s2)"
    using rpoplpush_value_law [OF ne, of "ProcessingQueueKey w"] q1 by (simp add: s2_def prod_eq_iff)
  have frame: "jobs (view s2) = jobs (view s1)" "hashes (view s2) = hashes (view s1)"
    by (simp_all add: s2_def rpoplpush_law [OF ne])
  define k' where "k' = (let job = k\<lparr>j_status := Running, j_assigned_worker_id := Some w, j_started_at := Some (int_or (j_started_at k) (now c)),
        j_started_at_ms := Some (int_or (j_started_at_ms k) (now_ms c))\<rparr> in
        job\<lparr>j_queue_wait_ms := compute_queue_wait_ms job, j_lease_until := Some (now c + SCHEDULER_JOB_LEASE_SECONDS (gw_cfg g))\<rparr>)"
  define s3 where "s3 = emit_event g i (own_event i (EvRunning tid))
      (ZADD R ActiveJobsZset i (now c + SCHEDULER_JOB_LEASE_SECONDS (gw_cfg g)) (saved g k' s2))"
  have "\<not> deadline_passed c k" "j_target_kind k = j_target_kind j" using assms(7) by (simp_all add: k_def deadline_passed_def)
  then have claim: "claim_dispatch_job g c w pool tid (Some kd) s1 = (Some k', s3)"
    using i kind by (simp add: claim_dispatch_job_def connected pop frame k1 Let_def k'_def s3_def)
  have k': "j_id k' = i" "j_status k' = Running" "j_assigned_target_id k' = Some tid" by (simp_all add: k'_def Let_def k_def id tgt)
  have J: "jobs (view s3) = (jobs (view s1))(i := Some k')"
    unfolding s3_def jobs_emit_event jobs_writes jobs_saved by (simp add: frame k')
  have "\<not> ledger (view s3)"
  proof
    assume "ledger (view s3)"
    then have "usage (view s3) tid ''active_jobs'' = total (held tid ''active_jobs'') (jobs (view s3))" by (simp add: ledger_def)
    moreover have "usage (view s1) tid ''active_jobs'' = total (held tid ''active_jobs'') (jobs (view s1))" "finite (dom (jobs (view s1)))"
      using led1 by (simp_all add: ledger_def wf_jobs_def)
    moreover have "usage (view s3) = usage (view s1)" by (rule usage_cong) (simp add: s3_def zadd_law frame)
    moreover have "held tid ''active_jobs'' k' = 1" "held tid ''active_jobs'' k = 0"
      using k' by (auto simp: held_def holds_def job_charge_def charge_def k_def workload_field_neq [symmetric])
    ultimately show False by (simp add: J total_upd weight_at_def k1)
  qed
  then show ?thesis using k1 led1 claim k' J by (simp add: reap) (simp add: k_def)
qed

end


section \<open>Properties\<close>




text \<open>
  C13: the race of reaper and claim breaks the ledger. An admitted job whose lease ran out
  before a worker took it from the dispatch queue, with no retries left, is failed by the
  reaper, which does not remove it from the dispatch queue: the next claim on that queue
  hands the failed job to a worker, stores it as running again, and from then on the job is
  counted by nobody although it holds its reservation.
\<close>

theorem stale_claim_breaks_ledger:
  assumes "gateway_store R view g" and "ledger (view s)" and "jobs (view s) i = Some j" "j_status j = Admitted" and "i \<noteq> []"
    and "\<not> now c < int_or (j_lease_until j) 0" "\<not> j_cancel_requested j" "\<not> deadline_passed c j"
    and "int_or (Some (j_max_retries j)) (SCHEDULER_MAX_JOB_RETRIES (gw_cfg g)) \<le> j_retry_count j"
    and "j_assigned_target_id j = Some tid" and "lists (view s) (DispatchQueueKey pool tid) = ids @ [i]"
    and "normalize_target_kind (Some kd) = j_target_kind j" and "root_idle (jobs (view s)) j"
  shows "\<exists>k k'. jobs (view (snd (reap_job g c i s))) i = Some k \<and> j_status k = Failed \<and> ledger (view (snd (reap_job g c i s)))
    \<and> fst (claim_dispatch_job g c w pool tid (Some kd) (snd (reap_job g c i s))) = Some k' \<and> j_status k' = Running
    \<and> jobs (view (snd (claim_dispatch_job g c w pool tid (Some kd) (snd (reap_job g c i s))))) i = Some k'
    \<and> \<not> ledger (view (snd (claim_dispatch_job g c w pool tid (Some kd) (snd (reap_job g c i s)))))"
  by (rule gateway_store.stale_claim [OF assms])

text \<open>The job of the examples, admitted and still in the dispatch queue, on its last try.\<close>

definition dispatched_job :: job where
  "dispatched_job = demo_job\<lparr>j_status := Admitted, j_assigned_worker_id := None, j_retry_count := 2\<rparr>"

definition dispatched_space :: gspace where
  "dispatched_space = demo_space\<lparr>strs := (\<lambda>k. if k = JobKey ''j1'' then Some (GJob dispatched_job) else None),
     lists := (\<lambda>k. if k = DispatchQueueKey PoolChat ''t1'' then [''j1''] else [])\<rparr>"

lemma dispatched_jobs: "jobs dispatched_space = [''j1'' \<mapsto> dispatched_job]"
  by (auto simp: jobs_def dispatched_space_def)

lemma dispatched_ledger: "ledger dispatched_space"
proof -
  have "wf_job demo_job" using demo_ledger by (auto simp: ledger_def wf_jobs_def demo_jobs split: if_splits)
  then have "wf_job dispatched_job" by (simp add: wf_job_def dispatched_job_def demo_job_def)
  moreover have "jobs dispatched_space = (jobs demo_space)(''j1'' := Some dispatched_job)" by (simp add: dispatched_jobs demo_jobs)
  ultimately show ?thesis
    by (intro ledger_same_weight [OF demo_ledger])
      (auto simp: dispatched_space_def weight_at_def demo_jobs held_def held_model_def holds_def dispatched_job_def demo_job_def job_charge_def
        intro!: usage_cong model_refs_cong)
qed

theorem stale_claim_breaks_ledger_witness:
  "\<not> ledger (snd (claim_dispatch_job (mem_gateway default_settings) \<lparr>now = 200, now_ms = 200000\<rparr> ''w2'' PoolChat ''t1'' (Some ''cpu'')
      (snd (reap_job (mem_gateway default_settings) \<lparr>now = 200, now_ms = 200000\<rparr> ''j1'' dispatched_space))))"
proof -
  let ?c = "\<lparr>now = 200, now_ms = 200000\<rparr>"
  have kind: "normalize_target_kind (Some ''cpu'') = Cpu" by code_simp
  have "lists dispatched_space (DispatchQueueKey PoolChat ''t1'') = [] @ [''j1'']" by (simp add: dispatched_space_def)
  note stale = stale_claim_breaks_ledger [where view = "\<lambda>s. s" and j = dispatched_job and kd = "''cpu''",
      OF memg.gateway_store_axioms dispatched_ledger _ _ _ _ _ _ _ _ this]
  have "\<exists>k k'. jobs (snd (reap_job (mem_gateway default_settings) ?c ''j1'' dispatched_space)) ''j1'' = Some k \<and> j_status k = Failed
    \<and> ledger (snd (reap_job (mem_gateway default_settings) ?c ''j1'' dispatched_space))
    \<and> fst (claim_dispatch_job (mem_gateway default_settings) ?c ''w2'' PoolChat ''t1'' (Some ''cpu'')
        (snd (reap_job (mem_gateway default_settings) ?c ''j1'' dispatched_space))) = Some k' \<and> j_status k' = Running
    \<and> jobs (snd (claim_dispatch_job (mem_gateway default_settings) ?c ''w2'' PoolChat ''t1'' (Some ''cpu'')
        (snd (reap_job (mem_gateway default_settings) ?c ''j1'' dispatched_space)))) ''j1'' = Some k'
    \<and> \<not> ledger (snd (claim_dispatch_job (mem_gateway default_settings) ?c ''w2'' PoolChat ''t1'' (Some ''cpu'')
        (snd (reap_job (mem_gateway default_settings) ?c ''j1'' dispatched_space))))"
    by (rule stale) (simp_all add: dispatched_jobs dispatched_job_def demo_job_def
        root_idle_def open_root_def is_linked_child_job_def deadline_passed_def kind int_or_def
        mem_gateway_def default_settings_def)
  then show ?thesis by blast
qed

end
