(* ===== verification/Identity.thy ===== *)
theory Identity
  imports Config Jobs
begin

text \<open>
  Who a user is (\<open>auth_kerberos.py\<close>): normalisation of user names and groups, the identity
  that every kind of login produces, and its completion when it is read back from a session
  token. A dictionary of user information is the record \<open>user_info\<close>; \<open>None\<close> is a missing key.
  The lemmas show that normalised values are fixed points, so that passing an identity
  through any number of tokens does not change it any more.
\<close>

section \<open>Text\<close>

text \<open>\<open>str.upper\<close>; the capital of the micro sign is outside the code page and is left alone.\<close>

definition py_upper_char :: "char \<Rightarrow> char" where
  "py_upper_char c = (let n = (of_char c :: nat) in
     if (97 \<le> n \<and> n \<le> 122) \<or> (224 \<le> n \<and> n \<le> 255) then char_of (n - 32)
     else case map_of (map (\<lambda>(u, l). (l, u)) cp1251_upper) n of Some m \<Rightarrow> char_of m | None \<Rightarrow> c)"

definition py_upper :: "string \<Rightarrow> string" where
  "py_upper s = map py_upper_char s"

fun py_capitalize :: "string \<Rightarrow> string" where
  "py_capitalize [] = []"
| "py_capitalize (c # cs) = py_upper_char c # py_lower cs"

definition username_char :: "char \<Rightarrow> bool" where
  "username_char c \<longleftrightarrow> (let n = (of_char c :: nat) in
     (65 \<le> n \<and> n \<le> 90) \<or> (97 \<le> n \<and> n \<le> 122) \<or> (48 \<le> n \<and> n \<le> 57) \<or> c = CHR ''.'' \<or> c = CHR ''_'' \<or> c = CHR ''-'')"

text \<open>\<open>USERNAME_RE.fullmatch\<close>.\<close>

definition USERNAME_RE :: "string \<Rightarrow> bool" where
  "USERNAME_RE s \<longleftrightarrow> s \<noteq> [] \<and> list_all username_char s"

section \<open>Normalisation\<close>

definition normalize_username :: "string \<Rightarrow> string" where
  "normalize_username username =
     (let normalized = py_strip username;
          normalized = (case py_split1 [CHR 0x5C] normalized of None \<Rightarrow> normalized | Some (_, b) \<Rightarrow> b);
          normalized = (case py_split1 ''@'' normalized of None \<Rightarrow> normalized | Some (a, _) \<Rightarrow> a);
          normalized = py_lower (py_strip normalized)
      in if normalized = [] \<or> \<not> USERNAME_RE normalized then [] else normalized)"

definition coerce_identity_timestamp :: "int option \<Rightarrow> int \<Rightarrow> int" where
  "coerce_identity_timestamp value dflt = (case value of None \<Rightarrow> dflt
     | Some candidate \<Rightarrow> if 0 < candidate then candidate else dflt)"

definition AUTH_SOURCE_PASSWORD :: string where "AUTH_SOURCE_PASSWORD = ''password''"
definition AUTH_SOURCE_SSO :: string where "AUTH_SOURCE_SSO = ''sso''"
definition AUTH_SOURCE_LOCAL_ADMIN :: string where "AUTH_SOURCE_LOCAL_ADMIN = ''local_admin''"
definition IDENTITY_VERSION :: int where "IDENTITY_VERSION = 1"

definition normalize_auth_source :: "string option \<Rightarrow> string" where
  "normalize_auth_source value = (let normalized = py_lower (strip_opt value) in
     if normalized \<in> {AUTH_SOURCE_PASSWORD, AUTH_SOURCE_SSO, AUTH_SOURCE_LOCAL_ADMIN} then normalized
     else AUTH_SOURCE_PASSWORD)"

text \<open>The loop of \<open>normalize_groups\<close>: the set of lower-case names seen so far is an argument.\<close>

fun normalize_groups_loop :: "string set \<Rightarrow> string list \<Rightarrow> string list" where
  "normalize_groups_loop seen [] = []"
| "normalize_groups_loop seen (g # groups) =
     (let candidate = py_strip g; key = py_lower candidate in
      if candidate = [] then normalize_groups_loop seen groups
      else if key \<in> seen then normalize_groups_loop seen groups
      else candidate # normalize_groups_loop (insert key seen) groups)"

definition normalize_groups :: "string list option \<Rightarrow> string list" where
  "normalize_groups groups = (case normalize_groups_loop {} (case groups of None \<Rightarrow> [] | Some gs \<Rightarrow> gs) of
     [] \<Rightarrow> [''domain_users''] | gs \<Rightarrow> gs)"

definition canonical_principal_for_username :: "('a ldap_settings_scheme) \<Rightarrow> string \<Rightarrow> string" where
  "canonical_principal_for_username cfg username = (let normalized = normalize_username username in
     if normalized = [] then [] else normalized @ ''@'' @ py_upper (KERBEROS_REALM cfg))"

section \<open>The identity\<close>

record user_info =
  ui_username :: string
  ui_canonical_principal :: "string option"
  ui_display_name :: "string option"
  ui_email :: "string option"
  ui_groups :: "string list option"
  ui_auth_source :: "string option"
  ui_auth_time :: "int option"
  ui_directory_checked_at :: "int option"
  ui_identity_version :: "int option"
  ui_model :: "string option"
  ui_model_description :: "string option"
  ui_model_key :: "string option"

text \<open>\<open>x or d\<close> on an optional text.\<close>

definition text_or :: "string option \<Rightarrow> string \<Rightarrow> string" where
  "text_or x d = (case x of None \<Rightarrow> d | Some s \<Rightarrow> if s = [] then d else s)"

definition build_identity_contract ::
  "('a ldap_settings_scheme) \<Rightarrow> clock \<Rightarrow> string \<Rightarrow> string option \<Rightarrow> string option \<Rightarrow> string list option \<Rightarrow>
   string option \<Rightarrow> string option \<Rightarrow> int option \<Rightarrow> int option \<Rightarrow> int option \<Rightarrow> user_info" where
  "build_identity_contract cfg c username display_name email groups canonical_principal auth_source auth_time
     directory_checked_at identity_version =
     (let normalized = normalize_username username;
          effective_auth_time = coerce_identity_timestamp auth_time (now c)
      in \<lparr>ui_username = normalized,
          ui_canonical_principal = Some (py_strip (text_or canonical_principal (canonical_principal_for_username cfg normalized))),
          ui_display_name = Some (if normalized = [] then [] else py_strip (text_or display_name (py_capitalize normalized))),
          ui_email = Some (if normalized = [] then [] else py_strip (text_or email (normalized @ ''@'' @ LDAP_DOMAIN cfg))),
          ui_groups = Some (normalize_groups groups),
          ui_auth_source = Some (normalize_auth_source auth_source),
          ui_auth_time = Some effective_auth_time,
          ui_directory_checked_at = Some (coerce_identity_timestamp directory_checked_at effective_auth_time),
          ui_identity_version = Some (coerce_identity_timestamp identity_version IDENTITY_VERSION),
          ui_model = None, ui_model_description = None, ui_model_key = None\<rparr>)"

text \<open>
  The keys of the contract replace those of the argument, the other keys stay. \<open>auth_source\<close>
  is the value of the keyword argument.
\<close>

definition enrich_identity_session_fields ::
  "('a ldap_settings_scheme) \<Rightarrow> clock \<Rightarrow> user_info \<Rightarrow> string option \<Rightarrow> int option \<Rightarrow> user_info" where
  "enrich_identity_session_fields cfg c user_info auth_source now_ts =
     (build_identity_contract cfg c (ui_username user_info) (ui_display_name user_info) (ui_email user_info)
        (ui_groups user_info) (ui_canonical_principal user_info) (str_or (ui_auth_source user_info) auth_source)
        (Some (coerce_identity_timestamp (ui_auth_time user_info) (int_or now_ts (now c))))
        (ui_directory_checked_at user_info) (ui_identity_version user_info))
       \<lparr>ui_model := ui_model user_info, ui_model_description := ui_model_description user_info,
        ui_model_key := ui_model_key user_info\<rparr>"

definition groups_lower :: "user_info \<Rightarrow> string list" where
  "groups_lower user_info = map py_lower (case ui_groups user_info of None \<Rightarrow> [] | Some gs \<Rightarrow> gs)"


section \<open>Normal forms\<close>

lemma username_char_facts:
  assumes "username_char c"
  shows "\<not> py_isspace c" "c \<noteq> CHR 0x5C" "c \<noteq> CHR ''@''" "(of_char c :: nat) < 128"
  using assms by (auto simp: username_char_def py_isspace_def Let_def)

text \<open>A name is normal if normalisation gave it: lower-case letters, digits and three punctuation marks.\<close>

definition normal_username :: "string \<Rightarrow> bool" where
  "normal_username u \<longleftrightarrow> USERNAME_RE u \<and> py_lower u = u"

lemma normalize_username_normal: "normalize_username u = [] \<or> normal_username (normalize_username u)"
  by (auto simp: normalize_username_def Let_def normal_username_def)

lemma py_strip_idle: "\<forall>c \<in> set s. \<not> py_isspace c \<Longrightarrow> py_strip s = s"
proof -
  assume "\<forall>c \<in> set s. \<not> py_isspace c"
  then have "s = [] \<or> \<not> py_isspace (hd s) \<and> \<not> py_isspace (last s)" by auto
  then have "py_lstrip s = s" "py_rstrip s = s" by (auto intro: py_lstrip_idle py_rstrip_idle)
  then show ?thesis by (simp add: py_strip_def)
qed

lemma py_split1_absent: "c \<notin> set s \<Longrightarrow> py_split1 [c] s = None"
proof -
  assume "c \<notin> set s"
  then have "py_find [c] s = None" by (induction s) (auto simp: prefix_def)
  then show ?thesis by (simp add: py_split1_def)
qed

lemma normalize_username_fixed: "normal_username u \<Longrightarrow> normalize_username u = u"
proof -
  assume u: "normal_username u"
  then have facts: "\<forall>c \<in> set u. \<not> py_isspace c \<and> c \<noteq> CHR 0x5C \<and> c \<noteq> CHR ''@''"
    using username_char_facts by (auto simp: normal_username_def USERNAME_RE_def list_all_iff)
  then have "py_strip u = u" by (intro py_strip_idle) auto
  moreover have "CHR 0x5C \<notin> set u" "CHR ''@'' \<notin> set u" using facts by blast+
  then have "py_split1 [CHR 0x5C] u = None" "py_split1 ''@'' u = None"
    by (blast intro: py_split1_absent)+
  ultimately show ?thesis using u by (simp add: normalize_username_def normal_username_def USERNAME_RE_def)
qed

lemma normalize_username_Nil [simp]: "normalize_username [] = []"
  by (simp add: normalize_username_def py_split1_def py_lower_def)

lemma normalize_username_idem [simp]: "normalize_username (normalize_username u) = normalize_username u"
  using normalize_username_normal [of u] normalize_username_fixed [of "normalize_username u"] by auto

lemmas auth_sources = AUTH_SOURCE_PASSWORD_def AUTH_SOURCE_SSO_def AUTH_SOURCE_LOCAL_ADMIN_def

lemmas text_evals = py_strip_def py_lstrip_def py_rstrip_def py_isspace_def py_lower_def py_lower_char_def cp1251_upper_def

lemma normalize_auth_source_idem [simp]: "normalize_auth_source (Some (normalize_auth_source x)) = normalize_auth_source x"
proof -
  have "normalize_auth_source x \<in> {AUTH_SOURCE_PASSWORD, AUTH_SOURCE_SSO, AUTH_SOURCE_LOCAL_ADMIN}"
    by (auto simp: normalize_auth_source_def Let_def)
  moreover have "normalize_auth_source (Some s) = s" if "s \<in> {AUTH_SOURCE_PASSWORD, AUTH_SOURCE_SSO, AUTH_SOURCE_LOCAL_ADMIN}" for s
    using that by (auto simp: normalize_auth_source_def strip_opt_def auth_sources text_evals)
  ultimately show ?thesis by auto
qed

lemma normalize_auth_source_nonempty [simp]: "normalize_auth_source x \<noteq> []"
  by (simp add: normalize_auth_source_def Let_def auth_sources)

text \<open>Groups are normal if they are stripped, not blank and differ in more than case.\<close>

definition normal_groups :: "string list \<Rightarrow> bool" where
  "normal_groups gs \<longleftrightarrow> (\<forall>g \<in> set gs. py_strip g = g \<and> g \<noteq> []) \<and> distinct (map py_lower gs)"

lemma groups_loop_normal:
  "normal_groups (normalize_groups_loop seen gs) \<and> py_lower ` set (normalize_groups_loop seen gs) \<inter> seen = {}"
proof (induction seen gs rule: normalize_groups_loop.induct)
  case (1 seen)
  then show ?case by (simp add: normal_groups_def)
next
  case (2 seen g gs)
  show ?case
  proof (cases "py_strip g = [] \<or> py_lower (py_strip g) \<in> seen")
    case True
    then show ?thesis using "2.IH"(1,2) [OF refl refl] by (cases "py_strip g = []") (simp_all add: Let_def)
  next
    case False
    define rest where "rest = normalize_groups_loop (insert (py_lower (py_strip g)) seen) gs"
    have "normal_groups rest" "py_lower ` set rest \<inter> insert (py_lower (py_strip g)) seen = {}"
      using "2.IH"(3) [OF refl refl] False by (simp_all add: rest_def)
    moreover from this(2) have "py_lower (py_strip g) \<notin> py_lower ` set rest" by blast
    moreover have "normalize_groups_loop seen (g # gs) = py_strip g # rest" using False by (simp add: Let_def rest_def)
    ultimately show ?thesis using False by (auto simp: normal_groups_def)
  qed
qed

lemma groups_loop_fixed:
  "normal_groups gs \<Longrightarrow> py_lower ` set gs \<inter> seen = {} \<Longrightarrow> normalize_groups_loop seen gs = gs"
proof (induction gs arbitrary: seen)
  case (Cons g gs)
  then have "py_lower g \<notin> py_lower ` set gs" by (auto simp: normal_groups_def)
  with Cons show ?case by (auto simp: normal_groups_def Let_def)
qed simp

lemma normalize_groups_normal: "normal_groups (normalize_groups gs) \<and> normalize_groups gs \<noteq> []"
proof -
  have "py_strip ''domain_users'' = ''domain_users''" by (simp add: text_evals)
  then show ?thesis
    using groups_loop_normal [of "{}" "case gs of None \<Rightarrow> [] | Some gs \<Rightarrow> gs"]
    by (auto simp: normalize_groups_def normal_groups_def split: list.split)
qed

lemma normalize_groups_idem [simp]: "normalize_groups (Some (normalize_groups gs)) = normalize_groups gs"
  using normalize_groups_normal [of gs] groups_loop_fixed [of "normalize_groups gs" "{}"]
  by (simp add: normalize_groups_def [of "Some (normalize_groups gs)"] split: list.split)


section \<open>Identities through sessions\<close>

text \<open>A text field of the contract: the given value or a default, stripped.\<close>

lemma text_field_stable:
  "py_strip (text_or (Some (py_strip (text_or (Some (py_strip (text_or x d))) d))) d) = py_strip (text_or (Some (py_strip (text_or x d))) d)"
  by (simp add: text_or_def)

lemma canonical_principal_idem [simp]:
  "canonical_principal_for_username cfg (normalize_username u) = canonical_principal_for_username cfg u"
  by (simp add: canonical_principal_for_username_def)

lemma coerce_positive: "0 < d \<Longrightarrow> 0 < coerce_identity_timestamp x d"
  by (simp add: coerce_identity_timestamp_def split: option.split)

lemma coerce_fixed [simp]: "0 < x \<Longrightarrow> coerce_identity_timestamp (Some x) d = x"
  by (simp add: coerce_identity_timestamp_def)

lemma str_or_nonempty: "s \<noteq> [] \<Longrightarrow> str_or (Some s) y = Some s"
  by (cases s) (simp_all add: str_or_def)

lemmas contract_defs = enrich_identity_session_fields_def build_identity_contract_def Let_def

lemma enrich_username [simp]: "ui_username (enrich_identity_session_fields cfg c u a t) = normalize_username (ui_username u)"
  by (simp add: contract_defs)

lemma enrich_model [simp]:
  "ui_model (enrich_identity_session_fields cfg c u a t) = ui_model u"
  "ui_model_description (enrich_identity_session_fields cfg c u a t) = ui_model_description u"
  "ui_model_key (enrich_identity_session_fields cfg c u a t) = ui_model_key u"
  by (simp_all add: contract_defs)

text \<open>From the second completion on an identity does not change, whenever and with whatever defaults it is completed.\<close>

lemma enrich_stable:
  assumes "0 < now c" and v: "v = enrich_identity_session_fields cfg c' (enrich_identity_session_fields cfg c u a None) a' None"
  shows "enrich_identity_session_fields cfg c'' v a'' None = v"
proof -
  have pos: "0 < coerce_identity_timestamp (ui_auth_time u) (now c)" "0 < IDENTITY_VERSION"
    using assms(1) coerce_positive by (auto simp: IDENTITY_VERSION_def)
  note pos' = coerce_positive [OF pos(1)] coerce_positive [OF pos(2)]
  show ?thesis
    using pos pos' unfolding v
    by (simp add: contract_defs text_field_stable str_or_nonempty)
qed

end
