(* ===== verification/Web_Base.thy ===== *)
theory Web_Base
  imports Identity Redis_Store
begin

text \<open>
  What the web tier is built from: requests and responses with their cookies, the part of
  \<open>urllib.parse\<close> that is used, session tokens, and the keys of the authentication data in
  Redis. The token library (\<open>jose\<close>) is the parameter \<open>jwt_lib\<close> with the locale \<open>jwt_codec\<close>;
  an interpretation on a plain encoding shows that its laws can hold.
\<close>

section \<open>Text\<close>

text \<open>\<open>s.replace(old, new)\<close> for a non-empty \<open>old\<close>: from left to right, without overlaps.\<close>

function py_replace :: "string \<Rightarrow> string \<Rightarrow> string \<Rightarrow> string" where
  "py_replace old new s =
     (if old = [] \<or> s = [] then s
      else if prefix old s then new @ py_replace old new (drop (length old) s)
      else hd s # py_replace old new (tl s))"
  by pat_completeness auto
termination
  by (relation "measure (\<lambda>(old, new, s). length s)") auto

declare py_replace.simps [simp del]

text \<open>\<open>s.partition(sep)\<close> on a one-character separator, and \<open>rpartition\<close>: before, found, after.\<close>

definition py_partition :: "char \<Rightarrow> string \<Rightarrow> string \<times> bool \<times> string" where
  "py_partition sep s = (case py_split1 [sep] s of None \<Rightarrow> (s, False, []) | Some (a, b) \<Rightarrow> (a, True, b))"

definition py_rpartition :: "char \<Rightarrow> string \<Rightarrow> string \<times> bool \<times> string" where
  "py_rpartition sep s = (case py_rsplit1 [sep] s of None \<Rightarrow> ([], False, s) | Some (a, b) \<Rightarrow> (a, True, b))"

definition is_ascii :: "string \<Rightarrow> bool" where
  "is_ascii s \<longleftrightarrow> list_all (\<lambda>c. (of_char c :: nat) < 128) s"

text \<open>\<open>secrets.compare_digest\<close> on texts, which must be ASCII.\<close>

definition compare_digest :: "string \<Rightarrow> string \<Rightarrow> exn + bool" where
  "compare_digest a b = (if is_ascii a \<and> is_ascii b then Inr (a = b)
     else Inl (TypeError ''comparing strings with non-ASCII characters is not supported''))"

text \<open>
  Scheme and network location of \<open>urlparse\<close>: leading controls and blanks are dropped, tabs
  and line breaks removed. \<open>netloc_ok\<close> stands for the checks of bracketed hosts and of
  Unicode normalisation, which rest on \<open>ipaddress\<close> and \<open>unicodedata\<close>.
\<close>

definition scheme_char :: "char \<Rightarrow> bool" where
  "scheme_char c \<longleftrightarrow> (let n = (of_char c :: nat) in
     (65 \<le> n \<and> n \<le> 90) \<or> (97 \<le> n \<and> n \<le> 122) \<or> (48 \<le> n \<and> n \<le> 57) \<or> c = CHR ''+'' \<or> c = CHR ''-'' \<or> c = CHR ''.'')"

definition ascii_alpha :: "char \<Rightarrow> bool" where
  "ascii_alpha c \<longleftrightarrow> (let n = (of_char c :: nat) in (65 \<le> n \<and> n \<le> 90) \<or> (97 \<le> n \<and> n \<le> 122))"

definition url_text :: "string \<Rightarrow> string" where
  "url_text url = filter (\<lambda>c. (of_char c :: nat) \<notin> {9, 10, 13}) (dropWhile (\<lambda>c. (of_char c :: nat) \<le> 32) url)"

definition url_scheme :: "string \<Rightarrow> string \<times> string" where
  "url_scheme url = (case py_split1 '':'' url of
     Some (a, b) \<Rightarrow> if a \<noteq> [] \<and> ascii_alpha (hd a) \<and> list_all scheme_char a then (py_lower a, b) else ([], url)
   | None \<Rightarrow> ([], url))"

definition urlparse :: "(string \<Rightarrow> bool) \<Rightarrow> string \<Rightarrow> exn + string \<times> string" where
  "urlparse netloc_ok url = (case url_scheme (url_text url) of (scheme, rest) \<Rightarrow>
     if prefix ''//'' rest then
       (let netloc = takeWhile (\<lambda>c. c \<notin> {CHR ''/'', CHR ''?'', CHR ''#''}) (drop 2 rest) in
        if (CHR ''['' \<in> set netloc) \<noteq> (CHR '']'' \<in> set netloc) then Inl (ValueError ''Invalid IPv6 URL'')
        else if netloc_ok netloc then Inr (scheme, netloc) else Inl (ValueError ''Invalid netloc''))
     else Inr (scheme, []))"

section \<open>JSON text\<close>

text \<open>The Unicode code points of the upper half of the code page (the unassigned byte stands for itself).\<close>

definition cp1251_high :: "nat list" where
  "cp1251_high =
     [1026, 1027, 8218, 1107, 8222, 8230, 8224, 8225, 8364, 8240, 1033, 8249, 1034, 1036,
      1035, 1039, 1106, 8216, 8217, 8220, 8221, 8226, 8211, 8212, 152, 8482, 1113, 8250,
      1114, 1116, 1115, 1119, 160, 1038, 1118, 1032, 164, 1168, 166, 167, 1025, 169,
      1028, 171, 172, 173, 174, 1031, 176, 177, 1030, 1110, 1169, 181, 182, 183, 1105,
      8470, 1108, 187, 1112, 1029, 1109, 1111]"

definition unicode_of :: "nat \<Rightarrow> nat" where
  "unicode_of n = (if n < 128 then n else if n < 192 then cp1251_high ! (n - 128) else n - 192 + 1040)"

definition code_point :: "char \<Rightarrow> nat" where
  "code_point c = unicode_of (of_char c)"

definition hex_digit :: "nat \<Rightarrow> char" where
  "hex_digit d = char_of (if d < 10 then 48 + d else 87 + d)"

definition u_escape :: "nat \<Rightarrow> string" where
  "u_escape n = [CHR 0x5C, CHR ''u'', hex_digit (n div 4096 mod 16), hex_digit (n div 256 mod 16),
     hex_digit (n div 16 mod 16), hex_digit (n mod 16)]"

text \<open>A character inside a JSON string, as \<open>json.dumps\<close> writes it with \<open>ensure_ascii\<close>.\<close>

definition json_char :: "char \<Rightarrow> string" where
  "json_char c = (let n = (of_char c :: nat) in
     if n = 34 \<or> n = 92 then [CHR 0x5C, c]
     else if n = 10 then [CHR 0x5C, CHR ''n''] else if n = 13 then [CHR 0x5C, CHR ''r'']
     else if n = 9 then [CHR 0x5C, CHR ''t''] else if n = 8 then [CHR 0x5C, CHR ''b'']
     else if n = 12 then [CHR 0x5C, CHR ''f'']
     else if 32 \<le> n \<and> n \<le> 126 then [c] else u_escape (code_point c))"

definition json_string :: "string \<Rightarrow> string" where
  "json_string s = CHR 0x22 # concat (map json_char s) @ [CHR 0x22]"

definition json_bool :: "bool \<Rightarrow> string" where
  "json_bool b = (if b then ''true'' else ''false'')"

text \<open>A list of texts with the separator \<open>,\<close>.\<close>

definition json_strings :: "string list \<Rightarrow> string" where
  "json_strings xs = CHR ''['' # py_join '','' (map json_string xs) @ '']''"

text \<open>An object with the separators \<open>,\<close> and \<open>:\<close>; the keys are given in order.\<close>

definition json_object :: "(string \<times> string) list \<Rightarrow> string" where
  "json_object kvs = CHR ''{'' # py_join '','' (map (\<lambda>(k, v). json_string k @ '':'' @ v) kvs) @ ''}''"

text \<open>Reading such a list back; used only as the JSON reader of the examples.\<close>

definition hex_value :: "char \<Rightarrow> nat" where
  "hex_value c = (let n = (of_char c :: nat) in if n < 58 then n - 48 else n - 87)"

definition char_of_point :: "nat \<Rightarrow> char" where
  "char_of_point n = (case find (\<lambda>m. code_point (char_of m) = n) [0..<256] of None \<Rightarrow> CHR 0x00 | Some m \<Rightarrow> char_of m)"

definition simple_escape :: "char \<Rightarrow> char" where
  "simple_escape e = (if e = CHR ''n'' then CHR 0x0A else if e = CHR ''r'' then CHR 0x0D else if e = CHR ''t'' then CHR 0x09
     else if e = CHR ''b'' then CHR 0x08 else if e = CHR ''f'' then CHR 0x0C else e)"

fun read_json_string :: "string \<Rightarrow> string \<times> string" where
  "read_json_string [] = ([], [])"
| "read_json_string (c # cs) =
     (if c = CHR 0x22 then ([], cs)
      else if c = CHR 0x5C then
        (case cs of [] \<Rightarrow> ([], [])
         | u # rest \<Rightarrow>
             if u = CHR ''u'' then apfst ((#) (char_of_point (foldl (\<lambda>a d. a * 16 + hex_value d) 0 (take 4 rest)))) (read_json_string (drop 4 rest))
             else apfst ((#) (simple_escape u)) (read_json_string rest))
      else apfst ((#) c) (read_json_string cs))"

fun read_json_items :: "nat \<Rightarrow> string \<Rightarrow> string list" where
  "read_json_items 0 s = []"
| "read_json_items (Suc n) s =
     (if s = [] \<or> hd s = CHR '']'' then []
      else if hd s = CHR '','' then read_json_items n (tl s)
      else (case read_json_string (tl s) of (x, rest) \<Rightarrow> x # read_json_items n rest))"

definition read_json_strings :: "string \<Rightarrow> string list" where
  "read_json_strings s = read_json_items (length s) (tl s)"

lemma hex_value_digit: "d < 16 \<Longrightarrow> hex_value (hex_digit d) = d"
  by (simp add: hex_value_def hex_digit_def Let_def)

lemma read_u_escape:
  assumes "n < 65536"
  shows "read_json_string (u_escape n @ t) = apfst ((#) (char_of_point n)) (read_json_string t)"
proof -
  have "((n div 4096 mod 16 * 16 + n div 256 mod 16) * 16 + n div 16 mod 16) * 16 + n mod 16 = n"
  proof -
    have "n div 256 = n div 16 div 16" "n div 4096 = n div 16 div 16 div 16" by (simp_all add: div_mult2_eq [symmetric])
    moreover have "n div 16 div 16 div 16 < 16" using assms by (simp add: div_mult2_eq [symmetric] less_mult_imp_div_less)
    ultimately show ?thesis by (simp only: mod_less div_mult_mod_eq)
  qed
  moreover have "take 4 (drop 2 (u_escape n @ t)) = [hex_digit (n div 4096 mod 16), hex_digit (n div 256 mod 16),
      hex_digit (n div 16 mod 16), hex_digit (n mod 16)]" by (simp add: u_escape_def)
  moreover have "hex_value (hex_digit (k mod 16)) = k mod 16" for k by (simp add: hex_value_digit)
  ultimately have "foldl (\<lambda>a d. a * 16 + hex_value d) 0 (take 4 (drop 2 (u_escape n @ t))) = n"
    by (simp only: foldl_Cons foldl_Nil mult_0 add_0)
  then show ?thesis by (simp add: u_escape_def)
qed

lemma cp1251_high_facts:
  "length cp1251_high = 64" "distinct cp1251_high" "list_all (\<lambda>n. 128 \<le> n \<and> n < 65536 \<and> \<not> (1040 \<le> n \<and> n \<le> 1103)) cp1251_high"
  by (simp_all add: cp1251_high_def)

lemma cp1251_high_nth: "k < 64 \<Longrightarrow> 128 \<le> cp1251_high ! k \<and> cp1251_high ! k < 65536 \<and> \<not> (1040 \<le> cp1251_high ! k \<and> cp1251_high ! k \<le> 1103)"
  using cp1251_high_facts by (simp add: list_all_length)

lemma unicode_of_simps:
  "n < 128 \<Longrightarrow> unicode_of n = n" "192 \<le> n \<Longrightarrow> unicode_of n = n + 848"
  by (simp_all add: unicode_of_def)

lemma unicode_of_high:
  assumes "128 \<le> n" "n < 192"
  shows "128 \<le> unicode_of n \<and> unicode_of n < 65536 \<and> \<not> (1040 \<le> unicode_of n \<and> unicode_of n \<le> 1103)"
proof -
  have "n - 128 < 64" using assms by linarith
  from cp1251_high_nth [OF this] show ?thesis using assms by (simp add: unicode_of_def)
qed

lemma unicode_of_less: "n < 256 \<Longrightarrow> unicode_of n < 65536"
  using unicode_of_high [of n] unicode_of_simps [of n] by (cases "n < 128"; cases "n < 192") simp_all

lemma unicode_of_inj:
  assumes "unicode_of m = unicode_of n" and "m < 256" "n < 256"
  shows "m = n"
proof -
  have mid: "m = n" if "128 \<le> m" "m < 192" "128 \<le> n" "n < 192"
  proof -
    have "m - 128 < 64" "n - 128 < 64" using that by linarith+
    then have "m - 128 = n - 128"
      using that assms(1) nth_eq_iff_index_eq [OF cp1251_high_facts(2), of "m - 128" "n - 128"] cp1251_high_facts(1)
      by (simp add: unicode_of_def)
    with that show "m = n" by linarith
  qed
  have range: "k < 128 \<and> unicode_of k = k \<or> 128 \<le> k \<and> k < 192 \<and> 128 \<le> unicode_of k \<and> \<not> (1040 \<le> unicode_of k \<and> unicode_of k \<le> 1103)
      \<or> 192 \<le> k \<and> unicode_of k = k + 848" for k
    using unicode_of_high [of k] unicode_of_simps [of k] by (cases "k < 128"; cases "k < 192") auto
  show ?thesis using range [of m] range [of n] assms mid by (elim disjE conjE) auto
qed

lemma char_of_code_point [simp]: "char_of_point (code_point c) = c"
proof -
  let ?P = "\<lambda>m. code_point (char_of m) = code_point c"
  have less: "(of_char c :: nat) < 256" by (rule nat_of_char_less_256)
  have "?P (of_char c)" by simp
  with less have "\<exists>m \<in> set [0..<256]. ?P m" by (intro bexI [where x = "of_char c"]) auto
  then obtain m where m: "find ?P [0..<256] = Some m" by (cases "find ?P [0..<256]") (auto simp: find_None_iff)
  then have "?P m" "m < 256" by (auto simp: find_Some_iff)
  then have "m = of_char c" using unicode_of_inj [of m "of_char c"] less by (simp add: code_point_def)
  then show ?thesis using m by (simp add: char_of_point_def)
qed

lemma read_json_char: "read_json_string (json_char c @ t) = apfst ((#) c) (read_json_string t)"
proof -
  have eq: "c = d" if "(of_char c :: nat) = of_char d" for d using that by simp
  have "code_point c < 65536" using unicode_of_less nat_of_char_less_256 [of c] by (simp add: code_point_def)
  note u = read_u_escape [OF this, of t]
  consider "of_char c \<in> {34, 92 :: nat}" | "of_char c = (10 :: nat)" | "of_char c = (13 :: nat)" | "of_char c = (9 :: nat)"
    | "of_char c = (8 :: nat)" | "of_char c = (12 :: nat)"
    | "of_char c \<notin> {34, 92, 10, 13, 9, 8, 12 :: nat}" by auto
  then show ?thesis
  proof cases
    case 1
    then have "c = CHR 0x22 \<or> c = CHR 0x5C" using eq [of "CHR 0x22"] eq [of "CHR 0x5C"] by auto
    then show ?thesis by (auto simp: json_char_def simple_escape_def)
  next
    case 7
    then have "c \<noteq> CHR 0x22" "c \<noteq> CHR 0x5C" by auto
    with 7 u show ?thesis by (simp add: json_char_def Let_def)
  qed (use eq [of "CHR 0x0A"] eq [of "CHR 0x0D"] eq [of "CHR 0x09"] eq [of "CHR 0x08"] eq [of "CHR 0x0C"]
      in \<open>simp_all add: json_char_def simple_escape_def\<close>)
qed

lemma read_json_string_text: "read_json_string (concat (map json_char s) @ CHR 0x22 # r) = (s, r)"
  by (induction s) (simp_all add: read_json_char)

lemma read_json_item: "read_json_items (Suc n) (json_string x @ r) = x # read_json_items n r"
  by (simp add: json_string_def read_json_string_text)

lemma length_json_string: "2 \<le> length (json_string x)"
  by (simp add: json_string_def)

lemma read_json_items_text:
  "length (py_join '','' (map json_string xs) @ '']'') \<le> n \<Longrightarrow> read_json_items n (py_join '','' (map json_string xs) @ '']'') = xs"
proof (induction xs arbitrary: n)
  case Nil
  then show ?case by (cases n) simp_all
next
  case (Cons x xs)
  obtain k where n: "n = Suc k" using Cons.prems by (cases n) auto
  obtain j where k: "k = Suc j" using Cons.prems length_json_string [of x] by (cases k; cases xs) (auto simp: n)
  show ?case
  proof (cases xs)
    case Nil
    then show ?thesis using read_json_item [of k x "'']''"] by (simp add: n k)
  next
    case (Cons y ys)
    let ?rest = "py_join '','' (map json_string xs) @ '']''"
    have "read_json_items j ?rest = xs"
      using Cons.prems length_json_string [of x] by (intro Cons.IH) (simp add: n k Cons)
    moreover have "py_join '','' (map json_string (x # xs)) @ '']'' = json_string x @ '','' @ ?rest" by (simp add: Cons)
    ultimately show ?thesis using read_json_item [of k x "'','' @ ?rest"] by (simp add: n k)
  qed
qed

lemma read_json_strings_text: "read_json_strings (json_strings xs) = xs"
  unfolding read_json_strings_def json_strings_def list.sel by (rule read_json_items_text) simp

section \<open>Base64\<close>

text \<open>\<open>base64.b64encode\<close> on bytes, and \<open>b64decode(..., validate=True)\<close>, \<open>None\<close> for \<open>binascii.Error\<close>.\<close>

definition b64_char :: "nat \<Rightarrow> char" where
  "b64_char n = char_of (if n < 26 then 65 + n else if n < 52 then 71 + n else if n < 62 then n - 4 else if n = 62 then 43 else 47 :: nat)"

definition b64_value :: "char \<Rightarrow> nat option" where
  "b64_value c = (let n = (of_char c :: nat) in
     if 65 \<le> n \<and> n \<le> 90 then Some (n - 65) else if 97 \<le> n \<and> n \<le> 122 then Some (n - 71)
     else if 48 \<le> n \<and> n \<le> 57 then Some (n + 4) else if n = 43 then Some 62 else if n = 47 then Some 63 else None)"

fun b64_split :: "nat list \<Rightarrow> nat list" where
  "b64_split (x # y # z # r) = [x div 4, x mod 4 * 16 + y div 16, y mod 16 * 4 + z div 64, z mod 64] @ b64_split r"
| "b64_split [x, y] = [x div 4, x mod 4 * 16 + y div 16, y mod 16 * 4]"
| "b64_split [x] = [x div 4, x mod 4 * 16]"
| "b64_split [] = []"

fun b64_join :: "nat list \<Rightarrow> nat list" where
  "b64_join (a # b # c # d # r) = [a * 4 + b div 16, b mod 16 * 16 + c div 4, c mod 4 * 64 + d] @ b64_join r"
| "b64_join [a, b, c] = [a * 4 + b div 16, b mod 16 * 16 + c div 4]"
| "b64_join [a, b] = [a * 4 + b div 16]"
| "b64_join _ = []"

definition b64encode :: "string \<Rightarrow> string" where
  "b64encode s = map b64_char (b64_split (map of_char s)) @ replicate ((3 - length s mod 3) mod 3) CHR ''=''"

text \<open>At most two trailing equality signs; a last group of two (three) digits needs two (one) of them.\<close>

definition b64decode :: "string \<Rightarrow> string option" where
  "b64decode s = (let digits = takeWhile (\<lambda>c. c \<noteq> CHR ''='') s; pad = length s - length digits; k = length digits mod 4 in
     if drop (length digits) s \<noteq> replicate pad CHR ''='' \<or> 2 < pad \<or> list_ex (\<lambda>c. b64_value c = None) digits then None
     else if k = 1 \<or> k = 2 \<and> pad < 2 \<or> k = 3 \<and> pad < 1 then None
     else Some (map char_of (b64_join (map (\<lambda>c. the (b64_value c)) digits))))"

lemma b64_value_char: "n < 64 \<Longrightarrow> b64_value (b64_char n) = Some n"
  by (auto simp: b64_value_def b64_char_def Let_def)

lemma b64_char_neq: "n < 64 \<Longrightarrow> b64_char n \<noteq> CHR ''='' \<and> b64_char n \<noteq> CHR ''$'' \<and> \<not> py_isspace (b64_char n)"
proof -
  assume "n < 64"
  then have "b64_value (b64_char n) \<noteq> None" by (simp add: b64_value_char)
  moreover have "b64_value CHR ''='' = None" "b64_value CHR ''$'' = None" by (simp_all add: b64_value_def)
  moreover have "py_isspace c \<Longrightarrow> b64_value c = None" for c by (auto simp: py_isspace_def b64_value_def Let_def)
  ultimately show ?thesis by fastforce
qed

lemma b64_join_split: "list_all (\<lambda>n. n < 256) xs \<Longrightarrow> b64_join (b64_split xs) = xs"
proof (induction xs rule: b64_split.induct)
  case (1 x y z r)
  have "(y mod 16 * 4 + z div 64) mod 4 = z div 64" "(y mod 16 * 4 + z div 64) div 4 = y mod 16"
    "(x mod 4 * 16 + y div 16) div 16 = x mod 4" "(x mod 4 * 16 + y div 16) mod 16 = y div 16"
    using 1 by auto
  with 1 show ?case by simp
qed auto

lemma b64_split_less: "list_all (\<lambda>n. n < 256) xs \<Longrightarrow> list_all (\<lambda>n. n < 64) (b64_split xs)"
proof (induction xs rule: b64_split.induct)
  case (1 x y z r)
  have "x mod 4 * 16 + y div 16 < 64" "y mod 16 * 4 + z div 64 < 64" using 1 by auto
  with 1 show ?case by auto
next
  case (2 x y)
  then show ?case by auto
qed auto

lemma length_b64_split: "length (b64_split xs) mod 4 = (if length xs mod 3 = 0 then 0 else length xs mod 3 + 1)"
  by (induction xs rule: b64_split.induct) (auto split: if_splits)

theorem b64decode_encode: "b64decode (b64encode s) = Some s"
proof -
  define ns where "ns = b64_split (map of_char s)"
  have bytes: "list_all (\<lambda>n. n < 256) (map of_char s :: nat list)" by (simp add: list_all_iff nat_of_char_less_256)
  then have ns: "list_all (\<lambda>n. n < 64) ns" "b64_join ns = map of_char s" by (simp_all add: ns_def b64_split_less b64_join_split)
  define p where "p = (3 - length s mod 3) mod 3"
  have enc: "b64encode s = map b64_char ns @ replicate p CHR ''=''" by (simp add: b64encode_def ns_def p_def)
  have chars: "\<forall>c \<in> set (map b64_char ns). c \<noteq> CHR ''='' \<and> b64_value c \<noteq> None"
    using ns(1) b64_char_neq b64_value_char by (auto simp: list_all_iff)
  then have tw: "takeWhile (\<lambda>c. c \<noteq> CHR ''='') (b64encode s) = map b64_char ns"
  proof -
    have "takeWhile (\<lambda>c. c \<noteq> CHR ''='') (replicate p CHR ''='') = []" by (cases p) simp_all
    with chars show ?thesis unfolding enc by (subst takeWhile_append2) auto
  qed
  have vals: "map (\<lambda>c. the (b64_value c)) (map b64_char ns) = ns"
    using ns(1) by (induction ns) (simp_all add: b64_value_char)
  have len: "length ns mod 4 = (if length s mod 3 = 0 then 0 else length s mod 3 + 1)"
    using length_b64_split [of "map of_char s"] by (simp add: ns_def)
  have "p \<le> 2" "\<not> (length ns mod 4 = 1 \<or> length ns mod 4 = 2 \<and> p < 2 \<or> length ns mod 4 = 3 \<and> p < 1)"
  proof -
    have "length s mod 3 = 0 \<or> length s mod 3 = 1 \<or> length s mod 3 = 2" by presburger
    then show "p \<le> 2" "\<not> (length ns mod 4 = 1 \<or> length ns mod 4 = 2 \<and> p < 2 \<or> length ns mod 4 = 3 \<and> p < 1)"
      unfolding len p_def by auto
  qed
  moreover have "list_ex (\<lambda>c. b64_value c = None) (map b64_char ns) = False" using chars by (auto simp: list_ex_iff)
  ultimately show ?thesis
    using vals by (simp add: b64decode_def tw Let_def, simp add: enc ns(2) comp_def)
qed

section \<open>Requests and responses\<close>

text \<open>Headers are found by their lower-case names.\<close>

record request =
  rq_method :: string
  rq_scheme :: string
  rq_path :: string
  rq_client :: "string option"
  rq_headers :: "string \<Rightarrow> string option"
  rq_cookies :: "string \<Rightarrow> string option"
  rq_query :: "string \<Rightarrow> string option"

record cookie =
  ck_name :: string
  ck_value :: string
  ck_max_age :: int
  ck_httponly :: bool
  ck_secure :: bool
  ck_samesite :: string
  ck_domain :: "string option"
  ck_path :: string

datatype cookie_op = Set_Cookie cookie | Delete_Cookie string string "string option"

text \<open>
  A body is empty, a redirection, an error text, a JSON answer with a redirection, or a page
  with an optional error or with a notice of success.
\<close>

datatype body = No_Body | Redirect string | Error_Json string | Ok_Json string
  | Page string "string option" | Notice_Page string string

record response =
  rs_status :: int
  rs_body :: body
  rs_cookies :: "cookie_op list"

text \<open>What a browser that holds cookies for the path \<open>/\<close> does with a response.\<close>

primrec accept_cookie :: "cookie_op \<Rightarrow> (string \<Rightarrow> string option) \<Rightarrow> string \<Rightarrow> string option" where
  "accept_cookie (Set_Cookie ck) jar = (if ck_path ck = ''/'' then jar(ck_name ck := Some (ck_value ck)) else jar)"
| "accept_cookie (Delete_Cookie n p d) jar = (if p = ''/'' then jar(n := None) else jar)"

definition accept_cookies :: "response \<Rightarrow> (string \<Rightarrow> string option) \<Rightarrow> string \<Rightarrow> string option" where
  "accept_cookies resp = fold accept_cookie (rs_cookies resp)"

text \<open>\<open>not x\<close> on an optional text, and the text itself otherwise.\<close>

definition given :: "string option \<Rightarrow> bool" where
  "given x \<longleftrightarrow> x \<noteq> None \<and> x \<noteq> Some []"

section \<open>Authentication data in Redis\<close>

text \<open>The state of the local administrator, as \<open>load_local_admin_state\<close> and \<open>persist_local_admin_state\<close> store it.\<close>

record admin_state =
  as_enabled :: bool
  as_username :: string
  as_password_hash :: string
  as_force_rotate :: bool
  as_bootstrap_required :: bool
  as_runtime_override :: bool
  as_base_env_revision :: string
  as_rotated_at :: "int option"
  as_state_revision :: string

datatype auth_key = Revoked_Key string | Admin_State_Key

text \<open>The flag of a revoked token; the stored administrator state, \<open>None\<close> where it is not a JSON object.\<close>

datatype auth_val = Flag string | Admin_Json "admin_state option"

type_synonym 's auth_redis = "('s, auth_key, auth_val, unit, unit) redis"
type_synonym auth_space = "(auth_key, auth_val, unit, unit) keyspace"

fun auth_key_string :: "auth_key \<Rightarrow> string" where
  "auth_key_string (Revoked_Key jti) = ''auth:revoked:'' @ jti"
| "auth_key_string Admin_State_Key = ''auth:local_admin:state:v1''"

section \<open>Tokens\<close>

record claims =
  cl_sub :: "string option"
  cl_canonical_principal :: "string option"
  cl_display_name :: "string option"
  cl_email :: "string option"
  cl_groups :: "string list option"
  cl_model :: "string option"
  cl_model_description :: "string option"
  cl_model_key :: "string option"
  cl_auth_source :: "string option"
  cl_auth_time :: "int option"
  cl_directory_checked_at :: "int option"
  cl_identity_version :: "int option"
  cl_type :: "string option"
  cl_local_admin :: "bool option"
  cl_dashboard_only :: "bool option"
  cl_state_revision :: "string option"
  cl_rotation_required :: "bool option"
  cl_exp :: "int option"
  cl_iat :: "int option"
  cl_jti :: "string option"

text \<open>
  \<open>jwt.encode\<close> and \<open>jwt.decode\<close> with the key and the algorithm of the settings; \<open>decode\<close>
  takes the option \<open>verify_exp\<close> and the current time, and gives \<open>None\<close> for a \<open>JWTError\<close>.
\<close>

record jwt_lib =
  jwt_encode :: "claims \<Rightarrow> string"
  jwt_decode :: "bool \<Rightarrow> int \<Rightarrow> string \<Rightarrow> claims option"

definition expired :: "claims \<Rightarrow> int \<Rightarrow> bool" where
  "expired cl t \<longleftrightarrow> (case cl_exp cl of None \<Rightarrow> False | Some e \<Rightarrow> e < t)"

text \<open>A token decodes to what was encoded until it has expired; it is not empty and has no blank in it.\<close>

locale jwt_codec =
  fixes J :: jwt_lib
  assumes decode_encode: "jwt_decode J verify t (jwt_encode J cl) = (if verify \<and> expired cl t then None else Some cl)"
    and token_text: "jwt_encode J cl \<noteq> [] \<and> CHR '' '' \<notin> set (jwt_encode J cl)"


section \<open>A token library for the examples\<close>

text \<open>
  Tokens without a signature: claims as a list of numbers, numbers in unary. A code is a
  pair of an encoder and a decoder that leaves the rest of its input.
\<close>

type_synonym 'a code = "('a \<Rightarrow> nat list) \<times> (nat list \<Rightarrow> 'a \<times> nat list)"

definition coded :: "'a code \<Rightarrow> bool" where
  "coded k \<longleftrightarrow> (\<forall>x r. snd k (fst k x @ r) = (x, r))"

definition code_map :: "('a \<Rightarrow> 'b) \<Rightarrow> ('b \<Rightarrow> 'a) \<Rightarrow> 'b code \<Rightarrow> 'a code" where
  "code_map f g k = (\<lambda>x. fst k (f x), \<lambda>r. apfst g (snd k r))"

definition code_pair :: "'a code \<Rightarrow> 'b code \<Rightarrow> ('a \<times> 'b) code" where
  "code_pair k l = (\<lambda>(x, y). fst k x @ fst l y, \<lambda>r. case snd k r of (x, r) \<Rightarrow> apfst (Pair x) (snd l r))"

definition code_nat :: "nat code" where
  "code_nat = (\<lambda>n. [n], \<lambda>r. (hd r, tl r))"

definition code_bool :: "bool code" where
  "code_bool = (\<lambda>b. [if b then 1 else 0], \<lambda>r. (hd r = 1, tl r))"

definition code_int :: "int code" where
  "code_int = code_map (\<lambda>i. (i < 0, nat \<bar>i\<bar>)) (\<lambda>(neg, n). if neg then - int n else int n) (code_pair code_bool code_nat)"

fun list_code_dec :: "(nat list \<Rightarrow> 'a \<times> nat list) \<Rightarrow> nat \<Rightarrow> nat list \<Rightarrow> 'a list \<times> nat list" where
  "list_code_dec d 0 r = ([], r)"
| "list_code_dec d (Suc n) r = (case d r of (x, r) \<Rightarrow> apfst ((#) x) (list_code_dec d n r))"

definition code_list :: "'a code \<Rightarrow> 'a list code" where
  "code_list k = (\<lambda>xs. length xs # concat (map (fst k) xs), \<lambda>r. list_code_dec (snd k) (hd r) (tl r))"

definition code_string :: "string code" where
  "code_string = code_list (code_map of_char char_of code_nat)"

definition code_option :: "'a code \<Rightarrow> 'a option code" where
  "code_option k = (\<lambda>x. case x of None \<Rightarrow> [0] | Some y \<Rightarrow> 1 # fst k y,
     \<lambda>r. if hd r = 0 then (None, tl r) else apfst Some (snd k (tl r)))"

named_theorems coded_intros \<open>combinators of codes\<close>

lemma coded_map [coded_intros]: "coded k \<Longrightarrow> (\<And>x. g (f x) = x) \<Longrightarrow> coded (code_map f g k)"
  by (simp add: coded_def code_map_def)

lemma coded_pair [coded_intros]: "coded k \<Longrightarrow> coded l \<Longrightarrow> coded (code_pair k l)"
  by (simp add: coded_def code_pair_def)

lemma coded_basic [coded_intros]: "coded code_nat" "coded code_bool"
  by (simp_all add: coded_def code_nat_def code_bool_def)

lemma coded_int [coded_intros]: "coded code_int"
  unfolding code_int_def by (intro coded_intros) simp

lemma coded_list [coded_intros]: "coded k \<Longrightarrow> coded (code_list k)"
proof -
  assume k: "coded k"
  have "list_code_dec (snd k) (length xs) (concat (map (fst k) xs) @ r) = (xs, r)" for xs r
    using k by (induction xs) (simp_all add: coded_def)
  then show ?thesis by (simp add: coded_def code_list_def)
qed

lemma coded_string [coded_intros]: "coded code_string"
  unfolding code_string_def by (intro coded_intros) simp

lemma coded_option [coded_intros]: "coded k \<Longrightarrow> coded (code_option k)"
  by (simp add: coded_def code_option_def split: option.split)

lemma code_option_nonempty: "fst (code_option k) x \<noteq> []"
  by (cases x) (simp_all add: code_option_def)

abbreviation "opt_text_code \<equiv> code_option code_string"
abbreviation "opt_int_code \<equiv> code_option code_int"
abbreviation "opt_bool_code \<equiv> code_option code_bool"

definition claims_fields where
  "claims_fields cl = (cl_sub cl, cl_canonical_principal cl, cl_display_name cl, cl_email cl, cl_groups cl, cl_model cl,
     cl_model_description cl, cl_model_key cl, cl_auth_source cl, cl_auth_time cl, cl_directory_checked_at cl,
     cl_identity_version cl, cl_type cl, cl_local_admin cl, cl_dashboard_only cl, cl_state_revision cl,
     cl_rotation_required cl, cl_exp cl, cl_iat cl, cl_jti cl)"

definition claims_of where
  "claims_of = (\<lambda>(a, b, c, d, e, f, g, h, i, j, k, l, m, n, p, q, r, s, t, u).
     \<lparr>cl_sub = a, cl_canonical_principal = b, cl_display_name = c, cl_email = d, cl_groups = e, cl_model = f,
      cl_model_description = g, cl_model_key = h, cl_auth_source = i, cl_auth_time = j, cl_directory_checked_at = k,
      cl_identity_version = l, cl_type = m, cl_local_admin = n, cl_dashboard_only = p, cl_state_revision = q,
      cl_rotation_required = r, cl_exp = s, cl_iat = t, cl_jti = u\<rparr>)"

definition code_claims :: "claims code" where
  "code_claims = code_map claims_fields claims_of
     (code_pair opt_text_code (code_pair opt_text_code (code_pair opt_text_code (code_pair opt_text_code (code_pair (code_option (code_list code_string)) (code_pair opt_text_code
     (code_pair opt_text_code (code_pair opt_text_code (code_pair opt_text_code (code_pair opt_int_code (code_pair opt_int_code (code_pair opt_int_code (code_pair opt_text_code (code_pair opt_bool_code
     (code_pair opt_bool_code (code_pair opt_text_code (code_pair opt_bool_code (code_pair opt_int_code (code_pair opt_int_code opt_text_code)))))))))))))))))))"

lemma coded_claims: "coded code_claims"
  unfolding code_claims_def by (intro coded_intros) (simp add: claims_fields_def claims_of_def)

definition unary :: "nat list \<Rightarrow> string" where
  "unary ns = concat (map (\<lambda>n. replicate n CHR ''x'' @ ''.'') ns)"

definition plain_jwt :: jwt_lib where
  "plain_jwt = \<lparr>jwt_encode = (\<lambda>cl. unary (fst code_claims cl)),
     jwt_decode = (\<lambda>verify t s. let cl = fst (snd code_claims (map length (butlast (py_split_char CHR ''.'' s))))
        in if verify \<and> expired cl t then None else Some cl)\<rparr>"

lemma unary_split: "map length (butlast (py_split_char CHR ''.'' (unary ns))) = ns"
proof -
  have step: "py_split_char CHR ''.'' (replicate n CHR ''x'' @ CHR ''.'' # s) = replicate n CHR ''x'' # py_split_char CHR ''.'' s" for n s
    by (induction n) auto
  have ne: "py_split_char CHR ''.'' s \<noteq> []" for s by (induction s) (auto split: list.split)
  show ?thesis by (induction ns) (simp_all add: unary_def step ne)
qed

interpretation plain: jwt_codec plain_jwt
proof
  fix verify t cl
  have "snd code_claims (fst code_claims cl) = (cl, [])" using coded_claims unfolding coded_def by (metis append_Nil2)
  then show "jwt_decode plain_jwt verify t (jwt_encode plain_jwt cl) = (if verify \<and> expired cl t then None else Some cl)"
    by (simp add: plain_jwt_def unary_split Let_def)
next
  fix cl
  have "fst code_claims cl \<noteq> []"
    by (simp add: code_claims_def code_map_def code_pair_def claims_fields_def code_option_nonempty)
  moreover have "CHR '' '' \<notin> set (unary ns)" for ns by (auto simp: unary_def)
  ultimately show "jwt_encode plain_jwt cl \<noteq> [] \<and> CHR '' '' \<notin> set (jwt_encode plain_jwt cl)"
    by (cases "fst code_claims cl") (simp_all add: plain_jwt_def, simp add: unary_def)
qed

end
