(* ===== verification/Session.thy ===== *)
theory Session
  imports Web_Base
begin

text \<open>
  Sessions of the web tier (\<open>auth_kerberos.py\<close> and \<open>app.py\<close>): access and refresh tokens in
  cookies, their revocation in Redis, the current user of a request, the guard against
  forged requests, logout, and the rotation of the refresh token.
\<close>

section \<open>Texts of the sources\<close>

definition TXT_DEFAULT_MODEL :: string where
  "TXT_DEFAULT_MODEL =
     cp1251 [204, 238, 228, 229, 235, 252, 32, 239, 238, 32, 243, 236, 238, 235, 247, 224,
       237, 232, 254]"

definition AUTH_BACKEND_UNAVAILABLE_ERROR :: string where
  "AUTH_BACKEND_UNAVAILABLE_ERROR =
     cp1251 [209, 229, 240, 226, 232, 241, 32, 224, 243, 242, 229, 237, 242, 232, 244, 232,
       234, 224, 246, 232, 232, 32, 226, 240, 229, 236, 229, 237, 237, 238, 32, 237,
       229, 228, 238, 241, 242, 243, 239, 229, 237, 46]"

section \<open>Tokens\<close>

text \<open>
  What the handlers share: the settings, the token library, the Redis client of the gateway
  (\<open>None\<close> while it is offline), the network-location checks of \<open>urlparse\<close>, and the reading
  of addresses (version and value) and networks (version, first address and prefix length) by
  the module \<open>ipaddress\<close>, \<open>None\<close> for a \<open>ValueError\<close>, and the reading of a JSON list by
  \<open>json.loads\<close> (the text of each element; \<open>None\<close> for a decoding error, \<open>Some None\<close> for
  another value).
\<close>

record 's web =
  wb_cfg :: auth_settings
  wb_jwt :: jwt_lib
  wb_redis :: "'s auth_redis option"
  wb_netloc_ok :: "string \<Rightarrow> bool"
  wb_ip_address :: "string \<Rightarrow> (nat \<times> nat) option"
  wb_ip_network :: "string \<Rightarrow> (nat \<times> nat \<times> nat) option"
  wb_json_list :: "string \<Rightarrow> string list option option"

definition extract_bearer_token :: "string option \<Rightarrow> string option" where
  "extract_bearer_token raw_token = (case raw_token of None \<Rightarrow> None
     | Some t \<Rightarrow> if t = [] then None else if prefix ''Bearer '' t then Some (py_replace ''Bearer '' [] t) else Some t)"

text \<open>\<open>uuid\<close> is the fresh identifier; the default life time is 15 minutes.\<close>

definition create_access_token :: "jwt_lib \<Rightarrow> clock \<Rightarrow> string \<Rightarrow> claims \<Rightarrow> int option \<Rightarrow> string" where
  "create_access_token J c uuid data expires_delta =
     jwt_encode J (data\<lparr>cl_exp := Some (now c + (case expires_delta of None \<Rightarrow> 15 * 60 | Some d \<Rightarrow> d)),
       cl_iat := Some (now c), cl_jti := Some (text_or (cl_jti data) uuid)\<rparr>)"

definition token_revocation_key :: "string \<Rightarrow> auth_key" where
  "token_revocation_key jti = Revoked_Key jti"

definition revoke_token :: "('s, 'z) web_scheme \<Rightarrow> clock \<Rightarrow> string option \<Rightarrow> 's \<Rightarrow> bool \<times> 's" where
  "revoke_token w c raw_token s = (case (wb_redis w, extract_bearer_token raw_token) of
     (Some R, Some token) \<Rightarrow>
       if token = [] then (False, s)
       else (case jwt_decode (wb_jwt w) False (now c) token of
         None \<Rightarrow> (False, s)
       | Some payload \<Rightarrow>
           let exp = int_or (cl_exp payload) 0 in
           if \<not> given (cl_jti payload) \<or> exp \<le> 0 then (False, s)
           else (True, SETEX R (token_revocation_key (the (cl_jti payload))) (Flag ''1'') (max 1 (exp - now c)) s))
   | _ \<Rightarrow> (False, s))"

definition is_token_revoked :: "'s auth_redis \<Rightarrow> claims \<Rightarrow> 's \<Rightarrow> bool" where
  "is_token_revoked R payload s =
     (if \<not> given (cl_jti payload) then True else EXISTS R (token_revocation_key (the (cl_jti payload))) s)"

text \<open>The dictionary that \<open>get_current_user\<close> and \<open>refresh_access_token\<close> build from the claims of a token.\<close>

definition claims_user_info :: "auth_settings \<Rightarrow> string \<Rightarrow> claims \<Rightarrow> user_info" where
  "claims_user_info cfg username payload =
     (let model = text_or (DEFAULT_MODEL cfg) ''phi3:mini'' in
      \<lparr>ui_username = username,
       ui_canonical_principal = cl_canonical_principal payload,
       ui_display_name = Some (case cl_display_name payload of None \<Rightarrow> username | Some d \<Rightarrow> d),
       ui_email = Some (case cl_email payload of None \<Rightarrow> username @ ''@'' @ LDAP_DOMAIN cfg | Some e \<Rightarrow> e),
       ui_groups = Some (case cl_groups payload of None \<Rightarrow> [] | Some gs \<Rightarrow> gs),
       ui_auth_source = cl_auth_source payload,
       ui_auth_time = cl_auth_time payload,
       ui_directory_checked_at = cl_directory_checked_at payload,
       ui_identity_version = cl_identity_version payload,
       ui_model = Some (case cl_model payload of None \<Rightarrow> model | Some m \<Rightarrow> m),
       ui_model_description = Some (case cl_model_description payload of None \<Rightarrow> TXT_DEFAULT_MODEL | Some d \<Rightarrow> d),
       ui_model_key = Some (case cl_model_key payload of Some k \<Rightarrow> k
         | None \<Rightarrow> (case cl_model payload of None \<Rightarrow> model | Some m \<Rightarrow> m))\<rparr>)"

text \<open>\<open>credentials\<close> are the scheme and the token of an \<open>Authorization\<close> header, as the framework splits them.\<close>

definition get_current_user :: "('s, 'z) web_scheme \<Rightarrow> clock \<Rightarrow> request \<Rightarrow> (string \<times> string) option \<Rightarrow> 's \<Rightarrow> user_info option" where
  "get_current_user w c request credentials s =
     (let cookie_token = rq_cookies request ''access_token'';
          token = (if given cookie_token then extract_bearer_token cookie_token else None);
          token = (if given token then token
                   else case credentials of None \<Rightarrow> None
                   | Some (scheme, cred) \<Rightarrow> if py_lower scheme \<noteq> ''bearer'' then None else Some cred)
      in if \<not> given token then None
         else case jwt_decode (wb_jwt w) True (now c) (the token) of
           None \<Rightarrow> None
         | Some payload \<Rightarrow>
             if cl_type payload = Some ''refresh'' then None
             else (case wb_redis w of None \<Rightarrow> None
             | Some R \<Rightarrow>
                 if is_token_revoked R payload s then None
                 else if \<not> given (cl_sub payload) then None
                 else Some (enrich_identity_session_fields (wb_cfg w) c
                        (claims_user_info (wb_cfg w) (the (cl_sub payload)) payload) (Some AUTH_SOURCE_PASSWORD) None)))"

definition get_current_user_required :: "user_info option \<Rightarrow> exn + user_info" where
  "get_current_user_required current_user = (case current_user of
     None \<Rightarrow> Inl (HTTPException 401 ''Not authenticated'') | Some u \<Rightarrow> Inr u)"

text \<open>A missing model field raises \<open>KeyError\<close>.\<close>

definition build_token_payload :: "auth_settings \<Rightarrow> clock \<Rightarrow> user_info \<Rightarrow> string \<Rightarrow> exn + claims" where
  "build_token_payload cfg c user_info token_type =
     (let identity = enrich_identity_session_fields cfg c user_info
            (case ui_auth_source user_info of None \<Rightarrow> Some AUTH_SOURCE_PASSWORD | Some a \<Rightarrow> Some a) None
      in case (ui_model identity, ui_model_description identity, ui_model_key identity) of
        (Some model, Some description, Some key) \<Rightarrow> Inr
          \<lparr>cl_sub = Some (ui_username identity), cl_canonical_principal = ui_canonical_principal identity,
           cl_display_name = ui_display_name identity, cl_email = ui_email identity, cl_groups = ui_groups identity,
           cl_model = Some model, cl_model_description = Some description, cl_model_key = Some key,
           cl_auth_source = ui_auth_source identity, cl_auth_time = ui_auth_time identity,
           cl_directory_checked_at = ui_directory_checked_at identity,
           cl_identity_version = ui_identity_version identity, cl_type = Some token_type,
           cl_local_admin = None, cl_dashboard_only = None, cl_state_revision = None, cl_rotation_required = None,
           cl_exp = None, cl_iat = None, cl_jti = None\<rparr>
      | (None, _, _) \<Rightarrow> Inl (KeyError ''model'')
      | (_, None, _) \<Rightarrow> Inl (KeyError ''model_description'')
      | _ \<Rightarrow> Inl (KeyError ''model_key''))"

section \<open>Cookies\<close>

definition bearer :: "string \<Rightarrow> string" where
  "bearer token = ''Bearer '' @ token"

definition auth_cookie :: "auth_settings \<Rightarrow> string \<Rightarrow> string \<Rightarrow> int \<Rightarrow> bool \<Rightarrow> cookie" where
  "auth_cookie cfg key val age httponly = \<lparr>ck_name = key, ck_value = val, ck_max_age = age, ck_httponly = httponly,
     ck_secure = COOKIE_SECURE cfg, ck_samesite = COOKIE_SAMESITE cfg, ck_domain = COOKIE_DOMAIN cfg, ck_path = ''/''\<rparr>"

definition set_auth_cookies :: "auth_settings \<Rightarrow> string \<Rightarrow> string option \<Rightarrow> string option \<Rightarrow> cookie_op list" where
  "set_auth_cookies cfg access_token refresh_token csrf_token =
     [Set_Cookie (auth_cookie cfg ''access_token'' (bearer access_token) (ACCESS_TOKEN_EXPIRE_MINUTES cfg * 60) True)]
     @ (if given refresh_token
        then [Set_Cookie (auth_cookie cfg ''refresh_token'' (bearer (the refresh_token)) (REFRESH_TOKEN_EXPIRE_DAYS cfg * 24 * 60 * 60) True)]
        else [])
     @ (if given csrf_token
        then [Set_Cookie (auth_cookie cfg ''csrf_token'' (the csrf_token) (REFRESH_TOKEN_EXPIRE_DAYS cfg * 24 * 60 * 60) False)]
        else [])"

definition clear_auth_cookies :: "auth_settings \<Rightarrow> cookie_op list" where
  "clear_auth_cookies cfg = map (\<lambda>n. Delete_Cookie n ''/'' (COOKIE_DOMAIN cfg)) [''access_token'', ''refresh_token'', ''csrf_token'']"

text \<open>\<open>fresh\<close> is the random text that \<open>generate_csrf_token\<close> would draw.\<close>

definition get_or_create_csrf_token :: "string \<Rightarrow> request \<Rightarrow> string" where
  "get_or_create_csrf_token fresh request = (case rq_cookies request ''csrf_token'' of
     Some existing \<Rightarrow> if 32 \<le> length existing then existing else fresh
   | None \<Rightarrow> fresh)"

section \<open>Forged requests\<close>

definition header :: "request \<Rightarrow> string \<Rightarrow> string option" where
  "header request name = rq_headers request (py_lower name)"

definition request_uses_bearer_auth_without_session :: "request \<Rightarrow> bool" where
  "request_uses_bearer_auth_without_session request =
     (let authorization = strip_opt (header request ''authorization'') in
      if authorization = [] then False
      else if py_lower (fst (py_partition CHR '' '' authorization)) \<noteq> ''bearer'' then False
      else \<not> given (rq_cookies request ''access_token''))"

definition csrf_failed :: exn where
  "csrf_failed = HTTPException 403 ''CSRF validation failed''"

text \<open>The checks of \<open>Host\<close>, \<open>Origin\<close> and \<open>Referer\<close>, which both guards make in the same way.\<close>

definition enforce_same_origin :: "(string \<Rightarrow> bool) \<Rightarrow> request \<Rightarrow> exn + unit" where
  "enforce_same_origin netloc_ok request =
     (let host = header request ''host'';
          origin = header request ''origin'';
          referer = header request ''referer'';
          expected_origin = rq_scheme request @ ''://'' @ the host
      in if \<not> given host then Inl csrf_failed
         else if given origin \<and> the origin \<noteq> expected_origin then Inl csrf_failed
         else if \<not> given origin \<and> given referer then
           (case urlparse netloc_ok (the referer) of
              Inl e \<Rightarrow> Inl e
            | Inr (scheme, netloc) \<Rightarrow> if scheme @ ''://'' @ netloc \<noteq> expected_origin then Inl csrf_failed else Inr ())
         else Inr ())"

text \<open>The comparison of the cookie with what the page sent.\<close>

definition enforce_csrf_pair :: "string option \<Rightarrow> string option \<Rightarrow> exn + unit" where
  "enforce_csrf_pair csrf_cookie candidate =
     (if \<not> given csrf_cookie \<or> \<not> given candidate then Inl csrf_failed
      else case compare_digest (the csrf_cookie) (the candidate) of
        Inl e \<Rightarrow> Inl e | Inr same \<Rightarrow> if same then Inr () else Inl csrf_failed)"

definition enforce_csrf :: "('s, 'z) web_scheme \<Rightarrow> request \<Rightarrow> exn + unit" where
  "enforce_csrf w request =
     (if request_uses_bearer_auth_without_session request then Inr ()
      else case enforce_same_origin (wb_netloc_ok w) request of Inl e \<Rightarrow> Inl e
      | Inr _ \<Rightarrow> enforce_csrf_pair (rq_cookies request ''csrf_token'') (header request ''X-CSRF-Token''))"

section \<open>Leaving and renewing a session\<close>

text \<open>Revoking the tokens that a request presents, where it presents them.\<close>

definition revoke_presented :: "('s, 'z) web_scheme \<Rightarrow> clock \<Rightarrow> request \<Rightarrow> 's \<Rightarrow> 's" where
  "revoke_presented w c request s =
     (let access_token = rq_cookies request ''access_token''; refresh_token = rq_cookies request ''refresh_token'';
          s = (if given access_token then snd (revoke_token w c access_token s) else s)
      in if given refresh_token then snd (revoke_token w c refresh_token s) else s)"

definition revoke_request_session_tokens :: "('s, 'z) web_scheme \<Rightarrow> clock \<Rightarrow> request \<Rightarrow> 's \<Rightarrow> (unit, 's) outcome" where
  "revoke_request_session_tokens w c request s =
     (if (given (rq_cookies request ''access_token'') \<or> given (rq_cookies request ''refresh_token'')) \<and> wb_redis w = None
      then (Inl (HTTPException 503 AUTH_BACKEND_UNAVAILABLE_ERROR), s)
      else (Inr (), revoke_presented w c request s))"

definition json_error :: "int \<Rightarrow> string \<Rightarrow> response" where
  "json_error code msg = \<lparr>rs_status = code, rs_body = Error_Json msg, rs_cookies = []\<rparr>"

definition logout :: "('s, 'z) web_scheme \<Rightarrow> clock \<Rightarrow> request \<Rightarrow> user_info option \<Rightarrow> 's \<Rightarrow> (response, 's) outcome" where
  "logout w c request current_user s =
     (case (if current_user \<noteq> None then enforce_csrf w request else Inr ()) of Inl e \<Rightarrow> (Inl e, s)
      | Inr _ \<Rightarrow>
         if (given (rq_cookies request ''access_token'') \<or> given (rq_cookies request ''refresh_token'')) \<and> wb_redis w = None
         then (Inr (json_error 503 AUTH_BACKEND_UNAVAILABLE_ERROR), s)
         else (Inr \<lparr>rs_status = 200, rs_body = Ok_Json ''/login'', rs_cookies = clear_auth_cookies (wb_cfg w)\<rparr>,
               revoke_presented w c request s))"

text \<open>The two tokens of a session, with their fresh identifiers.\<close>

definition session_tokens :: "('s, 'z) web_scheme \<Rightarrow> clock \<Rightarrow> string \<Rightarrow> string \<Rightarrow> user_info \<Rightarrow> exn + string \<times> string" where
  "session_tokens w c uuid1 uuid2 u =
     (case build_token_payload (wb_cfg w) c u ''access'' of Inl e \<Rightarrow> Inl e
      | Inr access \<Rightarrow> (case build_token_payload (wb_cfg w) c u ''refresh'' of Inl e \<Rightarrow> Inl e
        | Inr refresh \<Rightarrow> Inr
            (create_access_token (wb_jwt w) c uuid1 access (Some (ACCESS_TOKEN_EXPIRE_MINUTES (wb_cfg w) * 60)),
             create_access_token (wb_jwt w) c uuid2 refresh (Some (REFRESH_TOKEN_EXPIRE_DAYS (wb_cfg w) * 24 * 60 * 60)))))"

definition refresh_access_token ::
  "('s, 'z) web_scheme \<Rightarrow> clock \<Rightarrow> string \<Rightarrow> string \<Rightarrow> string \<Rightarrow> request \<Rightarrow> 's \<Rightarrow> (response, 's) outcome" where
  "refresh_access_token w c uuid1 uuid2 fresh request s =
     (case enforce_csrf w request of Inl e \<Rightarrow> (Inl e, s)
      | Inr _ \<Rightarrow>
     let refresh_token = rq_cookies request ''refresh_token'' in
     if \<not> given refresh_token then (Inr (json_error 401 ''No refresh token''), s)
     else case jwt_decode (wb_jwt w) True (now c) (the (extract_bearer_token refresh_token)) of
       None \<Rightarrow> (Inr (json_error 401 ''Invalid refresh token''), s)
     | Some payload \<Rightarrow>
         if cl_type payload \<noteq> Some ''refresh'' then (Inr (json_error 401 ''Invalid refresh token''), s)
         else (case wb_redis w of None \<Rightarrow> (Inr (json_error 503 AUTH_BACKEND_UNAVAILABLE_ERROR), s)
         | Some R \<Rightarrow>
           if is_token_revoked R payload s then (Inr (json_error 401 ''Invalid refresh token''), s)
           else
             let current_user = enrich_identity_session_fields (wb_cfg w) c
                   (claims_user_info (wb_cfg w) (case cl_sub payload of None \<Rightarrow> [] | Some u \<Rightarrow> u) payload)
                   (Some AUTH_SOURCE_PASSWORD) None
             in if ui_username current_user = [] then (Inr (json_error 401 ''Invalid refresh token''), s)
                else case session_tokens w c uuid1 uuid2 current_user of Inl e \<Rightarrow> (Inl e, s)
                  | Inr (access_token, rotated_refresh_token) \<Rightarrow>
                      (Inr \<lparr>rs_status = 204, rs_body = No_Body,
                          rs_cookies = set_auth_cookies (wb_cfg w) access_token (Some rotated_refresh_token)
                            (Some (get_or_create_csrf_token fresh request))\<rparr>,
                       snd (revoke_token w c refresh_token s))))"


section \<open>Tokens in cookies\<close>

lemma py_replace_absent: "c \<in> set old \<Longrightarrow> c \<notin> set s \<Longrightarrow> py_replace old new s = s"
proof (induction s)
  case Nil
  then show ?case by (simp add: py_replace.simps)
next
  case (Cons x s)
  then have "\<not> prefix old (x # s)" using set_mono_prefix [of old "x # s"] by auto
  with Cons show ?case by (subst py_replace.simps) simp
qed

lemma bearer_nonempty [simp]: "bearer t \<noteq> []"
  by (simp add: bearer_def)

lemma extract_issued [simp]: "CHR '' '' \<notin> set t \<Longrightarrow> extract_bearer_token (Some (bearer t)) = Some t"
proof -
  assume t: "CHR '' '' \<notin> set t"
  have "py_replace ''Bearer '' [] (bearer t) = py_replace ''Bearer '' [] t"
    unfolding bearer_def by (subst py_replace.simps) simp
  also have "\<dots> = t" using t by (intro py_replace_absent [where c = "CHR '' ''"]) simp_all
  finally show ?thesis by (simp add: extract_bearer_token_def) (simp add: bearer_def)
qed

lemma given_simps [simp]: "\<not> given None" "given (Some x) \<longleftrightarrow> x \<noteq> []"
  by (simp_all add: given_def)

text \<open>The claims that a token carries once it has its times and its identifier.\<close>

definition stamped :: "clock \<Rightarrow> string \<Rightarrow> claims \<Rightarrow> int \<Rightarrow> claims" where
  "stamped c uuid data d = data\<lparr>cl_exp := Some (now c + d), cl_iat := Some (now c), cl_jti := Some (text_or (cl_jti data) uuid)\<rparr>"

lemma create_access_token_eq: "create_access_token J c uuid data (Some d) = jwt_encode J (stamped c uuid data d)"
  by (simp add: create_access_token_def stamped_def)

text \<open>A token of the server: it expires and has an identifier.\<close>

definition issued :: "jwt_lib \<Rightarrow> string \<Rightarrow> claims \<Rightarrow> bool" where
  "issued J t cl \<longleftrightarrow> t = jwt_encode J cl \<and> (\<exists>e > 0. cl_exp cl = Some e) \<and> given (cl_jti cl)"

lemma stamped_issued: "0 < now c + d \<Longrightarrow> uuid \<noteq> [] \<Longrightarrow> issued J (create_access_token J c uuid data (Some d)) (stamped c uuid data d)"
  by (auto simp: issued_def create_access_token_eq stamped_def text_or_def split: option.split)

text \<open>The claims of the tokens of a session, before they are stamped.\<close>

definition token_claims :: "user_info \<Rightarrow> string \<Rightarrow> claims" where
  "token_claims v type = \<lparr>cl_sub = Some (ui_username v), cl_canonical_principal = ui_canonical_principal v,
     cl_display_name = ui_display_name v, cl_email = ui_email v, cl_groups = ui_groups v, cl_model = ui_model v,
     cl_model_description = ui_model_description v, cl_model_key = ui_model_key v, cl_auth_source = ui_auth_source v,
     cl_auth_time = ui_auth_time v, cl_directory_checked_at = ui_directory_checked_at v,
     cl_identity_version = ui_identity_version v, cl_type = Some type, cl_local_admin = None, cl_dashboard_only = None,
     cl_state_revision = None, cl_rotation_required = None, cl_exp = None, cl_iat = None, cl_jti = None\<rparr>"

definition has_model :: "user_info \<Rightarrow> bool" where
  "has_model u \<longleftrightarrow> ui_model u \<noteq> None \<and> ui_model_description u \<noteq> None \<and> ui_model_key u \<noteq> None"

abbreviation completed :: "auth_settings \<Rightarrow> clock \<Rightarrow> user_info \<Rightarrow> user_info" where
  "completed cfg c u \<equiv> enrich_identity_session_fields cfg c u (Some AUTH_SOURCE_PASSWORD) None"

lemma payload_source: "enrich_identity_session_fields cfg c u
    (case ui_auth_source u of None \<Rightarrow> Some AUTH_SOURCE_PASSWORD | Some a \<Rightarrow> Some a) None = completed cfg c u"
proof -
  have "normalize_auth_source (str_or x (case x of None \<Rightarrow> Some AUTH_SOURCE_PASSWORD | Some a \<Rightarrow> Some a))
      = normalize_auth_source (str_or x (Some AUTH_SOURCE_PASSWORD))" for x
    by (cases x; cases "the x") (auto simp: str_or_def normalize_auth_source_def strip_opt_def auth_sources text_evals)
  then show ?thesis by (simp add: contract_defs)
qed

lemma build_token_payload_eq:
  "has_model u \<Longrightarrow> build_token_payload cfg c u type = Inr (token_claims (completed cfg c u) type)"
  unfolding build_token_payload_def payload_source Let_def by (auto simp: has_model_def token_claims_def split: option.split)

lemma completed_fields:
  "ui_display_name (completed cfg c u) \<noteq> None" "ui_email (completed cfg c u) \<noteq> None" "ui_groups (completed cfg c u) \<noteq> None"
  by (simp_all add: contract_defs)

lemma claims_user_info_token:
  assumes "has_model u" and "v = completed cfg c u"
  shows "claims_user_info cfg' (ui_username v) (stamped c' uuid (token_claims v type) d) = v"
  using assms completed_fields [of cfg c u]
  by (auto simp: claims_user_info_def stamped_def token_claims_def has_model_def Let_def intro!: user_info.equality)

lemma completed_clock: "0 < now c \<Longrightarrow> completed cfg c' (completed cfg c u) = completed cfg c'' (completed cfg c u)"
proof -
  assume "0 < now c"
  then have "0 < coerce_identity_timestamp (ui_auth_time u) (now c)" "0 < IDENTITY_VERSION"
    using coerce_positive by (auto simp: IDENTITY_VERSION_def)
  note pos = this coerce_positive [OF this(1)] coerce_positive [OF this(2)]
  show ?thesis using pos by (simp add: contract_defs str_or_nonempty)
qed


section \<open>The tier with its backends\<close>

text \<open>Later states keep the flags of revoked tokens, which Redis does while those tokens could still be used.\<close>

definition flags_kept :: "('s \<Rightarrow> auth_space) \<Rightarrow> 's \<Rightarrow> 's \<Rightarrow> bool" where
  "flags_kept view s s' \<longleftrightarrow> (\<forall>jti. strs (view s) (Revoked_Key jti) \<noteq> None \<longrightarrow> strs (view s') (Revoked_Key jti) \<noteq> None)"

definition revoked :: "('s \<Rightarrow> auth_space) \<Rightarrow> claims \<Rightarrow> 's \<Rightarrow> bool" where
  "revoked view cl s \<longleftrightarrow> (\<exists>jti. cl_jti cl = Some jti \<and> strs (view s) (Revoked_Key jti) \<noteq> None)"

locale web_tier = redis_store R view + jwt_codec "wb_jwt w"
  for R :: "'s auth_redis" and view :: "'s \<Rightarrow> auth_space" and w :: "('s, 'z) web_scheme" +
  assumes online: "wb_redis w = Some R"
begin

lemma extract_token [simp]: "extract_bearer_token (Some (bearer (jwt_encode (wb_jwt w) cl))) = Some (jwt_encode (wb_jwt w) cl)"
  using token_text by simp

lemma revoked_kept: "revoked view cl s \<Longrightarrow> flags_kept view s s' \<Longrightarrow> revoked view cl s'"
  by (auto simp: revoked_def flags_kept_def)

lemma revoked_rejected: "revoked view cl s \<Longrightarrow> is_token_revoked R cl s"
  by (auto simp: revoked_def is_token_revoked_def token_revocation_key_def exists_law)

lemma revoke_token_issued:
  assumes "issued (wb_jwt w) t cl"
  shows "fst (revoke_token w c (Some (bearer t)) s)" "revoked view cl (snd (revoke_token w c (Some (bearer t)) s))"
proof -
  obtain e where "t = jwt_encode (wb_jwt w) cl" "cl_exp cl = Some e" "0 < e" "given (cl_jti cl)"
    using assms by (auto simp: issued_def)
  moreover from this have "jwt_decode (wb_jwt w) False (now c) t = Some cl" "t \<noteq> []" using decode_encode token_text by simp_all
  ultimately show "fst (revoke_token w c (Some (bearer t)) s)" "revoked view cl (snd (revoke_token w c (Some (bearer t)) s))"
    by (auto simp: revoke_token_def online Let_def revoked_def token_revocation_key_def setex_law given_def)
qed

lemma revoke_token_keeps: "flags_kept view s (snd (revoke_token w c raw s))"
  by (auto simp: revoke_token_def online flags_kept_def Let_def token_revocation_key_def setex_law split: option.split)

lemma flags_kept_refl: "flags_kept view s s" and flags_kept_trans: "flags_kept view s s' \<Longrightarrow> flags_kept view s' s'' \<Longrightarrow> flags_kept view s s''"
  by (simp_all add: flags_kept_def)

text \<open>A revoked or expired token gives no user, in a cookie or in a header.\<close>

lemma revoked_no_user:
  assumes "issued (wb_jwt w) t cl" and "revoked view cl s"
    and "if given (rq_cookies rq ''access_token'') then rq_cookies rq ''access_token'' = Some (bearer t) else (\<forall>sch cr. cred = Some (sch, cr) \<longrightarrow> cr = t)"
  shows "get_current_user w c rq cred s = None"
proof -
  have t: "t = jwt_encode (wb_jwt w) cl" "t \<noteq> []" using assms(1) token_text by (auto simp: issued_def)
  then have dec: "jwt_decode (wb_jwt w) True (now c) t \<in> {None, Some cl}" using decode_encode by simp
  have "get_current_user w c rq cred s = None
      \<or> jwt_decode (wb_jwt w) True (now c) t = Some cl \<and> \<not> is_token_revoked R cl s"
    using assms(3) dec t by (auto simp: get_current_user_def online Let_def split: if_splits option.splits)
  then show ?thesis using revoked_rejected [OF assms(2)] by simp
qed

lemma revoked_no_refresh:
  assumes "issued (wb_jwt w) t cl" and "revoked view cl s" and "rq_cookies rq ''refresh_token'' = Some (bearer t)"
  shows "refresh_access_token w c u1 u2 fresh rq s = (case enforce_csrf w rq of Inl e \<Rightarrow> (Inl e, s)
    | Inr _ \<Rightarrow> (Inr (json_error 401 ''Invalid refresh token''), s))"
proof -
  have t: "t = jwt_encode (wb_jwt w) cl" "t \<noteq> []" using assms(1) token_text by (auto simp: issued_def)
  then have dec: "jwt_decode (wb_jwt w) True (now c) t \<in> {None, Some cl}" using decode_encode by simp
  show ?thesis
    using dec t revoked_rejected [OF assms(2)] assms(3)
    by (auto simp: refresh_access_token_def online Let_def split: sum.split option.split)
qed

lemma session_tokens_eq:
  assumes "has_model u" and "v = completed (wb_cfg w) c u"
  shows "session_tokens w c u1 u2 u = Inr
     (jwt_encode (wb_jwt w) (stamped c u1 (token_claims v ''access'') (ACCESS_TOKEN_EXPIRE_MINUTES (wb_cfg w) * 60)),
      jwt_encode (wb_jwt w) (stamped c u2 (token_claims v ''refresh'') (REFRESH_TOKEN_EXPIRE_DAYS (wb_cfg w) * 24 * 60 * 60)))"
  using assms by (simp add: session_tokens_def build_token_payload_eq create_access_token_eq)

lemma stamped_simps [simp]: "cl_jti (stamped c u (token_claims v type) d) = Some u" "cl_type (stamped c u (token_claims v type) d) = Some type"
  "cl_sub (stamped c u (token_claims v type) d) = Some (ui_username v)" "expired (stamped c u (token_claims v type) d) t \<longleftrightarrow> now c + d < t"
  by (simp_all add: stamped_def token_claims_def text_or_def expired_def)

lemma access_token_user:
  assumes "has_model u" and v: "v = completed (wb_cfg w) c u" and user: "ui_username v \<noteq> []" "u1 \<noteq> []"
    and tok: "a = jwt_encode (wb_jwt w) (stamped c u1 (token_claims v ''access'') d)"
    and "rq_cookies rq ''access_token'' = Some (bearer a)" and "now c' \<le> now c + d" and "\<not> EXISTS R (Revoked_Key u1) s"
  shows "get_current_user w c' rq cred s = Some (completed (wb_cfg w) c' v)"
proof -
  have "a \<noteq> []" "jwt_decode (wb_jwt w) True (now c') a = Some (stamped c u1 (token_claims v ''access'') d)"
    using token_text assms(7) by (auto simp: tok decode_encode)
  moreover have "claims_user_info (wb_cfg w) (ui_username v) (stamped c u1 (token_claims v ''access'') d) = v"
    by (rule claims_user_info_token [OF assms(1) v])
  ultimately show ?thesis
    using assms(6,8) user
    by (simp add: get_current_user_def online Let_def tok is_token_revoked_def token_revocation_key_def)
qed

lemma refresh_accepted:
  assumes "has_model u" and v: "v = completed (wb_cfg w) c u" and user: "normalize_username (ui_username u) \<noteq> []" "u2 \<noteq> []"
    and tok: "r = jwt_encode (wb_jwt w) (stamped c u2 (token_claims v ''refresh'') d)"
    and "rq_cookies rq ''refresh_token'' = Some (bearer r)" and "now c' \<le> now c + d" and "\<not> EXISTS R (Revoked_Key u2) s"
    and "enforce_csrf w rq = Inr ()"
    and toks: "session_tokens w c' v1 v2 (completed (wb_cfg w) c' v) = Inr (a', r')"
  shows "refresh_access_token w c' v1 v2 fresh rq s
    = (Inr \<lparr>rs_status = 204, rs_body = No_Body, rs_cookies = set_auth_cookies (wb_cfg w) a' (Some r') (Some (get_or_create_csrf_token fresh rq))\<rparr>,
       snd (revoke_token w c' (Some (bearer r)) s))"
proof -
  have "jwt_decode (wb_jwt w) True (now c') r = Some (stamped c u2 (token_claims v ''refresh'') d)"
    using assms(7) by (auto simp: tok decode_encode)
  moreover have "claims_user_info (wb_cfg w) (ui_username v) (stamped c u2 (token_claims v ''refresh'') d) = v"
    by (rule claims_user_info_token [OF assms(1) v])
  moreover have "ui_username v \<noteq> []" "normalize_username (ui_username v) \<noteq> []" using user v by simp_all
  ultimately show ?thesis
    using assms(6,8,9) user toks
    by (simp add: refresh_access_token_def online Let_def tok is_token_revoked_def token_revocation_key_def)
qed

lemma logout_revokes:
  assumes "issued (wb_jwt w) a acl" "issued (wb_jwt w) r rcl"
    and "rq_cookies rq ''access_token'' = Some (bearer a)" "rq_cookies rq ''refresh_token'' = Some (bearer r)"
    and "logout w c rq cu s = (Inr resp, s')"
  shows "resp = \<lparr>rs_status = 200, rs_body = Ok_Json ''/login'', rs_cookies = clear_auth_cookies (wb_cfg w)\<rparr>"
    "revoked view acl s'" "revoked view rcl s'"
proof -
  have eq: "resp = \<lparr>rs_status = 200, rs_body = Ok_Json ''/login'', rs_cookies = clear_auth_cookies (wb_cfg w)\<rparr>"
      "s' = revoke_presented w c rq s"
    using assms(5) by (auto simp: logout_def online split: sum.splits if_splits)
  then show "resp = \<lparr>rs_status = 200, rs_body = Ok_Json ''/login'', rs_cookies = clear_auth_cookies (wb_cfg w)\<rparr>" by simp
  let ?s1 = "snd (revoke_token w c (Some (bearer a)) s)"
  have s': "s' = snd (revoke_token w c (Some (bearer r)) ?s1)"
    using eq(2) assms(3,4) by (simp add: revoke_presented_def)
  show "revoked view rcl s'" unfolding s' by (rule revoke_token_issued(2) [OF assms(2)])
  show "revoked view acl s'" unfolding s'
    by (rule revoked_kept [OF revoke_token_issued(2) [OF assms(1)] revoke_token_keeps])
qed

end

interpretation memw_tier: web_tier mem_redis "\<lambda>s. s" "\<lparr>wb_cfg = cfg, wb_jwt = plain_jwt, wb_redis = Some mem_redis, wb_netloc_ok = nl,
    wb_ip_address = ia, wb_ip_network = inet, wb_json_list = jl, \<dots> = more\<rparr>" for cfg nl ia inet jl more
  by unfold_locales (simp_all add: plain.decode_encode plain.token_text)

section \<open>A tier for the examples\<close>

definition demo_web :: "auth_space web" where
  "demo_web = \<lparr>wb_cfg = default_auth_settings, wb_jwt = plain_jwt, wb_redis = Some mem_redis, wb_netloc_ok = (\<lambda>_. True),
     wb_ip_address = (\<lambda>_. None), wb_ip_network = (\<lambda>_. None),
     wb_json_list = (\<lambda>_. None)\<rparr>"

definition demo_user :: user_info where
  "demo_user = \<lparr>ui_username = ''ann'', ui_canonical_principal = None, ui_display_name = None, ui_email = None,
     ui_groups = None, ui_auth_source = None, ui_auth_time = None, ui_directory_checked_at = None,
     ui_identity_version = None, ui_model = Some ''m'', ui_model_description = Some ''d'', ui_model_key = Some ''m''\<rparr>"

definition demo_clock :: clock where
  "demo_clock = \<lparr>now = 100, now_ms = 100000\<rparr>"

definition demo_tokens :: "string \<times> string" where
  "demo_tokens = (case session_tokens demo_web demo_clock ''u1'' ''u2'' demo_user of Inr p \<Rightarrow> p | Inl _ \<Rightarrow> ([], []))"

text \<open>A request from the page of the service itself, with the cookies of the session.\<close>

definition demo_rq :: request where
  "demo_rq = \<lparr>rq_method = ''POST'', rq_scheme = ''https'', rq_path = ''/'', rq_client = None,
     rq_headers = [''host'' \<mapsto> ''ai'', ''origin'' \<mapsto> ''https://ai'', ''x-csrf-token'' \<mapsto> ''c''],
     rq_cookies = [''access_token'' \<mapsto> bearer (fst demo_tokens), ''refresh_token'' \<mapsto> bearer (snd demo_tokens), ''csrf_token'' \<mapsto> ''c''],
     rq_query = (\<lambda>_. None)\<rparr>"

lemma demo_tier: "web_tier mem_redis (\<lambda>s. s) demo_web"
  unfolding demo_web_def by (rule memw_tier.web_tier_axioms)

lemma demo_model_user: "has_model demo_user"
  by (simp add: has_model_def demo_user_def)

lemma demo_name: "normalize_username (ui_username demo_user) = ''ann''"
proof -
  have "normal_username ''ann''"
    by (simp add: normal_username_def USERNAME_RE_def username_char_def py_lower_def py_lower_char_def cp1251_upper_def)
  then show ?thesis by (simp add: demo_user_def normalize_username_fixed)
qed

lemma demo_session: "session_tokens demo_web demo_clock ''u1'' ''u2'' demo_user = Inr (fst demo_tokens, snd demo_tokens)"
  using web_tier.session_tokens_eq [OF demo_tier demo_model_user refl, of demo_clock "''u1''" "''u2''"] by (simp add: demo_tokens_def)

lemma demo_lifetimes [simp]:
  "ACCESS_TOKEN_EXPIRE_MINUTES (wb_cfg demo_web) = 480" "REFRESH_TOKEN_EXPIRE_DAYS (wb_cfg demo_web) = 7"
  by (simp_all add: demo_web_def default_auth_settings_def)

lemma demo_header_names [simp]: "py_lower ''host'' = ''host''" "py_lower ''origin'' = ''origin''" "py_lower ''X-CSRF-Token'' = ''x-csrf-token''"
    "py_lower ''authorization'' = ''authorization''"
  by code_simp+

lemma demo_token_eqs:
  "fst demo_tokens = jwt_encode (wb_jwt demo_web) (stamped demo_clock ''u1'' (token_claims (completed (wb_cfg demo_web) demo_clock demo_user) ''access'') (480 * 60))"
  "snd demo_tokens = jwt_encode (wb_jwt demo_web) (stamped demo_clock ''u2'' (token_claims (completed (wb_cfg demo_web) demo_clock demo_user) ''refresh'') (7 * 24 * 60 * 60))"
  unfolding demo_tokens_def using web_tier.session_tokens_eq [OF demo_tier demo_model_user refl, of demo_clock "''u1''" "''u2''"] by simp_all

lemma demo_issued:
  "issued (wb_jwt demo_web) (fst demo_tokens) (stamped demo_clock ''u1'' (token_claims (completed (wb_cfg demo_web) demo_clock demo_user) ''access'') (480 * 60))"
  "issued (wb_jwt demo_web) (snd demo_tokens) (stamped demo_clock ''u2'' (token_claims (completed (wb_cfg demo_web) demo_clock demo_user) ''refresh'') (7 * 24 * 60 * 60))"
  unfolding demo_token_eqs by (simp_all add: issued_def, simp_all add: stamped_def demo_clock_def)

lemma demo_guard: "enforce_csrf demo_web demo_rq = Inr ()"
  by (simp add: enforce_csrf_def request_uses_bearer_auth_without_session_def enforce_same_origin_def enforce_csrf_pair_def
      compare_digest_def is_ascii_def header_def demo_rq_def demo_web_def Let_def)

section \<open>Properties\<close>

text \<open>
  C14: an identity survives its session. Take a user with a valid name and a model, and the
  tokens of a session made for him: every request with the access token, until it expires or
  is revoked, sees one and the same identity; exchanging the refresh token succeeds and
  issues tokens for exactly this identity again, and completing it once more at any time
  changes nothing, so that any number of renewals leaves the user who he was.
\<close>

theorem session_identity:
  assumes "web_tier R view w" and "0 < now c" and "has_model u" and "normalize_username (ui_username u) \<noteq> []"
    and "u1 \<noteq> []" "u2 \<noteq> []" and "session_tokens w c u1 u2 u = Inr (a, r)"
    and v: "v = completed (wb_cfg w) c (completed (wb_cfg w) c u)"
  shows "completed (wb_cfg w) c' v = v
    \<and> (rq_cookies rq ''access_token'' = Some (bearer a) \<and> now c' \<le> now c + ACCESS_TOKEN_EXPIRE_MINUTES (wb_cfg w) * 60
        \<and> \<not> EXISTS R (Revoked_Key u1) s \<longrightarrow> get_current_user w c' rq cred s = Some v)
    \<and> (rq_cookies rq ''refresh_token'' = Some (bearer r) \<and> now c' \<le> now c + REFRESH_TOKEN_EXPIRE_DAYS (wb_cfg w) * 24 * 60 * 60
        \<and> \<not> EXISTS R (Revoked_Key u2) s \<and> enforce_csrf w rq = Inr () \<longrightarrow>
        (\<exists>a' r'. session_tokens w c' v1 v2 v = Inr (a', r')
          \<and> refresh_access_token w c' v1 v2 fresh rq s
            = (Inr \<lparr>rs_status = 204, rs_body = No_Body,
                 rs_cookies = set_auth_cookies (wb_cfg w) a' (Some r') (Some (get_or_create_csrf_token fresh rq))\<rparr>,
               snd (revoke_token w c' (Some (bearer r)) s))))"
proof -
  let ?v1 = "completed (wb_cfg w) c u" and ?A = "ACCESS_TOKEN_EXPIRE_MINUTES (wb_cfg w) * 60"
    and ?D = "REFRESH_TOKEN_EXPIRE_DAYS (wb_cfg w) * 24 * 60 * 60"
  have clock: "completed (wb_cfg w) c'' ?v1 = v" for c'' unfolding v by (rule completed_clock [OF assms(2)])
  have stable: "completed (wb_cfg w) c'' v = v" for c'' unfolding v by (rule enrich_stable [OF assms(2) refl])
  have model: "has_model v" using assms(3) by (simp add: v has_model_def)
  have names: "ui_username ?v1 \<noteq> []" using assms(4) by simp
  have toks: "a = jwt_encode (wb_jwt w) (stamped c u1 (token_claims ?v1 ''access'') ?A)"
      "r = jwt_encode (wb_jwt w) (stamped c u2 (token_claims ?v1 ''refresh'') ?D)"
    using assms(7) web_tier.session_tokens_eq [OF assms(1,3) refl, of c u1 u2] by simp_all
  obtain a' r' where new: "session_tokens w c' v1 v2 v = Inr (a', r')"
    using web_tier.session_tokens_eq [OF assms(1) model refl, of c' v1 v2] by simp
  note access = web_tier.access_token_user [OF assms(1,3) refl names assms(5) toks(1), where rq = rq and c' = c' and s = s and cred = cred, unfolded clock]
  note refresh = web_tier.refresh_accepted [OF assms(1,3) refl assms(4,6) toks(2), where rq = rq and c' = c' and s = s and a' = a' and r' = r' and fresh = fresh,
      unfolded clock]
  show ?thesis using stable access refresh new by blast
qed

theorem session_identity_witness:
  "get_current_user demo_web \<lparr>now = 200, now_ms = 200000\<rparr> demo_rq None empty_keyspace
     = Some (completed (wb_cfg demo_web) demo_clock (completed (wb_cfg demo_web) demo_clock demo_user))"
  using session_identity [OF demo_tier _ demo_model_user _ _ _ demo_session refl, where rq = demo_rq and s = empty_keyspace
      and c' = "\<lparr>now = 200, now_ms = 200000\<rparr>" and cred = None] demo_name
  by (simp add: demo_rq_def demo_clock_def demo_web_def default_auth_settings_def mem_redis_def empty_keyspace_def)

text \<open>
  C15: logout ends the session. Once a logout was answered, the browser holds none of the
  three cookies any more, and in every later state that still has the revocation flags no
  request with the old access token, in a cookie or in a header, has a user, and no request
  with the old refresh token gets new tokens.
\<close>

theorem logout_ends_session:
  assumes "web_tier R view w" and "issued (wb_jwt w) a acl" "issued (wb_jwt w) r rcl"
    and "rq_cookies rq ''access_token'' = Some (bearer a)" "rq_cookies rq ''refresh_token'' = Some (bearer r)"
    and "logout w c rq cu s = (Inr resp, s')" and "flags_kept view s' s''"
  shows "rs_status resp = 200
    \<and> (\<forall>n \<in> {''access_token'', ''refresh_token'', ''csrf_token''}. accept_cookies resp jar n = None)
    \<and> (rq_cookies rq' ''access_token'' \<in> {Some (bearer a), None} \<and> (\<forall>sch cr. cred = Some (sch, cr) \<longrightarrow> cr = a)
        \<longrightarrow> get_current_user w c' rq' cred s'' = None)
    \<and> (rq_cookies rq' ''refresh_token'' = Some (bearer r) \<longrightarrow> snd (refresh_access_token w c' v1 v2 fresh rq' s'') = s''
        \<and> (\<forall>resp'. fst (refresh_access_token w c' v1 v2 fresh rq' s'') = Inr resp' \<longrightarrow> rs_status resp' = 401 \<and> rs_cookies resp' = []))"
proof -
  note lo = web_tier.logout_revokes [OF assms(1-6)]
  note kept = web_tier.revoked_kept [OF assms(1) _ assms(7)]
  have "get_current_user w c' rq' cred s'' = None"
    if "rq_cookies rq' ''access_token'' \<in> {Some (bearer a), None}" "\<forall>sch cr. cred = Some (sch, cr) \<longrightarrow> cr = a"
    using that by (intro web_tier.revoked_no_user [OF assms(1,2) kept [OF lo(2)]]) auto
  moreover have "refresh_access_token w c' v1 v2 fresh rq' s'' = (case enforce_csrf w rq' of Inl e \<Rightarrow> (Inl e, s'')
      | Inr _ \<Rightarrow> (Inr (json_error 401 ''Invalid refresh token''), s''))" if "rq_cookies rq' ''refresh_token'' = Some (bearer r)"
    by (rule web_tier.revoked_no_refresh [OF assms(1,3) kept [OF lo(3)] that])
  ultimately show ?thesis by (auto simp: lo(1) clear_auth_cookies_def accept_cookies_def json_error_def split: sum.splits)
qed

theorem logout_ends_session_witness:
  "get_current_user demo_web \<lparr>now = 200, now_ms = 200000\<rparr> demo_rq None
     (snd (logout demo_web \<lparr>now = 150, now_ms = 150000\<rparr> demo_rq (Some demo_user) empty_keyspace)) = None"
proof -
  obtain resp s' where out: "logout demo_web \<lparr>now = 150, now_ms = 150000\<rparr> demo_rq (Some demo_user) empty_keyspace = (Inr resp, s')"
    using demo_guard by (simp add: logout_def demo_web_def)
  have "rq_cookies demo_rq ''access_token'' = Some (bearer (fst demo_tokens))" "rq_cookies demo_rq ''refresh_token'' = Some (bearer (snd demo_tokens))"
    by (simp_all add: demo_rq_def)
  from logout_ends_session [OF demo_tier demo_issued this out, where s'' = s' and rq' = demo_rq and cred = None and c' = "\<lparr>now = 200, now_ms = 200000\<rparr>"] this
  show ?thesis by (simp add: out flags_kept_def)
qed

text \<open>
  C16: a refresh token works once. After it has been exchanged, the same token is refused with
  status 401 and changes nothing, in every later state that still has the revocation flags.
\<close>

theorem refresh_single_use:
  assumes "web_tier R view w" and "issued (wb_jwt w) r rcl" and "rq_cookies rq ''refresh_token'' = Some (bearer r)"
    and "refresh_access_token w c u1 u2 fresh rq s = (Inr resp, s')" and "rs_status resp = 204" and "flags_kept view s' s''"
    and "rq_cookies rq' ''refresh_token'' = Some (bearer r)" and "enforce_csrf w rq' = Inr ()"
  shows "\<exists>resp'. refresh_access_token w c' v1 v2 fresh' rq' s'' = (Inr resp', s'') \<and> rs_status resp' = 401 \<and> rs_cookies resp' = []"
proof -
  have "s' = snd (revoke_token w c (Some (bearer r)) s)"
    using assms(3-5) by (auto simp: refresh_access_token_def json_error_def Let_def split: sum.splits option.splits prod.splits if_splits)
  then have "revoked view rcl s''"
    using web_tier.revoked_kept [OF assms(1) web_tier.revoke_token_issued(2) [OF assms(1,2)] assms(6)[unfolded \<open>s' = _\<close>]] by simp
  from web_tier.revoked_no_refresh [OF assms(1,2) this assms(7)] show ?thesis by (simp add: assms(8) json_error_def)
qed

theorem refresh_single_use_witness:
  "\<exists>resp. refresh_access_token demo_web \<lparr>now = 300, now_ms = 300000\<rparr> ''w1'' ''w2'' ''f'' demo_rq
     (snd (refresh_access_token demo_web \<lparr>now = 200, now_ms = 200000\<rparr> ''v1'' ''v2'' ''f'' demo_rq empty_keyspace))
   = (Inr resp, snd (refresh_access_token demo_web \<lparr>now = 200, now_ms = 200000\<rparr> ''v1'' ''v2'' ''f'' demo_rq empty_keyspace)) \<and> rs_status resp = 401"
proof -
  let ?c = "\<lparr>now = 200, now_ms = 200000\<rparr>"
  have cookies: "rq_cookies demo_rq ''refresh_token'' = Some (bearer (snd demo_tokens))" by (simp add: demo_rq_def)
  have "has_model (completed (wb_cfg demo_web) ?c (completed (wb_cfg demo_web) demo_clock demo_user))"
    using demo_model_user by (simp add: has_model_def)
  then obtain a r where new: "session_tokens demo_web ?c ''v1'' ''v2''
      (completed (wb_cfg demo_web) ?c (completed (wb_cfg demo_web) demo_clock demo_user)) = Inr (a, r)"
    using web_tier.session_tokens_eq [OF demo_tier _ refl] by blast
  have "\<not> EXISTS mem_redis (Revoked_Key ''u2'') (empty_keyspace :: auth_space)" by (simp add: mem_redis_def empty_keyspace_def)
  then obtain resp s' where first: "refresh_access_token demo_web ?c ''v1'' ''v2'' ''f'' demo_rq empty_keyspace = (Inr resp, s')" "rs_status resp = 204"
    using web_tier.refresh_accepted [OF demo_tier demo_model_user refl _ _ demo_token_eqs(2) cookies _ _ demo_guard new, of empty_keyspace "''f''"] demo_name
    by (simp add: demo_clock_def)
  have "flags_kept (\<lambda>s. s) s' s'" by (simp add: flags_kept_def)
  then have "\<exists>resp'. refresh_access_token demo_web \<lparr>now = 300, now_ms = 300000\<rparr> ''w1'' ''w2'' ''f'' demo_rq s' = (Inr resp', s')
      \<and> rs_status resp' = 401 \<and> rs_cookies resp' = []"
    by (rule refresh_single_use [OF demo_tier demo_issued(2) cookies first _ cookies demo_guard])
  then show ?thesis by (auto simp: first(1))
qed

text \<open>
  C17: forged requests. A request without its own bearer authentication whose \<open>Origin\<close> is
  another site or whose CSRF header is not the CSRF cookie cannot renew a session: it is
  refused with an exception, no token is revoked or issued. As long as its cookies still make
  it the request of a user, it cannot log him out either. Without a current user, as when the
  access token has expired but the refresh token has not, the logout does not look at the
  origin or the CSRF token: it revokes whatever tokens the request carries.
\<close>

theorem forged_request_harmless:
  assumes "\<not> request_uses_bearer_auth_without_session rq"
    and "given (header rq ''origin'') \<and> header rq ''origin'' \<noteq> Some (rq_scheme rq @ ''://'' @ the (header rq ''host''))
      \<or> header rq ''X-CSRF-Token'' \<noteq> rq_cookies rq ''csrf_token'' \<or> \<not> given (rq_cookies rq ''csrf_token'')"
  shows "\<exists>e. refresh_access_token w c u1 u2 fresh rq s = (Inl e, s)
    \<and> logout w c rq (get_current_user w c rq cred s) s =
        (if get_current_user w c rq cred s \<noteq> None then (Inl e, s)
         else if (given (rq_cookies rq ''access_token'') \<or> given (rq_cookies rq ''refresh_token'')) \<and> wb_redis w = None
         then (Inr (json_error 503 AUTH_BACKEND_UNAVAILABLE_ERROR), s)
         else (Inr \<lparr>rs_status = 200, rs_body = Ok_Json ''/login'', rs_cookies = clear_auth_cookies (wb_cfg w)\<rparr>, revoke_presented w c rq s))"
proof -
  have guard: "enforce_csrf w rq = (case enforce_same_origin (wb_netloc_ok w) rq of Inl e \<Rightarrow> Inl e
      | Inr _ \<Rightarrow> enforce_csrf_pair (rq_cookies rq ''csrf_token'') (header rq ''X-CSRF-Token''))"
    using assms(1) by (simp add: enforce_csrf_def)
  have "\<exists>e. enforce_csrf w rq = Inl e"
  proof (cases "given (header rq ''origin'') \<and> header rq ''origin'' \<noteq> Some (rq_scheme rq @ ''://'' @ the (header rq ''host''))")
    case True
    then have "enforce_same_origin (wb_netloc_ok w) rq = Inl csrf_failed"
      by (cases "header rq ''origin''") (simp_all add: enforce_same_origin_def Let_def)
    then show ?thesis by (simp add: guard)
  next
    case False
    then have "\<exists>e. enforce_csrf_pair (rq_cookies rq ''csrf_token'') (header rq ''X-CSRF-Token'') = Inl e"
      using assms(2) by (cases "rq_cookies rq ''csrf_token''"; cases "header rq ''X-CSRF-Token''")
        (auto simp: enforce_csrf_pair_def compare_digest_def)
    then show ?thesis by (auto simp: guard split: sum.split)
  qed
  then show ?thesis by (auto simp: refresh_access_token_def logout_def)
qed

theorem forged_request_harmless_witness:
  "\<exists>e. refresh_access_token demo_web demo_clock ''a'' ''b'' ''f''
       (demo_rq\<lparr>rq_headers := [''host'' \<mapsto> ''ai'', ''origin'' \<mapsto> ''https://evil'', ''x-csrf-token'' \<mapsto> ''c'']\<rparr>) empty_keyspace = (Inl e, empty_keyspace)"
  using forged_request_harmless [of "demo_rq\<lparr>rq_headers := [''host'' \<mapsto> ''ai'', ''origin'' \<mapsto> ''https://evil'', ''x-csrf-token'' \<mapsto> ''c'']\<rparr>"
      demo_web demo_clock "''a''" "''b''" "''f''" empty_keyspace None]
  by (auto simp: demo_rq_def header_def request_uses_bearer_auth_without_session_def strip_opt_def)

end
