(* ===== verification/Trusted_Proxy.thy ===== *)
theory Trusted_Proxy
  imports Session
begin

text \<open>
  Single sign-on through a reverse proxy. The authentication service of the proxy
  (\<open>sso_proxy_auth.py\<close>) checks a Kerberos token and answers with the identity in reserved
  headers; the web tier (\<open>app.py\<close>) accepts these headers only on the sign-on path and from
  the addresses of the proxy, and rebuilds the identity from them. GSSAPI, the key table and
  the directory are parameters.
\<close>

section \<open>Where a request comes from\<close>

definition trimmed_nonempty :: "string list \<Rightarrow> string list" where
  "trimmed_nonempty xs = filter (\<lambda>x. x \<noteq> []) (map py_strip xs)"

text \<open>\<open>None\<close> is the \<open>ValueError\<close> of an invalid network.\<close>

definition parse_trusted_proxy_source_cidrs :: "('s, 'z) web_scheme \<Rightarrow> string \<Rightarrow> (nat \<times> nat \<times> nat) list option" where
  "parse_trusted_proxy_source_cidrs w raw_value =
     (let nets = map (wb_ip_network w) (trimmed_nonempty (py_split_char CHR '','' raw_value)) in
      if None \<in> set nets then None else Some (map the nets))"

text \<open>\<open>address in network\<close>: the same version, and the same bits before the prefix length.\<close>

definition in_network :: "nat \<times> nat \<Rightarrow> nat \<times> nat \<times> nat \<Rightarrow> bool" where
  "in_network addr net = (case (addr, net) of ((v, a), (v', first, plen)) \<Rightarrow>
     v = v' \<and> (let host = 2 ^ ((if v = 4 then 32 else 128) - plen) in a div host * host = first))"

definition get_request_client_host :: "request \<Rightarrow> string" where
  "get_request_client_host request = strip_opt (rq_client request)"

definition request_comes_from_trusted_proxy_source :: "('s, 'z) web_scheme \<Rightarrow> request \<Rightarrow> bool" where
  "request_comes_from_trusted_proxy_source w request =
     (let client_host = get_request_client_host request; trusted_cidrs = py_strip (TRUSTED_PROXY_SOURCE_CIDRS (wb_cfg w)) in
      if client_host = [] \<or> trusted_cidrs = [] then False
      else case wb_ip_address w client_host of None \<Rightarrow> False
      | Some client_ip \<Rightarrow> (case parse_trusted_proxy_source_cidrs w trusted_cidrs of None \<Rightarrow> False
         | Some nets \<Rightarrow> list_ex (in_network client_ip) nets))"

definition build_login_rate_subject :: "('s, 'z) web_scheme \<Rightarrow> request \<Rightarrow> string \<Rightarrow> string" where
  "build_login_rate_subject w request username =
     (let client_host =
            (if request_comes_from_trusted_proxy_source w request then
               (let forwarded_for = (case header request ''x-forwarded-for'' of None \<Rightarrow> [] | Some f \<Rightarrow> f)
                in text_or (header request ''x-real-ip'')
                     (if forwarded_for = [] then [] else py_strip (fst (py_partition CHR '','' forwarded_for))))
             else []);
          client_host = (if client_host = [] then text_or (Some (get_request_client_host request)) ''unknown'' else client_host);
          normalized = text_or (Some (normalize_username username)) (text_or (Some (py_lower (py_strip username))) ''anonymous'')
      in client_host @ '':'' @ take 128 normalized)"

section \<open>Administrators\<close>

definition ADMIN_GROUPS :: "string list" where
  "ADMIN_GROUPS = [''domain admins'', ''admins'', ''administrators'', ''ai-admins'', ''ai-admin'']"

definition user_is_admin :: "user_info \<Rightarrow> bool" where
  "user_is_admin user_info = list_ex (\<lambda>g. g \<in> set ADMIN_GROUPS \<or> suffix ''-admins'' g \<or> suffix ''_admins'' g) (groups_lower user_info)"

definition parse_admin_dashboard_allowed_users :: "string \<Rightarrow> string set" where
  "parse_admin_dashboard_allowed_users raw_value = set (filter (\<lambda>u. u \<noteq> []) (map normalize_username (py_split_char CHR '','' raw_value)))"

definition user_can_access_admin_dashboard :: "auth_settings \<Rightarrow> user_info \<Rightarrow> bool" where
  "user_can_access_admin_dashboard cfg user_info =
     (let username = normalize_username (ui_username user_info) in
      username \<noteq> [] \<and> username \<in> parse_admin_dashboard_allowed_users (ADMIN_DASHBOARD_USERS cfg))"

section \<open>The reserved headers\<close>

definition RESERVED_AUTH_PROXY_HEADERS :: "string list" where
  "RESERVED_AUTH_PROXY_HEADERS = [''x-authenticated-email'', ''x-authenticated-groups'', ''x-authenticated-name'',
     ''x-authenticated-principal'', ''x-authenticated-user'']"

definition get_reserved_auth_proxy_headers :: "request \<Rightarrow> string list" where
  "get_reserved_auth_proxy_headers request = filter (\<lambda>h. given (header request h)) RESERVED_AUTH_PROXY_HEADERS"

definition trusted_proxy_sso_enabled :: "auth_settings \<Rightarrow> bool" where
  "trusted_proxy_sso_enabled cfg \<longleftrightarrow> SSO_ENABLED cfg \<and> TRUSTED_AUTH_PROXY_ENABLED cfg"

definition get_request_method :: "request \<Rightarrow> string" where
  "get_request_method request = py_upper (text_or (Some (rq_method request)) ''GET'')"

definition request_allows_trusted_proxy_headers :: "('s, 'z) web_scheme \<Rightarrow> request \<Rightarrow> bool" where
  "request_allows_trusted_proxy_headers w request \<longleftrightarrow>
     trusted_proxy_sso_enabled (wb_cfg w) \<and> get_request_method request = ''GET''
     \<and> rq_path request = SSO_LOGIN_PATH (wb_cfg w) \<and> request_comes_from_trusted_proxy_source w request"

definition reject_untrusted_auth_proxy_headers :: "('s, 'z) web_scheme \<Rightarrow> request \<Rightarrow> exn + unit" where
  "reject_untrusted_auth_proxy_headers w request =
     (if get_reserved_auth_proxy_headers request = [] then Inr ()
      else if request_allows_trusted_proxy_headers w request then Inr ()
      else Inl (HTTPException 400 ''Unsupported authentication headers''))"

text \<open>The middleware in front of every handler; \<open>call_next\<close> is the rest of the application.\<close>

definition prometheus_middleware ::
  "('s, 'z) web_scheme \<Rightarrow> (request \<Rightarrow> 's \<Rightarrow> (response, 's) outcome) \<Rightarrow> request \<Rightarrow> 's \<Rightarrow> (response, 's) outcome" where
  "prometheus_middleware w call_next request s = (case reject_untrusted_auth_proxy_headers w request of
     Inl (HTTPException code detail) \<Rightarrow> (Inr (json_error code detail), s)
   | Inl e \<Rightarrow> (Inl e, s)
   | Inr _ \<Rightarrow> call_next request s)"

definition parse_trusted_proxy_groups_header :: "('s, 'z) web_scheme \<Rightarrow> string option \<Rightarrow> exn + string list" where
  "parse_trusted_proxy_groups_header w raw_value =
     (if \<not> given raw_value then Inr []
      else case wb_json_list w (the raw_value) of
        Some (Some payload) \<Rightarrow> Inr (trimmed_nonempty payload)
      | _ \<Rightarrow> Inl (HTTPException 400 ''Invalid trusted proxy authentication headers''))"

text \<open>The dictionary that is built from the headers.\<close>

definition header_user_info :: "('s, 'z) web_scheme \<Rightarrow> request \<Rightarrow> string \<Rightarrow> string \<Rightarrow> string list \<Rightarrow> user_info" where
  "header_user_info w request username canonical_principal groups =
     \<lparr>ui_username = username, ui_canonical_principal = Some canonical_principal,
      ui_display_name = Some (py_strip (text_or (header request ''x-authenticated-name'') username)),
      ui_email = Some (py_strip (text_or (header request ''x-authenticated-email'') (username @ ''@'' @ LDAP_DOMAIN (wb_cfg w)))),
      ui_groups = Some groups, ui_auth_source = Some AUTH_SOURCE_SSO, ui_auth_time = None,
      ui_directory_checked_at = None, ui_identity_version = None,
      ui_model = None, ui_model_description = None, ui_model_key = None\<rparr>"

definition build_trusted_proxy_sso_identity :: "('s, 'z) web_scheme \<Rightarrow> clock \<Rightarrow> request \<Rightarrow> exn + user_info" where
  "build_trusted_proxy_sso_identity w c request =
     (if \<not> trusted_proxy_sso_enabled (wb_cfg w) then Inl (HTTPException 404 ''SSO login is disabled'')
      else if \<not> request_allows_trusted_proxy_headers w request then Inl (HTTPException 400 ''Unsupported authentication headers'')
      else
        let username = normalize_username (text_or (header request ''x-authenticated-user'') []);
            canonical_principal = py_strip (text_or (header request ''x-authenticated-principal'') [])
        in if username = [] \<or> canonical_principal = [] then Inl (HTTPException 401 ''SSO identity is unavailable'')
           else if normalize_username canonical_principal \<noteq> username then Inl (HTTPException 401 ''SSO identity is inconsistent'')
           else case parse_trusted_proxy_groups_header w (header request ''x-authenticated-groups'') of
             Inl e \<Rightarrow> Inl e
           | Inr groups \<Rightarrow> Inr (enrich_identity_session_fields (wb_cfg w) c (header_user_info w request username canonical_principal groups) (Some AUTH_SOURCE_SSO) None))"

section \<open>The authentication service of the proxy\<close>

text \<open>
  \<open>gss_step\<close> is one step of a fresh acceptor context: whether it is complete, its output
  token, and the name of the initiator; \<open>gss\<close> is \<open>None\<close> without the module. \<open>directory\<close>
  looks a user up with the credentials of the service.
\<close>

record sso_service =
  sv_cfg :: auth_settings
  sv_keytab_exists :: bool
  sv_gss :: "(string \<Rightarrow> exn + bool \<times> string option \<times> string option) option"
  sv_directory :: "string \<Rightarrow> exn + user_info option"

datatype sso_failure = Negotiate_Challenge int string | Sso_Error exn

definition negotiate_header :: "string option \<Rightarrow> string" where
  "negotiate_header token = (if \<not> given token then ''Negotiate'' else ''Negotiate '' @ b64encode (the token))"

definition header_safe_value :: "string option \<Rightarrow> string" where
  "header_safe_value x = (let candidate = strip_opt x in if is_ascii candidate then candidate else [])"

definition negotiate_challenge :: "string option \<Rightarrow> sso_failure" where
  "negotiate_challenge token = Negotiate_Challenge 401 (negotiate_header token)"

definition validate_negotiate_request_headers :: "request \<Rightarrow> sso_failure + string" where
  "validate_negotiate_request_headers request =
     (let authorization = strip_opt (header request ''authorization'') in
      if authorization = [] then Inl (negotiate_challenge None)
      else case py_partition CHR '' '' authorization of (scheme, _, token) \<Rightarrow>
        if py_lower scheme \<noteq> ''negotiate'' \<or> py_strip token = [] then Inl (negotiate_challenge None)
        else Inr (py_strip token))"

definition authenticate_negotiate_token :: "sso_service \<Rightarrow> string \<Rightarrow> sso_failure + string \<times> string option" where
  "authenticate_negotiate_token sv token_b64 = (case b64decode token_b64 of
     None \<Rightarrow> Inl (negotiate_challenge None)
   | Some token_bytes \<Rightarrow> (case sv_gss sv of
       None \<Rightarrow> Inl (Sso_Error (RuntimeError ''gssapi module is unavailable''))
     | Some step \<Rightarrow> (case step token_bytes of
         Inl e \<Rightarrow> Inl (Sso_Error e)
       | Inr (finished, output_token, initiator) \<Rightarrow>
           if \<not> finished then Inl (negotiate_challenge output_token)
           else (case initiator of None \<Rightarrow> Inl (Sso_Error (ValueError ''Kerberos initiator name is unavailable''))
             | Some name \<Rightarrow> Inr (name, output_token)))))"

text \<open>An identity with a user name and nothing else.\<close>

definition bare_user :: "string \<Rightarrow> user_info" where
  "bare_user u = \<lparr>ui_username = u, ui_canonical_principal = None, ui_display_name = None, ui_email = None, ui_groups = None,
     ui_auth_source = None, ui_auth_time = None, ui_directory_checked_at = None, ui_identity_version = None,
     ui_model = None, ui_model_description = None, ui_model_key = None\<rparr>"

definition resolve_sso_identity :: "sso_service \<Rightarrow> clock \<Rightarrow> string \<Rightarrow> sso_failure + user_info" where
  "resolve_sso_identity sv c initiator =
     (let normalized_username = normalize_username initiator in
      if normalized_username = [] then Inl (Sso_Error (ValueError ''Unable to normalize Kerberos principal''))
      else case sv_directory sv normalized_username of Inl e \<Rightarrow> Inl (Sso_Error e)
      | Inr (Some resolved) \<Rightarrow> Inr (enrich_identity_session_fields (sv_cfg sv) c resolved (Some AUTH_SOURCE_SSO) None)
      | Inr None \<Rightarrow> Inr (enrich_identity_session_fields (sv_cfg sv) c
          (build_identity_contract (sv_cfg sv) c normalized_username None None None None (Some AUTH_SOURCE_SSO) None None None)
          (Some AUTH_SOURCE_SSO) None))"

definition build_identity_headers :: "sso_service \<Rightarrow> clock \<Rightarrow> user_info \<Rightarrow> (string \<times> string) list" where
  "build_identity_headers sv c user_info =
     (let identity = enrich_identity_session_fields (sv_cfg sv) c user_info (Some AUTH_SOURCE_SSO) None;
          display_name = header_safe_value (ui_display_name identity)
      in [(''X-Authenticated-User'', ui_username identity),
          (''X-Authenticated-Principal'', header_safe_value (ui_canonical_principal identity)),
          (''X-Authenticated-Email'', header_safe_value (ui_email identity)),
          (''X-Authenticated-Groups'', json_strings (the (ui_groups identity)))]
         @ (if display_name = [] then [] else [(''X-Authenticated-Name'', display_name)]))"

text \<open>The answer of \<open>/validate\<close>: status, headers, and an error text.\<close>

definition validate_sso :: "sso_service \<Rightarrow> clock \<Rightarrow> request \<Rightarrow> int \<times> (string \<times> string) list \<times> string" where
  "validate_sso sv c request =
     (if \<not> SSO_ENABLED (sv_cfg sv) \<or> \<not> TRUSTED_AUTH_PROXY_ENABLED (sv_cfg sv) then (403, [], ''Trusted proxy SSO is disabled'')
      else if SSO_SERVICE_PRINCIPAL (sv_cfg sv) = [] \<or> SSO_KEYTAB_PATH (sv_cfg sv) = [] then (503, [], ''Trusted proxy SSO is not configured'')
      else if \<not> sv_keytab_exists sv then (503, [], ''Trusted proxy SSO keytab is missing'')
      else if sv_gss sv = None then (503, [], ''Trusted proxy SSO runtime is unavailable'')
      else case (case validate_negotiate_request_headers request of Inl e \<Rightarrow> Inl e
          | Inr token_b64 \<Rightarrow> (case authenticate_negotiate_token sv token_b64 of Inl e \<Rightarrow> Inl e
            | Inr (initiator, response_token) \<Rightarrow> (case resolve_sso_identity sv c initiator of Inl e \<Rightarrow> Inl e
              | Inr identity \<Rightarrow> Inr (identity, response_token)))) of
        Inl (Negotiate_Challenge code hv) \<Rightarrow> (code, [(''WWW-Authenticate'', hv)], [])
      | Inl (Sso_Error _) \<Rightarrow> (500, [], ''Trusted proxy SSO validation failed'')
      | Inr (identity, response_token) \<Rightarrow>
          (204, build_identity_headers sv c identity
                @ (if given response_token then [(''WWW-Authenticate'', negotiate_header response_token)] else []), []))"

definition sso_health_live :: "sso_service \<Rightarrow> int" where
  "sso_health_live sv = (if SSO_ENABLED (sv_cfg sv) \<and> TRUSTED_AUTH_PROXY_ENABLED (sv_cfg sv) then 200 else 503)"


section \<open>A proxy for the examples\<close>

definition demo_sso_cfg :: auth_settings where
  "demo_sso_cfg = default_auth_settings\<lparr>TRUSTED_AUTH_PROXY_ENABLED := True, SSO_ENABLED := True, SSO_SERVICE_PRINCIPAL := ''HTTP/ai''\<rparr>"

definition demo_sso_web :: "auth_space web" where
  "demo_sso_web = \<lparr>wb_cfg = demo_sso_cfg, wb_jwt = plain_jwt, wb_redis = Some mem_redis, wb_netloc_ok = (\<lambda>_. True),
     wb_ip_address = [''127.0.0.1'' \<mapsto> (4, 2130706433)],
     wb_ip_network = [''127.0.0.1/32'' \<mapsto> (4, 2130706433, 32), ''::1/128'' \<mapsto> (6, 1, 128)],
     wb_json_list = (\<lambda>t. Some (Some (read_json_strings t)))\<rparr>"

definition demo_sso :: sso_service where
  "demo_sso = \<lparr>sv_cfg = demo_sso_cfg, sv_keytab_exists = True,
     sv_gss = Some (\<lambda>t. Inr (True, None, Some ''ann@YOUR-DOMAIN.LOCAL'')), sv_directory = (\<lambda>_. Inr None)\<rparr>"

definition demo_sso_user :: user_info where
  "demo_sso_user = (case resolve_sso_identity demo_sso demo_clock ''ann'' of Inr u \<Rightarrow> u | Inl _ \<Rightarrow> bare_user [])"

definition demo_sso_rq :: request where
  "demo_sso_rq = \<lparr>rq_method = ''GET'', rq_scheme = ''https'', rq_path = ''/auth/sso/login'', rq_client = Some ''127.0.0.1'',
     rq_headers = (\<lambda>h. if h \<in> set RESERVED_AUTH_PROXY_HEADERS
       then map_of (map (apfst py_lower) (build_identity_headers demo_sso demo_clock demo_sso_user)) h else None),
     rq_cookies = (\<lambda>_. None), rq_query = (\<lambda>_. None)\<rparr>"

lemma demo_sso_allowed: "request_allows_trusted_proxy_headers demo_sso_web demo_sso_rq"
proof -
  have "get_request_method demo_sso_rq = ''GET''"
    by (simp add: get_request_method_def demo_sso_rq_def text_or_def py_upper_def py_upper_char_def cp1251_upper_def)
  moreover have "strip_opt (Some ''127.0.0.1'') = ''127.0.0.1''" "trimmed_nonempty (py_split_char CHR '','' (py_strip ''127.0.0.1/32,::1/128'')) = [''127.0.0.1/32'', ''::1/128'']"
      "py_strip ''127.0.0.1/32,::1/128'' \<noteq> []"
    by (simp_all add: strip_opt_def trimmed_nonempty_def text_evals)
  ultimately show ?thesis
    by (simp add: request_allows_trusted_proxy_headers_def trusted_proxy_sso_enabled_def demo_sso_web_def demo_sso_cfg_def demo_sso_rq_def
        default_auth_settings_def request_comes_from_trusted_proxy_source_def get_request_client_host_def
        parse_trusted_proxy_source_cidrs_def in_network_def)
qed

section \<open>Properties\<close>

lemma header_identity:
  assumes "normalize_username u = u" "p \<noteq> []" "py_strip p = p"
    and v: "v = enrich_identity_session_fields (wb_cfg w) c (header_user_info w rq u p gs) (Some AUTH_SOURCE_SSO) None"
  shows "ui_username v = u" "ui_canonical_principal v = Some p" "ui_groups v = Some (normalize_groups (Some gs))"
    "ui_auth_source v = Some AUTH_SOURCE_SSO"
proof -
  have "normalize_auth_source (str_or (Some AUTH_SOURCE_SSO) (Some AUTH_SOURCE_SSO)) = AUTH_SOURCE_SSO"
    by (simp add: str_or_def normalize_auth_source_def strip_opt_def auth_sources text_evals)
  then show "ui_username v = u" "ui_canonical_principal v = Some p" "ui_groups v = Some (normalize_groups (Some gs))"
    "ui_auth_source v = Some AUTH_SOURCE_SSO"
    using assms(1-3) by (simp_all add: v contract_defs header_user_info_def text_or_def)
qed

lemma build_identity_accepted:
  assumes "build_trusted_proxy_sso_identity w c rq = Inr v"
  shows "\<exists>u p gs. u = normalize_username (text_or (header rq ''x-authenticated-user'') []) \<and> u \<noteq> []
    \<and> p = py_strip (text_or (header rq ''x-authenticated-principal'') []) \<and> p \<noteq> [] \<and> normalize_username p = u
    \<and> parse_trusted_proxy_groups_header w (header rq ''x-authenticated-groups'') = Inr gs
    \<and> request_allows_trusted_proxy_headers w rq
    \<and> v = enrich_identity_session_fields (wb_cfg w) c (header_user_info w rq u p gs) (Some AUTH_SOURCE_SSO) None"
  using assms unfolding build_trusted_proxy_sso_identity_def Let_def
  by (auto split: if_splits sum.splits)

text \<open>
  Who may assert an identity: a peer whose address lies between the first and the last
  address of a configured network of its version. A list with an invalid network trusts nobody.
\<close>

definition proxy_networks :: "auth_settings \<Rightarrow> string list" where
  "proxy_networks cfg = trimmed_nonempty (py_split_char CHR '','' (py_strip (TRUSTED_PROXY_SOURCE_CIDRS cfg)))"

definition covers :: "nat \<times> nat \<times> nat \<Rightarrow> nat \<times> nat \<Rightarrow> bool" where
  "covers net addr = (case (net, addr) of ((v, first, plen), (v', a)) \<Rightarrow>
     let size = 2 ^ ((if v = 4 then 32 else 128) - plen) in v = v' \<and> size dvd first \<and> first \<le> a \<and> a < first + size)"

definition from_proxy :: "('s, 'z) web_scheme \<Rightarrow> request \<Rightarrow> bool" where
  "from_proxy w rq \<longleftrightarrow> strip_opt (rq_client rq) \<noteq> [] \<and> (\<exists>addr. wb_ip_address w (strip_opt (rq_client rq)) = Some addr
     \<and> (\<forall>e \<in> set (proxy_networks (wb_cfg w)). wb_ip_network w e \<noteq> None)
     \<and> (\<exists>e \<in> set (proxy_networks (wb_cfg w)). \<exists>net. wb_ip_network w e = Some net \<and> covers net addr))"

lemma in_network_covers: "in_network addr net \<longleftrightarrow> covers net addr"
proof -
  have "a div n * n = f \<longleftrightarrow> n dvd f \<and> f \<le> a \<and> a < f + n" if "0 < n" for a n f :: nat
  proof
    assume f: "a div n * n = f"
    have "a = f + a mod n" "a mod n < n" using that by (simp_all add: f [symmetric])
    then have "f \<le> a \<and> a < f + n" by linarith
    moreover have "n dvd f" by (simp add: f [symmetric])
    ultimately show "n dvd f \<and> f \<le> a \<and> a < f + n" by blast
  next
    assume f: "n dvd f \<and> f \<le> a \<and> a < f + n"
    then obtain k where k: "f = n * k" by blast
    then have "a div n = k" using f by (intro div_nat_eqI) (simp_all add: mult.commute)
    then show "a div n * n = f" using k by simp
  qed
  then show ?thesis by (auto simp: in_network_def covers_def Let_def split: prod.split)
qed

lemma trusted_source: "request_comes_from_trusted_proxy_source w rq \<longleftrightarrow> from_proxy w rq"
proof -
  have blank: "proxy_networks (wb_cfg w) = []" if "py_strip (TRUSTED_PROXY_SOURCE_CIDRS (wb_cfg w)) = []"
    using that by (simp add: proxy_networks_def trimmed_nonempty_def)
  have nets: "parse_trusted_proxy_source_cidrs w (py_strip (TRUSTED_PROXY_SOURCE_CIDRS (wb_cfg w)))
      = (if \<exists>e \<in> set (proxy_networks (wb_cfg w)). wb_ip_network w e = None then None
         else Some (map (the \<circ> wb_ip_network w) (proxy_networks (wb_cfg w))))"
    by (auto simp: parse_trusted_proxy_source_cidrs_def proxy_networks_def Let_def image_iff eq_commute [of None])
      (metis option.distinct(1))
  show ?thesis
    unfolding request_comes_from_trusted_proxy_source_def from_proxy_def get_request_client_host_def Let_def nets
    using blank by (auto simp: in_network_covers list_ex_iff split: option.split) force+
qed

text \<open>
  C18: identity headers are believed only from the proxy. A request that carries any of the
  reserved headers is answered with status 400 before any handler runs, and changes nothing,
  unless both switches of the sign-on are on, it is a \<open>GET\<close> of exactly the sign-on path, and
  its peer address lies in a configured network; every other request reaches the application
  unchanged. An identity is only built from headers under the same conditions, and then its
  user name is the normal form of the header and agrees with the Kerberos principal.
\<close>

theorem sso_headers_trusted:
  assumes "entry = (SSO_ENABLED (wb_cfg w) \<and> TRUSTED_AUTH_PROXY_ENABLED (wb_cfg w) \<and> py_upper (text_or (Some (rq_method rq)) ''GET'') = ''GET''
      \<and> rq_path rq = SSO_LOGIN_PATH (wb_cfg w) \<and> from_proxy w rq)"
  shows "prometheus_middleware w call_next rq s =
      (if (\<exists>h \<in> set RESERVED_AUTH_PROXY_HEADERS. given (header rq h)) \<and> \<not> entry
       then (Inr (json_error 400 ''Unsupported authentication headers''), s) else call_next rq s)
    \<and> (case build_trusted_proxy_sso_identity w c rq of Inl e \<Rightarrow> True
       | Inr v \<Rightarrow> entry \<and> normal_username (ui_username v) \<and> ui_username v = normalize_username (text_or (header rq ''x-authenticated-user'') [])
          \<and> normalize_username (the (ui_canonical_principal v)) = ui_username v \<and> ui_auth_source v = Some AUTH_SOURCE_SSO)"
proof
  have allowed: "request_allows_trusted_proxy_headers w rq \<longleftrightarrow> entry"
    by (simp add: assms request_allows_trusted_proxy_headers_def trusted_proxy_sso_enabled_def get_request_method_def trusted_source)
  have "get_reserved_auth_proxy_headers rq = [] \<longleftrightarrow> \<not> (\<exists>h \<in> set RESERVED_AUTH_PROXY_HEADERS. given (header rq h))"
    by (auto simp: get_reserved_auth_proxy_headers_def filter_empty_conv)
  then show "prometheus_middleware w call_next rq s =
      (if (\<exists>h \<in> set RESERVED_AUTH_PROXY_HEADERS. given (header rq h)) \<and> \<not> entry
       then (Inr (json_error 400 ''Unsupported authentication headers''), s) else call_next rq s)"
    by (auto simp: prometheus_middleware_def reject_untrusted_auth_proxy_headers_def allowed)
  show "case build_trusted_proxy_sso_identity w c rq of Inl e \<Rightarrow> True
       | Inr v \<Rightarrow> entry \<and> normal_username (ui_username v) \<and> ui_username v = normalize_username (text_or (header rq ''x-authenticated-user'') [])
          \<and> normalize_username (the (ui_canonical_principal v)) = ui_username v \<and> ui_auth_source v = Some AUTH_SOURCE_SSO"
  proof (cases "build_trusted_proxy_sso_identity w c rq")
    case (Inr v)
    define u where "u = normalize_username (text_or (header rq ''x-authenticated-user'') [])"
    define p where "p = py_strip (text_or (header rq ''x-authenticated-principal'') [])"
    have entry using Inr allowed by (auto simp: build_trusted_proxy_sso_identity_def split: if_splits)
    from build_identity_accepted [OF Inr] obtain gs where "u \<noteq> []" "p \<noteq> []" "normalize_username p = u"
        and v: "v = enrich_identity_session_fields (wb_cfg w) c (header_user_info w rq u p gs) (Some AUTH_SOURCE_SSO) None"
      by (auto simp: u_def p_def)
    have "normalize_username u = u" "py_strip p = p" by (simp_all add: u_def p_def)
    note fields = header_identity [OF this(1) \<open>p \<noteq> []\<close> this(2) v]
    show ?thesis
      using fields \<open>entry\<close> \<open>u \<noteq> []\<close> \<open>normalize_username p = u\<close> normalize_username_normal [of "text_or (header rq ''x-authenticated-user'') []"]
      by (simp add: Inr u_def)
  qed simp
qed

theorem sso_headers_trusted_witness:
  "prometheus_middleware demo_sso_web (\<lambda>rq s. (Inr (json_error 200 ''''), s)) (demo_sso_rq\<lparr>rq_client := Some ''10.0.0.9'', rq_headers := [''x-authenticated-user'' \<mapsto> ''eve'']\<rparr>) empty_keyspace
   = (Inr (json_error 400 ''Unsupported authentication headers''), empty_keyspace)
   \<and> prometheus_middleware demo_sso_web (\<lambda>rq s. (Inr (json_error 200 ''''), s)) (demo_sso_rq\<lparr>rq_path := ''/chat'', rq_headers := [''x-authenticated-user'' \<mapsto> ''eve'']\<rparr>) empty_keyspace
   = (Inr (json_error 400 ''Unsupported authentication headers''), empty_keyspace)"
proof -
  let ?next = "\<lambda>rq s. (Inr (json_error 200 ''''), s)" and ?far = "demo_sso_rq\<lparr>rq_client := Some ''10.0.0.9'', rq_headers := [''x-authenticated-user'' \<mapsto> ''eve'']\<rparr>" and ?other = "demo_sso_rq\<lparr>rq_path := ''/chat'', rq_headers := [''x-authenticated-user'' \<mapsto> ''eve'']\<rparr>"
  have strip: "strip_opt (Some ''10.0.0.9'') = ''10.0.0.9''" by (simp add: strip_opt_def text_evals)
  have user: "''x-authenticated-user'' \<in> set RESERVED_AUTH_PROXY_HEADERS" by (simp add: RESERVED_AUTH_PROXY_HEADERS_def)
  have lower: "py_lower ''x-authenticated-user'' = ''x-authenticated-user''" by code_simp
  have sent: "given (header ?far ''x-authenticated-user'')" "given (header ?other ''x-authenticated-user'')"
    by (simp_all add: header_def lower)
  have "\<not> from_proxy demo_sso_web ?far" by (simp add: from_proxy_def strip demo_sso_web_def)
  moreover have "rq_path ?other \<noteq> SSO_LOGIN_PATH (wb_cfg demo_sso_web)"
    by (simp add: demo_sso_web_def demo_sso_cfg_def default_auth_settings_def)
  ultimately show ?thesis
    using conjunct1 [OF sso_headers_trusted [OF refl, where w = demo_sso_web and rq = ?far and s = empty_keyspace and call_next = ?next]]
      conjunct1 [OF sso_headers_trusted [OF refl, where w = demo_sso_web and rq = ?other and s = empty_keyspace and call_next = ?next]] user sent
    by auto
qed

text \<open>A request that carries the identity headers of an answer of the authentication service and no others.\<close>

definition carries :: "request \<Rightarrow> (string \<times> string) list \<Rightarrow> bool" where
  "carries rq hs \<longleftrightarrow> (\<forall>h \<in> set RESERVED_AUTH_PROXY_HEADERS. header rq h = map_of (map (apfst py_lower) hs) h)"

lemma reserved_names:
  "map py_lower [''X-Authenticated-User'', ''X-Authenticated-Principal'', ''X-Authenticated-Email'', ''X-Authenticated-Groups'', ''X-Authenticated-Name'']
   = [''x-authenticated-user'', ''x-authenticated-principal'', ''x-authenticated-email'', ''x-authenticated-groups'', ''x-authenticated-name'']"
  by code_simp

lemma carried_headers:
  assumes "carries rq (build_identity_headers sv c u)"
    and J: "J = enrich_identity_session_fields (sv_cfg sv) c u (Some AUTH_SOURCE_SSO) None"
  shows "header rq ''x-authenticated-user'' = Some (ui_username J)"
    "header rq ''x-authenticated-principal'' = Some (header_safe_value (ui_canonical_principal J))"
    "header rq ''x-authenticated-groups'' = Some (json_strings (the (ui_groups J)))"
  using assms(1) reserved_names
  by (simp_all add: carries_def RESERVED_AUTH_PROXY_HEADERS_def build_identity_headers_def J Let_def)

lemma demo_carries: "carries demo_sso_rq (build_identity_headers demo_sso demo_clock demo_sso_user)"
proof -
  have "map py_lower RESERVED_AUTH_PROXY_HEADERS = RESERVED_AUTH_PROXY_HEADERS" by code_simp
  then have "py_lower h = h" if "h \<in> set RESERVED_AUTH_PROXY_HEADERS" for h
    using that by (simp add: map_eq_conv [where g = "\<lambda>x. x", simplified])
  then show ?thesis by (simp add: carries_def header_def demo_sso_rq_def)
qed

lemma json_strings_nonempty: "json_strings xs \<noteq> []"
  by (simp add: json_strings_def)

lemma normal_groups_trimmed: "normal_groups gs \<Longrightarrow> trimmed_nonempty gs = gs"
proof -
  assume "normal_groups gs"
  then have "map py_strip gs = gs" "\<forall>g \<in> set gs. g \<noteq> []" by (auto simp: normal_groups_def intro: map_idI)
  then show ?thesis by (simp add: trimmed_nonempty_def)
qed

text \<open>
  C19: the identity that the authentication service asserts is the identity that the web tier
  sees. Take the answer of the service for a Kerberos initiator, and a sign-on request that
  the proxy lets through with these headers: the web tier refuses it if the principal cannot
  be written in ASCII or does not belong to the user name, and otherwise builds an identity
  with exactly this user name, this principal and these groups, from any text of groups. An
  initiator whom the directory does not know keeps his own name.
\<close>

theorem proxy_identity_roundtrip:
  assumes "resolve_sso_identity sv c initiator = Inr u" and "carries rq (build_identity_headers sv c u)"
    and "request_allows_trusted_proxy_headers w rq" and "\<And>gs. wb_json_list w (json_strings gs) = Some (Some gs)"
    and J: "J = enrich_identity_session_fields (sv_cfg sv) c u (Some AUTH_SOURCE_SSO) None"
    and p: "p = header_safe_value (ui_canonical_principal J)"
  shows "(if ui_username J = [] \<or> p = [] then build_trusted_proxy_sso_identity w c' rq = Inl (HTTPException 401 ''SSO identity is unavailable'')
     else if normalize_username p \<noteq> ui_username J then build_trusted_proxy_sso_identity w c' rq = Inl (HTTPException 401 ''SSO identity is inconsistent'')
     else \<exists>v. build_trusted_proxy_sso_identity w c' rq = Inr v \<and> ui_username v = ui_username J \<and> ui_canonical_principal v = Some p
        \<and> ui_groups v = ui_groups J \<and> ui_auth_source v = Some AUTH_SOURCE_SSO)
    \<and> (sv_directory sv (normalize_username initiator) = Inr None \<longrightarrow> ui_username J = normalize_username initiator)"
proof -
  obtain gs where gs: "ui_groups J = Some gs" "normal_groups gs" "normalize_groups (Some gs) = gs"
    using normalize_groups_normal by (auto simp: J contract_defs)
  have user: "normalize_username (ui_username J) = ui_username J" by (simp add: J)
  have strip: "py_strip p = p" by (simp add: p header_safe_value_def strip_opt_def Let_def)
  note headers = carried_headers [OF assms(2) J, folded p]
  have groups: "parse_trusted_proxy_groups_header w (header rq ''x-authenticated-groups'') = Inr gs"
    using gs by (simp add: headers parse_trusted_proxy_groups_header_def json_strings_nonempty assms(4) normal_groups_trimmed)
  have enabled: "trusted_proxy_sso_enabled (wb_cfg w)" using assms(3) by (simp add: request_allows_trusted_proxy_headers_def)
  have "text_or (Some (ui_username J)) [] = ui_username J" "text_or (Some p) [] = p" by (simp_all add: text_or_def)
  then have build: "build_trusted_proxy_sso_identity w c' rq =
     (if ui_username J = [] \<or> p = [] then Inl (HTTPException 401 ''SSO identity is unavailable'')
      else if normalize_username p \<noteq> ui_username J then Inl (HTTPException 401 ''SSO identity is inconsistent'')
      else Inr (enrich_identity_session_fields (wb_cfg w) c' (header_user_info w rq (ui_username J) p gs) (Some AUTH_SOURCE_SSO) None))"
    by (simp add: build_trusted_proxy_sso_identity_def enabled assms(3) headers user strip groups [unfolded headers] Let_def)
  have "ui_username J = normalize_username initiator" if "sv_directory sv (normalize_username initiator) = Inr None"
    using assms(1) that by (auto simp: resolve_sso_identity_def J contract_defs Let_def split: if_splits)
  moreover note header_identity [OF user _ strip refl, where w = w and c = c' and rq = rq and gs = gs]
  ultimately show ?thesis using gs by (auto simp: build)
qed

theorem proxy_identity_roundtrip_witness:
  "\<exists>v. build_trusted_proxy_sso_identity demo_sso_web demo_clock demo_sso_rq = Inr v \<and> ui_username v = ''ann''"
proof -
  have norm: "normalize_username ''ann'' = ''ann''" using demo_name by (simp add: demo_user_def)
  have u: "resolve_sso_identity demo_sso demo_clock ''ann'' = Inr demo_sso_user"
    by (simp add: demo_sso_user_def resolve_sso_identity_def demo_sso_def norm)
  let ?J = "enrich_identity_session_fields (sv_cfg demo_sso) demo_clock demo_sso_user (Some AUTH_SOURCE_SSO) None"
  have J: "ui_username ?J = ''ann''"
    by (simp add: demo_sso_user_def) (simp add: resolve_sso_identity_def demo_sso_def norm contract_defs)
  have p: "header_safe_value (ui_canonical_principal ?J) = ''ann@YOUR-DOMAIN.LOCAL''" "normalize_username ''ann@YOUR-DOMAIN.LOCAL'' = ''ann''"
    by code_simp+
  have "wb_json_list demo_sso_web (json_strings gs) = Some (Some gs)" for gs by (simp add: demo_sso_web_def read_json_strings_text)
  from conjunct1 [OF proxy_identity_roundtrip [OF u demo_carries demo_sso_allowed this refl refl, of demo_clock], unfolded J p]
  show ?thesis by auto
qed

end
