(* ===== verification/Rate_Limiter.thy ===== *)
theory Rate_Limiter
  imports Redis_Store
begin

text \<open>
  The Redis-backed components that guard the web tier (\<open>llm_gateway.py\<close>): the connection
  loop of \<open>RedisBackedComponent\<close> and the sliding-window limiter \<open>AsyncRateLimiter\<close>. The
  limiter records every attempt of a subject in a sorted set scored by its time and counts
  what is left of the window.
\<close>

section \<open>Connecting\<close>

text \<open>
  An attempt to connect and ping either succeeds or raises; the loop sleeps between
  attempts for a multiple of the backoff. The result holds the sleeps and the exception
  of the last attempt, if all failed. \<open>RuntimeError\<close> without a cause is the case of no
  attempts at all.
\<close>

function connect_loop :: "(int \<Rightarrow> exn option) \<Rightarrow> int \<Rightarrow> rat \<Rightarrow> int \<Rightarrow> exn option \<Rightarrow> (exn + unit) \<times> rat list" where
  "connect_loop ping attempts backoff attempt last_exc =
     (if attempts < attempt then
        (Inl (case last_exc of None \<Rightarrow> RuntimeError ''Redis control plane connection failed'' | Some e \<Rightarrow> e), [])
      else case ping attempt of
        None \<Rightarrow> (Inr (), [])
      | Some exc \<Rightarrow>
          if attempts \<le> attempt then (Inl exc, [])
          else (case connect_loop ping attempts backoff (attempt + 1) (Some exc) of
                  (r, sleeps) \<Rightarrow> (r, fl (backoff * of_int attempt) # sleeps)))"
  by pat_completeness auto
termination by (relation "measure (\<lambda>(ping, attempts, backoff, attempt, last_exc). nat (attempts + 1 - attempt))") auto

declare connect_loop.simps [simp del]

definition connect :: "(int \<Rightarrow> exn option) \<Rightarrow> int \<Rightarrow> rat \<Rightarrow> (exn + unit) \<times> rat list" where
  "connect ping attempts backoff = connect_loop ping attempts backoff 1 None"

section \<open>The limiter\<close>

record 's rate_limiter =
  rl_redis :: "('s, string, unit, unit, unit) redis option"
  max_requests :: int
  window_seconds :: int
  namespace :: string

definition new_rate_limiter ::
  "('s, string, unit, unit, unit) redis option \<Rightarrow> int \<Rightarrow> int \<Rightarrow> string \<Rightarrow> 's rate_limiter" where
  "new_rate_limiter r maxr window ns = \<lparr>rl_redis = r, max_requests = maxr, window_seconds = window,
     namespace = (if py_strip ns = [] then ''ratelimit'' else py_strip ns)\<rparr>"

definition rate_key :: "'s rate_limiter \<Rightarrow> string \<Rightarrow> string" where
  "rate_key rl subject = namespace rl @ '':'' @ subject"

definition rate_member :: "int \<Rightarrow> string \<Rightarrow> string" where
  "rate_member t hex = py_str_int t @ '':'' @ hex"

text \<open>
  \<open>fault\<close> tells that the transaction raised a \<open>RedisError\<close>; \<open>hex\<close> is the random part of
  the member. The commands of the transaction run in order.
\<close>

definition check :: "'s rate_limiter \<Rightarrow> int \<Rightarrow> string \<Rightarrow> bool \<Rightarrow> string \<Rightarrow> 's \<Rightarrow> (unit, 's) outcome" where
  "check rl t hex fault subject s = (case rl_redis rl of
     None \<Rightarrow> (Inl (HTTPException 503 ''Rate limiter backend unavailable''), s)
   | Some R \<Rightarrow>
       if fault then (Inl (HTTPException 503 ''Rate limiter backend unavailable''), s)
       else let key = rate_key rl subject;
                s = ZADD R key (rate_member t hex) t s;
                s = ZREMRANGEBYSCORE R key 0 (t - window_seconds rl * 1000) s;
                count = ZCARD R key s;
                s = EXPIRE R key (window_seconds rl) s
            in if max_requests rl < count then (Inl (HTTPException 429 ''Rate limit exceeded''), s)
               else (Inr (), s))"

text \<open>The attempts of one subject, in order; the decision of each.\<close>

fun run_checks :: "'s rate_limiter \<Rightarrow> string \<Rightarrow> (int \<times> string) list \<Rightarrow> 's \<Rightarrow> bool list \<times> 's" where
  "run_checks rl subject [] s = ([], s)"
| "run_checks rl subject ((t, hex) # as) s =
     (case check rl t hex False subject s of (r, s) \<Rightarrow>
        case run_checks rl subject as s of (oks, s) \<Rightarrow> ((r = Inr ()) # oks, s))"

section \<open>Lemmas\<close>

lemma run_checks_length [simp]: "length (fst (run_checks rl subject as s)) = length as"
  by (induction rl subject as s rule: run_checks.induct) (auto split: prod.splits dest: arg_cong [where f = fst])

lemma run_checks_append:
  "run_checks rl subject (as @ bs) s =
     (fst (run_checks rl subject as s) @ fst (run_checks rl subject bs (snd (run_checks rl subject as s))),
      snd (run_checks rl subject bs (snd (run_checks rl subject as s))))"
  by (induction rl subject as s rule: run_checks.induct) (auto split: prod.splits)

lemma connect_loop_eq:
  assumes "a \<le> attempts"
  shows "case find (\<lambda>k. ping k = None) [a..attempts] of
      None \<Rightarrow> connect_loop ping attempts backoff a e
        = (Inl (the (ping attempts)), map (\<lambda>k. fl (backoff * of_int k)) [a..attempts - 1])
    | Some k \<Rightarrow> connect_loop ping attempts backoff a e = (Inr (), map (\<lambda>k. fl (backoff * of_int k)) [a..k - 1])"
  using assms
proof (induction ping attempts backoff a e rule: connect_loop.induct)
  case (1 ping attempts backoff a e)
  have upto: "[a..attempts] = a # [a + 1..attempts]" using 1 by (simp add: upto_rec1)
  show ?case
  proof (cases "ping a = None \<or> a = attempts")
    case True
    then show ?thesis using 1 connect_loop.simps [of ping attempts backoff a e] by (auto simp: upto)
  next
    case False
    then obtain x where x: "ping a = Some x" "a < attempts" using 1 by auto
    have eq: "connect_loop ping attempts backoff a e = (case connect_loop ping attempts backoff (a + 1) (Some x) of
        (r, sleeps) \<Rightarrow> (r, fl (backoff * of_int a) # sleeps))"
      using x by (subst connect_loop.simps) simp
    have cons: "[a..k - 1] = a # [a + 1..k - 1]" if "a < k" for k using that by (simp add: upto_rec1)
    have found: "a < k" if "find (\<lambda>k. ping k = None) [a + 1..attempts] = Some k" for k
      using that by (auto simp: find_Some_iff dest!: nth_mem)
    show ?thesis
      using "1.IH" [of x] x found cons by (fastforce simp: upto eq split: option.splits)
  qed
qed

lemma distinct_filter_zip: "distinct xs \<Longrightarrow> distinct (map fst (filter P (zip xs ys)))"
proof (induction xs arbitrary: ys)
  case Nil
  then show ?case by simp
next
  case (Cons x xs)
  then show ?case by (cases ys) (auto dest: set_zip_leftD)
qed

definition attempt_member :: "int \<times> string \<Rightarrow> string" where
  "attempt_member a = rate_member (fst a) (snd a)"

locale connected_limiter = redis_store R view
  for R :: "('s, string, unit, unit, unit) redis" and view :: "'s \<Rightarrow> (string, unit, unit, unit) keyspace" +
  fixes rl :: "'s rate_limiter"
  assumes connected: "rl_redis rl = Some R"
begin

lemma check_eq:
  "fst (check rl t hex False subject s) =
     (if max_requests rl < int (length (zsets (view (snd (check rl t hex False subject s))) (rate_key rl subject)))
      then Inl (HTTPException 429 ''Rate limit exceeded'') else Inr ())"
  "zsets (view (snd (check rl t hex False subject s))) (rate_key rl subject) =
     filter (\<lambda>p. \<not> (0 \<le> snd p \<and> snd p \<le> t - window_seconds rl * 1000))
       (zset_add (rate_member t hex) t (zsets (view s) (rate_key rl subject)))"
  by (simp_all add: check_def connected Let_def zcard_law expire_law zremrangebyscore_law zadd_law)

text \<open>The sorted set holds every attempt of the last window.\<close>

lemma recorded:
  assumes "distinct (map attempt_member as)" and "sorted (map fst as)"
    and "a \<in> set as" and "fst (last as) - window_seconds rl * 1000 < fst a"
  shows "(attempt_member a, fst a) \<in> set (zsets (view (snd (run_checks rl subject as s))) (rate_key rl subject))"
  using assms
proof (induction as arbitrary: a rule: rev_induct)
  case Nil
  then show ?case by simp
next
  case (snoc b as)
  let ?s = "snd (run_checks rl subject as s)"
  have step: "zsets (view (snd (run_checks rl subject (as @ [b]) s))) (rate_key rl subject) =
     filter (\<lambda>p. \<not> (0 \<le> snd p \<and> snd p \<le> fst b - window_seconds rl * 1000))
       (zset_add (attempt_member b) (fst b) (zsets (view ?s) (rate_key rl subject)))"
    using check_eq(2) [of "fst b" "snd b" subject ?s]
    by (cases b) (simp add: run_checks_append attempt_member_def split_beta)
  show ?case
  proof (cases "a = b")
    case True
    then show ?thesis using snoc.prems unfolding step by simp
  next
    case False
    then have a: "a \<in> set as" using snoc.prems by simp
    then have "as \<noteq> []" by auto
    then have "fst (last as) \<le> fst b" using snoc.prems(2) by (simp add: sorted_append)
    then have "(attempt_member a, fst a) \<in> set (zsets (view ?s) (rate_key rl subject))"
      using snoc.prems a by (intro snoc.IH) (simp_all add: sorted_append)
    moreover have "attempt_member a \<noteq> attempt_member b" using snoc.prems(1) imageI [OF a, of attempt_member] by auto
    ultimately show ?thesis using snoc.prems(4) unfolding step by (auto simp: zset_add_def set_insort_key)
  qed
qed

lemma accepted_window:
  assumes "distinct (map attempt_member as)" and "sorted (map fst as)" and "0 \<le> max_requests rl"
  shows "int (length (filter (\<lambda>(a, ok). ok \<and> lo < fst a \<and> fst a \<le> lo + window_seconds rl * 1000)
            (zip as (fst (run_checks rl subject as s))))) \<le> max_requests rl"
  using assms(1, 2)
proof (induction as rule: rev_induct)
  case Nil
  then show ?case using assms(3) by simp
next
  case (snoc b as)
  let ?P = "\<lambda>(a, ok). ok \<and> lo < fst a \<and> fst a \<le> lo + window_seconds rl * 1000"
  let ?s = "snd (run_checks rl subject as s)" and ?s' = "snd (run_checks rl subject (as @ [b]) s)"
  let ?z = "zsets (view ?s') (rate_key rl subject)"
  obtain t h where b: "b = (t, h)" by (cases b)
  have fst_run: "fst (run_checks rl subject (as @ [b]) s) =
      fst (run_checks rl subject as s) @ [\<not> max_requests rl < int (length ?z)]"
    using check_eq(1) [of t h subject ?s] by (simp add: run_checks_append b split_beta)
  have IH: "int (length (filter ?P (zip as (fst (run_checks rl subject as s))))) \<le> max_requests rl"
    using snoc by (simp add: sorted_append)
  show ?case
  proof (cases "?P (b, \<not> max_requests rl < int (length ?z))")
    case False
    then show ?thesis using IH unfolding fst_run by auto
  next
    case True
    define acc where "acc = map fst (filter ?P (zip (as @ [b]) (fst (run_checks rl subject (as @ [b]) s))))"
    let ?f = "\<lambda>a. (attempt_member a, fst a)"
    have acc: "set acc \<subseteq> {a \<in> set (as @ [b]). lo < fst a}"
      unfolding acc_def by (auto dest: set_zip_leftD)
    have "?f a \<in> set ?z" if "a \<in> set (as @ [b])" "lo < fst a" for a
      using True b by (intro recorded snoc.prems) (use that in simp_all)
    with acc have sub: "?f ` set acc \<subseteq> set ?z" by blast
    have "distinct (as @ [b]) \<and> inj_on attempt_member (set (as @ [b]))"
      using snoc.prems(1) by (simp only: distinct_map)
    then have d: "distinct (as @ [b])" and "inj_on attempt_member (set (as @ [b]))" by blast+
    then have "inj_on ?f (set (as @ [b]))" by (simp only: inj_on_def prod.inject) blast
    then have "inj_on ?f (set acc)" by (rule inj_on_subset) (use acc in blast)
    moreover have "distinct acc" unfolding acc_def using d by (rule distinct_filter_zip)
    ultimately have "length acc = card (?f ` set acc)"
      by (simp only: card_image distinct_card)
    also have "\<dots> \<le> length ?z" using card_mono [OF _ sub] card_length [of ?z] by force
    also have "length acc = length (filter ?P (zip (as @ [b]) (fst (run_checks rl subject (as @ [b]) s))))"
      by (simp only: acc_def length_map)
    finally show ?thesis using True by simp
  qed
qed

end

interpretation meml: connected_limiter mem_redis "\<lambda>s. s" "new_rate_limiter (Some mem_redis) m w ns" for m w ns
  by unfold_locales (simp add: new_rate_limiter_def)

section \<open>Properties\<close>

text \<open>
  C32: the sliding window. Over any sequence of attempts of one subject with
  non-decreasing times and distinct members, from any state of the server, no interval
  of \<open>window_seconds\<close> holds more than \<open>max_requests\<close> accepted attempts.
\<close>

theorem rate_limit_window:
  assumes "connected_limiter R view rl"
    and "distinct (map attempt_member as)" and "sorted (map fst as)" and "0 \<le> max_requests rl"
  shows "int (length (filter (\<lambda>(a, ok). ok \<and> lo < fst a \<and> fst a \<le> lo + window_seconds rl * 1000)
            (zip as (fst (run_checks rl subject as s))))) \<le> max_requests rl"
  by (rule connected_limiter.accepted_window [OF assms])

definition demo_attempts :: "(int \<times> string) list" where
  "demo_attempts = [(1, ''a''), (2, ''b''), (3, ''c'')]"

theorem rate_limit_window_witness:
  "int (length (filter (\<lambda>(a, ok). ok \<and> 0 < fst a \<and> fst a \<le> 60000)
     (zip demo_attempts (fst (run_checks (new_rate_limiter (Some mem_redis) 2 60 ''rl'') ''ann'' demo_attempts
           empty_keyspace))))) \<le> 2"
proof -
  have "distinct (map attempt_member demo_attempts)" "sorted (map fst demo_attempts)"
    by (simp_all add: demo_attempts_def attempt_member_def rate_member_def py_str_int_def nat_digits.simps)
  then show ?thesis
    using rate_limit_window [OF meml.connected_limiter_axioms, of demo_attempts 2 60 "''rl''" 0 "''ann''" empty_keyspace]
    by (simp add: new_rate_limiter_def)
qed

text \<open>
  The outcomes of one check. Without a connection, or when Redis raises, the request is
  refused with status 503 and nothing is recorded. Otherwise the attempt is recorded,
  accepted or not, and it is refused with status 429 exactly when more than
  \<open>max_requests\<close> entries are left in the window.
\<close>

theorem rate_check_outcome:
  assumes "connected_limiter R view rl" and "0 < window_seconds rl"
  shows "check (rl\<lparr>rl_redis := None\<rparr>) t hex fault subject s = (Inl (HTTPException 503 ''Rate limiter backend unavailable''), s)
    \<and> check rl t hex True subject s = (Inl (HTTPException 503 ''Rate limiter backend unavailable''), s)
    \<and> (let z = zsets (view (snd (check rl t hex False subject s))) (rate_key rl subject)
       in (rate_member t hex, t) \<in> set z
        \<and> (\<forall>p \<in> set z. snd p < 0 \<or> t - window_seconds rl * 1000 < snd p)
        \<and> fst (check rl t hex False subject s) =
            (if max_requests rl < int (length z) then Inl (HTTPException 429 ''Rate limit exceeded'') else Inr ()))"
  using connected_limiter.check_eq [OF assms(1)] assms(2) connected_limiter.connected [OF assms(1)]
  by (auto simp: Let_def check_def)

theorem rate_check_outcome_witness:
  "fst (check (new_rate_limiter (Some mem_redis) 0 60 ''rl'') 7 ''a'' False ''ann'' empty_keyspace)
   = Inl (HTTPException 429 ''Rate limit exceeded'')"
  using rate_check_outcome [OF meml.connected_limiter_axioms [of 0 60 "''rl''"], of 7 "''a''" False "''ann''" empty_keyspace]
    length_pos_if_in_set
  by (fastforce simp: new_rate_limiter_def Let_def)

text \<open>
  Connecting tries at most the configured number of times, waits between the attempts
  and never after the last, succeeds as soon as one attempt does, and otherwise raises the
  exception of the last attempt.
\<close>

theorem connect_retries:
  assumes "1 \<le> attempts"
  shows "case find (\<lambda>k. ping k = None) [1..attempts] of
      None \<Rightarrow> connect ping attempts backoff
        = (Inl (the (ping attempts)), map (\<lambda>k. fl (backoff * of_int k)) [1..attempts - 1])
    | Some k \<Rightarrow> connect ping attempts backoff = (Inr (), map (\<lambda>k. fl (backoff * of_int k)) [1..k - 1])"
  using connect_loop_eq [of 1 attempts ping backoff None] assms unfolding connect_def by blast

theorem connect_retries_witness:
  "connect (\<lambda>k. if k = 2 then None else Some (RuntimeError ''down'')) 5 1 = (Inr (), [1])"
  using connect_retries [of 5 "\<lambda>k. if k = 2 then None else Some (RuntimeError ''down'')" 1]
  by (simp add: upto_rec1 fl_numeral)

end
