(* ===== verification/Local_Admin.thy ===== *)
theory Local_Admin
  imports Trusted_Proxy Rate_Limiter
begin

text \<open>
  The local administrator (\<open>local_admin_security.py\<close> and \<open>app.py\<close>): the account that is left
  when Kerberos and the directory fail. Its password hash comes from the environment and may
  be replaced at run time; the current state lies in Redis under one key and carries a
  revision, a hash of its other fields, which every session token repeats. The theory models
  the password hash, the state, the sessions and the handlers for login, forced rotation,
  password change and logout.
\<close>

section \<open>Texts of the sources\<close>

definition LOGIN_RATE_LIMIT_ERROR :: string where
  "LOGIN_RATE_LIMIT_ERROR =
     cp1251 [209, 235, 232, 248, 234, 238, 236, 32, 236, 237, 238, 227, 238, 32, 239, 238,
       239, 251, 242, 238, 234, 32, 226, 245, 238, 228, 224, 46, 32, 207, 238, 239,
       240, 238, 225, 243, 233, 242, 229, 32, 239, 238, 231, 230, 229, 46]"

definition LOCAL_ADMIN_ROTATION_REQUIRED_ERROR :: string where
  "LOCAL_ADMIN_ROTATION_REQUIRED_ERROR =
     cp1251 [196, 235, 255, 32, 98, 114, 101, 97, 107, 45, 103, 108, 97, 115, 115, 32, 97,
       100, 109, 105, 110, 32, 242, 240, 229, 225, 243, 229, 242, 241, 255, 32, 238,
       225, 255, 231, 224, 242, 229, 235, 252, 237, 224, 255, 32, 241, 236, 229, 237,
       224, 32, 239, 224, 240, 238, 235, 255, 46]"

definition LOCAL_ADMIN_AUTH_ERROR :: string where
  "LOCAL_ADMIN_AUTH_ERROR =
     cp1251 [205, 229, 226, 229, 240, 237, 251, 229, 32, 243, 247, 184, 242, 237, 251, 229,
       32, 228, 224, 237, 237, 251, 229, 32, 108, 111, 99, 97, 108, 32, 97, 100, 109,
       105, 110, 46]"

definition TXT_PASSWORD_BLANK :: string where
  "TXT_PASSWORD_BLANK =
     cp1251 [205, 238, 226, 251, 233, 32, 239, 224, 240, 238, 235, 252, 32, 237, 229, 32,
       228, 238, 235, 230, 229, 237, 32, 225, 251, 242, 252, 32, 239, 243, 241, 242,
       251, 236, 46]"

definition TXT_PASSWORD_SHORT :: string where
  "TXT_PASSWORD_SHORT =
     cp1251 [205, 238, 226, 251, 233, 32, 239, 224, 240, 238, 235, 252, 32, 228, 238, 235,
       230, 229, 237, 32, 225, 251, 242, 252, 32, 237, 229, 32, 234, 238, 240, 238,
       247, 229, 32, 49, 54, 32, 241, 232, 236, 226, 238, 235, 238, 226, 46]"

definition TXT_CONFIRM_MISMATCH :: string where
  "TXT_CONFIRM_MISMATCH =
     cp1251 [207, 238, 228, 242, 226, 229, 240, 230, 228, 229, 237, 232, 229, 32, 239, 224,
       240, 238, 235, 255, 32, 237, 229, 32, 241, 238, 226, 239, 224, 228, 224, 229,
       242, 46]"

definition TXT_NEW_CONFIRM_MISMATCH :: string where
  "TXT_NEW_CONFIRM_MISMATCH =
     cp1251 [207, 238, 228, 242, 226, 229, 240, 230, 228, 229, 237, 232, 229, 32, 237, 238,
       226, 238, 227, 238, 32, 239, 224, 240, 238, 235, 255, 32, 237, 229, 32, 241,
       238, 226, 239, 224, 228, 224, 229, 242, 46]"

definition TXT_CURRENT_WRONG :: string where
  "TXT_CURRENT_WRONG =
     cp1251 [210, 229, 234, 243, 249, 232, 233, 32, 239, 224, 240, 238, 235, 252, 32, 243,
       234, 224, 231, 224, 237, 32, 237, 229, 226, 229, 240, 237, 238, 46]"

definition TXT_SAME_PASSWORD :: string where
  "TXT_SAME_PASSWORD =
     cp1251 [205, 238, 226, 251, 233, 32, 239, 224, 240, 238, 235, 252, 32, 228, 238, 235,
       230, 229, 237, 32, 238, 242, 235, 232, 247, 224, 242, 252, 241, 255, 32, 238,
       242, 32, 242, 229, 234, 243, 249, 229, 227, 238, 46]"


definition LOCAL_ADMIN_PASSWORD_CHANGED_MESSAGE :: string where
  "LOCAL_ADMIN_PASSWORD_CHANGED_MESSAGE =
     cp1251 [207, 224, 240, 238, 235, 252, 32, 108, 111, 99, 97, 108, 32, 97, 100, 109, 105,
       110, 32, 238, 225, 237, 238, 226, 235, 184, 237, 46, 32, 194, 238, 233, 228,
       232, 242, 229, 32, 241, 237, 238, 226, 224, 32, 241, 32, 237, 238, 226, 251,
       236, 32, 239, 224, 240, 238, 235, 229, 236, 46]"

section \<open>Passwords\<close>

text \<open>
  SHA-256 of a text in hexadecimal, PBKDF2 with HMAC-SHA256 on a password, a salt and a number
  of iterations, and the limiter of logins, whose Redis state is \<open>'r\<close>.
\<close>

record ('s, 'r) admin_web = "'s web" +
  wa_sha256 :: "string \<Rightarrow> string"
  wa_pbkdf2 :: "string \<Rightarrow> string \<Rightarrow> int \<Rightarrow> string"
  wa_limiter :: "'r rate_limiter"

definition LOCAL_ADMIN_HASH_SCHEME :: string where "LOCAL_ADMIN_HASH_SCHEME = ''pbkdf2_sha256''"
definition LOCAL_ADMIN_HASH_ITERATIONS :: int where "LOCAL_ADMIN_HASH_ITERATIONS = 600000"
definition LOCAL_ADMIN_MIN_PASSWORD_LENGTH :: nat where "LOCAL_ADMIN_MIN_PASSWORD_LENGTH = 16"

definition normalize_local_admin_password_hash_transport :: "string \<Rightarrow> string" where
  "normalize_local_admin_password_hash_transport stored_hash = py_replace ''$$'' ''$'' (py_strip stored_hash)"

text \<open>\<open>salt\<close> is what \<open>token_bytes\<close> draws.\<close>

definition build_local_admin_password_hash :: "('s, 'r) admin_web \<Rightarrow> string \<Rightarrow> string \<Rightarrow> exn + string" where
  "build_local_admin_password_hash w salt password =
     (if password = [] then Inl (ValueError ''local admin password cannot be empty'')
      else Inr (py_join ''$'' [LOCAL_ADMIN_HASH_SCHEME, py_str_int LOCAL_ADMIN_HASH_ITERATIONS, b64encode salt,
        b64encode (wa_pbkdf2 w password salt LOCAL_ADMIN_HASH_ITERATIONS)]))"

text \<open>The unpacking of \<open>split("$", 3)\<close> into four names, \<open>None\<close> for its \<open>ValueError\<close>.\<close>

definition split_hash :: "string \<Rightarrow> (string \<times> string \<times> string \<times> string) option" where
  "split_hash h = (case py_split1 ''$'' h of None \<Rightarrow> None
     | Some (scheme, h) \<Rightarrow> (case py_split1 ''$'' h of None \<Rightarrow> None
     | Some (iterations, h) \<Rightarrow> (case py_split1 ''$'' h of None \<Rightarrow> None
     | Some (salt, digest) \<Rightarrow> Some (scheme, iterations, salt, digest))))"

text \<open>\<open>hashlib.pbkdf2_hmac\<close> checks the number of iterations.\<close>

definition pbkdf2_hmac :: "('s, 'r) admin_web \<Rightarrow> string \<Rightarrow> string \<Rightarrow> int \<Rightarrow> exn + string" where
  "pbkdf2_hmac w password salt iterations =
     (if iterations < 1 then Inl (ValueError ''iteration value must be greater than 0.'')
      else if 2147483647 < iterations then Inl (OverflowError ''iteration value is too great.'')
      else Inr (wa_pbkdf2 w password salt iterations))"

definition verify_local_admin_password :: "('s, 'r) admin_web \<Rightarrow> string \<Rightarrow> string \<Rightarrow> exn + bool" where
  "verify_local_admin_password w password stored_hash =
     (case split_hash (normalize_local_admin_password_hash_transport stored_hash) of None \<Rightarrow> Inr False
      | Some (scheme, raw_iterations, salt_b64, digest_b64) \<Rightarrow>
          if scheme \<noteq> LOCAL_ADMIN_HASH_SCHEME then Inr False
          else (case (py_int_of_string raw_iterations, b64decode salt_b64, b64decode digest_b64) of
            (Some iterations, Some salt, Some expected_digest) \<Rightarrow>
              (case pbkdf2_hmac w password salt iterations of Inl e \<Rightarrow> Inl e
               | Inr candidate_digest \<Rightarrow> Inr (candidate_digest = expected_digest))
          | _ \<Rightarrow> Inr False))"

definition validate_local_admin_password_policy :: "string \<Rightarrow> string option" where
  "validate_local_admin_password_policy password =
     (if password = [] \<or> list_all py_isspace password then Some TXT_PASSWORD_BLANK
      else if length password < LOCAL_ADMIN_MIN_PASSWORD_LENGTH then Some TXT_PASSWORD_SHORT
      else None)"

section \<open>The state\<close>

definition state_revision_text :: "admin_state \<Rightarrow> string" where
  "state_revision_text st = json_object
     [(''base_env_revision'', json_string (as_base_env_revision st)),
      (''bootstrap_required'', json_bool (as_bootstrap_required st)),
      (''enabled'', json_bool (as_enabled st)),
      (''force_rotate'', json_bool (as_force_rotate st)),
      (''password_hash'', json_string (normalize_local_admin_password_hash_transport (as_password_hash st))),
      (''runtime_override'', json_bool (as_runtime_override st)),
      (''username'', json_string (as_username st))]"

definition build_local_admin_state_revision :: "('s, 'r) admin_web \<Rightarrow> admin_state \<Rightarrow> string" where
  "build_local_admin_state_revision w st = wa_sha256 w (state_revision_text st)"

definition local_admin_enabled :: "('s, 'r) admin_web \<Rightarrow> bool" where
  "local_admin_enabled w = LOCAL_ADMIN_ENABLED (wb_cfg w)"

definition local_admin_username :: "('s, 'r) admin_web \<Rightarrow> string" where
  "local_admin_username w = normalize_username (text_or (Some (LOCAL_ADMIN_USERNAME (wb_cfg w))) ''admin_ai'')"

definition local_admin_env_state :: "('s, 'r) admin_web \<Rightarrow> admin_state" where
  "local_admin_env_state w =
     (let cfg = wb_cfg w;
          normalized_password_hash = normalize_local_admin_password_hash_transport (LOCAL_ADMIN_PASSWORD_HASH cfg);
          base_env_revision = wa_sha256 w (json_object
            [(''bootstrap_required'', json_bool (LOCAL_ADMIN_BOOTSTRAP_REQUIRED cfg)),
             (''enabled'', json_bool (LOCAL_ADMIN_ENABLED cfg)),
             (''force_rotate'', json_bool (LOCAL_ADMIN_FORCE_ROTATE cfg)),
             (''password_hash'', json_string normalized_password_hash),
             (''username'', json_string (local_admin_username w))]);
          state = \<lparr>as_enabled = LOCAL_ADMIN_ENABLED cfg, as_username = local_admin_username w,
            as_password_hash = normalized_password_hash, as_force_rotate = LOCAL_ADMIN_FORCE_ROTATE cfg,
            as_bootstrap_required = LOCAL_ADMIN_BOOTSTRAP_REQUIRED cfg, as_runtime_override = False,
            as_base_env_revision = base_env_revision, as_rotated_at = None, as_state_revision = []\<rparr>
      in state\<lparr>as_state_revision := build_local_admin_state_revision w state\<rparr>)"

definition local_admin_state_is_configured :: "admin_state \<Rightarrow> bool" where
  "local_admin_state_is_configured st \<longleftrightarrow> as_enabled st \<and> as_username st \<noteq> [] \<and> as_password_hash st \<noteq> []"

definition local_admin_rotation_required :: "admin_state \<Rightarrow> bool" where
  "local_admin_rotation_required st \<longleftrightarrow> as_force_rotate st \<or> as_bootstrap_required st"

definition backend_unavailable :: exn where
  "backend_unavailable = HTTPException 503 AUTH_BACKEND_UNAVAILABLE_ERROR"

text \<open>Values of the stored state are normalised again; a missing one falls back on the environment.\<close>

definition merged_admin_state :: "('s, 'r) admin_web \<Rightarrow> admin_state \<Rightarrow> admin_state \<Rightarrow> admin_state" where
  "merged_admin_state w env_state payload =
     (let merged = \<lparr>as_enabled = as_enabled payload,
            as_username = normalize_username (text_or (Some (as_username payload)) (as_username env_state)),
            as_password_hash = normalize_local_admin_password_hash_transport
              (text_or (Some (as_password_hash payload)) (as_password_hash env_state)),
            as_force_rotate = as_force_rotate payload, as_bootstrap_required = as_bootstrap_required payload,
            as_runtime_override = as_runtime_override payload,
            as_base_env_revision = text_or (Some (as_base_env_revision payload)) (as_base_env_revision env_state),
            as_rotated_at = Some (int_or (as_rotated_at payload) 0), as_state_revision = as_state_revision env_state\<rparr>
      in merged\<lparr>as_state_revision := build_local_admin_state_revision w merged\<rparr>)"

definition load_local_admin_state :: "('s, 'r) admin_web \<Rightarrow> 's \<Rightarrow> (admin_state, 's) outcome" where
  "load_local_admin_state w s =
     (let env_state = local_admin_env_state w in
      if \<not> local_admin_enabled w then (Inr env_state, s)
      else if \<not> local_admin_state_is_configured env_state then (Inr env_state, s)
      else case wb_redis w of None \<Rightarrow> (Inl backend_unavailable, s)
      | Some R \<Rightarrow>
          (case GET R Admin_State_Key s of
             Some (Admin_Json (Some payload)) \<Rightarrow>
               if as_base_env_revision payload \<noteq> as_base_env_revision env_state
               then (Inr env_state, SET R Admin_State_Key (Admin_Json (Some env_state)) s)
               else (Inr (merged_admin_state w env_state payload), s)
           | _ \<Rightarrow> (Inr env_state, SET R Admin_State_Key (Admin_Json (Some env_state)) s)))"

definition persist_local_admin_state :: "('s, 'r) admin_web \<Rightarrow> admin_state \<Rightarrow> 's \<Rightarrow> (admin_state, 's) outcome" where
  "persist_local_admin_state w st s =
     (let stored = \<lparr>as_enabled = as_enabled st, as_username = normalize_username (as_username st),
            as_password_hash = normalize_local_admin_password_hash_transport (as_password_hash st),
            as_force_rotate = as_force_rotate st, as_bootstrap_required = as_bootstrap_required st,
            as_runtime_override = as_runtime_override st, as_base_env_revision = as_base_env_revision st,
            as_rotated_at = Some (int_or (as_rotated_at st) 0), as_state_revision = []\<rparr>;
          stored = stored\<lparr>as_state_revision := build_local_admin_state_revision w stored\<rparr>
      in case wb_redis w of None \<Rightarrow> (Inl backend_unavailable, s)
         | Some R \<Rightarrow> (Inr stored, SET R Admin_State_Key (Admin_Json (Some stored)) s))"

section \<open>Sessions\<close>

record admin_identity =
  ai_username :: string
  ai_display_name :: string
  ai_email :: string
  ai_canonical_principal :: string
  ai_groups :: "string list"
  ai_auth_source :: string
  ai_local_admin :: bool
  ai_dashboard_only :: bool
  ai_rotation_required :: bool
  ai_state_revision :: string

text \<open>The argument \<open>rotation_required\<close> is never given.\<close>

definition build_local_admin_identity :: "('s, 'r) admin_web \<Rightarrow> admin_state \<Rightarrow> admin_identity" where
  "build_local_admin_identity w st =
     (let username = text_or (Some (as_username st)) (text_or (Some (local_admin_username w)) ''admin_ai'') in
      \<lparr>ai_username = username, ai_display_name = username, ai_email = ''break-glass admin'',
       ai_canonical_principal = ''local-admin:'' @ username, ai_groups = [''local-break-glass-admin''],
       ai_auth_source = AUTH_SOURCE_LOCAL_ADMIN, ai_local_admin = True, ai_dashboard_only = True,
       ai_rotation_required = local_admin_rotation_required st, ai_state_revision = as_state_revision st\<rparr>)"

definition LOCAL_ADMIN_ACCESS_COOKIE_NAME :: string where "LOCAL_ADMIN_ACCESS_COOKIE_NAME = ''local_admin_access_token''"
definition LOCAL_ADMIN_CSRF_COOKIE_NAME :: string where "LOCAL_ADMIN_CSRF_COOKIE_NAME = ''local_admin_csrf_token''"
definition LOCAL_ADMIN_ACCESS_TOKEN_TYPE :: string where "LOCAL_ADMIN_ACCESS_TOKEN_TYPE = ''local_admin_access''"
definition LOCAL_ADMIN_COOKIE_PATH :: string where "LOCAL_ADMIN_COOKIE_PATH = ''/''"
definition LOCAL_ADMIN_LEGACY_COOKIE_PATH :: string where "LOCAL_ADMIN_LEGACY_COOKIE_PATH = ''/admin''"
definition LOCAL_ADMIN_LOGIN_PATH :: string where "LOCAL_ADMIN_LOGIN_PATH = ''/admin/local/login''"
definition LOCAL_ADMIN_ROTATE_PATH :: string where "LOCAL_ADMIN_ROTATE_PATH = ''/admin/local/rotate-password''"
definition LOCAL_ADMIN_NOT_CONFIGURED_ERROR :: string where
  "LOCAL_ADMIN_NOT_CONFIGURED_ERROR = ''Local break-glass admin is not configured.''"

definition build_local_admin_login_rate_subject :: "('s, 'r) admin_web \<Rightarrow> request \<Rightarrow> string \<Rightarrow> string" where
  "build_local_admin_login_rate_subject w request username = ''local-admin:'' @ build_login_rate_subject w request username"

definition build_local_admin_password_change_rate_subject :: "('s, 'r) admin_web \<Rightarrow> request \<Rightarrow> string \<Rightarrow> string" where
  "build_local_admin_password_change_rate_subject w request username =
     ''local-admin-password-change:'' @ build_login_rate_subject w request username"

definition set_local_admin_cookies :: "auth_settings \<Rightarrow> string \<Rightarrow> string option \<Rightarrow> cookie_op list" where
  "set_local_admin_cookies cfg access_token csrf_token =
     [Delete_Cookie LOCAL_ADMIN_ACCESS_COOKIE_NAME LOCAL_ADMIN_LEGACY_COOKIE_PATH (COOKIE_DOMAIN cfg),
      Delete_Cookie LOCAL_ADMIN_CSRF_COOKIE_NAME LOCAL_ADMIN_LEGACY_COOKIE_PATH (COOKIE_DOMAIN cfg),
      Set_Cookie ((auth_cookie cfg LOCAL_ADMIN_ACCESS_COOKIE_NAME (bearer access_token)
        (ACCESS_TOKEN_EXPIRE_MINUTES cfg * 60) True)\<lparr>ck_path := LOCAL_ADMIN_COOKIE_PATH\<rparr>)]
     @ (if given csrf_token
        then [Set_Cookie ((auth_cookie cfg LOCAL_ADMIN_CSRF_COOKIE_NAME (the csrf_token)
          (ACCESS_TOKEN_EXPIRE_MINUTES cfg * 60) False)\<lparr>ck_path := LOCAL_ADMIN_COOKIE_PATH\<rparr>)]
        else [])"

definition clear_local_admin_cookies :: "auth_settings \<Rightarrow> cookie_op list" where
  "clear_local_admin_cookies cfg =
     [Delete_Cookie LOCAL_ADMIN_ACCESS_COOKIE_NAME LOCAL_ADMIN_COOKIE_PATH (COOKIE_DOMAIN cfg),
      Delete_Cookie LOCAL_ADMIN_CSRF_COOKIE_NAME LOCAL_ADMIN_COOKIE_PATH (COOKIE_DOMAIN cfg),
      Delete_Cookie LOCAL_ADMIN_ACCESS_COOKIE_NAME LOCAL_ADMIN_LEGACY_COOKIE_PATH (COOKIE_DOMAIN cfg),
      Delete_Cookie LOCAL_ADMIN_CSRF_COOKIE_NAME LOCAL_ADMIN_LEGACY_COOKIE_PATH (COOKIE_DOMAIN cfg)]"

text \<open>\<open>fresh\<close> is the random text that \<open>generate_csrf_token\<close> would draw.\<close>

definition get_or_create_local_admin_csrf_token :: "string \<Rightarrow> request \<Rightarrow> string" where
  "get_or_create_local_admin_csrf_token fresh request = (case rq_cookies request LOCAL_ADMIN_CSRF_COOKIE_NAME of
     Some existing \<Rightarrow> if 32 \<le> length existing then existing else fresh
   | None \<Rightarrow> fresh)"

definition enforce_local_admin_csrf :: "('s, 'r) admin_web \<Rightarrow> request \<Rightarrow> string option \<Rightarrow> exn + unit" where
  "enforce_local_admin_csrf w request form_token =
     (case enforce_same_origin (wb_netloc_ok w) request of Inl e \<Rightarrow> Inl e
      | Inr _ \<Rightarrow> enforce_csrf_pair (rq_cookies request LOCAL_ADMIN_CSRF_COOKIE_NAME)
          (if given form_token then form_token else header request ''X-CSRF-Token''))"

definition ensure_local_admin_csrf_cookie :: "auth_settings \<Rightarrow> request \<Rightarrow> string \<Rightarrow> cookie_op list" where
  "ensure_local_admin_csrf_cookie cfg request csrf_token =
     (if given (rq_cookies request LOCAL_ADMIN_CSRF_COOKIE_NAME) then []
      else [Set_Cookie ((auth_cookie cfg LOCAL_ADMIN_CSRF_COOKIE_NAME csrf_token
          (ACCESS_TOKEN_EXPIRE_MINUTES cfg * 60) False)\<lparr>ck_path := LOCAL_ADMIN_COOKIE_PATH\<rparr>)])"

definition build_local_admin_access_token_payload :: "('s, 'r) admin_web \<Rightarrow> admin_state \<Rightarrow> claims" where
  "build_local_admin_access_token_payload w st =
     (let identity = build_local_admin_identity w st in
      \<lparr>cl_sub = Some (ai_username identity), cl_canonical_principal = Some (ai_canonical_principal identity),
       cl_display_name = Some (ai_display_name identity), cl_email = Some (ai_email identity),
       cl_groups = Some (ai_groups identity), cl_model = None, cl_model_description = None, cl_model_key = None,
       cl_auth_source = Some AUTH_SOURCE_LOCAL_ADMIN, cl_auth_time = None, cl_directory_checked_at = None,
       cl_identity_version = None, cl_type = Some LOCAL_ADMIN_ACCESS_TOKEN_TYPE, cl_local_admin = Some True,
       cl_dashboard_only = Some True, cl_state_revision = Some (as_state_revision st),
       cl_rotation_required = Some (local_admin_rotation_required st), cl_exp = None, cl_iat = None, cl_jti = None\<rparr>)"

definition issue_local_admin_session_response ::
  "('s, 'r) admin_web \<Rightarrow> clock \<Rightarrow> string \<Rightarrow> string \<Rightarrow> request \<Rightarrow> admin_state \<Rightarrow> string \<Rightarrow> response" where
  "issue_local_admin_session_response w c uuid fresh request st redirect_url =
     (let access_token = create_access_token (wb_jwt w) c uuid (build_local_admin_access_token_payload w st)
            (Some (ACCESS_TOKEN_EXPIRE_MINUTES (wb_cfg w) * 60))
      in \<lparr>rs_status = 303, rs_body = Redirect redirect_url,
          rs_cookies = set_local_admin_cookies (wb_cfg w) access_token (Some (get_or_create_local_admin_csrf_token fresh request))\<rparr>)"

definition revoke_local_admin_session_token :: "('s, 'r) admin_web \<Rightarrow> clock \<Rightarrow> request \<Rightarrow> 's \<Rightarrow> (unit, 's) outcome" where
  "revoke_local_admin_session_token w c request s =
     (if wb_redis w = None then (Inl backend_unavailable, s)
      else let raw_token = rq_cookies request LOCAL_ADMIN_ACCESS_COOKIE_NAME in
        (Inr (), if given raw_token then snd (revoke_token w c raw_token s) else s))"

definition get_current_local_admin_session ::
  "('s, 'r) admin_web \<Rightarrow> clock \<Rightarrow> request \<Rightarrow> 's \<Rightarrow> (admin_identity option, 's) outcome" where
  "get_current_local_admin_session w c request s =
     (let token = extract_bearer_token (rq_cookies request LOCAL_ADMIN_ACCESS_COOKIE_NAME) in
      if \<not> given token then (Inr None, s)
      else case jwt_decode (wb_jwt w) True (now c) (the token) of None \<Rightarrow> (Inr None, s)
      | Some payload \<Rightarrow>
          if cl_type payload \<noteq> Some LOCAL_ADMIN_ACCESS_TOKEN_TYPE \<or> cl_local_admin payload \<noteq> Some True then (Inr None, s)
          else (case load_local_admin_state w s of
            (Inl (HTTPException code detail), s) \<Rightarrow> (if code = 503 then Inr None else Inl (HTTPException code detail), s)
          | (Inl e, s) \<Rightarrow> (Inl e, s)
          | (Inr st, s) \<Rightarrow>
              if \<not> local_admin_state_is_configured st then (Inr None, s)
              else (case wb_redis w of None \<Rightarrow> (Inl backend_unavailable, s)
              | Some R \<Rightarrow>
                  if is_token_revoked R payload s then (Inr None, s)
                  else if cl_sub payload \<noteq> Some (as_username st) then (Inr None, s)
                  else if cl_state_revision payload \<noteq> Some (as_state_revision st) then (Inr None, s)
                  else (Inr (Some (build_local_admin_identity w st)), s))))"

definition admin_not_configured :: exn where
  "admin_not_configured = HTTPException 404 LOCAL_ADMIN_NOT_CONFIGURED_ERROR"

text \<open>The state, where the account is enabled and configured; otherwise status 404.\<close>

definition configured_admin_state :: "('s, 'r) admin_web \<Rightarrow> 's \<Rightarrow> (admin_state, 's) outcome" where
  "configured_admin_state w s =
     (if \<not> local_admin_enabled w then (Inl admin_not_configured, s)
      else obind (load_local_admin_state w s) (\<lambda>st s.
        if \<not> local_admin_state_is_configured st then (Inl admin_not_configured, s) else (Inr st, s)))"

definition get_current_local_admin_session_required ::
  "('s, 'r) admin_web \<Rightarrow> admin_identity option \<Rightarrow> 's \<Rightarrow> (admin_identity, 's) outcome" where
  "get_current_local_admin_session_required w current_local_admin s =
     obind (configured_admin_state w s) (\<lambda>_ s. case current_local_admin of
       None \<Rightarrow> (Inl (HTTPException 401 ''Not authenticated''), s) | Some la \<Rightarrow> (Inr la, s))"

definition get_local_admin_rotation_session_required :: "admin_identity \<Rightarrow> 's \<Rightarrow> (admin_identity, 's) outcome" where
  "get_local_admin_rotation_session_required la s =
     (if \<not> ai_rotation_required la then (Inl (HTTPException 403 ''Password rotation is not required''), s) else (Inr la, s))"

text \<open>The dependencies of a handler, resolved in order.\<close>

definition admin_session :: "('s, 'r) admin_web \<Rightarrow> clock \<Rightarrow> request \<Rightarrow> 's \<Rightarrow> (admin_identity, 's) outcome" where
  "admin_session w c request s = obind (get_current_local_admin_session w c request s) (get_current_local_admin_session_required w)"

section \<open>Handlers\<close>

definition admin_page :: "int \<Rightarrow> string \<Rightarrow> string option \<Rightarrow> response" where
  "admin_page code template err = \<lparr>rs_status = code, rs_body = Page template err, rs_cookies = []\<rparr>"

definition redirect_to :: "string \<Rightarrow> response" where
  "redirect_to url = \<lparr>rs_status = 303, rs_body = Redirect url, rs_cookies = []\<rparr>"

definition local_admin_login_page :: "('s, 'r) admin_web \<Rightarrow> clock \<Rightarrow> request \<Rightarrow> 's \<Rightarrow> (response, 's) outcome" where
  "local_admin_login_page w c request s =
     obind (get_current_local_admin_session w c request s) (\<lambda>current_local_admin s.
     obind (configured_admin_state w s) (\<lambda>st s.
       case current_local_admin of
         Some la \<Rightarrow> (Inr (redirect_to (if ai_rotation_required la then LOCAL_ADMIN_ROTATE_PATH else ''/admin/dashboard'')), s)
       | None \<Rightarrow>
           (Inr (if rq_query request ''password_changed'' = Some ''1''
                 then \<lparr>rs_status = 200, rs_body = Notice_Page ''local_admin_login.html'' LOCAL_ADMIN_PASSWORD_CHANGED_MESSAGE, rs_cookies = []\<rparr>
                 else admin_page 200 ''local_admin_login.html'' None), s)))"

text \<open>
  The limiter keeps its own Redis state, the second component. \<open>hex\<close> and \<open>fault\<close> are the
  random text and the failure of its transaction, \<open>uuid\<close> the identifier of the new token.
\<close>

definition local_admin_login ::
  "('s, 'r) admin_web \<Rightarrow> clock \<Rightarrow> string \<Rightarrow> bool \<Rightarrow> string \<Rightarrow> string \<Rightarrow> request \<Rightarrow> string \<Rightarrow> string \<Rightarrow> 's \<times> 'r \<Rightarrow> (response, 's \<times> 'r) outcome" where
  "local_admin_login w c hex fault uuid fresh request username password sr =
     (case configured_admin_state w (fst sr) of
        (Inl e, s) \<Rightarrow> (Inl e, s, snd sr)
      | (Inr st, s) \<Rightarrow>
          let normalized_username = normalize_username username in
          (case check (wa_limiter w) (now_ms c) hex fault
                  (build_local_admin_login_rate_subject w request (text_or (Some normalized_username) username)) (snd sr) of
             (Inl (HTTPException code detail), r) \<Rightarrow>
               (if code \<noteq> 429 then Inl (HTTPException code detail)
                else Inr (admin_page 429 ''local_admin_login.html'' (Some LOGIN_RATE_LIMIT_ERROR)), s, r)
           | (Inl e, r) \<Rightarrow> (Inl e, s, r)
           | (Inr _, r) \<Rightarrow>
               (case (if normalized_username \<noteq> as_username st then Inr False
                      else verify_local_admin_password w password (as_password_hash st)) of
                  Inl e \<Rightarrow> (Inl e, s, r)
                | Inr accepted \<Rightarrow>
                    (Inr (if \<not> accepted then admin_page 401 ''local_admin_login.html'' (Some LOCAL_ADMIN_AUTH_ERROR)
                          else issue_local_admin_session_response w c uuid fresh request st
                            (if local_admin_rotation_required st then LOCAL_ADMIN_ROTATE_PATH else ''/admin/dashboard'')), s, r))))"

definition local_admin_rotate_password_page :: "('s, 'r) admin_web \<Rightarrow> clock \<Rightarrow> string \<Rightarrow> request \<Rightarrow> 's \<Rightarrow> (response, 's) outcome" where
  "local_admin_rotate_password_page w c fresh request s =
     obind (admin_session w c request s) (\<lambda>la s.
       (Inr (if \<not> ai_rotation_required la then redirect_to ''/admin/dashboard''
             else (admin_page 200 ''local_admin_rotate_password.html'' None)
               \<lparr>rs_cookies := ensure_local_admin_csrf_cookie (wb_cfg w) request (get_or_create_local_admin_csrf_token fresh request)\<rparr>), s))"

text \<open>A state with a new password: \<open>now\<close> becomes the time of the rotation.\<close>

definition with_password :: "admin_state \<Rightarrow> clock \<Rightarrow> string \<Rightarrow> admin_state" where
  "with_password st c h = st\<lparr>as_password_hash := h, as_force_rotate := False, as_bootstrap_required := False,
     as_runtime_override := True, as_rotated_at := Some (now c)\<rparr>"

definition store_password ::
  "('s, 'r) admin_web \<Rightarrow> clock \<Rightarrow> string \<Rightarrow> request \<Rightarrow> admin_state \<Rightarrow> string \<Rightarrow> 's \<Rightarrow> (admin_state, 's) outcome" where
  "store_password w c salt request st new_password s =
     (case build_local_admin_password_hash w salt new_password of Inl e \<Rightarrow> (Inl e, s)
      | Inr h \<Rightarrow>
          obind (persist_local_admin_state w (with_password st c h) s) (\<lambda>stored s.
          obind (revoke_local_admin_session_token w c request s) (\<lambda>_ s. (Inr stored, s))))"

definition rotation_refused :: exn where
  "rotation_refused = HTTPException 403 LOCAL_ADMIN_ROTATION_REQUIRED_ERROR"

definition local_admin_rotate_password ::
  "('s, 'r) admin_web \<Rightarrow> clock \<Rightarrow> string \<Rightarrow> string \<Rightarrow> string \<Rightarrow> request \<Rightarrow> string \<Rightarrow> string \<Rightarrow> string \<Rightarrow> 's \<Rightarrow> (response, 's) outcome" where
  "local_admin_rotate_password w c salt uuid fresh request new_password confirm_password csrf_token s =
     obind (admin_session w c request s) (\<lambda>la s.
     obind (get_local_admin_rotation_session_required la s) (\<lambda>la s.
       case enforce_local_admin_csrf w request (Some csrf_token) of Inl e \<Rightarrow> (Inl e, s)
       | Inr _ \<Rightarrow>
           (case validate_local_admin_password_policy new_password of
              Some err \<Rightarrow> (Inr (admin_page 400 ''local_admin_rotate_password.html'' (Some err)), s)
            | None \<Rightarrow>
                if new_password \<noteq> confirm_password
                then (Inr (admin_page 400 ''local_admin_rotate_password.html'' (Some TXT_CONFIRM_MISMATCH)), s)
                else obind (load_local_admin_state w s) (\<lambda>st s.
                  if as_username st \<noteq> ai_username la \<or> \<not> local_admin_rotation_required st then (Inl rotation_refused, s)
                  else obind (store_password w c salt request st new_password s) (\<lambda>stored s.
                    (Inr (issue_local_admin_session_response w c uuid fresh request stored ''/admin/dashboard''), s))))))"

definition local_admin_change_password_page :: "('s, 'r) admin_web \<Rightarrow> clock \<Rightarrow> string \<Rightarrow> request \<Rightarrow> 's \<Rightarrow> (response, 's) outcome" where
  "local_admin_change_password_page w c fresh request s =
     obind (admin_session w c request s) (\<lambda>la s.
       (Inr (if ai_rotation_required la then redirect_to LOCAL_ADMIN_ROTATE_PATH
             else (admin_page 200 ''local_admin_change_password.html'' None)
               \<lparr>rs_cookies := ensure_local_admin_csrf_cookie (wb_cfg w) request (get_or_create_local_admin_csrf_token fresh request)\<rparr>), s))"

definition build_local_admin_password_change_response ::
  "('s, 'r) admin_web \<Rightarrow> string \<Rightarrow> request \<Rightarrow> string \<Rightarrow> int \<Rightarrow> response" where
  "build_local_admin_password_change_response w fresh request err code =
     (admin_page code ''local_admin_change_password.html'' (Some err))
       \<lparr>rs_cookies := ensure_local_admin_csrf_cookie (wb_cfg w) request (get_or_create_local_admin_csrf_token fresh request)\<rparr>"

text \<open>The checks behind the limiter, in their order, and the change itself.\<close>

definition checked_password_change ::
  "('s, 'r) admin_web \<Rightarrow> clock \<Rightarrow> string \<Rightarrow> string \<Rightarrow> request \<Rightarrow> admin_identity \<Rightarrow> string \<Rightarrow> string \<Rightarrow> string \<Rightarrow> 's \<Rightarrow> (response, 's) outcome" where
  "checked_password_change w c salt fresh request la current_password new_password confirm_new_password s =
     (let refuse = (\<lambda>err. build_local_admin_password_change_response w fresh request err 400) in
      obind (load_local_admin_state w s) (\<lambda>st s.
        if as_username st \<noteq> ai_username la \<or> local_admin_rotation_required st then (Inl rotation_refused, s)
        else case verify_local_admin_password w current_password (as_password_hash st) of
          Inl e \<Rightarrow> (Inl e, s)
        | Inr known \<Rightarrow>
            if \<not> known then (Inr (refuse TXT_CURRENT_WRONG), s)
            else if new_password \<noteq> confirm_new_password then (Inr (refuse TXT_NEW_CONFIRM_MISMATCH), s)
            else (case verify_local_admin_password w new_password (as_password_hash st) of
              Inl e \<Rightarrow> (Inl e, s)
            | Inr same \<Rightarrow>
                if same then (Inr (refuse TXT_SAME_PASSWORD), s)
                else (case validate_local_admin_password_policy new_password of
                  Some err \<Rightarrow> (Inr (refuse err), s)
                | None \<Rightarrow> obind (store_password w c salt request st new_password s) (\<lambda>_ s.
                    (Inr \<lparr>rs_status = 303, rs_body = Redirect (LOCAL_ADMIN_LOGIN_PATH @ ''?password_changed=1''),
                       rs_cookies = clear_local_admin_cookies (wb_cfg w)\<rparr>, s))))))"

definition local_admin_change_password ::
  "('s, 'r) admin_web \<Rightarrow> clock \<Rightarrow> string \<Rightarrow> bool \<Rightarrow> string \<Rightarrow> string \<Rightarrow> request \<Rightarrow> string \<Rightarrow> string \<Rightarrow> string \<Rightarrow> string \<Rightarrow> 's \<times> 'r \<Rightarrow> (response, 's \<times> 'r) outcome" where
  "local_admin_change_password w c hex fault salt fresh request current_password new_password confirm_new_password csrf_token sr =
     (case admin_session w c request (fst sr) of
        (Inl e, s) \<Rightarrow> (Inl e, s, snd sr)
      | (Inr la, s) \<Rightarrow>
          (case enforce_local_admin_csrf w request (Some csrf_token) of Inl e \<Rightarrow> (Inl e, s, snd sr)
           | Inr _ \<Rightarrow>
               if ai_rotation_required la then (Inl rotation_refused, s, snd sr)
               else (case check (wa_limiter w) (now_ms c) hex fault
                        (build_local_admin_password_change_rate_subject w request (ai_username la)) (snd sr) of
                   (Inl (HTTPException code detail), r) \<Rightarrow>
                     (if code \<noteq> 429 then Inl (HTTPException code detail)
                      else Inr (build_local_admin_password_change_response w fresh request LOGIN_RATE_LIMIT_ERROR 429), s, r)
                 | (Inl e, r) \<Rightarrow> (Inl e, s, r)
                 | (Inr _, r) \<Rightarrow>
                     (case checked_password_change w c salt fresh request la current_password new_password confirm_new_password s of
                        (x, s) \<Rightarrow> (x, s, r)))))"

definition local_admin_logout :: "('s, 'r) admin_web \<Rightarrow> clock \<Rightarrow> request \<Rightarrow> 's \<Rightarrow> (response, 's) outcome" where
  "local_admin_logout w c request s =
     obind (get_current_local_admin_session w c request s) (\<lambda>current_local_admin s.
       let bye = \<lparr>rs_status = 200, rs_body = Ok_Json LOCAL_ADMIN_LOGIN_PATH, rs_cookies = clear_local_admin_cookies (wb_cfg w)\<rparr> in
       if current_local_admin = None then (Inr bye, s)
       else case enforce_local_admin_csrf w request None of Inl e \<Rightarrow> (Inl e, s)
       | Inr _ \<Rightarrow> obind (revoke_local_admin_session_token w c request s) (\<lambda>_ s. (Inr bye, s)))"

section \<open>The password hash\<close>

lemma py_replace_doubled: "py_replace ''$$'' ''$'' (py_replace ''$'' ''$$'' s) = s"
proof (induction s)
  case Nil
  then show ?case by (simp add: py_replace.simps)
next
  case (Cons x s)
  have one: "py_replace ''$'' ''$$'' (x # s) = (if x = CHR ''$'' then ''$$'' else [x]) @ py_replace ''$'' ''$$'' s"
    by (subst py_replace.simps) simp
  show ?case
  proof (cases "x = CHR ''$''")
    case True
    then show ?thesis unfolding one by (subst py_replace.simps) (simp add: Cons)
  next
    case False
    then show ?thesis unfolding one by (subst py_replace.simps) (simp add: Cons)
  qed
qed

text \<open>A text without two adjacent dollars is left alone.\<close>

fun no_doubled_dollar :: "string \<Rightarrow> bool" where
  "no_doubled_dollar (x # y # s) \<longleftrightarrow> \<not> (x = CHR ''$'' \<and> y = CHR ''$'') \<and> no_doubled_dollar (y # s)"
| "no_doubled_dollar _ \<longleftrightarrow> True"

lemma py_replace_no_doubled: "no_doubled_dollar s \<Longrightarrow> py_replace ''$$'' ''$'' s = s"
  by (induction s rule: no_doubled_dollar.induct) (subst py_replace.simps, auto)+

lemma no_doubled_dollar_part:
  "CHR ''$'' \<notin> set a \<Longrightarrow> no_doubled_dollar a \<and> (a \<noteq> [] \<longrightarrow> no_doubled_dollar b \<longrightarrow> no_doubled_dollar (a @ CHR ''$'' # b) = (b = [] \<or> hd b \<noteq> CHR ''$''))"
proof (induction a rule: no_doubled_dollar.induct)
  case (1 x y s)
  then show ?case by (cases s; cases b) auto
qed (cases b; auto)+

lemma py_split1_dollar: "CHR ''$'' \<notin> set a \<Longrightarrow> py_split1 ''$'' (a @ CHR ''$'' # b) = Some (a, b)"
proof -
  have "CHR ''$'' \<notin> set a \<Longrightarrow> py_find ''$'' (a @ CHR ''$'' # b) = Some (length a)" by (induction a) auto
  then show "CHR ''$'' \<notin> set a \<Longrightarrow> ?thesis" by (simp add: py_split1_def)
qed

lemma b64encode_chars: "c \<in> set (b64encode s) \<Longrightarrow> c \<noteq> CHR ''$'' \<and> \<not> py_isspace c"
proof -
  have "list_all (\<lambda>n. n < 64) (b64_split (map of_char s))"
    by (intro b64_split_less) (simp add: list_all_iff nat_of_char_less_256)
  then have "c \<in> b64_char ` set (b64_split (map of_char s)) \<Longrightarrow> c \<noteq> CHR ''$'' \<and> \<not> py_isspace c"
    using b64_char_neq by (auto simp: list_all_iff)
  moreover have "\<not> py_isspace CHR ''=''" by (simp add: py_isspace_def)
  ultimately show "c \<in> set (b64encode s) \<Longrightarrow> c \<noteq> CHR ''$'' \<and> \<not> py_isspace c" by (auto simp: b64encode_def)
qed

lemma iterations_text: "py_str_int LOCAL_ADMIN_HASH_ITERATIONS = ''600000''" "py_int_of_string ''600000'' = Some LOCAL_ADMIN_HASH_ITERATIONS"
  by (simp_all add: LOCAL_ADMIN_HASH_ITERATIONS_def py_str_int_def nat_digits.simps py_int_of_string_def digit_value_def text_evals char_of_def bit_Suc bit_0)

text \<open>The shape of a stored hash.\<close>

definition hash_text :: "string \<Rightarrow> string \<Rightarrow> string" where
  "hash_text salt digest = ''pbkdf2_sha256'' @ CHR ''$'' # ''600000'' @ CHR ''$'' # b64encode salt @ CHR ''$'' # b64encode digest"

lemma build_hash_eq:
  "build_local_admin_password_hash w salt pw = Inr h \<longleftrightarrow> pw \<noteq> [] \<and> h = hash_text salt (wa_pbkdf2 w pw salt LOCAL_ADMIN_HASH_ITERATIONS)"
  by (auto simp: build_local_admin_password_hash_def hash_text_def LOCAL_ADMIN_HASH_SCHEME_def iterations_text)

lemma split_hash_text: "split_hash (hash_text salt digest) = Some (''pbkdf2_sha256'', ''600000'', b64encode salt, b64encode digest)"
proof -
  have "CHR ''$'' \<notin> set (b64encode salt)" using b64encode_chars by auto
  then show ?thesis
    using py_split1_dollar [of "''pbkdf2_sha256''"] py_split1_dollar [of "''600000''"] py_split1_dollar [of "b64encode salt"]
    by (simp add: split_hash_def hash_text_def)
qed

lemma hash_text_chars: "c \<in> set (hash_text salt digest) \<Longrightarrow> \<not> py_isspace c"
  using b64encode_chars by (auto simp: hash_text_def py_isspace_def)

text \<open>A salt is not empty.\<close>

lemma b64encode_hd: "salt \<noteq> [] \<Longrightarrow> b64encode salt \<noteq> []"
proof (rule notI)
  assume "salt \<noteq> []" "b64encode salt = []"
  then show False using b64decode_encode [of salt] by (simp add: b64decode_def)
qed

lemma normalize_hash_text:
  assumes "salt \<noteq> []"
  shows "normalize_local_admin_password_hash_transport (hash_text salt digest) = hash_text salt digest"
    "normalize_local_admin_password_hash_transport (py_replace ''$'' ''$$'' (hash_text salt digest)) = hash_text salt digest"
proof -
  let ?a = "b64encode salt" and ?b = "b64encode digest"
  have dollar: "CHR ''$'' \<notin> set ?a" "CHR ''$'' \<notin> set ?b" and ne: "?a \<noteq> []"
    using b64encode_chars b64encode_hd [OF assms] by auto
  have start: "x = [] \<or> hd x \<noteq> CHR ''$''" if "CHR ''$'' \<notin> set x" for x :: string using that by (cases x) auto
  have 1: "no_doubled_dollar (?a @ CHR ''$'' # ?b)" using no_doubled_dollar_part [OF dollar(1), of ?b] no_doubled_dollar_part [OF dollar(2)] start [OF dollar(2)] ne by blast
  moreover have "hd (?a @ CHR ''$'' # ?b) \<noteq> CHR ''$''" using start [OF dollar(1)] ne by simp
  ultimately have "no_doubled_dollar (hash_text salt digest)"
    using ne by (cases ?a) (simp_all add: hash_text_def)
  then show "normalize_local_admin_password_hash_transport (hash_text salt digest) = hash_text salt digest"
    using hash_text_chars by (simp add: normalize_local_admin_password_hash_transport_def py_strip_idle py_replace_no_doubled)
  have "set (py_replace ''$'' ''$$'' s) \<subseteq> set s" for s
  proof (induction s)
    case Nil
    then show ?case by (simp add: py_replace.simps)
  next
    case (Cons x s)
    then show ?case by (subst py_replace.simps) auto
  qed
  then have "\<forall>c \<in> set (py_replace ''$'' ''$$'' (hash_text salt digest)). \<not> py_isspace c" using hash_text_chars by blast
  then show "normalize_local_admin_password_hash_transport (py_replace ''$'' ''$$'' (hash_text salt digest)) = hash_text salt digest"
    by (simp add: normalize_local_admin_password_hash_transport_def py_strip_idle py_replace_doubled)
qed

lemma verify_hash_text:
  assumes "normalize_local_admin_password_hash_transport h = hash_text salt digest"
  shows "verify_local_admin_password w pw h = Inr (wa_pbkdf2 w pw salt LOCAL_ADMIN_HASH_ITERATIONS = digest)"
proof -
  have "pbkdf2_hmac w pw salt LOCAL_ADMIN_HASH_ITERATIONS = Inr (wa_pbkdf2 w pw salt LOCAL_ADMIN_HASH_ITERATIONS)"
    by (simp add: pbkdf2_hmac_def LOCAL_ADMIN_HASH_ITERATIONS_def)
  then show ?thesis
    by (simp add: verify_local_admin_password_def assms split_hash_text LOCAL_ADMIN_HASH_SCHEME_def iterations_text b64decode_encode)
qed

text \<open>
  C22: the administrator's password hash. A hash that is built for a password, under any
  non-empty salt, accepts this password, refuses every password that PBKDF2 tells apart from
  it, and does so without an exception; and it does the same after a trip through a compose
  file, where every dollar is doubled.
\<close>

theorem password_hash_roundtrip:
  assumes "build_local_admin_password_hash w salt pw = Inr h" and "salt \<noteq> []" and "h' \<in> {h, py_replace ''$'' ''$$'' h}"
  shows "verify_local_admin_password w pw h' = Inr True
    \<and> (verify_local_admin_password w pw' h' =
        Inr (wa_pbkdf2 w pw' salt LOCAL_ADMIN_HASH_ITERATIONS = wa_pbkdf2 w pw salt LOCAL_ADMIN_HASH_ITERATIONS))
    \<and> normalize_local_admin_password_hash_transport h' = h"
proof -
  have h: "h = hash_text salt (wa_pbkdf2 w pw salt LOCAL_ADMIN_HASH_ITERATIONS)" using assms(1) by (simp add: build_hash_eq)
  then have "normalize_local_admin_password_hash_transport h' = h" using assms(3) normalize_hash_text [OF assms(2)] by auto
  then show ?thesis using verify_hash_text [of h' salt "wa_pbkdf2 w pw salt LOCAL_ADMIN_HASH_ITERATIONS" w pw]
      verify_hash_text [of h' salt "wa_pbkdf2 w pw salt LOCAL_ADMIN_HASH_ITERATIONS" w pw'] h by simp
qed

definition demo_admin :: "(auth_space, (string, unit, unit, unit) keyspace) admin_web" where
  "demo_admin = \<lparr>wb_cfg = default_auth_settings\<lparr>LOCAL_ADMIN_ENABLED := True,
       LOCAL_ADMIN_PASSWORD_HASH := hash_text ''salt'' ''correct horse battery''\<rparr>,
     wb_jwt = plain_jwt, wb_redis = Some mem_redis, wb_netloc_ok = (\<lambda>_. True),
     wb_ip_address = (\<lambda>_. None), wb_ip_network = (\<lambda>_. None), wb_json_list = (\<lambda>_. None),
     wa_sha256 = (\<lambda>s. s), wa_pbkdf2 = (\<lambda>pw salt n. pw), wa_limiter = new_rate_limiter (Some mem_redis) 5 300 ''login''\<rparr>"

theorem password_hash_roundtrip_witness:
  "verify_local_admin_password demo_admin ''wrong'' (py_replace ''$'' ''$$'' (hash_text ''salt'' ''right'')) = Inr False"
proof -
  have "build_local_admin_password_hash demo_admin ''salt'' ''right'' = Inr (hash_text ''salt'' ''right'')"
    by (simp add: build_hash_eq demo_admin_def)
  from password_hash_roundtrip [OF this, of "py_replace ''$'' ''$$'' (hash_text ''salt'' ''right'')" "''wrong''"]
  show ?thesis by (simp add: demo_admin_def)
qed

section \<open>The stored state\<close>

text \<open>The time of the rotation is a number once the state was stored, and is in no hash.\<close>

definition reread :: "admin_state \<Rightarrow> admin_state" where
  "reread st = st\<lparr>as_rotated_at := Some (int_or (as_rotated_at st) 0)\<rparr>"

lemma revision_rotated [simp]:
  "build_local_admin_state_revision w (st\<lparr>as_rotated_at := x\<rparr>) = build_local_admin_state_revision w st"
  "build_local_admin_state_revision w (st\<lparr>as_state_revision := y\<rparr>) = build_local_admin_state_revision w st"
  by (simp_all add: build_local_admin_state_revision_def state_revision_text_def)

lemma reread_simps [simp]: "as_enabled (reread st) = as_enabled st" "as_username (reread st) = as_username st" "as_password_hash (reread st) = as_password_hash st"
  "as_force_rotate (reread st) = as_force_rotate st" "as_bootstrap_required (reread st) = as_bootstrap_required st"
  "as_state_revision (reread st) = as_state_revision st" "as_base_env_revision (reread st) = as_base_env_revision st"
  "local_admin_state_is_configured (reread st) = local_admin_state_is_configured st"
  "local_admin_rotation_required (reread st) = local_admin_rotation_required st"
  "build_local_admin_identity w (reread st) = build_local_admin_identity w st" "reread (reread st) = reread st"
  by (simp_all add: reread_def local_admin_state_is_configured_def local_admin_rotation_required_def build_local_admin_identity_def int_or_def
      split: option.split)

lemma env_state_facts:
  "as_username (local_admin_env_state w) = local_admin_username w"
  "as_state_revision (local_admin_env_state w) = build_local_admin_state_revision w (local_admin_env_state w)"
  "as_enabled (local_admin_env_state w) = local_admin_enabled w" "as_rotated_at (local_admin_env_state w) = None"
  by (simp_all add: local_admin_env_state_def local_admin_enabled_def build_local_admin_state_revision_def state_revision_text_def Let_def)

lemma local_admin_username_normal [simp]: "normalize_username (local_admin_username w) = local_admin_username w"
  by (simp add: local_admin_username_def)

lemma text_or_given [simp]: "x \<noteq> [] \<Longrightarrow> text_or (Some x) d = x"
  by (simp add: text_or_def)

text \<open>A state whose values are normalised is read back as it is.\<close>

definition normal_admin_state :: "('s, 'r) admin_web \<Rightarrow> admin_state \<Rightarrow> bool" where
  "normal_admin_state w st \<longleftrightarrow> normalize_local_admin_password_hash_transport (as_password_hash st) = as_password_hash st
     \<and> as_password_hash st \<noteq> [] \<and> normalize_username (as_username st) = as_username st \<and> as_username st \<noteq> []
     \<and> as_base_env_revision st = as_base_env_revision (local_admin_env_state w)
     \<and> as_state_revision st = build_local_admin_state_revision w st"

lemma merged_normal:
  assumes "normal_admin_state w st"
  shows "merged_admin_state w (local_admin_env_state w) st = reread st"
proof -
  have base: "text_or (Some (as_base_env_revision st)) (as_base_env_revision (local_admin_env_state w)) = as_base_env_revision st"
    using assms by (simp add: text_or_def normal_admin_state_def)
  have "build_local_admin_state_revision w (merged_admin_state w (local_admin_env_state w) st) = build_local_admin_state_revision w st"
    using assms base by (simp add: merged_admin_state_def normal_admin_state_def build_local_admin_state_revision_def state_revision_text_def Let_def)
  then show ?thesis
    using assms base by (intro admin_state.equality)
      (simp_all add: merged_admin_state_def normal_admin_state_def reread_def Let_def build_local_admin_state_revision_def state_revision_text_def)
qed

lemma merged_facts:
  "as_base_env_revision payload = as_base_env_revision e \<Longrightarrow> as_base_env_revision (merged_admin_state w e payload) = as_base_env_revision e"
  "normalize_username (as_username (merged_admin_state w e payload)) = as_username (merged_admin_state w e payload)"
  "as_state_revision (merged_admin_state w e payload) = build_local_admin_state_revision w (merged_admin_state w e payload)"
  by (simp_all add: merged_admin_state_def text_or_def build_local_admin_state_revision_def state_revision_text_def Let_def)

text \<open>The hash in the environment has at most doubled dollars.\<close>

definition env_hash_normal :: "('s, 'r) admin_web \<Rightarrow> bool" where
  "env_hash_normal w \<longleftrightarrow> normalize_local_admin_password_hash_transport (as_password_hash (local_admin_env_state w))
     = as_password_hash (local_admin_env_state w)"

lemma env_state_normal:
  "env_hash_normal w \<Longrightarrow> local_admin_state_is_configured (local_admin_env_state w) \<Longrightarrow> normal_admin_state w (local_admin_env_state w)"
  by (simp add: normal_admin_state_def env_hash_normal_def local_admin_state_is_configured_def env_state_facts)

text \<open>The tier with the administrator: \<open>key\<close> is the value under which the state lies.\<close>

locale admin_tier = web_tier R view w
  for R :: "'s auth_redis" and view :: "'s \<Rightarrow> auth_space" and w :: "('s, 'r) admin_web" +
  assumes env_ready: "local_admin_enabled w" "local_admin_state_is_configured (local_admin_env_state w)" "env_hash_normal w"
begin

definition same_state :: "'s \<Rightarrow> 's \<Rightarrow> bool" where
  "same_state s s' \<longleftrightarrow> strs (view s') Admin_State_Key = strs (view s) Admin_State_Key"

lemma load_eq: "load_local_admin_state w s =
    (case strs (view s) Admin_State_Key of
       Some (Admin_Json (Some payload)) \<Rightarrow>
         if as_base_env_revision payload \<noteq> as_base_env_revision (local_admin_env_state w)
         then (Inr (local_admin_env_state w), SET R Admin_State_Key (Admin_Json (Some (local_admin_env_state w))) s)
         else (Inr (merged_admin_state w (local_admin_env_state w) payload), s)
     | _ \<Rightarrow> (Inr (local_admin_env_state w), SET R Admin_State_Key (Admin_Json (Some (local_admin_env_state w))) s))"
  using env_ready(1,2) by (simp add: load_local_admin_state_def online get_law Let_def)

lemma load_ok: "\<exists>st s'. load_local_admin_state w s = (Inr st, s')"
  by (auto simp: load_eq split: option.split auth_val.split)

lemma load_normal:
  assumes "strs (view s) Admin_State_Key = Some (Admin_Json (Some st))" and "normal_admin_state w st"
  shows "load_local_admin_state w s = (Inr (reread st), s)"
  using assms merged_normal [OF assms(2)] by (simp add: load_eq normal_admin_state_def)

lemma load_again:
  assumes "load_local_admin_state w s = (Inr st, s1)" and "same_state s1 s2"
  shows "load_local_admin_state w s2 = (Inr (reread st), s2)"
proof -
  note env = env_state_normal [OF env_ready(3,2)]
  consider (reset) "st = local_admin_env_state w" "s1 = SET R Admin_State_Key (Admin_Json (Some st)) s"
    | (kept) payload where "strs (view s) Admin_State_Key = Some (Admin_Json (Some payload))" "s1 = s"
      "as_base_env_revision payload = as_base_env_revision (local_admin_env_state w)"
      "st = merged_admin_state w (local_admin_env_state w) payload"
    using assms(1) by (auto simp: load_eq split: option.splits auth_val.splits if_splits)
  then show ?thesis
  proof cases
    case reset
    then have "strs (view s2) Admin_State_Key = Some (Admin_Json (Some st))" using assms(2) by (simp add: same_state_def set_law)
    then show ?thesis using env reset(1) by (intro load_normal) simp_all
  next
    case kept
    then have "strs (view s2) Admin_State_Key = Some (Admin_Json (Some payload))" using assms(2) by (simp add: same_state_def)
    moreover have "reread st = st" by (simp add: kept(4) reread_def merged_admin_state_def Let_def int_or_def split: option.split)
    ultimately show ?thesis using kept by (simp add: load_eq)
  qed
qed

lemma load_base: "load_local_admin_state w s = (Inr st, s1) \<Longrightarrow> as_base_env_revision st = as_base_env_revision (local_admin_env_state w)
    \<and> normalize_username (as_username st) = as_username st \<and> as_state_revision st = build_local_admin_state_revision w st"
  by (auto simp: load_eq merged_facts env_state_facts(1) env_state_facts(2) [symmetric] split: option.splits auth_val.splits if_splits)

lemma load_same: "load_local_admin_state w s = (Inr st, s1) \<Longrightarrow> same_state s1 s1 \<and> load_local_admin_state w s1 = (Inr (reread st), s1)"
  using load_again by (simp add: same_state_def)

lemma configured_eq: "configured_admin_state w s = (case load_local_admin_state w s of (x, s') \<Rightarrow>
    (case x of Inr st \<Rightarrow> if local_admin_state_is_configured st then Inr st else Inl admin_not_configured | Inl e \<Rightarrow> Inl e, s'))"
  using env_ready(1) load_ok [of s] by (auto simp: configured_admin_state_def)

lemma session_eq:
  assumes "rq_cookies rq LOCAL_ADMIN_ACCESS_COOKIE_NAME = Some (bearer (jwt_encode (wb_jwt w) cl))"
    and "load_local_admin_state w s = (Inr st, s1)"
  shows "get_current_local_admin_session w c rq s =
     (if expired cl (now c) \<or> cl_type cl \<noteq> Some LOCAL_ADMIN_ACCESS_TOKEN_TYPE \<or> cl_local_admin cl \<noteq> Some True then (Inr None, s)
      else if \<not> local_admin_state_is_configured st \<or> is_token_revoked R cl s1 \<or> cl_sub cl \<noteq> Some (as_username st)
         \<or> cl_state_revision cl \<noteq> Some (as_state_revision st) then (Inr None, s1)
      else (Inr (Some (build_local_admin_identity w st)), s1))"
  using assms token_text [of cl] by (simp add: get_current_local_admin_session_def decode_encode online Let_def)

end

lemma demo_admin_hash: "as_password_hash (local_admin_env_state demo_admin) = hash_text ''salt'' ''correct horse battery''"
proof -
  have "normalize_local_admin_password_hash_transport (LOCAL_ADMIN_PASSWORD_HASH (wb_cfg demo_admin)) = hash_text ''salt'' ''correct horse battery''"
    by (simp add: demo_admin_def normalize_hash_text)
  then show ?thesis by (simp add: local_admin_env_state_def Let_def)
qed

lemma demo_admin_name: "local_admin_username demo_admin = ''admin_ai''" "normalize_username ''admin_ai'' = ''admin_ai''"
proof -
  have "normal_username ''admin_ai''"
    by (simp add: normal_username_def USERNAME_RE_def username_char_def py_lower_def py_lower_char_def cp1251_upper_def)
  then show "normalize_username ''admin_ai'' = ''admin_ai''" by (rule normalize_username_fixed)
  then show "local_admin_username demo_admin = ''admin_ai''"
    by (simp add: local_admin_username_def demo_admin_def default_auth_settings_def)
qed

interpretation mem_admin: admin_tier mem_redis "\<lambda>s. s" demo_admin
proof -
  have "web_tier mem_redis (\<lambda>s. s) demo_admin" unfolding demo_admin_def by (rule memw_tier.web_tier_axioms)
  moreover have "hash_text a b \<noteq> []" for a b by (simp add: hash_text_def)
  moreover have "local_admin_enabled demo_admin" by (simp add: local_admin_enabled_def demo_admin_def)
  ultimately show "admin_tier mem_redis (\<lambda>s. s) demo_admin"
    by (intro admin_tier.intro admin_tier_axioms.intro)
      (simp_all add: local_admin_state_is_configured_def env_state_facts demo_admin_hash demo_admin_name env_hash_normal_def normalize_hash_text)
qed

section \<open>Logging in\<close>

lemma issued_cookie:
  "accept_cookies (issue_local_admin_session_response w c uuid fresh rq st url) jar LOCAL_ADMIN_ACCESS_COOKIE_NAME
     = Some (bearer (jwt_encode (wb_jwt w) (stamped c uuid (build_local_admin_access_token_payload w st) (ACCESS_TOKEN_EXPIRE_MINUTES (wb_cfg w) * 60))))"
  by (simp add: accept_cookies_def issue_local_admin_session_response_def set_local_admin_cookies_def create_access_token_eq auth_cookie_def
      LOCAL_ADMIN_COOKIE_PATH_def LOCAL_ADMIN_LEGACY_COOKIE_PATH_def LOCAL_ADMIN_CSRF_COOKIE_NAME_def LOCAL_ADMIN_ACCESS_COOKIE_NAME_def Let_def)

lemma issue_status [simp]: "rs_status (issue_local_admin_session_response w c uuid fresh rq st url) = 303"
  by (simp add: issue_local_admin_session_response_def Let_def)

lemma admin_page_status [simp]: "rs_status (admin_page code t e) = code" "rs_cookies (admin_page code t e) = []"
  by (simp_all add: admin_page_def)

lemma payload_claims [simp]:
  "cl_type (stamped c uuid (build_local_admin_access_token_payload w st) d) = Some LOCAL_ADMIN_ACCESS_TOKEN_TYPE"
  "cl_local_admin (stamped c uuid (build_local_admin_access_token_payload w st) d) = Some True"
  "cl_state_revision (stamped c uuid (build_local_admin_access_token_payload w st) d) = Some (as_state_revision st)"
  "cl_jti (stamped c uuid (build_local_admin_access_token_payload w st) d) = Some uuid"
  "as_username st \<noteq> [] \<Longrightarrow> cl_sub (stamped c uuid (build_local_admin_access_token_payload w st) d) = Some (as_username st)"
  "expired (stamped c uuid (build_local_admin_access_token_payload w st) d) t \<longleftrightarrow> now c + d < t"
  by (simp_all add: stamped_def build_local_admin_access_token_payload_def build_local_admin_identity_def text_or_def expired_def Let_def)

text \<open>A login that is not cut off by the limiter succeeds for the right name and password only.\<close>

lemma login_result:
  assumes "configured_admin_state w s = (Inr st, s')"
    and "check (wa_limiter w) (now_ms c) hex fault
      (build_local_admin_login_rate_subject w rq (text_or (Some (normalize_username user)) user)) r = (vd, r')"
  shows "local_admin_login w c hex fault uuid fresh rq user pw (s, r) =
    (case vd of Inl (HTTPException code detail) \<Rightarrow>
        if code \<noteq> 429 then Inl (HTTPException code detail) else Inr (admin_page 429 ''local_admin_login.html'' (Some LOGIN_RATE_LIMIT_ERROR))
      | Inl e \<Rightarrow> Inl e
      | Inr _ \<Rightarrow>
          if normalize_username user \<noteq> as_username st then Inr (admin_page 401 ''local_admin_login.html'' (Some LOCAL_ADMIN_AUTH_ERROR))
          else (case verify_local_admin_password w pw (as_password_hash st) of Inl e \<Rightarrow> Inl e
            | Inr accepted \<Rightarrow> Inr (if \<not> accepted then admin_page 401 ''local_admin_login.html'' (Some LOCAL_ADMIN_AUTH_ERROR)
                else issue_local_admin_session_response w c uuid fresh rq st
                  (if local_admin_rotation_required st then LOCAL_ADMIN_ROTATE_PATH else ''/admin/dashboard''))), s', r')"
  using assms by (simp add: local_admin_login_def Let_def split: sum.split exn.split)

context admin_tier
begin

lemma configured_result:
  assumes "load_local_admin_state w s = (Inr st, s')"
  shows "configured_admin_state w s = (if local_admin_state_is_configured st then Inr st else Inl admin_not_configured, s')"
  using assms by (simp add: configured_eq)

lemma login_session:
  assumes "load_local_admin_state w s = (Inr st, s')" and "local_admin_state_is_configured st" and "uuid \<noteq> []"
    and "rq_cookies rq' LOCAL_ADMIN_ACCESS_COOKIE_NAME =
      Some (bearer (jwt_encode (wb_jwt w) (stamped c uuid (build_local_admin_access_token_payload w st) d)))"
    and "now c' \<le> now c + d" and "same_state s' s''" and "\<not> EXISTS R (Revoked_Key uuid) s''"
  shows "get_current_local_admin_session w c' rq' s'' = (Inr (Some (build_local_admin_identity w st)), s'')"
proof -
  have "load_local_admin_state w s'' = (Inr (reread st), s'')" by (rule load_again [OF assms(1,6)])
  moreover have "as_username st \<noteq> []" using assms(2) by (simp add: local_admin_state_is_configured_def)
  ultimately show ?thesis
    using assms(2,3,5,7) session_eq [OF assms(4), of s'' "reread st" s'' c']
    by (simp add: is_token_revoked_def token_revocation_key_def)
qed

end

text \<open>
  C20: a login of the local administrator. Where the limiter lets it through, it is answered
  with a session exactly if the name is the configured one and the password fits the current
  hash; every other answer sets no cookie. The cookie of the session is recognised as this
  administrator, with the duty to rotate the password if there is one, until it expires, is
  revoked, or the state of the account changes, and asking changes nothing.
\<close>

theorem local_admin_login_session:
  assumes "admin_tier R view w" and "uuid \<noteq> []" and "load_local_admin_state w s = (Inr st, s')"
    and login: "local_admin_login w c hex fault uuid fresh rq user pw (s, r) = (Inr resp, out)"
  shows "fst out = s'
    \<and> (rs_status resp = 303 \<longleftrightarrow> local_admin_state_is_configured st \<and> normalize_username user = as_username st
        \<and> verify_local_admin_password w pw (as_password_hash st) = Inr True
        \<and> fst (check (wa_limiter w) (now_ms c) hex fault
            (build_local_admin_login_rate_subject w rq (text_or (Some (normalize_username user)) user)) r) = Inr ())
    \<and> (rs_status resp \<noteq> 303 \<longrightarrow> rs_cookies resp = [] \<and> rs_status resp \<in> {401, 429})
    \<and> (rs_status resp = 303 \<and> rq_cookies rq' LOCAL_ADMIN_ACCESS_COOKIE_NAME = accept_cookies resp jar LOCAL_ADMIN_ACCESS_COOKIE_NAME
        \<and> now c' \<le> now c + ACCESS_TOKEN_EXPIRE_MINUTES (wb_cfg w) * 60
        \<and> strs (view s'') Admin_State_Key = strs (view s') Admin_State_Key \<and> \<not> EXISTS R (Revoked_Key uuid) s''
        \<longrightarrow> get_current_local_admin_session w c' rq' s'' = (Inr (Some (build_local_admin_identity w st)), s''))"
proof -
  let ?sub = "build_local_admin_login_rate_subject w rq (text_or (Some (normalize_username user)) user)"
  obtain vd r' where vd: "check (wa_limiter w) (now_ms c) hex fault ?sub r = (vd, r')" by fastforce
  note conf = admin_tier.configured_result [OF assms(1,3)]
  have cfg: "local_admin_state_is_configured st"
    using login conf by (auto simp: local_admin_login_def split: if_splits)
  then have "configured_admin_state w s = (Inr st, s')" using conf by simp
  note res = login_result [OF this vd, of uuid fresh pw] login
  have out: "fst out = s'" using res by (auto)
  have only: "resp = issue_local_admin_session_response w c uuid fresh rq st
        (if local_admin_rotation_required st then LOCAL_ADMIN_ROTATE_PATH else ''/admin/dashboard'')
      \<and> vd = Inr () \<and> normalize_username user = as_username st \<and> verify_local_admin_password w pw (as_password_hash st) = Inr True
      \<or> (rs_status resp \<in> {401, 429} \<and> rs_cookies resp = []
        \<and> \<not> (vd = Inr () \<and> normalize_username user = as_username st \<and> verify_local_admin_password w pw (as_password_hash st) = Inr True))"
    using res by (auto split: sum.splits exn.splits if_splits)
  have session: "get_current_local_admin_session w c' rq' s'' = (Inr (Some (build_local_admin_identity w st)), s'')"
    if "resp = issue_local_admin_session_response w c uuid fresh rq st url"
      "rq_cookies rq' LOCAL_ADMIN_ACCESS_COOKIE_NAME = accept_cookies resp jar LOCAL_ADMIN_ACCESS_COOKIE_NAME"
      "now c' \<le> now c + ACCESS_TOKEN_EXPIRE_MINUTES (wb_cfg w) * 60"
      "strs (view s'') Admin_State_Key = strs (view s') Admin_State_Key" "\<not> EXISTS R (Revoked_Key uuid) s''" for url
    using admin_tier.login_session [OF assms(1,3) cfg assms(2), of rq' c "ACCESS_TOKEN_EXPIRE_MINUTES (wb_cfg w) * 60" c' s''] that
      admin_tier.same_state_def [OF assms(1)] by (simp add: issued_cookie)
  from only show ?thesis
  proof
    assume ok: "resp = issue_local_admin_session_response w c uuid fresh rq st
        (if local_admin_rotation_required st then LOCAL_ADMIN_ROTATE_PATH else ''/admin/dashboard'')
      \<and> vd = Inr () \<and> normalize_username user = as_username st \<and> verify_local_admin_password w pw (as_password_hash st) = Inr True"
    then show ?thesis using out cfg vd session by simp
  next
    assume "rs_status resp \<in> {401, 429} \<and> rs_cookies resp = []
        \<and> \<not> (vd = Inr () \<and> normalize_username user = as_username st \<and> verify_local_admin_password w pw (as_password_hash st) = Inr True)"
    then show ?thesis using out cfg vd by auto
  qed
qed

definition demo_admin_rq :: request where
  "demo_admin_rq = \<lparr>rq_method = ''POST'', rq_scheme = ''https'', rq_path = ''/admin/local/login'', rq_client = Some ''10.0.0.9'',
     rq_headers = [''host'' \<mapsto> ''ai'', ''origin'' \<mapsto> ''https://ai''], rq_cookies = (\<lambda>_. None), rq_query = (\<lambda>_. None)\<rparr>"

definition demo_admin_stored :: auth_space where
  "demo_admin_stored = SET mem_redis Admin_State_Key (Admin_Json (Some (local_admin_env_state demo_admin))) empty_keyspace"

lemma demo_admin_load:
  "load_local_admin_state demo_admin empty_keyspace = (Inr (local_admin_env_state demo_admin), demo_admin_stored)"
  by (simp add: mem_admin.load_eq demo_admin_stored_def empty_keyspace_def)

lemma demo_admin_verify:
  "verify_local_admin_password demo_admin pw (as_password_hash (local_admin_env_state demo_admin)) = Inr (pw = ''correct horse battery'')"
proof -
  have "wa_pbkdf2 demo_admin pw x n = pw" for x n by (simp add: demo_admin_def)
  then show ?thesis using verify_hash_text [OF normalize_hash_text(1), of "''salt''" demo_admin pw "''correct horse battery''"] by (simp add: demo_admin_hash)
qed

lemma demo_limiter: "fst (check (wa_limiter demo_admin) t hex False sub empty_keyspace) = Inr ()"
proof -
  have "connected_limiter mem_redis (\<lambda>s. s) (wa_limiter demo_admin)"
    by (intro connected_limiter.intro connected_limiter_axioms.intro mem.redis_store_axioms)
      (simp add: demo_admin_def new_rate_limiter_def)
  from connected_limiter.check_eq [OF this, of t hex sub empty_keyspace] show ?thesis
    by (simp add: zset_add_def empty_keyspace_def) (simp add: demo_admin_def new_rate_limiter_def)
qed

lemma demo_admin_configured: "local_admin_state_is_configured (local_admin_env_state demo_admin)"
  by (rule mem_admin.env_ready(2))

definition demo_admin_in :: "(exn + response) \<times> auth_space \<times> (string, unit, unit, unit) keyspace" where
  "demo_admin_in = local_admin_login demo_admin demo_clock ''h'' False ''u'' ''f'' demo_admin_rq ''admin_ai'' ''correct horse battery'' (empty_keyspace, empty_keyspace)"

lemma demo_admin_in_eq: "\<exists>r. demo_admin_in = (Inr (issue_local_admin_session_response demo_admin demo_clock ''u'' ''f'' demo_admin_rq
    (local_admin_env_state demo_admin) ''/admin/dashboard''), demo_admin_stored, r)"
proof -
  let ?sub = "build_local_admin_login_rate_subject demo_admin demo_admin_rq (text_or (Some (normalize_username ''admin_ai'')) ''admin_ai'')"
  obtain r where c: "check (wa_limiter demo_admin) (now_ms demo_clock) ''h'' False ?sub empty_keyspace = (Inr (), r)"
    using demo_limiter [of "now_ms demo_clock" "''h''" ?sub] by (cases "check (wa_limiter demo_admin) (now_ms demo_clock) ''h'' False ?sub empty_keyspace") simp
  have "configured_admin_state demo_admin empty_keyspace = (Inr (local_admin_env_state demo_admin), demo_admin_stored)"
    using mem_admin.configured_result [OF demo_admin_load] demo_admin_configured by simp
  moreover have "\<not> local_admin_rotation_required (local_admin_env_state demo_admin)"
    by (simp add: local_admin_rotation_required_def local_admin_env_state_def demo_admin_def default_auth_settings_def Let_def)
  ultimately show ?thesis
    using login_result [OF _ c, where uuid = "''u''" and fresh = "''f''" and pw = "''correct horse battery''"]
    by (simp add: demo_admin_in_def demo_admin_verify env_state_facts demo_admin_name)
qed

theorem local_admin_login_session_witness:
  "\<exists>resp out. demo_admin_in = (Inr resp, out) \<and> rs_status resp = 303
    \<and> get_current_local_admin_session demo_admin \<lparr>now = 200, now_ms = 200000\<rparr> (demo_admin_rq\<lparr>rq_cookies := accept_cookies resp (\<lambda>_. None)\<rparr>) (fst out)
      = (Inr (Some (build_local_admin_identity demo_admin (local_admin_env_state demo_admin))), fst out)"
proof -
  obtain resp r where res: "demo_admin_in = (Inr resp, demo_admin_stored, r)" "rs_status resp = 303"
    using demo_admin_in_eq issue_status by blast
  have "\<not> EXISTS mem_redis (Revoked_Key ''u'') demo_admin_stored" by (simp add: demo_admin_stored_def mem_redis_def empty_keyspace_def)
  moreover have "0 < ACCESS_TOKEN_EXPIRE_MINUTES (wb_cfg demo_admin)" "ACCESS_TOKEN_EXPIRE_MINUTES (wb_cfg demo_admin) = 480"
    by (simp_all add: demo_admin_def default_auth_settings_def)
  ultimately have "get_current_local_admin_session demo_admin \<lparr>now = 200, now_ms = 200000\<rparr> (demo_admin_rq\<lparr>rq_cookies := accept_cookies resp (\<lambda>_. None)\<rparr>) demo_admin_stored
      = (Inr (Some (build_local_admin_identity demo_admin (local_admin_env_state demo_admin))), demo_admin_stored)"
    using local_admin_login_session [OF mem_admin.admin_tier_axioms _ demo_admin_load res(1) [unfolded demo_admin_in_def],
        where rq' = "demo_admin_rq\<lparr>rq_cookies := accept_cookies resp (\<lambda>_. None)\<rparr>" and c' = "\<lparr>now = 200, now_ms = 200000\<rparr>"
          and s'' = demo_admin_stored and jar = "\<lambda>_. None"] res
    by (simp add: demo_clock_def)
  then show ?thesis using res by (intro exI [of _ resp] exI [of _ "(demo_admin_stored, r)"]) simp
qed

section \<open>Changing the password\<close>

text \<open>The text behind a revision tells the flags and the hash.\<close>

lemma json_string_cancel: "json_string a @ s = json_string b @ t \<longleftrightarrow> a = b \<and> s = t"
proof
  assume "json_string a @ s = json_string b @ t"
  then have "read_json_string (concat (map json_char a) @ CHR 0x22 # s) = read_json_string (concat (map json_char b) @ CHR 0x22 # t)"
    by (simp add: json_string_def)
  then show "a = b \<and> s = t" by (simp add: read_json_string_text)
qed simp

lemma json_bool_cancel: "json_bool a @ s = json_bool b @ t \<longleftrightarrow> a = b \<and> s = t"
  by (simp add: json_bool_def)

lemma revision_text_eq:
  assumes "state_revision_text a = state_revision_text b"
  shows "as_force_rotate a = as_force_rotate b" "as_bootstrap_required a = as_bootstrap_required b"
    "normalize_local_admin_password_hash_transport (as_password_hash a) = normalize_local_admin_password_hash_transport (as_password_hash b)"
  using assms by (simp_all add: state_revision_text_def json_object_def json_string_cancel json_bool_cancel)

lemma verify_normal: "normalize_local_admin_password_hash_transport h = normalize_local_admin_password_hash_transport h' \<Longrightarrow>
    verify_local_admin_password w pw h = verify_local_admin_password w pw h'"
  by (simp add: verify_local_admin_password_def)

lemma revoke_token_key: "strs (view (snd (revoke_token w c raw s))) Admin_State_Key = strs (view s) Admin_State_Key"
  if "redis_store R view" "wb_redis w = Some R"
  using that by (auto simp: revoke_token_def token_revocation_key_def redis_store.setex_law Let_def split: option.split)

context admin_tier
begin

lemma admin_session_state:
  assumes "admin_session w c rq s = (Inr la, s1)" and "load_local_admin_state w s = (Inr st, s0)"
  shows "s1 = s0" "local_admin_state_is_configured st" "la = build_local_admin_identity w st"
proof -
  obtain cur s2 where cur: "get_current_local_admin_session w c rq s = (Inr cur, s2)" "get_current_local_admin_session_required w cur s2 = (Inr la, s1)"
    using assms(1) by (cases "get_current_local_admin_session w c rq s"; cases "fst (get_current_local_admin_session w c rq s)")
      (auto simp: admin_session_def)
  have la: "cur = Some la" "s1 = snd (load_local_admin_state w s2)"
    using cur(2) load_ok [of s2] by (auto simp: get_current_local_admin_session_required_def configured_eq split: if_splits option.splits)
  have cur_some: "s2 = s0 \<and> local_admin_state_is_configured st \<and> la = build_local_admin_identity w st"
    using cur(1) assms(2) by (auto simp: get_current_local_admin_session_def la(1) Let_def online split: if_splits option.splits)
  then show "s1 = s0" "local_admin_state_is_configured st" "la = build_local_admin_identity w st"
    using la(2) load_same [OF assms(2)] by simp_all
qed

lemma store_password_result:
  assumes "store_password w c salt rq st new s = (x, s')" and "new \<noteq> []" and "salt \<noteq> []"
    and "normalize_username (as_username st) = as_username st" "as_username st \<noteq> []"
    and "as_base_env_revision st = as_base_env_revision (local_admin_env_state w)"
  shows "\<exists>st'. x = Inr st' \<and> strs (view s') Admin_State_Key = Some (Admin_Json (Some st')) \<and> normal_admin_state w st' \<and> reread st' = st'
    \<and> \<not> local_admin_rotation_required st' \<and> as_enabled st' = as_enabled st \<and> as_username st' = as_username st
    \<and> as_password_hash st' = hash_text salt (wa_pbkdf2 w new salt LOCAL_ADMIN_HASH_ITERATIONS)"
proof -
  define h where "h = hash_text salt (wa_pbkdf2 w new salt LOCAL_ADMIN_HASH_ITERATIONS)"
  have h: "build_local_admin_password_hash w salt new = Inr h" "normalize_local_admin_password_hash_transport h = h" "h \<noteq> []"
    using assms(2) normalize_hash_text(1) [OF assms(3)] by (simp_all add: build_hash_eq h_def) (simp add: hash_text_def)
  obtain st' where st': "persist_local_admin_state w (with_password st c h) s = (Inr st', SET R Admin_State_Key (Admin_Json (Some st')) s)"
      "as_enabled st' = as_enabled st" "as_username st' = as_username st" "as_password_hash st' = h" "\<not> local_admin_rotation_required st'"
      "as_base_env_revision st' = as_base_env_revision st" "as_state_revision st' = build_local_admin_state_revision w st'" "reread st' = st'"
  proof
    let ?p = "\<lparr>as_enabled = as_enabled st, as_username = as_username st, as_password_hash = h, as_force_rotate = False,
      as_bootstrap_required = False, as_runtime_override = True, as_base_env_revision = as_base_env_revision st,
      as_rotated_at = Some (now c), as_state_revision = []\<rparr>"
    let ?st' = "?p\<lparr>as_state_revision := build_local_admin_state_revision w ?p\<rparr>"
    show "persist_local_admin_state w (with_password st c h) s = (Inr ?st', SET R Admin_State_Key (Admin_Json (Some ?st')) s)"
      using assms(4) h(2) by (simp add: persist_local_admin_state_def with_password_def online Let_def)
    show "reread ?st' = ?st'" by (simp add: reread_def)
    show "as_state_revision ?st' = build_local_admin_state_revision w ?st'" by (simp add: build_local_admin_state_revision_def state_revision_text_def)
  qed (simp_all add: local_admin_rotation_required_def)
  have "x = Inr st'" "strs (view s') Admin_State_Key = strs (view (SET R Admin_State_Key (Admin_Json (Some st')) s)) Admin_State_Key"
    using assms(1) revoke_token_key [OF redis_store_axioms online]
    by (auto simp: store_password_def h(1) st'(1) revoke_local_admin_session_token_def online Let_def)
  then show ?thesis using st' h assms(4-6) by (auto simp: set_law normal_admin_state_def h_def)
qed

text \<open>What a state that replaced another means for the old sessions.\<close>

definition replaced :: "string \<Rightarrow> admin_state \<Rightarrow> 's \<Rightarrow> bool" where
  "replaced new st s' \<longleftrightarrow> (\<exists>st'. strs (view s') Admin_State_Key = Some (Admin_Json (Some st'))
    \<and> normal_admin_state w st' \<and> reread st' = st' \<and> \<not> local_admin_rotation_required st' \<and> local_admin_state_is_configured st'
    \<and> as_username st' = as_username st
    \<and> verify_local_admin_password w new (as_password_hash st') = Inr True \<and> state_revision_text st' \<noteq> state_revision_text st)"

lemma store_password_replaced:
  assumes "store_password w c salt rq st1 new s = (x, s')" and "new \<noteq> []" and "salt \<noteq> []"
    and "local_admin_state_is_configured st" and "load_local_admin_state w s0 = (Inr st, s)" and "st1 = reread st"
    and "local_admin_rotation_required st \<or> verify_local_admin_password w new (as_password_hash st) = Inr False"
  shows "replaced new st s' \<and> (\<exists>st'. x = Inr st')"
proof -
  note base = load_base [OF assms(5)]
  from store_password_result [OF assms(1-3)] base assms(4,6) obtain st' where st': "x = Inr st'" "strs (view s') Admin_State_Key = Some (Admin_Json (Some st'))"
      "normal_admin_state w st'" "reread st' = st'" "\<not> local_admin_rotation_required st'" "as_enabled st' = as_enabled st" "as_username st' = as_username st"
      "as_password_hash st' = hash_text salt (wa_pbkdf2 w new salt LOCAL_ADMIN_HASH_ITERATIONS)"
    by (auto simp: local_admin_state_is_configured_def)
  have verify: "verify_local_admin_password w new (as_password_hash st') = Inr True"
    using verify_hash_text [OF normalize_hash_text(1) [OF assms(3)], of w new "wa_pbkdf2 w new salt LOCAL_ADMIN_HASH_ITERATIONS"] st'(8) by simp
  moreover have "state_revision_text st' \<noteq> state_revision_text st"
  proof
    assume same: "state_revision_text st' = state_revision_text st"
    have "local_admin_rotation_required st' = local_admin_rotation_required st"
      using revision_text_eq(1,2) [OF same] by (simp add: local_admin_rotation_required_def)
    moreover have "verify_local_admin_password w new (as_password_hash st') = verify_local_admin_password w new (as_password_hash st)"
      by (rule verify_normal [OF revision_text_eq(3) [OF same]])
    ultimately show False using verify st'(5) assms(7) by simp
  qed
  ultimately show ?thesis
    using st' assms(4) unfolding replaced_def by (auto simp: local_admin_state_is_configured_def normal_admin_state_def)
qed

lemma rotate_replaces:
  assumes "local_admin_rotate_password w c salt uuid fresh rq new confirm tok s = (Inr resp, s')" and "rs_status resp = 303"
    and "load_local_admin_state w s = (Inr st, s0)" and "salt \<noteq> []"
  shows "replaced new st s'"
proof -
  obtain la s1 where la: "admin_session w c rq s = (Inr la, s1)"
    using assms(1) by (cases "admin_session w c rq s"; cases "fst (admin_session w c rq s)") (auto simp: local_admin_rotate_password_def)
  note st = admin_session_state [OF la assms(3)]
  have load: "load_local_admin_state w s0 = (Inr (reread st), s0)" using load_same [OF assms(3)] by simp
  have pol: "validate_local_admin_password_policy new = None" "local_admin_rotation_required st"
    using assms(1,2) load st by (auto simp: local_admin_rotate_password_def la get_local_admin_rotation_session_required_def split: if_splits sum.splits option.splits)
  then have new: "new \<noteq> []" by (auto simp: validate_local_admin_password_policy_def split: if_splits)
  obtain x where "store_password w c salt rq (reread st) new s0 = (x, s')"
    using assms(1,2) load st pol
    by (cases "store_password w c salt rq (reread st) new s0"; cases "fst (store_password w c salt rq (reread st) new s0)")
      (auto simp: local_admin_rotate_password_def la get_local_admin_rotation_session_required_def split: if_splits sum.splits)
  from store_password_replaced [OF this new assms(4) st(2) assms(3) refl] pol show ?thesis by simp
qed

lemma change_replaces:
  assumes "local_admin_change_password w c hex fault salt fresh rq old new confirm tok (s, r) = (Inr resp, s', r')" and "rs_status resp = 303"
    and "load_local_admin_state w s = (Inr st, s0)" and "salt \<noteq> []"
  shows "replaced new st s' \<and> verify_local_admin_password w old (as_password_hash st) = Inr True"
proof -
  obtain la s1 where la: "admin_session w c rq s = (Inr la, s1)"
    using assms(1) by (cases "admin_session w c rq s"; cases "fst (admin_session w c rq s)") (auto simp: local_admin_change_password_def)
  note st = admin_session_state [OF la assms(3)]
  have load: "load_local_admin_state w s0 = (Inr (reread st), s0)" using load_same [OF assms(3)] by simp
  have chk: "checked_password_change w c salt fresh rq la old new confirm s0 = (Inr resp, s')"
    using assms(1,2) st(1) by (auto simp: local_admin_change_password_def la build_local_admin_password_change_response_def
        split: if_splits sum.splits exn.splits prod.splits)
  have pol: "validate_local_admin_password_policy new = None" "verify_local_admin_password w new (as_password_hash st) = Inr False"
      "verify_local_admin_password w old (as_password_hash st) = Inr True"
    using chk assms(2) load by (auto simp: checked_password_change_def build_local_admin_password_change_response_def Let_def
        split: if_splits sum.splits option.splits)
  then have new: "new \<noteq> []" by (auto simp: validate_local_admin_password_policy_def split: if_splits)
  obtain x where "store_password w c salt rq (reread st) new s0 = (x, s')"
    using chk assms(2) load pol
    by (cases "store_password w c salt rq (reread st) new s0"; cases "fst (store_password w c salt rq (reread st) new s0)")
      (auto simp: checked_password_change_def build_local_admin_password_change_response_def Let_def split: if_splits)
  from store_password_replaced [OF this new assms(4) st(2) assms(3) refl] pol show ?thesis by simp
qed

text \<open>And a change with the right passwords goes through.\<close>

lemma change_accepted:
  assumes "admin_session w c rq s = (Inr la, s0)" and "load_local_admin_state w s = (Inr st, s0)"
    and "enforce_local_admin_csrf w rq (Some tok) = Inr ()" and "\<not> local_admin_rotation_required st"
    and "check (wa_limiter w) (now_ms c) hex fault (build_local_admin_password_change_rate_subject w rq (ai_username la)) r = (Inr (), r')"
    and "verify_local_admin_password w old (as_password_hash st) = Inr True" "verify_local_admin_password w new (as_password_hash st) = Inr False"
    and "validate_local_admin_password_policy new = None" and "salt \<noteq> []"
  shows "\<exists>resp s'. local_admin_change_password w c hex fault salt fresh rq old new new tok (s, r) = (Inr resp, s', r') \<and> rs_status resp = 303"
proof -
  note st = admin_session_state [OF assms(1,2)]
  have load: "load_local_admin_state w s0 = (Inr (reread st), s0)" using load_same [OF assms(2)] by simp
  have la: "ai_username la = as_username st" "\<not> ai_rotation_required la"
    using st(2) assms(4) by (simp_all add: st(3) build_local_admin_identity_def local_admin_state_is_configured_def Let_def)
  obtain x s' where sp: "store_password w c salt rq (reread st) new s0 = (x, s')" by fastforce
  have "new \<noteq> []" using assms(8) by (auto simp: validate_local_admin_password_policy_def split: if_splits)
  with store_password_replaced [OF sp this assms(9) st(2) assms(2) refl] assms(7) obtain st' where "x = Inr st'" by auto
  then show ?thesis
    using assms(3-8) load la sp by (simp add: local_admin_change_password_def assms(1) checked_password_change_def)
qed

lemma replaced_session:
  assumes "strs (view s) Admin_State_Key = Some (Admin_Json (Some st'))" and normal: "normal_admin_state w st'"
    and digest: "wa_sha256 w (state_revision_text st') \<noteq> wa_sha256 w (state_revision_text st)"
    and "rq_cookies rq LOCAL_ADMIN_ACCESS_COOKIE_NAME = Some (bearer (jwt_encode (wb_jwt w) cl))"
    and "cl_state_revision cl = Some (as_state_revision st)" and "as_state_revision st = build_local_admin_state_revision w st"
  shows "get_current_local_admin_session w c rq s = (Inr None, s)"
proof -
  have "load_local_admin_state w s = (Inr (reread st'), s)"
    using assms(1) by (intro load_normal normal)
  moreover have "as_state_revision st' \<noteq> as_state_revision st"
    using normal digest assms(6) by (auto simp: normal_admin_state_def build_local_admin_state_revision_def)
  ultimately show ?thesis using assms(5) session_eq [OF assms(4)] by simp
qed

end

text \<open>
  C21: a new password ends the administrator's sessions under the old one. When the forced
  rotation or the change of the password succeeds, the state in Redis verifies the new
  password, no longer asks for a rotation, keeps the user name, and has another text than the
  old one: a rotation to the same password is no exception. As long as this state lies in
  Redis, and if SHA-256 does not give these two different texts the same digest, no request
  whose administrator cookie carries the old revision is a session of the local administrator.
  (The sessions of ordinary users are another matter, see \<open>local_admin_token_is_user\<close>.)
\<close>

theorem password_change_ends_sessions:
  assumes "admin_tier R view w" and "salt \<noteq> []" and "load_local_admin_state w s = (Inr st, s0)" and "rs_status resp = 303"
    and changed: "local_admin_rotate_password w c salt uuid fresh rq new confirm tok s = (Inr resp, s')
      \<or> local_admin_change_password w c hex fault salt fresh rq old new confirm tok (s, r) = (Inr resp, s', r')"
    and "strs (view s'') Admin_State_Key = strs (view s') Admin_State_Key"
  shows "\<exists>st'. load_local_admin_state w s'' = (Inr st', s'') \<and> verify_local_admin_password w new (as_password_hash st') = Inr True
      \<and> local_admin_state_is_configured st' \<and> \<not> local_admin_rotation_required st' \<and> as_username st' = as_username st
      \<and> state_revision_text st' \<noteq> state_revision_text st
      \<and> (wa_sha256 w (state_revision_text st') \<noteq> wa_sha256 w (state_revision_text st) \<longrightarrow>
          (\<forall>rq' c' cl. rq_cookies rq' LOCAL_ADMIN_ACCESS_COOKIE_NAME = Some (bearer (jwt_encode (wb_jwt w) cl))
              \<and> cl_state_revision cl = Some (as_state_revision st)
            \<longrightarrow> get_current_local_admin_session w c' rq' s'' = (Inr None, s'')))"
proof -
  have "admin_tier.replaced view w new st s'"
    using changed admin_tier.rotate_replaces [OF assms(1) _ assms(4,3,2)] admin_tier.change_replaces [OF assms(1) _ assms(4,3,2)] by blast
  then obtain st' where st': "strs (view s') Admin_State_Key = Some (Admin_Json (Some st'))" "normal_admin_state w st'" "reread st' = st'"
      "\<not> local_admin_rotation_required st'" "local_admin_state_is_configured st'" "as_username st' = as_username st"
      "verify_local_admin_password w new (as_password_hash st') = Inr True" "state_revision_text st' \<noteq> state_revision_text st"
    by (auto simp: admin_tier.replaced_def [OF assms(1)])
  have stored: "strs (view s'') Admin_State_Key = Some (Admin_Json (Some st'))" using st'(1) assms(6) by simp
  have "load_local_admin_state w s'' = (Inr st', s'')"
    using admin_tier.load_normal [OF assms(1) _ st'(2), of s''] st'(3) stored by simp
  moreover have "as_state_revision st = build_local_admin_state_revision w st" using admin_tier.load_base [OF assms(1,3)] by simp
  ultimately show ?thesis
    using st' admin_tier.replaced_session [OF assms(1) stored st'(2)] by (intro exI [of _ st'] conjI impI allI) blast+
qed

definition demo_admin_page :: request where
  "demo_admin_page = demo_admin_rq\<lparr>rq_cookies := [LOCAL_ADMIN_ACCESS_COOKIE_NAME \<mapsto> bearer (jwt_encode (wb_jwt demo_admin)
      (stamped demo_clock ''u'' (build_local_admin_access_token_payload demo_admin (local_admin_env_state demo_admin)) 28800)),
     LOCAL_ADMIN_CSRF_COOKIE_NAME \<mapsto> ''f'']\<rparr>"

definition demo_admin_cookie :: claims where
  "demo_admin_cookie = stamped demo_clock ''u'' (build_local_admin_access_token_payload demo_admin (local_admin_env_state demo_admin)) 28800"

lemma demo_admin_changes:
  "\<exists>resp s' r'. local_admin_change_password demo_admin demo_clock ''h'' False ''salt'' ''f'' demo_admin_page ''correct horse battery''
     ''another staple gun'' ''another staple gun'' ''f'' (demo_admin_stored, empty_keyspace) = (Inr resp, s', r') \<and> rs_status resp = 303"
proof -
  let ?st = "local_admin_env_state demo_admin"
  have same: "mem_admin.same_state demo_admin_stored demo_admin_stored" by (simp add: mem_admin.same_state_def)
  have load: "load_local_admin_state demo_admin demo_admin_stored = (Inr (reread ?st), demo_admin_stored)"
    by (rule mem_admin.load_again [OF demo_admin_load same])
  have "\<not> EXISTS mem_redis (Revoked_Key ''u'') demo_admin_stored" by (simp add: demo_admin_stored_def mem_redis_def empty_keyspace_def)
  then have "get_current_local_admin_session demo_admin demo_clock demo_admin_page demo_admin_stored
      = (Inr (Some (build_local_admin_identity demo_admin ?st)), demo_admin_stored)"
    by (intro mem_admin.login_session [OF demo_admin_load demo_admin_configured, where uuid = "''u''" and c = demo_clock and d = 28800] same)
      (simp_all add: demo_admin_page_def LOCAL_ADMIN_ACCESS_COOKIE_NAME_def LOCAL_ADMIN_CSRF_COOKIE_NAME_def)
  then have session: "admin_session demo_admin demo_clock demo_admin_page demo_admin_stored
      = (Inr (build_local_admin_identity demo_admin ?st), demo_admin_stored)"
    using demo_admin_configured
    by (simp add: admin_session_def get_current_local_admin_session_required_def mem_admin.configured_result [OF load])
  have guard: "enforce_local_admin_csrf demo_admin demo_admin_page (Some ''f'') = Inr ()"
    by (simp add: enforce_local_admin_csrf_def enforce_same_origin_def enforce_csrf_pair_def compare_digest_def is_ascii_def header_def
        demo_admin_page_def demo_admin_rq_def demo_admin_def Let_def)
  have rot: "\<not> local_admin_rotation_required (reread ?st)"
    by (simp add: local_admin_rotation_required_def local_admin_env_state_def demo_admin_def default_auth_settings_def Let_def)
  have policy: "validate_local_admin_password_policy ''another staple gun'' = None"
    by (simp add: validate_local_admin_password_policy_def LOCAL_ADMIN_MIN_PASSWORD_LENGTH_def py_isspace_def)
  let ?sub = "build_local_admin_password_change_rate_subject demo_admin demo_admin_page (ai_username (build_local_admin_identity demo_admin ?st))"
  obtain r where c: "check (wa_limiter demo_admin) (now_ms demo_clock) ''h'' False ?sub empty_keyspace = (Inr (), r)"
    using demo_limiter [of "now_ms demo_clock" "''h''" ?sub] by (cases "check (wa_limiter demo_admin) (now_ms demo_clock) ''h'' False ?sub empty_keyspace") simp
  show ?thesis
    using mem_admin.change_accepted [OF session load guard rot c _ _ policy, of "''correct horse battery''" "''salt''" "''f''"]
    by (simp add: demo_admin_verify) blast
qed

theorem password_change_ends_sessions_witness:
  "\<exists>resp s' r'. local_admin_change_password demo_admin demo_clock ''h'' False ''salt'' ''f'' demo_admin_page ''correct horse battery''
       ''another staple gun'' ''another staple gun'' ''f'' (demo_admin_stored, empty_keyspace) = (Inr resp, s', r')
     \<and> get_current_local_admin_session demo_admin \<lparr>now = 200, now_ms = 200000\<rparr> demo_admin_page s' = (Inr None, s')"
proof -
  obtain resp s' r' where changed: "local_admin_change_password demo_admin demo_clock ''h'' False ''salt'' ''f'' demo_admin_page ''correct horse battery''
      ''another staple gun'' ''another staple gun'' ''f'' (demo_admin_stored, empty_keyspace) = (Inr resp, s', r')" and status: "rs_status resp = 303"
    using demo_admin_changes by blast
  have "mem_admin.same_state demo_admin_stored demo_admin_stored" by (simp add: mem_admin.same_state_def)
  note load = mem_admin.load_again [OF demo_admin_load this]
  have cookie: "rq_cookies demo_admin_page LOCAL_ADMIN_ACCESS_COOKIE_NAME = Some (bearer (jwt_encode (wb_jwt demo_admin) demo_admin_cookie))"
    by (simp add: demo_admin_page_def demo_admin_cookie_def LOCAL_ADMIN_ACCESS_COOKIE_NAME_def LOCAL_ADMIN_CSRF_COOKIE_NAME_def)
  have sha: "wa_sha256 demo_admin = (\<lambda>s. s)" by (simp add: demo_admin_def)
  have revision: "cl_state_revision demo_admin_cookie = Some (as_state_revision (reread (local_admin_env_state demo_admin)))"
    by (simp add: demo_admin_cookie_def)
  have "get_current_local_admin_session demo_admin \<lparr>now = 200, now_ms = 200000\<rparr> demo_admin_page s' = (Inr None, s')"
    using password_change_ends_sessions [OF mem_admin.admin_tier_axioms _ load status disjI2 [OF changed] refl] cookie revision sha
    by (metis list.distinct(1))
  then show ?thesis using changed by blast
qed

text \<open>
  The token of the administrator is not bound to the dashboard: presented as a bearer token
  or as the cookie of a user session it is a session of an ordinary user of that name, and
  neither the claims that restrict it nor the revision of the state are looked at, so that a
  new password does not end it there.
\<close>

lemma local_admin_token_is_user:
  assumes "web_tier R view w" and "normal_username (as_username st)" and "uuid \<noteq> []"
    and t: "t = create_access_token (wb_jwt w) c uuid (build_local_admin_access_token_payload w st) (Some d)"
    and "rq_cookies rq ''access_token'' = Some (bearer t)" and "now c' \<le> now c + d" and "\<not> EXISTS R (Revoked_Key uuid) s"
  shows "\<exists>u. get_current_user w c' rq cred s = Some u \<and> ui_username u = as_username st \<and> ui_auth_source u = Some AUTH_SOURCE_LOCAL_ADMIN"
proof -
  let ?cl = "stamped c uuid (build_local_admin_access_token_payload w st) d"
  have name: "as_username st \<noteq> []" "normalize_username (as_username st) = as_username st"
    using assms(2) normalize_username_fixed by (auto simp: normal_username_def USERNAME_RE_def)
  have tok: "t = jwt_encode (wb_jwt w) ?cl" by (simp add: t create_access_token_eq)
  then have "t \<noteq> []" "jwt_decode (wb_jwt w) True (now c') t = Some ?cl"
    using jwt_codec.token_text [OF web_tier.axioms(2) [OF assms(1)]] jwt_codec.decode_encode [OF web_tier.axioms(2) [OF assms(1)]] assms(6) by auto
  moreover have "extract_bearer_token (Some (bearer t)) = Some t" using web_tier.extract_token [OF assms(1)] by (simp add: tok)
  ultimately have "get_current_user w c' rq cred s = Some (completed (wb_cfg w) c' (claims_user_info (wb_cfg w) (as_username st) ?cl))"
    using assms(3,5,7) name
    by (simp add: get_current_user_def web_tier.online [OF assms(1)] is_token_revoked_def token_revocation_key_def LOCAL_ADMIN_ACCESS_TOKEN_TYPE_def Let_def)
  moreover have "normalize_auth_source (str_or (Some AUTH_SOURCE_LOCAL_ADMIN) (Some AUTH_SOURCE_PASSWORD)) = AUTH_SOURCE_LOCAL_ADMIN"
    by (simp add: str_or_def normalize_auth_source_def strip_opt_def auth_sources text_evals)
  ultimately show ?thesis
    using name by (simp add: claims_user_info_def stamped_def build_local_admin_access_token_payload_def build_local_admin_identity_def contract_defs)
qed

end
