(* ===== verification/Observability.thy ===== *)
theory Observability
  imports Jobs
begin

text \<open>
  The observability helpers of the control plane (\<open>llm_gateway.py\<close>): safe conversion of
  stored values, file and document sizes of a job, the fields of a job's log record, and
  the classification of an error text. Log lines themselves are not modelled.
\<close>

section \<open>Error types\<close>

datatype error_type = ErrNone | ErrParse | ErrValidation | ErrQueueTimeout | ErrInferenceTimeout
  | ErrModelNotFound | ErrCancelled | ErrInternal

text \<open>
  The Russian fragments the classifier looks for: ``failed to extract text'', ``failed to
  process attachments'', ``only ... are supported'', ``empty request'', ``no files
  chosen'', ``at most files'', ``exceeds the limit''.
\<close>

definition TXT_NO_TEXT :: string where
  "TXT_NO_TEXT =
     cp1251 [237, 229, 32, 243, 228, 224, 235, 238, 241, 252, 32, 232, 231, 226, 235, 229,
       247, 252, 32, 242, 229, 234, 241, 242]"

definition TXT_NO_ATTACHMENTS :: string where
  "TXT_NO_ATTACHMENTS =
     cp1251 [237, 229, 32, 243, 228, 224, 235, 238, 241, 252, 32, 238, 225, 240, 224, 225,
       238, 242, 224, 242, 252, 32, 226, 235, 238, 230, 229, 237, 232, 255]"

definition TXT_ONLY_SUPPORTED :: string where
  "TXT_ONLY_SUPPORTED =
     cp1251 [239, 238, 228, 228, 229, 240, 230, 232, 226, 224, 254, 242, 241, 255, 32, 242,
       238, 235, 252, 234, 238]"

definition TXT_EMPTY_REQUEST :: string where
  "TXT_EMPTY_REQUEST =
     cp1251 [239, 243, 241, 242, 238, 233, 32, 231, 224, 239, 240, 238, 241]"

definition TXT_NO_FILES :: string where
  "TXT_NO_FILES =
     cp1251 [237, 229, 32, 226, 251, 225, 240, 224, 237, 251, 32, 244, 224, 233, 235, 251]"

definition TXT_MAX_FILES :: string where
  "TXT_MAX_FILES =
     cp1251 [236, 224, 234, 241, 232, 236, 243, 236, 32, 244, 224, 233, 235, 238, 226]"

definition TXT_OVER_LIMIT :: string where
  "TXT_OVER_LIMIT =
     cp1251 [239, 240, 229, 226, 251, 248, 224, 229, 242, 32, 235, 232, 236, 232, 242]"

definition CLASSIFIED_PARSE :: "string list" where
  "CLASSIFIED_PARSE = [''parser unavailable'', TXT_NO_TEXT, TXT_NO_ATTACHMENTS]"

definition CLASSIFIED_VALIDATION :: "string list" where
  "CLASSIFIED_VALIDATION = [TXT_ONLY_SUPPORTED, ''invalid request format'', TXT_EMPTY_REQUEST, TXT_NO_FILES,
     TXT_MAX_FILES, TXT_OVER_LIMIT, ''csrf validation failed'', ''rate limit exceeded'']"

definition contains_any :: "string list \<Rightarrow> string \<Rightarrow> bool" where
  "contains_any patterns txt \<longleftrightarrow> list_ex (\<lambda>p. py_contains p txt) patterns"

definition classify_observability_error ::
  "string option \<Rightarrow> string option \<Rightarrow> job_status option \<Rightarrow> error_type \<Rightarrow> error_type" where
  "classify_observability_error error_text phase terminal_status dflt =
     (if terminal_status = Some Cancelled then ErrCancelled
      else let normalized = py_lower (strip_opt error_text) in
        if normalized = [] then dflt
        else if phase = Some ''parse'' then ErrParse
        else if phase = Some ''validation'' then ErrValidation
        else if contains_any [''llm model not found'', ''no llm models available''] normalized then ErrModelNotFound
        else if contains_any CLASSIFIED_PARSE normalized then ErrParse
        else if contains_any CLASSIFIED_VALIDATION normalized then ErrValidation
        else if contains_any [''deadline exceeded'', ''timed out'', ''timeout''] normalized
             then (if phase = Some ''queue'' then ErrQueueTimeout else ErrInferenceTimeout)
        else dflt)"

section \<open>Sizes of a job\<close>

text \<open>\<open>_safe_int\<close> on a stored value: what \<open>int\<close> gives, or zero where it raises.\<close>

fun safe_int :: "meta_val option \<Rightarrow> int" where
  "safe_int (Some (MInt n)) = n"
| "safe_int (Some (MBool b)) = (if b then 1 else 0)"
| "safe_int (Some (MStr s)) = (case py_int_of_string s of Some n \<Rightarrow> n | None \<Rightarrow> 0)"
| "safe_int (Some MNone) = 0"
| "safe_int (Some (MFiles fs)) = 0"
| "safe_int None = 0"

definition files_of :: "metadata option \<Rightarrow> file_info list option" where
  "files_of m = (case m of None \<Rightarrow> None
     | Some d \<Rightarrow> (case map_of d ''files'' of Some (MFiles fs) \<Rightarrow> Some fs | _ \<Rightarrow> None))"

definition get_job_file_count :: "job \<Rightarrow> int" where
  "get_job_file_count job = (case files_of (j_file_chat job) of Some fs \<Rightarrow> len fs
     | None \<Rightarrow> (case files_of (j_parser_metadata job) of Some fs \<Rightarrow> len fs | None \<Rightarrow> 0))"

definition parser_doc_chars :: "metadata option \<Rightarrow> int" where
  "parser_doc_chars m = (case m of None \<Rightarrow> 0
     | Some d \<Rightarrow> (let trimmed = safe_int (map_of d ''trimmed_doc_chars'') in
         if 0 < trimmed then trimmed else max 0 (safe_int (map_of d ''original_doc_chars''))))"

definition get_job_doc_chars :: "job \<Rightarrow> int" where
  "get_job_doc_chars job = (case j_file_chat job of None \<Rightarrow> parser_doc_chars (j_parser_metadata job)
     | Some d \<Rightarrow> (let trimmed = safe_int (map_of d ''trimmed_doc_chars'');
                     doc_chars = safe_int (map_of d ''doc_chars'')
         in if 0 < trimmed then trimmed else if 0 < doc_chars then doc_chars
            else parser_doc_chars (j_parser_metadata job)))"

record observability_fields =
  of_job_id :: string
  of_username :: string
  of_job_kind :: job_kind
  of_workload_class :: workload
  of_target_kind :: target_kind
  of_model_key :: string
  of_model_name :: string
  of_file_count :: int
  of_doc_chars :: int
  of_prompt_chars :: int
  of_history_messages :: int

definition or_unknown :: "string \<Rightarrow> string" where
  "or_unknown s = (if s = [] then ''unknown'' else s)"

text \<open>A stored job always is a dictionary, so the branch for other values does not arise.\<close>

definition extract_job_observability_fields :: "job \<Rightarrow> observability_fields" where
  "extract_job_observability_fields job = \<lparr>
     of_job_id = or_unknown (j_id job),
     of_username = or_unknown (j_username job),
     of_job_kind = j_job_kind job,
     of_workload_class = j_workload_class job,
     of_target_kind = j_target_kind job,
     of_model_key = or_unknown (if j_model_key job \<noteq> [] then j_model_key job else j_model_name job),
     of_model_name = or_unknown (if j_model_name job \<noteq> [] then j_model_name job else j_model_key job),
     of_file_count = get_job_file_count job,
     of_doc_chars = get_job_doc_chars job,
     of_prompt_chars = len (py_strip (j_prompt job)),
     of_history_messages = len (j_history job)\<rparr>"

section \<open>Lemmas\<close>

lemma get_job_doc_chars_nonneg: "0 \<le> get_job_doc_chars job"
  by (simp add: get_job_doc_chars_def parser_doc_chars_def Let_def split: option.split)

lemma get_job_file_count_nonneg: "0 \<le> get_job_file_count job"
  by (simp add: get_job_file_count_def split: option.split)

section \<open>Properties\<close>

text \<open>
  The sizes in a job's log record are never negative and its identifying fields are
  never empty, whatever the stored metadata holds (a number as text, a missing or wrong
  value, a negative count).
\<close>

theorem observability_fields_sane:
  "0 \<le> of_file_count (extract_job_observability_fields job) \<and> 0 \<le> of_doc_chars (extract_job_observability_fields job)
   \<and> of_prompt_chars (extract_job_observability_fields job) \<le> len (j_prompt job)
   \<and> of_job_id (extract_job_observability_fields job) \<noteq> [] \<and> of_username (extract_job_observability_fields job) \<noteq> []
   \<and> of_model_key (extract_job_observability_fields job) \<noteq> [] \<and> of_model_name (extract_job_observability_fields job) \<noteq> []"
  using length_py_strip [of "j_prompt job"]
  by (simp add: extract_job_observability_fields_def get_job_doc_chars_nonneg get_job_file_count_nonneg or_unknown_def)

end
