(* ===== verification/Chat_Store.thy ===== *)
theory Chat_Store
  imports Observability
begin

text \<open>
  The chat history of the web tier (\<open>llm_gateway.py\<close>, class \<open>AsyncChatStore\<close>): one Redis
  list per user and thread, a sorted set per user that registers the threads by the time
  of their last message, and the migration of the one-thread layout of earlier releases.
  Keys are the texts that the source builds, so that two users' or two threads' keys
  can coincide where they do in the program; only lists and sorted sets are separate maps,
  so that the conversation of a thread with the id \<open>threads\<close>, whose list has the key of the
  registry and meets its type in the program, is outside the model. A list entry is the JSON payload of
  a message or a text that \<open>json.loads\<close> rejects. The refinement at the end relates the
  operations to a map from threads to message lists.
\<close>

section \<open>Data\<close>

record chat_entry =
  ce_role :: string
  ce_content :: "string option"
  ce_created_at :: "meta_val option"

text \<open>A stored payload; a content that is not a text is \<open>None\<close>.\<close>

datatype chat_raw = Entry chat_entry | Malformed

type_synonym 's chat_redis = "('s, string, unit, chat_raw, unit) redis"
type_synonym chat_space = "(string, unit, chat_raw, unit) keyspace"

text \<open>
  \<open>cs_keys\<close> is the command \<open>KEYS\<close> on a pattern, where the client has it.
\<close>

record 's chat_store =
  cs_redis :: "'s chat_redis option"
  cs_keys :: "(string \<Rightarrow> 's \<Rightarrow> string list) option"
  max_history :: int

record thread_summary =
  th_thread_id :: string
  th_updated_at :: int
  th_title :: string
  th_message_count :: int

definition chat_unavailable :: exn where
  "chat_unavailable = RuntimeError ''Redis chat store is unavailable''"

text \<open>Every operation first checks the connection.\<close>

definition with_chat ::
  "'s chat_store \<Rightarrow> ('s chat_redis \<Rightarrow> 's \<Rightarrow> ('a, 's) outcome) \<Rightarrow> 's \<Rightarrow> ('a, 's) outcome" where
  "with_chat cs f s = (case cs_redis cs of None \<Rightarrow> (Inl chat_unavailable, s) | Some R \<Rightarrow> f R s)"

section \<open>Keys\<close>

definition legacy_history_key :: "string \<Rightarrow> string" where
  "legacy_history_key username = ''chat:'' @ username"

definition thread_registry_key :: "string \<Rightarrow> string" where
  "thread_registry_key username = ''chat:'' @ username @ '':threads''"

definition history_key :: "string \<Rightarrow> string option \<Rightarrow> string" where
  "history_key username thread_id = ''chat:'' @ username @ '':'' @ normalize_thread_id thread_id"

definition history_key_prefix :: "string \<Rightarrow> string" where
  "history_key_prefix username = ''chat:'' @ username @ '':''"

definition extract_thread_id_from_history_key :: "string \<Rightarrow> string \<Rightarrow> string option" where
  "extract_thread_id_from_history_key username key =
     (if \<not> prefix (history_key_prefix username) key then None
      else let thread_id = py_strip (drop (length (history_key_prefix username)) key) in
        if thread_id = [] \<or> thread_id = ''threads'' then None else Some thread_id)"

section \<open>Reading a thread\<close>

definition entry_message :: "chat_entry \<Rightarrow> message option" where
  "entry_message e = (case ce_content e of None \<Rightarrow> None
     | Some content \<Rightarrow> if ce_role e = ''user'' \<or> ce_role e = ''assistant''
         then Some \<lparr>m_role = ce_role e, m_content = content\<rparr> else None)"

fun decode_entries :: "chat_raw list \<Rightarrow> exn + message list" where
  "decode_entries [] = Inr []"
| "decode_entries (Malformed # es) = Inl (ValueError ''json'')"
| "decode_entries (Entry e # es) = (case decode_entries es of Inl x \<Rightarrow> Inl x
     | Inr ms \<Rightarrow> Inr (case entry_message e of None \<Rightarrow> ms | Some m \<Rightarrow> m # ms))"

definition decode_history_entries :: "'s chat_store \<Rightarrow> string \<Rightarrow> 's \<Rightarrow> (message list, 's) outcome" where
  "decode_history_entries cs key = with_chat cs (\<lambda>R s.
     (case decode_entries (LRANGE R key 0 (- 1) s) of Inl x \<Rightarrow> Inl x
      | Inr history \<Rightarrow> Inr (py_suffix (max_history cs) history), s))"

definition latest_history_timestamp :: "'s chat_store \<Rightarrow> string \<Rightarrow> 's \<Rightarrow> (int, 's) outcome" where
  "latest_history_timestamp cs key = with_chat cs (\<lambda>R s.
     (Inr (let entries = LRANGE R key (- 1) (- 1) s in
        if entries = [] then 0 else case last entries of Malformed \<Rightarrow> 0 | Entry e \<Rightarrow> safe_int (ce_created_at e)), s))"

text \<open>``New chat'' in Russian.\<close>

definition NEW_CHAT_TITLE :: string where
  "NEW_CHAT_TITLE = cp1251 [205, 238, 226, 251, 233, 32, 247, 224, 242]"

fun build_thread_title :: "message list \<Rightarrow> string" where
  "build_thread_title [] = NEW_CHAT_TITLE"
| "build_thread_title (m # ms) =
     (if m_role m \<noteq> ''user'' then build_thread_title ms
      else let content = py_join '' '' (py_words (py_strip (m_content m))) in
        if content = [] then build_thread_title ms
        else if 48 < length content then take 48 content @ ''...'' else content)"

section \<open>The registry of threads\<close>

definition touch_thread_registry ::
  "'s chat_store \<Rightarrow> clock \<Rightarrow> string \<Rightarrow> string \<Rightarrow> int \<Rightarrow> 's \<Rightarrow> (unit, 's) outcome" where
  "touch_thread_registry cs c username thread_id updated_at = with_chat cs (\<lambda>R s.
     (Inr (), ZADD R (thread_registry_key username) (normalize_thread_id (Some thread_id))
        (if updated_at = 0 then now c else updated_at) s))"

definition remove_from_thread_registry ::
  "'s chat_store \<Rightarrow> string \<Rightarrow> string \<Rightarrow> 's \<Rightarrow> (unit, 's) outcome" where
  "remove_from_thread_registry cs username thread_id = with_chat cs (\<lambda>R s.
     (Inr (), ZREM R (thread_registry_key username) (normalize_thread_id (Some thread_id)) s))"

fun sync_registry_loop ::
  "'s chat_store \<Rightarrow> clock \<Rightarrow> string \<Rightarrow> string list \<Rightarrow> 's \<Rightarrow> (unit, 's) outcome" where
  "sync_registry_loop cs c username [] s = (Inr (), s)"
| "sync_registry_loop cs c username (key # ks) s =
     (case extract_thread_id_from_history_key username key of
        None \<Rightarrow> sync_registry_loop cs c username ks s
      | Some thread_id \<Rightarrow> obind (latest_history_timestamp cs key s) (\<lambda>timestamp s.
          if timestamp \<le> 0 then sync_registry_loop cs c username ks s
          else obind (touch_thread_registry cs c username thread_id timestamp s)
                 (\<lambda>_. sync_registry_loop cs c username ks)))"

definition sync_thread_registry_from_existing_buckets ::
  "'s chat_store \<Rightarrow> clock \<Rightarrow> string \<Rightarrow> 's \<Rightarrow> (unit, 's) outcome" where
  "sync_thread_registry_from_existing_buckets cs c username s =
     (case (cs_redis cs, cs_keys cs) of
        (Some R, Some KEYS) \<Rightarrow> sync_registry_loop cs c username (KEYS (history_key_prefix username @ ''*'') s) s
      | _ \<Rightarrow> (Inr (), s))"

definition migrate_legacy_default_history_if_needed ::
  "'s chat_store \<Rightarrow> clock \<Rightarrow> string \<Rightarrow> string \<Rightarrow> 's \<Rightarrow> (bool, 's) outcome" where
  "migrate_legacy_default_history_if_needed cs c username thread_key = with_chat cs (\<lambda>R s.
     if LRANGE R thread_key 0 (- 1) s \<noteq> [] then
       obind (latest_history_timestamp cs thread_key s) (\<lambda>ts s.
         obind (touch_thread_registry cs c username DEFAULT_CHAT_THREAD_ID ts s) (\<lambda>_ s. (Inr False, s)))
     else let legacy_key = legacy_history_key username;
              legacy_entries = LRANGE R legacy_key 0 (- 1) s in
       if legacy_entries = [] then (Inr False, s)
       else let s = DEL R legacy_key (LTRIM R thread_key (- max_history cs) (- 1)
                      (fold (RPUSH R thread_key) legacy_entries s)) in
         obind (latest_history_timestamp cs thread_key s) (\<lambda>ts s.
           obind (touch_thread_registry cs c username DEFAULT_CHAT_THREAD_ID ts s) (\<lambda>_ s. (Inr True, s))))"

section \<open>Operations\<close>

definition migrate_default ::
  "'s chat_store \<Rightarrow> clock \<Rightarrow> string \<Rightarrow> string \<Rightarrow> 's \<Rightarrow> (bool, 's) outcome" where
  "migrate_default cs c username tid s =
     (if tid = DEFAULT_CHAT_THREAD_ID
      then migrate_legacy_default_history_if_needed cs c username (history_key username (Some tid)) s
      else (Inr False, s))"

definition append_message ::
  "'s chat_store \<Rightarrow> clock \<Rightarrow> string \<Rightarrow> string \<Rightarrow> string \<Rightarrow> string option \<Rightarrow> 's \<Rightarrow> (unit, 's) outcome" where
  "append_message cs c username role content thread_id = with_chat cs (\<lambda>R s.
     let entry = \<lparr>ce_role = role, ce_content = Some content, ce_created_at = Some (MInt (now c))\<rparr>;
         tid = normalize_thread_id thread_id;
         key = history_key username (Some tid)
     in obind (migrate_default cs c username tid s) (\<lambda>_ s.
          touch_thread_registry cs c username tid (now c)
            (LTRIM R key (- max_history cs) (- 1) (RPUSH R key (Entry entry) s))))"

definition create_thread ::
  "'s chat_store \<Rightarrow> clock \<Rightarrow> string \<Rightarrow> string option \<Rightarrow> 's \<Rightarrow> (string, 's) outcome" where
  "create_thread cs c username thread_id = with_chat cs (\<lambda>R s.
     let tid = normalize_thread_id thread_id in
     obind (touch_thread_registry cs c username tid (now c) s) (\<lambda>_ s. (Inr tid, s)))"

definition get_history ::
  "'s chat_store \<Rightarrow> clock \<Rightarrow> string \<Rightarrow> string option \<Rightarrow> 's \<Rightarrow> (message list, 's) outcome" where
  "get_history cs c username thread_id = with_chat cs (\<lambda>R s.
     let tid = normalize_thread_id thread_id;
         key = history_key username (Some tid)
     in obind (migrate_default cs c username tid s) (\<lambda>_ s.
        obind (decode_history_entries cs key s) (\<lambda>history s.
          if history = [] then (Inr history, s)
          else obind (latest_history_timestamp cs key s) (\<lambda>ts s.
            obind (touch_thread_registry cs c username tid ts s) (\<lambda>_ s. (Inr history, s))))))"

definition clear_history ::
  "'s chat_store \<Rightarrow> clock \<Rightarrow> string \<Rightarrow> string option \<Rightarrow> bool \<Rightarrow> 's \<Rightarrow> (unit, 's) outcome" where
  "clear_history cs c username thread_id preserve_thread = with_chat cs (\<lambda>R s.
     let tid = normalize_thread_id thread_id;
         s = (if tid = DEFAULT_CHAT_THREAD_ID
              then DEL R (legacy_history_key username) (DEL R (history_key username (Some tid)) s)
              else DEL R (history_key username (Some tid)) s)
     in if preserve_thread then touch_thread_registry cs c username tid (now c) s
        else remove_from_thread_registry cs username tid s)"

fun list_threads_loop ::
  "'s chat_store \<Rightarrow> clock \<Rightarrow> string \<Rightarrow> (string \<times> int) list \<Rightarrow> 's \<Rightarrow> (thread_summary list, 's) outcome" where
  "list_threads_loop cs c username [] s = (Inr [], s)"
| "list_threads_loop cs c username ((thread_id, score) # ms) s =
     obind (get_history cs c username (Some thread_id) s) (\<lambda>history s.
       obind (list_threads_loop cs c username ms s) (\<lambda>threads s.
         (Inr (\<lparr>th_thread_id = thread_id, th_updated_at = score, th_title = build_thread_title history,
                th_message_count = len history\<rparr> # threads), s)))"

definition list_threads ::
  "'s chat_store \<Rightarrow> clock \<Rightarrow> string \<Rightarrow> 's \<Rightarrow> (thread_summary list, 's) outcome" where
  "list_threads cs c username = with_chat cs (\<lambda>R s.
     obind (migrate_legacy_default_history_if_needed cs c username
              (history_key username (Some DEFAULT_CHAT_THREAD_ID)) s) (\<lambda>_ s.
     obind (sync_thread_registry_from_existing_buckets cs c username s) (\<lambda>_ s.
       list_threads_loop cs c username (ZREVRANGE R (thread_registry_key username) s) s)))"

section \<open>The abstract store\<close>

text \<open>
  What the store promises: a map from a user and a thread to the last entries of the
  conversation. The default thread of a user who has not been migrated is the legacy list.
\<close>

type_synonym threads = "string \<times> string \<Rightarrow> chat_raw list"

definition bucket :: "string \<Rightarrow> string \<Rightarrow> string" where
  "bucket u t = ''chat:'' @ u @ '':'' @ t"

definition threads :: "int \<Rightarrow> chat_space \<Rightarrow> threads" where
  "threads n ks = (\<lambda>(u, t). py_suffix n
     (if t = DEFAULT_CHAT_THREAD_ID \<and> lists ks (bucket u t) = [] then lists ks (legacy_history_key u)
      else lists ks (bucket u t)))"

definition spec_append :: "int \<Rightarrow> string \<Rightarrow> string \<Rightarrow> chat_raw \<Rightarrow> threads \<Rightarrow> threads" where
  "spec_append n u t e A = A((u, t) := py_suffix n (A (u, t) @ [e]))"

definition spec_clear :: "string \<Rightarrow> string \<Rightarrow> threads \<Rightarrow> threads" where
  "spec_clear u t A = A((u, t) := [])"

text \<open>User names without a colon; the bound that the operations keep on every bucket.\<close>

definition plain_user :: "string \<Rightarrow> bool" where
  "plain_user u \<longleftrightarrow> CHR '':'' \<notin> set u"

definition bounded :: "int \<Rightarrow> chat_space \<Rightarrow> bool" where
  "bounded n ks \<longleftrightarrow> (\<forall>u t. plain_user u \<longrightarrow> len (lists ks (bucket u t)) \<le> n)"

lemma separator_split:
  "a @ c # x = b @ c # y \<Longrightarrow> c \<notin> set a \<Longrightarrow> c \<notin> set b \<Longrightarrow> a = b \<and> x = y"
proof (induction a arbitrary: b)
  case Nil
  then show ?case by (cases b) auto
next
  case (Cons d ds)
  then show ?case by (cases b) auto
qed

lemma bucket_eq: "plain_user u \<Longrightarrow> plain_user v \<Longrightarrow> bucket u t = bucket v r \<longleftrightarrow> u = v \<and> t = r"
  using separator_split [of u "CHR '':''" t v r] by (auto simp: bucket_def plain_user_def)

lemma bucket_legacy [simp]: "plain_user v \<Longrightarrow> bucket u t \<noteq> legacy_history_key v"
  by (auto simp: bucket_def legacy_history_key_def plain_user_def)

lemma legacy_bucket [simp]: "plain_user v \<Longrightarrow> legacy_history_key v \<noteq> bucket u t"
  using bucket_legacy by metis

lemma legacy_eq [simp]: "legacy_history_key u = legacy_history_key v \<longleftrightarrow> u = v"
  by (simp add: legacy_history_key_def)

lemma strip_default [simp]: "py_strip DEFAULT_CHAT_THREAD_ID = DEFAULT_CHAT_THREAD_ID"
  by (simp add: DEFAULT_CHAT_THREAD_ID_def py_strip_def py_lstrip_def py_rstrip_def py_isspace_def)

lemma normalize_default [simp]: "normalize_thread_id (Some DEFAULT_CHAT_THREAD_ID) = DEFAULT_CHAT_THREAD_ID"
  by (simp add: normalize_thread_id_def strip_opt_def Let_def)

lemma normalize_thread_id_idem [simp]:
  "normalize_thread_id (Some (normalize_thread_id t)) = normalize_thread_id t"
  by (simp add: normalize_thread_id_def strip_opt_def Let_def)

lemma history_key_bucket: "history_key u t = bucket u (normalize_thread_id t)"
  by (simp add: history_key_def bucket_def)

lemma py_suffix_suffix [simp]: "0 < n \<Longrightarrow> py_suffix n (py_suffix n xs) = py_suffix n xs"
  by (simp add: py_suffix_def)

lemma py_suffix_snoc [simp]: "0 < n \<Longrightarrow> py_suffix n (py_suffix n xs @ [x]) = py_suffix n (xs @ [x])"
  by (auto simp: py_suffix_def nat_less_iff Suc_diff_le split: nat_diff_split)

lemma py_suffix_short: "len xs \<le> n \<Longrightarrow> py_suffix n xs = xs"
  by (cases "n \<le> 0") (auto simp: py_suffix_def)

lemma py_suffix_empty [simp]: "0 < n \<Longrightarrow> py_suffix n xs = [] \<longleftrightarrow> xs = []" "py_suffix n [] = []"
  by (cases xs; simp add: py_suffix_def)+

lemma threads_cong: "lists ks' = lists ks \<Longrightarrow> threads n ks' = threads n ks"
  by (simp add: threads_def cong: if_cong)

lemma bounded_cong: "lists ks' = lists ks \<Longrightarrow> bounded n ks' = bounded n ks"
  by (simp add: bounded_def)

lemma decode_entries_length: "decode_entries es = Inr ms \<Longrightarrow> length ms \<le> length es"
  by (induction es arbitrary: ms rule: decode_entries.induct) (fastforce split: sum.splits option.splits)+

text \<open>Listing: the registry is read after the migration and the synchronisation.\<close>

definition listed :: "'s chat_store \<Rightarrow> clock \<Rightarrow> string \<Rightarrow> 's \<Rightarrow> 's" where
  "listed cs c u s = snd (sync_thread_registry_from_existing_buckets cs c u
     (snd (migrate_legacy_default_history_if_needed cs c u (bucket u DEFAULT_CHAT_THREAD_ID) s)))"

definition summary :: "(string \<Rightarrow> message list) \<Rightarrow> string \<times> int \<Rightarrow> thread_summary" where
  "summary msgs = (\<lambda>(t, score). \<lparr>th_thread_id = t, th_updated_at = score,
     th_title = build_thread_title (msgs (normalize_thread_id (Some t))),
     th_message_count = len (msgs (normalize_thread_id (Some t)))\<rparr>)"

section \<open>The operations refine the abstract store\<close>

locale connected_chat = redis_store R view
  for R :: "'s chat_redis" and view :: "'s \<Rightarrow> chat_space" +
  fixes cs :: "'s chat_store"
  assumes connected: "cs_redis cs = Some R" and history_positive: "0 < max_history cs"
begin

abbreviation abs_threads :: "'s \<Rightarrow> threads" where
  "abs_threads s \<equiv> threads (max_history cs) (view s)"

lemma with_chat_eq [simp]: "with_chat cs f s = f R s"
  by (simp add: with_chat_def connected)

text \<open>Stamping the registry leaves every list alone.\<close>

lemma touch_eq: "\<exists>s'. touch_thread_registry cs c u t ts s = (Inr (), s') \<and> lists (view s') = lists (view s)"
  by (simp add: touch_thread_registry_def zadd_law)

lemma stamp_eq:
  "\<exists>s'. obind (latest_history_timestamp cs k s) (\<lambda>ts s. obind (touch_thread_registry cs c u t ts s) f) = f () s'
     \<and> lists (view s') = lists (view s)"
proof -
  obtain ts where ts: "latest_history_timestamp cs k s = (Inr ts, s)" by (simp add: latest_history_timestamp_def)
  obtain s' where "touch_thread_registry cs c u t ts s = (Inr (), s')" "lists (view s') = lists (view s)"
    using touch_eq by blast
  with ts show ?thesis by auto
qed

lemma lists_fold_rpush [simp]:
  "lists (view (fold (RPUSH R k) es s)) = (lists (view s))(k := lists (view s) k @ es)"
  by (induction es arbitrary: s) (simp_all add: rpush_law fun_eq_iff)

text \<open>The migration moves the legacy list into an empty default thread.\<close>

lemma migrate_eq:
  assumes "plain_user u"
  shows "\<exists>b s'. migrate_legacy_default_history_if_needed cs c u (bucket u DEFAULT_CHAT_THREAD_ID) s = (Inr b, s')
    \<and> lists (view s') = (if lists (view s) (bucket u DEFAULT_CHAT_THREAD_ID) = []
        then (lists (view s))(bucket u DEFAULT_CHAT_THREAD_ID :=
               py_suffix (max_history cs) (lists (view s) (legacy_history_key u)), legacy_history_key u := [])
        else lists (view s))"
proof (cases "lists (view s) (bucket u DEFAULT_CHAT_THREAD_ID) = [] \<and> lists (view s) (legacy_history_key u) \<noteq> []")
  case True
  let ?k = "bucket u DEFAULT_CHAT_THREAD_ID" and ?l = "legacy_history_key u"
  define s1 where "s1 = DEL R ?l (LTRIM R ?k (- max_history cs) (- 1) (fold (RPUSH R ?k) (lists (view s) ?l) s))"
  have "lists (view s1) = (lists (view s))(?k := py_suffix (max_history cs) (lists (view s) ?l), ?l := [])"
    using True history_positive assms by (simp add: s1_def del_law ltrim_law redis_slice_suffix fun_eq_iff)
  with True stamp_eq [of ?k s1 c u DEFAULT_CHAT_THREAD_ID "\<lambda>_ s. (Inr True, s)"] show ?thesis
    by (auto simp: migrate_legacy_default_history_if_needed_def lrange_law s1_def [symmetric])
next
  case False
  with stamp_eq [of "bucket u DEFAULT_CHAT_THREAD_ID" s c u DEFAULT_CHAT_THREAD_ID "\<lambda>_ s. (Inr False, s)"] show ?thesis
    by (auto simp: migrate_legacy_default_history_if_needed_def lrange_law fun_eq_iff)
qed

text \<open>After the migration step of an operation, the bucket of the thread is its abstract value.\<close>

lemma migrate_default_eq:
  assumes "plain_user u"
  shows "\<exists>b s'. migrate_default cs c u (normalize_thread_id t) s = (Inr b, s')
    \<and> py_suffix (max_history cs) (lists (view s') (bucket u (normalize_thread_id t))) = abs_threads s (u, normalize_thread_id t)
    \<and> (\<forall>v r. plain_user v \<longrightarrow> abs_threads s' (v, r) = abs_threads s (v, r))
    \<and> (lists (view s') (legacy_history_key u) = [] \<or> normalize_thread_id t \<noteq> DEFAULT_CHAT_THREAD_ID
       \<or> lists (view s') (bucket u (normalize_thread_id t)) \<noteq> [])
    \<and> (bounded (max_history cs) (view s) \<longrightarrow> bounded (max_history cs) (view s'))"
proof (cases "normalize_thread_id t = DEFAULT_CHAT_THREAD_ID")
  case True
  obtain b s' where m: "migrate_legacy_default_history_if_needed cs c u (bucket u DEFAULT_CHAT_THREAD_ID) s = (Inr b, s')"
    and l: "lists (view s') = (if lists (view s) (bucket u DEFAULT_CHAT_THREAD_ID) = []
        then (lists (view s))(bucket u DEFAULT_CHAT_THREAD_ID :=
               py_suffix (max_history cs) (lists (view s) (legacy_history_key u)), legacy_history_key u := [])
        else lists (view s))"
    using migrate_eq [OF assms] by blast
  have "abs_threads s' (v, r) = abs_threads s (v, r)" if "plain_user v" for v r
    using that assms history_positive by (auto simp: threads_def l bucket_eq)
  moreover have "bounded (max_history cs) (view s) \<longrightarrow> bounded (max_history cs) (view s')"
    using length_py_suffix_le [OF history_positive] assms by (auto simp: bounded_def l bucket_eq)
  ultimately show ?thesis
    using True m history_positive assms by (auto simp: migrate_default_def history_key_bucket l threads_def)
next
  case False
  then show ?thesis by (auto simp: migrate_default_def threads_def)
qed

lemma threads_upd_bucket:
  assumes "plain_user u" "plain_user v" "es \<noteq> []"
    and "lists ks' = (lists ks)(bucket u t := es)"
  shows "threads n ks' (v, r) = ((threads n ks)((u, t) := py_suffix n es)) (v, r)"
  using assms by (auto simp: threads_def bucket_eq)

lemma append_refines:
  assumes "plain_user u" "plain_user v"
  shows "fst (append_message cs c u role content t s) = Inr ()
    \<and> abs_threads (snd (append_message cs c u role content t s)) (v, r)
       = spec_append (max_history cs) u (normalize_thread_id t)
           (Entry \<lparr>ce_role = role, ce_content = Some content, ce_created_at = Some (MInt (now c))\<rparr>) (abs_threads s) (v, r)
    \<and> (bounded (max_history cs) (view s) \<longrightarrow> bounded (max_history cs) (view (snd (append_message cs c u role content t s))))"
proof -
  let ?t = "normalize_thread_id t" and ?n = "max_history cs"
  let ?e = "Entry \<lparr>ce_role = role, ce_content = Some content, ce_created_at = Some (MInt (now c))\<rparr>"
  obtain b s1 where m: "migrate_default cs c u ?t s = (Inr b, s1)"
    and v: "py_suffix ?n (lists (view s1) (bucket u ?t)) = abs_threads s (u, ?t)"
    and same: "\<And>v r. plain_user v \<Longrightarrow> abs_threads s1 (v, r) = abs_threads s (v, r)"
    and bd: "bounded ?n (view s) \<Longrightarrow> bounded ?n (view s1)"
    using migrate_default_eq [OF assms(1), of c t s] by blast
  define s2 where "s2 = LTRIM R (bucket u ?t) (- ?n) (- 1) (RPUSH R (bucket u ?t) ?e s1)"
  have s2: "lists (view s2) = (lists (view s1))(bucket u ?t := py_suffix ?n (lists (view s1) (bucket u ?t) @ [?e]))"
    using history_positive by (simp add: s2_def ltrim_law rpush_law redis_slice_suffix)
  obtain s3 where s3: "touch_thread_registry cs c u ?t (now c) s2 = (Inr (), s3)" "lists (view s3) = lists (view s2)"
    using touch_eq by blast
  have eq: "append_message cs c u role content t s = (Inr (), s3)"
    using m s3 by (simp add: append_message_def history_key_bucket s2_def)
  have "abs_threads s3 (v, r) = ((abs_threads s1)((u, ?t) := py_suffix ?n (lists (view s1) (bucket u ?t) @ [?e]))) (v, r)"
    using threads_upd_bucket [OF assms, of "py_suffix ?n (lists (view s1) (bucket u ?t) @ [?e])" "view s3" "view s1" ?t ?n r]
      history_positive s3 s2 by simp
  then have "abs_threads s3 (v, r) = spec_append ?n u ?t ?e (abs_threads s) (v, r)"
    using same [OF assms(2)] history_positive by (auto simp: spec_append_def v [symmetric])
  moreover have "bounded ?n (view s) \<Longrightarrow> bounded ?n (view s3)"
    using bd length_py_suffix_le [OF history_positive] assms(1) by (auto simp: bounded_def s3 s2 bucket_eq)
  ultimately show ?thesis using eq by simp
qed

lemma get_refines:
  assumes "plain_user u" "plain_user v" "bounded (max_history cs) (view s)"
  shows "fst (get_history cs c u t s) = decode_entries (abs_threads s (u, normalize_thread_id t))
    \<and> abs_threads (snd (get_history cs c u t s)) (v, r) = abs_threads s (v, r)
    \<and> bounded (max_history cs) (view (snd (get_history cs c u t s)))"
proof -
  let ?t = "normalize_thread_id t" and ?n = "max_history cs"
  obtain b s1 where m: "migrate_default cs c u ?t s = (Inr b, s1)"
    and v: "py_suffix ?n (lists (view s1) (bucket u ?t)) = abs_threads s (u, ?t)"
    and same: "\<And>v r. plain_user v \<Longrightarrow> abs_threads s1 (v, r) = abs_threads s (v, r)"
    and bd: "bounded ?n (view s1)"
    using migrate_default_eq [OF assms(1), of c t s] assms(3) by blast
  have len: "len (lists (view s1) (bucket u ?t)) \<le> ?n" using bd assms(1) by (simp add: bounded_def)
  have dec: "decode_history_entries cs (bucket u ?t) s1 = (decode_entries (abs_threads s (u, ?t)), s1)"
    using len decode_entries_length [of "abs_threads s (u, ?t)"] v
    by (auto simp: decode_history_entries_def lrange_law py_suffix_short split: sum.split)
  have keep: "lists (view s') = lists (view s1) \<Longrightarrow> abs_threads s' (v, r) = abs_threads s (v, r) \<and> bounded ?n (view s')" for s'
    using same [OF assms(2), of r] bd threads_cong [of "view s'" "view s1"] bounded_cong [of "view s'" "view s1"] by simp
  have "\<exists>s'. get_history cs c u t s = (decode_entries (abs_threads s (u, ?t)), s') \<and> lists (view s') = lists (view s1)"
  proof (cases "decode_entries (abs_threads s (u, ?t))")
    case (Inl e)
    with m dec show ?thesis by (simp add: get_history_def history_key_bucket)
  next
    case (Inr ms)
    with m dec stamp_eq [of "bucket u ?t" s1 c u ?t "\<lambda>_ s. (Inr ms, s)"] show ?thesis
      by (auto simp: get_history_def history_key_bucket Let_def)
  qed
  with keep show ?thesis by force
qed

lemma clear_refines:
  assumes "plain_user u" "plain_user v"
  shows "fst (clear_history cs c u t preserve s) = Inr ()
    \<and> abs_threads (snd (clear_history cs c u t preserve s)) (v, r) = spec_clear u (normalize_thread_id t) (abs_threads s) (v, r)
    \<and> (bounded (max_history cs) (view s) \<longrightarrow> bounded (max_history cs) (view (snd (clear_history cs c u t preserve s))))"
proof -
  let ?t = "normalize_thread_id t" and ?n = "max_history cs"
  define s1 where "s1 = (if ?t = DEFAULT_CHAT_THREAD_ID
              then DEL R (legacy_history_key u) (DEL R (bucket u ?t) s) else DEL R (bucket u ?t) s)"
  have s1: "lists (view s1) = (if ?t = DEFAULT_CHAT_THREAD_ID
       then (lists (view s))(bucket u ?t := [], legacy_history_key u := []) else (lists (view s))(bucket u ?t := []))"
    by (simp add: s1_def del_law)
  have eq: "clear_history cs c u t preserve s = (if preserve then touch_thread_registry cs c u ?t (now c) s1
      else remove_from_thread_registry cs u ?t s1)"
    by (simp add: clear_history_def history_key_bucket s1_def Let_def)
  have "fst (clear_history cs c u t preserve s) = Inr () \<and> lists (view (snd (clear_history cs c u t preserve s))) = lists (view s1)"
    using touch_eq [of c u ?t "now c" s1] unfolding eq
    by (auto simp: remove_from_thread_registry_def zrem_law)
  moreover have "abs_threads s1 (v, r) = spec_clear u ?t (abs_threads s) (v, r)"
    using assms by (auto simp: threads_def s1 spec_clear_def bucket_eq)
  moreover have "bounded ?n (view s) \<Longrightarrow> bounded ?n (view s1)"
    using history_positive assms(1) by (auto simp: bounded_def s1)
  ultimately show ?thesis
    using threads_cong [of "view (snd (clear_history cs c u t preserve s))" "view s1"]
      bounded_cong [of "view (snd (clear_history cs c u t preserve s))" "view s1"] by simp
qed

lemma create_frame:
  "fst (create_thread cs c u t s) = Inr (normalize_thread_id t) \<and> lists (view (snd (create_thread cs c u t s))) = lists (view s)"
  using touch_eq [of c u "normalize_thread_id t" "now c" s] by (auto simp: create_thread_def)

lemma sync_loop_eq:
  "\<exists>s'. sync_registry_loop cs c u ks s = (Inr (), s') \<and> lists (view s') = lists (view s)"
proof (induction ks arbitrary: s)
  case Nil
  show ?case by simp
next
  case (Cons k ks)
  obtain ts where ts: "latest_history_timestamp cs k s = (Inr ts, s)" by (simp add: latest_history_timestamp_def)
  show ?case
  proof (cases "extract_thread_id_from_history_key u k")
    case None
    with Cons show ?thesis by simp
  next
    case (Some t)
    obtain s1 where s1: "touch_thread_registry cs c u t ts s = (Inr (), s1)" "lists (view s1) = lists (view s)"
      using touch_eq by blast
    with Some ts Cons [of s] Cons [of s1] show ?thesis by auto
  qed
qed

lemma sync_eq:
  "\<exists>s'. sync_thread_registry_from_existing_buckets cs c u s = (Inr (), s') \<and> lists (view s') = lists (view s)"
  using sync_loop_eq
  by (auto simp: sync_thread_registry_from_existing_buckets_def connected split: option.split)

lemma list_loop_eq:
  assumes u: "plain_user u" and "bounded (max_history cs) (view s)"
    and "\<And>t. decode_entries (abs_threads s (u, t)) = Inr (msgs t)"
  shows "\<exists>s'. list_threads_loop cs c u ms s = (Inr (map (summary msgs) ms), s')
    \<and> bounded (max_history cs) (view s') \<and> (\<forall>v r. plain_user v \<longrightarrow> abs_threads s' (v, r) = abs_threads s (v, r))"
  using assms(2, 3)
proof (induction ms arbitrary: s)
  case Nil
  then show ?case by simp
next
  case (Cons m ms)
  obtain t score where m: "m = (t, score)" by (cases m)
  obtain s1 where g: "get_history cs c u (Some t) s = (Inr (msgs (normalize_thread_id (Some t))), s1)"
    and b1: "bounded (max_history cs) (view s1)"
    and same: "\<And>v r. plain_user v \<Longrightarrow> abs_threads s1 (v, r) = abs_threads s (v, r)"
    using get_refines [OF u _ Cons.prems(1), of _ c "Some t"] get_refines [OF u u Cons.prems(1), of c "Some t"] Cons.prems(2)
    by (metis prod.collapse)
  have "\<And>t. decode_entries (abs_threads s1 (u, t)) = Inr (msgs t)" using same [OF u] Cons.prems(2) by simp
  from Cons.IH [OF b1 this] g same show ?case by (auto simp: m summary_def)
qed

lemma list_threads_eq:
  assumes u: "plain_user u" and b: "bounded (max_history cs) (view s)"
    and dec: "\<And>t. decode_entries (abs_threads s (u, t)) = Inr (msgs t)"
  shows "fst (list_threads cs c u s)
      = Inr (map (summary msgs) (rev (zsets (view (listed cs c u s)) (thread_registry_key u))))
    \<and> bounded (max_history cs) (view (snd (list_threads cs c u s)))
    \<and> (\<forall>v r. plain_user v \<longrightarrow> abs_threads (snd (list_threads cs c u s)) (v, r) = abs_threads s (v, r))"
proof -
  obtain b' s1 where d: "migrate_default cs c u (normalize_thread_id (Some DEFAULT_CHAT_THREAD_ID)) s = (Inr b', s1)"
    and same: "\<And>v r. plain_user v \<Longrightarrow> abs_threads s1 (v, r) = abs_threads s (v, r)"
    and b1: "bounded (max_history cs) (view s1)"
    using migrate_default_eq [OF u, of c "Some DEFAULT_CHAT_THREAD_ID" s] b by blast
  then have m: "migrate_legacy_default_history_if_needed cs c u (bucket u DEFAULT_CHAT_THREAD_ID) s = (Inr b', s1)"
    by (simp add: migrate_default_def history_key_bucket)
  obtain s2 where s2: "sync_thread_registry_from_existing_buckets cs c u s1 = (Inr (), s2)" "lists (view s2) = lists (view s1)"
    using sync_eq by blast
  have abs2: "abs_threads s2 = abs_threads s1" and b2: "bounded (max_history cs) (view s2)"
    using s2(2) b1 threads_cong bounded_cong by metis+
  have dec2: "\<And>t. decode_entries (abs_threads s2 (u, t)) = Inr (msgs t)" using dec same [OF u] abs2 by simp
  have "listed cs c u s = s2" using m s2 by (simp add: listed_def)
  moreover from list_loop_eq [OF u b2 dec2, of c "rev (zsets (view s2) (thread_registry_key u))"]
  obtain s3 where "list_threads_loop cs c u (rev (zsets (view s2) (thread_registry_key u))) s2
      = (Inr (map (summary msgs) (rev (zsets (view s2) (thread_registry_key u)))), s3)"
    "bounded (max_history cs) (view s3)" "\<forall>v r. plain_user v \<longrightarrow> abs_threads s3 (v, r) = abs_threads s2 (v, r)" by blast
  ultimately show ?thesis using m s2 same abs2
    by (simp add: list_threads_def history_key_bucket zrevrange_law)
qed

end

definition mem_chat :: "chat_space chat_store" where
  "mem_chat = \<lparr>cs_redis = Some mem_redis, cs_keys = None, max_history = 100\<rparr>"

interpretation memc: connected_chat mem_redis "\<lambda>s. s" mem_chat
  by unfold_locales (simp_all add: mem_chat_def)

section \<open>Properties\<close>

text \<open>
  C27: the chat store refines a map from users and threads to message lists. Appending adds
  the message at the end and keeps the last \<open>max_history\<close> entries of that thread; reading
  returns exactly the stored messages and changes nothing; clearing empties the thread;
  creating one changes none. Every other thread, of any user, is untouched, and the bound
  on the stored lists is kept. The migration of the legacy layout is invisible. User names
  have no colon and the thread is not the one whose key is the registry's.
\<close>

theorem chat_store_refines:
  assumes chat: "connected_chat R view cs" and users: "plain_user u" "plain_user v"
    and thread: "normalize_thread_id t \<noteq> ''threads''" and inv: "bounded (max_history cs) (view s)"
  defines "n \<equiv> max_history cs" and "A \<equiv> threads (max_history cs) (view s)" and "tid \<equiv> normalize_thread_id t"
  shows "fst (append_message cs c u role content t s) = Inr ()
    \<and> threads n (view (snd (append_message cs c u role content t s))) (v, r) = spec_append n u tid
         (Entry \<lparr>ce_role = role, ce_content = Some content, ce_created_at = Some (MInt (now c))\<rparr>) A (v, r)
    \<and> fst (get_history cs c u t s) = decode_entries (A (u, tid))
    \<and> threads n (view (snd (get_history cs c u t s))) (v, r) = A (v, r)
    \<and> fst (clear_history cs c u t preserve s) = Inr ()
    \<and> threads n (view (snd (clear_history cs c u t preserve s))) (v, r) = spec_clear u tid A (v, r)
    \<and> threads n (view (snd (create_thread cs c u t s))) (v, r) = A (v, r)
    \<and> bounded n (view (snd (append_message cs c u role content t s)))
    \<and> bounded n (view (snd (get_history cs c u t s)))
    \<and> bounded n (view (snd (clear_history cs c u t preserve s)))"
  using connected_chat.append_refines [OF chat users] connected_chat.get_refines [OF chat users inv]
    connected_chat.clear_refines [OF chat users] connected_chat.create_frame [OF chat, of c u t s] inv
    threads_cong [of "view (snd (create_thread cs c u t s))" "view s"]
  unfolding n_def A_def tid_def by simp

lemma empty_threads: "threads 100 (empty_keyspace :: chat_space) = (\<lambda>_. [])"
  by (auto simp: threads_def empty_keyspace_def fun_eq_iff)

theorem chat_store_refines_witness:
  "threads 100 (snd (append_message mem_chat \<lparr>now = 5, now_ms = 5000\<rparr> ''ann'' ''user'' ''hi'' None empty_keyspace)) (''ann'', ''default'')
   = [Entry \<lparr>ce_role = ''user'', ce_content = Some ''hi'', ce_created_at = Some (MInt 5)\<rparr>]"
proof -
  have "normalize_thread_id None \<noteq> ''threads''" "normalize_thread_id None = ''default''"
    by (simp_all add: normalize_thread_id_def DEFAULT_CHAT_THREAD_ID_def)
  then show ?thesis
    using chat_store_refines [OF memc.connected_chat_axioms, of "''ann''" "''ann''" None empty_keyspace "\<lparr>now = 5, now_ms = 5000\<rparr>"
        "''user''" "''hi''" "''default''"] empty_threads
    by (simp add: plain_user_def bounded_def empty_keyspace_def mem_chat_def spec_append_def py_suffix_def)
qed

text \<open>
  The thread list. Listing returns one summary per registered thread, most recent
  first, with the title and the number of messages of the thread's stored conversation,
  and leaves every conversation as it was, migration and registry synchronisation
  included.
\<close>

theorem list_threads_faithful:
  assumes chat: "connected_chat R view cs" and "plain_user u" "plain_user v" "bounded (max_history cs) (view s)"
    and "\<And>t. decode_entries (threads (max_history cs) (view s) (u, t)) = Inr (msgs t)"
  shows "fst (list_threads cs c u s)
      = Inr (map (summary msgs) (rev (zsets (view (listed cs c u s)) (thread_registry_key u))))
    \<and> threads (max_history cs) (view (snd (list_threads cs c u s))) (v, r) = threads (max_history cs) (view s) (v, r)"
  using connected_chat.list_threads_eq [OF chat assms(2, 4, 5)] assms(3) by simp

definition listed_space :: chat_space where
  "listed_space = empty_keyspace\<lparr>zsets := (\<lambda>_. [(''a'', 1), (''b'', 2)]),
     lists := (\<lambda>k. if k = ''chat:ann:b'' then [Entry \<lparr>ce_role = ''user'', ce_content = Some ''hi'', ce_created_at = None\<rparr>] else [])\<rparr>"

theorem list_threads_faithful_witness:
  "fst (list_threads mem_chat \<lparr>now = 5, now_ms = 5000\<rparr> ''ann'' listed_space)
   = Inr [\<lparr>th_thread_id = ''b'', th_updated_at = 2, th_title = ''hi'', th_message_count = 1\<rparr>,
          \<lparr>th_thread_id = ''a'', th_updated_at = 1, th_title = NEW_CHAT_TITLE, th_message_count = 0\<rparr>]"
proof -
  let ?msgs = "\<lambda>t. if t = ''b'' then [\<lparr>m_role = ''user'', m_content = ''hi''\<rparr>] else []"
  have dec: "decode_entries (threads (max_history mem_chat) listed_space (''ann'', t)) = Inr (?msgs t)" for t
    by (auto simp: threads_def listed_space_def mem_chat_def bucket_def legacy_history_key_def py_suffix_def entry_message_def
        DEFAULT_CHAT_THREAD_ID_def)
  have "plain_user ''ann''" "bounded (max_history mem_chat) listed_space"
    by (simp_all add: plain_user_def bounded_def listed_space_def mem_chat_def)
  from list_threads_faithful [OF memc.connected_chat_axioms this(1) this(1) this(2) dec, of "\<lparr>now = 5, now_ms = 5000\<rparr>"]
  show ?thesis
    by (simp add: listed_def migrate_legacy_default_history_if_needed_def sync_thread_registry_from_existing_buckets_def
        mem_chat_def with_chat_def mem_redis_def listed_space_def empty_keyspace_def bucket_def legacy_history_key_def
        DEFAULT_CHAT_THREAD_ID_def summary_def normalize_thread_id_def strip_opt_def py_strip_def py_lstrip_def
        py_rstrip_def py_isspace_def py_words_def py_split_by.simps)
qed

end
