(* ===== verification/Sql_Store.thy ===== *)
theory Sql_Store
  imports Prelude "HOL-Library.Multiset"
begin

text \<open>
  The interface to the relational database behind \<open>persistence/\<close>. SQLAlchemy and the
  database are outside the repository, so a session is a parameter: a record of the
  statements that \<open>conversation_store.py\<close> issues, over an abstract state. The locale
  \<open>sql_store\<close> states their documented behaviour through a view of the state as the two
  tables of \<open>conversation_models.py\<close>. The statements of one session act on a
  private copy that \<open>commit\<close> publishes: an operation that raises, or returns without a
  commit, leaves the state it was given. \<open>mem_sql\<close> is an in-memory database.
\<close>

section \<open>Tables\<close>

record thread_row =
  tr_id :: int
  tr_username :: string
  tr_thread_id :: string
  tr_created_at :: int
  tr_updated_at :: int

record message_row =
  mr_id :: int
  mr_thread_pk :: int
  mr_message_index :: int
  mr_role :: string
  mr_content :: string
  mr_created_at :: int

record tables =
  thread_rows :: "thread_row list"
  message_rows :: "message_row list"
  db_now :: int

text \<open>\<open>ORDER BY message_index, id\<close> over the rows of one thread.\<close>

definition row_key :: "message_row \<Rightarrow> int \<times> int" where
  "row_key r = (mr_message_index r, mr_id r)"

definition msgs_of :: "tables \<Rightarrow> int \<Rightarrow> message_row list" where
  "msgs_of tb pk = sort_key row_key (filter (\<lambda>r. mr_thread_pk r = pk) (message_rows tb))"

definition touch_row :: "int \<Rightarrow> int \<Rightarrow> thread_row \<Rightarrow> thread_row" where
  "touch_row t pk r = (if tr_id r = pk then r\<lparr>tr_updated_at := t\<rparr> else r)"

section \<open>Statements\<close>

record 's sql =
  THREADS :: "'s \<Rightarrow> thread_row list"
  MESSAGES :: "int \<Rightarrow> 's \<Rightarrow> message_row list"
  ADD_THREAD :: "string \<Rightarrow> string \<Rightarrow> 's \<Rightarrow> int \<times> 's"
  ADD_MESSAGE :: "int \<Rightarrow> int \<Rightarrow> string \<Rightarrow> string \<Rightarrow> 's \<Rightarrow> message_row \<times> 's"
  DELETE_MESSAGE :: "int \<Rightarrow> 's \<Rightarrow> 's"
  DELETE_THREAD :: "int \<Rightarrow> 's \<Rightarrow> 's"
  TOUCH_THREAD :: "int \<Rightarrow> 's \<Rightarrow> 's"

text \<open>
  Inserts draw a primary key that no row has; deleting a thread deletes its messages, by
  the cascade of the relationship and of the foreign key.
\<close>

locale sql_store =
  fixes D :: "'s sql" and view :: "'s \<Rightarrow> tables"
  assumes threads_law: "THREADS D s = thread_rows (view s)"
    and messages_law: "MESSAGES D pk s = msgs_of (view s) pk"
    and thread_key_law: "fst (ADD_THREAD D u t s) \<notin> tr_id ` set (thread_rows (view s))"
    and add_thread_law: "view (snd (ADD_THREAD D u t s)) = (view s)\<lparr>thread_rows := thread_rows (view s) @
      [\<lparr>tr_id = fst (ADD_THREAD D u t s), tr_username = u, tr_thread_id = t,
        tr_created_at = db_now (view s), tr_updated_at = db_now (view s)\<rparr>]\<rparr>"
    and message_key_law: "mr_id (fst (ADD_MESSAGE D pk i role content s)) \<notin> mr_id ` set (message_rows (view s))"
    and message_row_law: "fst (ADD_MESSAGE D pk i role content s) =
      \<lparr>mr_id = mr_id (fst (ADD_MESSAGE D pk i role content s)), mr_thread_pk = pk, mr_message_index = i,
       mr_role = role, mr_content = content, mr_created_at = db_now (view s)\<rparr>"
    and add_message_law: "view (snd (ADD_MESSAGE D pk i role content s)) =
      (view s)\<lparr>message_rows := message_rows (view s) @ [fst (ADD_MESSAGE D pk i role content s)]\<rparr>"
    and delete_message_law: "view (DELETE_MESSAGE D i s) =
      (view s)\<lparr>message_rows := filter (\<lambda>r. mr_id r \<noteq> i) (message_rows (view s))\<rparr>"
    and delete_thread_law: "view (DELETE_THREAD D pk s) =
      (view s)\<lparr>thread_rows := filter (\<lambda>r. tr_id r \<noteq> pk) (thread_rows (view s)),
        message_rows := filter (\<lambda>r. mr_thread_pk r \<noteq> pk) (message_rows (view s))\<rparr>"
    and touch_law: "view (TOUCH_THREAD D pk s) =
      (view s)\<lparr>thread_rows := map (touch_row (db_now (view s)) pk) (thread_rows (view s))\<rparr>"
begin

lemmas sql_laws = threads_law messages_law add_thread_law add_message_law delete_message_law
  delete_thread_law touch_law

end

section \<open>An in-memory database\<close>

definition fresh_id :: "int list \<Rightarrow> int" where
  "fresh_id ks = fold max ks 0 + 1"

definition mem_sql :: "tables sql" where
  "mem_sql = \<lparr>
     THREADS = thread_rows,
     MESSAGES = (\<lambda>pk s. msgs_of s pk),
     ADD_THREAD = (\<lambda>u t s. let pk = fresh_id (map tr_id (thread_rows s)) in
       (pk, s\<lparr>thread_rows := thread_rows s @ [\<lparr>tr_id = pk, tr_username = u, tr_thread_id = t,
          tr_created_at = db_now s, tr_updated_at = db_now s\<rparr>]\<rparr>)),
     ADD_MESSAGE = (\<lambda>pk i role content s. let row = \<lparr>mr_id = fresh_id (map mr_id (message_rows s)),
           mr_thread_pk = pk, mr_message_index = i, mr_role = role, mr_content = content, mr_created_at = db_now s\<rparr>
       in (row, s\<lparr>message_rows := message_rows s @ [row]\<rparr>)),
     DELETE_MESSAGE = (\<lambda>i s. s\<lparr>message_rows := filter (\<lambda>r. mr_id r \<noteq> i) (message_rows s)\<rparr>),
     DELETE_THREAD = (\<lambda>pk s. s\<lparr>thread_rows := filter (\<lambda>r. tr_id r \<noteq> pk) (thread_rows s),
        message_rows := filter (\<lambda>r. mr_thread_pk r \<noteq> pk) (message_rows s)\<rparr>),
     TOUCH_THREAD = (\<lambda>pk s. s\<lparr>thread_rows := map (touch_row (db_now s) pk) (thread_rows s)\<rparr>)\<rparr>"

definition empty_tables :: tables where
  "empty_tables = \<lparr>thread_rows = [], message_rows = [], db_now = 0\<rparr>"

lemma fold_max_ge: "k \<in> insert a (set ks) \<Longrightarrow> k \<le> fold max ks (a :: int)"
proof (induction ks arbitrary: a k)
  case Nil
  then show ?case by simp
next
  case (Cons x xs)
  have "max x a \<le> fold max xs (max x a)" by (rule Cons.IH) simp
  with Cons.prems Cons.IH [of k "max x a"] show ?case by auto
qed

lemma fresh_id_notin: "fresh_id ks \<notin> set ks"
  using fold_max_ge [of "fresh_id ks" 0 ks] by (auto simp: fresh_id_def)

interpretation memq: sql_store mem_sql "\<lambda>s. s"
proof unfold_locales
  fix u t s
  show "fst (ADD_THREAD mem_sql u t s) \<notin> tr_id ` set (thread_rows s)"
    using fresh_id_notin [of "map tr_id (thread_rows s)"] by (simp add: mem_sql_def Let_def)
next
  fix pk i role content s
  show "mr_id (fst (ADD_MESSAGE mem_sql pk i role content s)) \<notin> mr_id ` set (message_rows s)"
    using fresh_id_notin [of "map mr_id (message_rows s)"] by (simp add: mem_sql_def Let_def)
qed (simp_all add: mem_sql_def Let_def)

end
