(* ===== verification/Conversation_Db.thy ===== *)
theory Conversation_Db
  imports Sql_Store
begin

text \<open>
  The relational conversation store (\<open>persistence/conversation_store.py\<close>, class
  \<open>ConversationStore\<close>) over the interface \<open>sql_store\<close>: threads unique per user and thread id,
  messages numbered from zero in each thread. A method opens one session; what it returns
  are copies of rows. Texts are taken to fit into their columns (the limits of
  \<open>conversation_models.py\<close> are not modelled). The refinement at the end relates the methods to a map from a user
  and a thread to the list of its messages.
\<close>

section \<open>Helpers of the store\<close>

definition require_non_empty :: "string \<Rightarrow> string \<Rightarrow> exn + string" where
  "require_non_empty value field_name = (let normalized = py_strip value in
     if normalized = [] then Inl (ValueError (field_name @ '' must not be empty'')) else Inr normalized)"

definition find_thread :: "'s sql \<Rightarrow> string \<Rightarrow> string \<Rightarrow> 's \<Rightarrow> thread_row option" where
  "find_thread D username thread_id s = (if username = [] \<or> thread_id = [] then None
     else find (\<lambda>r. tr_username r = username \<and> tr_thread_id r = thread_id) (THREADS D s))"

text \<open>A snapshot message is a role and a content; the source also accepts mappings with these keys.\<close>

type_synonym snapshot = "(string \<times> string) list"

fun normalize_snapshot_messages :: "snapshot \<Rightarrow> exn + snapshot" where
  "normalize_snapshot_messages [] = Inr []"
| "normalize_snapshot_messages ((role, content) # ms) =
     (case require_non_empty role ''role'' of Inl e \<Rightarrow> Inl e
      | Inr role \<Rightarrow> (case require_non_empty content ''content'' of Inl e \<Rightarrow> Inl e
      | Inr content \<Rightarrow> (case normalize_snapshot_messages ms of Inl e \<Rightarrow> Inl e
      | Inr rest \<Rightarrow> Inr ((role, content) # rest))))"

definition snapshot_matches_rows :: "snapshot \<Rightarrow> message_row list \<Rightarrow> bool" where
  "snapshot_matches_rows snapshot rows \<longleftrightarrow> length snapshot = length rows
     \<and> list_all (\<lambda>(item, row). fst item = mr_role row \<and> snd item = mr_content row) (zip snapshot rows)"

fun add_messages :: "'s sql \<Rightarrow> int \<Rightarrow> int \<Rightarrow> snapshot \<Rightarrow> 's \<Rightarrow> 's" where
  "add_messages D pk index [] s = s"
| "add_messages D pk index ((role, content) # ms) s =
     add_messages D pk (index + 1) ms (snd (ADD_MESSAGE D pk index role content s))"

definition delete_rows :: "'s sql \<Rightarrow> message_row list \<Rightarrow> 's \<Rightarrow> 's" where
  "delete_rows D rows s = fold (\<lambda>r. DELETE_MESSAGE D (mr_id r)) rows s"

definition replace_messages :: "'s sql \<Rightarrow> int \<Rightarrow> snapshot \<Rightarrow> 's \<Rightarrow> 's" where
  "replace_messages D pk snapshot s =
     TOUCH_THREAD D pk (add_messages D pk 0 snapshot (delete_rows D (MESSAGES D pk s) s))"

text \<open>The thread of a session: found, or added and flushed.\<close>

definition session_thread :: "'s sql \<Rightarrow> string \<Rightarrow> string \<Rightarrow> 's \<Rightarrow> int \<times> 's" where
  "session_thread D username thread_id s = (case find_thread D username thread_id s of
     Some r \<Rightarrow> (tr_id r, s) | None \<Rightarrow> ADD_THREAD D username thread_id s)"

section \<open>Methods\<close>

text \<open>
  \<open>conflict\<close> is the state in which the commit found the unique key taken, where
  another session was faster.
\<close>

definition create_or_get_thread ::
  "'s sql \<Rightarrow> 's option \<Rightarrow> string \<Rightarrow> string \<Rightarrow> 's \<Rightarrow> (thread_row, 's) outcome" where
  "create_or_get_thread D conflict username thread_id s = (let u = py_strip username; t = py_strip thread_id in
     if u = [] then (Inl (ValueError ''username must not be empty''), s)
     else if t = [] then (Inl (ValueError ''thread_id must not be empty''), s)
     else case find_thread D u t s of Some r \<Rightarrow> (Inr r, s)
     | None \<Rightarrow> (case conflict of
         Some s' \<Rightarrow> (case find_thread D u t s' of Some r \<Rightarrow> (Inr r, s')
                    | None \<Rightarrow> (Inl (RuntimeError ''IntegrityError''), s'))
       | None \<Rightarrow> (let s' = snd (ADD_THREAD D u t s) in
           case find_thread D u t s' of Some r \<Rightarrow> (Inr r, s') | None \<Rightarrow> (Inl (RuntimeError ''InvalidRequestError''), s'))))"

definition get_thread :: "'s sql \<Rightarrow> string \<Rightarrow> string \<Rightarrow> 's \<Rightarrow> thread_row option" where
  "get_thread D username thread_id s = find_thread D (py_strip username) (py_strip thread_id) s"

definition list_threads_db :: "'s sql \<Rightarrow> string \<Rightarrow> 's \<Rightarrow> exn + thread_row list" where
  "list_threads_db D username s = (let u = py_strip username in
     if u = [] then Inl (ValueError ''username must not be empty'')
     else Inr (rev (sort_key (\<lambda>r. (tr_updated_at r, tr_id r)) (filter (\<lambda>r. tr_username r = u) (THREADS D s)))))"

definition append_message_db ::
  "'s sql \<Rightarrow> string \<Rightarrow> string \<Rightarrow> string \<Rightarrow> string \<Rightarrow> 's \<Rightarrow> (message_row, 's) outcome" where
  "append_message_db D username thread_id role content s =
     (let u = py_strip username; t = py_strip thread_id; r = py_strip role in
      if u = [] then (Inl (ValueError ''username must not be empty''), s)
      else if t = [] then (Inl (ValueError ''thread_id must not be empty''), s)
      else if r = [] then (Inl (ValueError ''role must not be empty''), s)
      else if content = [] then (Inl (ValueError ''content must not be empty''), s)
      else case session_thread D u t s of (pk, s) \<Rightarrow>
        let max_index = (case map mr_message_index (MESSAGES D pk s) of [] \<Rightarrow> - 1 | i # is \<Rightarrow> fold max is i);
            res = ADD_MESSAGE D pk (max_index + 1) r content s
        in (Inr (fst res), TOUCH_THREAD D pk (snd res)))"

definition get_messages :: "'s sql \<Rightarrow> string \<Rightarrow> string \<Rightarrow> 's \<Rightarrow> message_row list" where
  "get_messages D username thread_id s = (case find_thread D (py_strip username) (py_strip thread_id) s of
     None \<Rightarrow> [] | Some r \<Rightarrow> MESSAGES D (tr_id r) s)"

definition delete_thread_messages :: "'s sql \<Rightarrow> string \<Rightarrow> string \<Rightarrow> 's \<Rightarrow> int \<times> 's" where
  "delete_thread_messages D username thread_id s =
     (case find_thread D (py_strip username) (py_strip thread_id) s of None \<Rightarrow> (0, s)
      | Some r \<Rightarrow> (let rows = MESSAGES D (tr_id r) s in
          (int (length rows), TOUCH_THREAD D (tr_id r) (delete_rows D rows s))))"

definition delete_thread :: "'s sql \<Rightarrow> string \<Rightarrow> string \<Rightarrow> 's \<Rightarrow> (int, 's) outcome" where
  "delete_thread D username thread_id s = (let u = py_strip username; t = py_strip thread_id in
     if u = [] then (Inl (ValueError ''username must not be empty''), s)
     else if t = [] then (Inl (ValueError ''thread_id must not be empty''), s)
     else case find_thread D u t s of None \<Rightarrow> (Inr 0, s)
       | Some r \<Rightarrow> (Inr 1, DELETE_THREAD D (tr_id r) s))"

text \<open>The checks that both snapshot methods start with.\<close>

definition snapshot_arguments ::
  "string \<Rightarrow> string \<Rightarrow> snapshot \<Rightarrow> exn + (string \<times> string \<times> snapshot)" where
  "snapshot_arguments username thread_id messages =
     (case require_non_empty username ''username'' of Inl e \<Rightarrow> Inl e
      | Inr u \<Rightarrow> (case require_non_empty thread_id ''thread_id'' of Inl e \<Rightarrow> Inl e
      | Inr t \<Rightarrow> (case normalize_snapshot_messages messages of Inl e \<Rightarrow> Inl e
      | Inr snapshot \<Rightarrow> Inr (u, t, snapshot))))"

text \<open>A snapshot that is already stored is returned without a commit.\<close>

definition import_thread_snapshot ::
  "'s sql \<Rightarrow> string \<Rightarrow> string \<Rightarrow> snapshot \<Rightarrow> 's \<Rightarrow> (message_row list, 's) outcome" where
  "import_thread_snapshot D username thread_id messages s =
     (case snapshot_arguments username thread_id messages of Inl e \<Rightarrow> (Inl e, s)
      | Inr (u, t, snapshot) \<Rightarrow>
          (case session_thread D u t s of (pk, s1) \<Rightarrow>
             if snapshot_matches_rows snapshot (MESSAGES D pk s1) then (Inr (MESSAGES D pk s1), s)
             else let s2 = replace_messages D pk snapshot s1 in (Inr (MESSAGES D pk s2), s2)))"

definition replace_thread_snapshot_db ::
  "'s sql \<Rightarrow> string \<Rightarrow> string \<Rightarrow> snapshot \<Rightarrow> 's \<Rightarrow> (message_row list, 's) outcome" where
  "replace_thread_snapshot_db D username thread_id messages s =
     (case snapshot_arguments username thread_id messages of Inl e \<Rightarrow> (Inl e, s)
      | Inr (u, t, snapshot) \<Rightarrow>
          (case session_thread D u t s of (pk, s1) \<Rightarrow>
             let s2 = replace_messages D pk snapshot s1 in (Inr (MESSAGES D pk s2), s2)))"

section \<open>Lemmas on tables\<close>

text \<open>
  What the store promises: a map from a user and a thread id to the messages. Well-formed
  tables have distinct keys, no message without its thread, and the messages of every
  thread numbered from zero without a gap.
\<close>

type_synonym conversations = "string \<times> string \<Rightarrow> snapshot option"

definition row_sigs :: "tables \<Rightarrow> (int \<times> string \<times> string) list" where
  "row_sigs tb = map (\<lambda>r. (tr_id r, tr_username r, tr_thread_id r)) (thread_rows tb)"

definition pk_of :: "tables \<Rightarrow> string \<Rightarrow> string \<Rightarrow> int option" where
  "pk_of tb u t = map_option fst (find (\<lambda>(i, u', t'). u' = u \<and> t' = t) (row_sigs tb))"

definition contents :: "tables \<Rightarrow> int \<Rightarrow> snapshot" where
  "contents tb pk = map (\<lambda>m. (mr_role m, mr_content m)) (msgs_of tb pk)"

definition conv :: "tables \<Rightarrow> conversations" where
  "conv tb = (\<lambda>(u, t). map_option (contents tb) (pk_of tb u t))"

definition wf_tables :: "tables \<Rightarrow> bool" where
  "wf_tables tb \<longleftrightarrow> distinct (map fst (row_sigs tb)) \<and> distinct (map snd (row_sigs tb))
     \<and> distinct (map mr_id (message_rows tb))
     \<and> (\<forall>m \<in> set (message_rows tb). mr_thread_pk m \<in> fst ` set (row_sigs tb))
     \<and> (\<forall>pk. map mr_message_index (msgs_of tb pk) = [0..int (length (msgs_of tb pk)) - 1])"

lemma find_append: "find P (xs @ ys) = (case find P xs of None \<Rightarrow> find P ys | Some x \<Rightarrow> Some x)"
  by (induction xs) auto

lemma find_map: "find P (map f xs) = map_option f (find (P \<circ> f) xs)"
  by (induction xs) auto

lemma pk_of_find:
  "pk_of tb u t = map_option tr_id (find (\<lambda>r. tr_username r = u \<and> tr_thread_id r = t) (thread_rows tb))"
  by (auto simp: pk_of_def row_sigs_def find_map option.map_comp comp_def intro: arg_cong)

lemma pk_of_in: "pk_of tb u t = Some pk \<Longrightarrow> (pk, u, t) \<in> set (row_sigs tb)"
  by (force simp: pk_of_def find_Some_iff in_set_conv_nth)

lemma pk_of_Some_iff:
  "distinct (map snd (row_sigs tb)) \<Longrightarrow> pk_of tb u t = Some pk \<longleftrightarrow> (pk, u, t) \<in> set (row_sigs tb)"
proof
  assume d: "distinct (map snd (row_sigs tb))" and i: "(pk, u, t) \<in> set (row_sigs tb)"
  then obtain q where q: "pk_of tb u t = Some q"
    by (cases "pk_of tb u t") (auto simp: pk_of_def find_None_iff)
  moreover have "inj_on snd (set (row_sigs tb))" using d by (simp add: distinct_map)
  ultimately have "(q, u, t) = (pk, u, t)" using inj_onD [of snd, OF _ _ pk_of_in [OF q] i] by simp
  with q show "pk_of tb u t = Some pk" by simp
qed (rule pk_of_in)

lemma pk_of_unique:
  "wf_tables tb \<Longrightarrow> pk_of tb u t = Some pk \<Longrightarrow> pk_of tb v r = Some pk \<Longrightarrow> u = v \<and> t = r"
  using eq_key_imp_eq_value [of "row_sigs tb" pk "(u, t)" "(v, r)"] by (auto simp: wf_tables_def dest!: pk_of_in)

lemma pk_of_cong: "row_sigs tb' = row_sigs tb \<Longrightarrow> pk_of tb' u t = pk_of tb u t"
  by (simp add: pk_of_def)

text \<open>Changing the messages of one thread changes the map at that thread.\<close>

lemma conv_upd:
  assumes "wf_tables tb" and "pk_of tb u t = Some pk" and "row_sigs tb' = row_sigs tb"
    and "\<And>q. q \<noteq> pk \<Longrightarrow> contents tb' q = contents tb q"
  shows "conv tb' = (conv tb)((u, t) := Some (contents tb' pk))"
proof
  fix p :: "string \<times> string"
  obtain v r where p: "p = (v, r)" by (cases p)
  show "conv tb' p = ((conv tb)((u, t) := Some (contents tb' pk))) p"
    using assms pk_of_unique [OF assms(1, 2), of v r]
    by (cases "pk_of tb v r") (auto simp: conv_def p pk_of_cong [OF assms(3)])
qed

lemma conv_cong: "row_sigs tb' = row_sigs tb \<Longrightarrow> message_rows tb' = message_rows tb \<Longrightarrow> conv tb' = conv tb"
  by (simp add: conv_def pk_of_def contents_def [abs_def] msgs_of_def)

lemma row_sigs_touch [simp]: "row_sigs (tb\<lparr>thread_rows := map (touch_row n pk) (thread_rows tb)\<rparr>) = row_sigs tb"
  by (simp add: row_sigs_def touch_row_def)

lemma row_sigs_messages [simp]: "row_sigs (tb\<lparr>message_rows := ms\<rparr>) = row_sigs tb"
  by (simp add: row_sigs_def)

lemma msgs_of_threads [simp]: "msgs_of (tb\<lparr>thread_rows := rs\<rparr>) = msgs_of tb"
  by (simp add: msgs_of_def fun_eq_iff)

lemma wf_touch [simp]: "wf_tables (tb\<lparr>thread_rows := map (touch_row n pk) (thread_rows tb)\<rparr>) = wf_tables tb"
  by (simp add: wf_tables_def)

lemma set_msgs_of: "set (msgs_of tb pk) = {m \<in> set (message_rows tb). mr_thread_pk m = pk}"
  by (auto simp: msgs_of_def)

lemma msgs_of_stranger: "wf_tables tb \<Longrightarrow> pk \<notin> fst ` set (row_sigs tb) \<Longrightarrow> msgs_of tb pk = []"
  using set_msgs_of [of tb pk] by (cases "msgs_of tb pk") (auto simp: wf_tables_def)

lemma index_below:
  assumes "wf_tables tb" and "m \<in> set (message_rows tb)"
  shows "mr_message_index m < int (length (msgs_of tb (mr_thread_pk m)))"
proof -
  have "mr_message_index m \<in> set (map mr_message_index (msgs_of tb (mr_thread_pk m)))"
    using assms(2) by (simp add: set_msgs_of)
  also have "map mr_message_index (msgs_of tb (mr_thread_pk m)) = [0..int (length (msgs_of tb (mr_thread_pk m))) - 1]"
    using assms(1) by (simp add: wf_tables_def)
  finally show ?thesis by simp
qed

lemma fold_max_upto: "a \<le> b \<Longrightarrow> fold max [a + 1..b] a = (b :: int)"
proof (induction b rule: int_ge_induct)
  case base
  then show ?case by simp
next
  case (step b)
  then show ?case by (simp add: upto_rec2 max_def)
qed

lemma next_index: "0 \<le> n \<Longrightarrow> (case [0..n - 1] of [] \<Rightarrow> - 1 | i # is \<Rightarrow> fold max is i) + 1 = (n :: int)"
  using fold_max_upto [of 0 "n - 1"] by (cases "n = 0") (simp_all add: upto_rec1)

text \<open>A message numbered next goes to the end of its thread.\<close>

lemma msgs_of_snoc:
  assumes wf: "wf_tables tb" and "mr_id m \<notin> mr_id ` set (message_rows tb)"
    and "mr_message_index m = int (length (msgs_of tb (mr_thread_pk m)))"
  shows "msgs_of (tb\<lparr>message_rows := message_rows tb @ [m]\<rparr>) q =
     (if q = mr_thread_pk m then msgs_of tb q @ [m] else msgs_of tb q)"
proof (cases "q = mr_thread_pk m")
  case True
  let ?xs = "filter (\<lambda>r. mr_thread_pk r = q) (message_rows tb)"
  have "inj_on mr_id (set (message_rows tb @ [m]))"
    using assms(1, 2) by (auto simp: wf_tables_def distinct_map)
  then have "inj_on row_key (set (?xs @ [m]))"
    by (fastforce simp: inj_on_def row_key_def True)
  moreover have "sorted (map row_key (sort_key row_key ?xs @ [m]))"
    using index_below [OF wf] assms(3) by (fastforce simp: sorted_append row_key_def True less_eq_prod_def)
  ultimately have "sort_key row_key (?xs @ [m]) = sort_key row_key ?xs @ [m]"
    by (intro sort_key_inj_key_eq) simp_all
  then show ?thesis using True by (simp add: msgs_of_def)
qed (simp add: msgs_of_def)

lemma wf_snoc:
  assumes wf: "wf_tables tb" and "mr_id m \<notin> mr_id ` set (message_rows tb)"
    and "mr_message_index m = int (length (msgs_of tb (mr_thread_pk m)))"
    and "mr_thread_pk m \<in> fst ` set (row_sigs tb)"
  shows "wf_tables (tb\<lparr>message_rows := message_rows tb @ [m]\<rparr>)"
  using assms by (auto simp: wf_tables_def msgs_of_snoc [OF assms(1-3)] upto_rec2)

text \<open>Deleting the rows of a thread.\<close>

lemma msgs_of_drop:
  "msgs_of (tb\<lparr>message_rows := filter (\<lambda>r. mr_thread_pk r \<noteq> pk) (message_rows tb)\<rparr>) q = (if q = pk then [] else msgs_of tb q)"
  by (auto simp: msgs_of_def filter_empty_conv intro!: arg_cong [where f = "sort_key row_key"] filter_cong)

lemma wf_drop:
  "wf_tables tb \<Longrightarrow> wf_tables (tb\<lparr>message_rows := filter (\<lambda>r. mr_thread_pk r \<noteq> pk) (message_rows tb)\<rparr>)"
  by (auto simp: wf_tables_def msgs_of_drop distinct_map inj_on_def)

section \<open>The methods refine the map\<close>

context sql_store
begin

lemma find_thread_pk:
  "u \<noteq> [] \<Longrightarrow> t \<noteq> [] \<Longrightarrow> map_option tr_id (find_thread D u t s) = pk_of (view s) u t"
  by (simp add: find_thread_def pk_of_find threads_law)

lemma find_thread_cases:
  assumes "u \<noteq> []" "t \<noteq> []"
  shows "pk_of (view s) u t = None \<Longrightarrow> find_thread D u t s = None"
    and "pk_of (view s) u t = Some pk \<Longrightarrow> \<exists>r. find_thread D u t s = Some r \<and> tr_id r = pk"
  using find_thread_pk [OF assms, of s] by auto

lemma add_thread_sigs:
  "row_sigs (view (snd (ADD_THREAD D u t s))) = row_sigs (view s) @ [(fst (ADD_THREAD D u t s), u, t)]"
  by (simp add: add_thread_law row_sigs_def)

lemma add_thread_wf:
  assumes wf: "wf_tables (view s)" and "pk_of (view s) u t = None"
  shows "wf_tables (view (snd (ADD_THREAD D u t s)))"
    and "pk_of (view (snd (ADD_THREAD D u t s))) u t = Some (fst (ADD_THREAD D u t s))"
    and "conv (view (snd (ADD_THREAD D u t s))) = (conv (view s))((u, t) := Some [])"
    and "msgs_of (view (snd (ADD_THREAD D u t s))) = msgs_of (view s)"
    and "msgs_of (view s) (fst (ADD_THREAD D u t s)) = []"
proof -
  let ?r = "ADD_THREAD D u t s"
  have new: "fst ?r \<notin> fst ` set (row_sigs (view s))"
    using thread_key_law [of u t s] by (force simp: row_sigs_def)
  have no: "(u, t) \<notin> snd ` set (row_sigs (view s))"
    using assms(2) by (auto simp: pk_of_def find_None_iff)
  show m: "msgs_of (view (snd ?r)) = msgs_of (view s)" by (simp add: add_thread_law)
  have mr: "message_rows (view (snd ?r)) = message_rows (view s)" by (simp add: add_thread_law)
  show "wf_tables (view (snd ?r))"
    using wf new no by (auto simp: wf_tables_def add_thread_sigs m mr)
  show e: "msgs_of (view s) (fst ?r) = []" by (rule msgs_of_stranger [OF wf new])
  have pk: "pk_of (view (snd ?r)) v r = (if (v, r) = (u, t) then Some (fst ?r) else pk_of (view s) v r)" for v r
    using assms(2) by (auto simp: pk_of_def add_thread_sigs find_append split: option.split)
  then show "pk_of (view (snd ?r)) u t = Some (fst ?r)" by simp
  show "conv (view (snd ?r)) = (conv (view s))((u, t) := Some [])"
    using e by (auto simp: conv_def pk contents_def [abs_def] m fun_eq_iff)
qed

text \<open>The thread of a session exists afterwards and has the messages it had.\<close>

lemma session_thread_eq:
  assumes wf: "wf_tables (view s)" and "u \<noteq> []" "t \<noteq> []"
    and r: "session_thread D u t s = (pk, s')"
  shows "wf_tables (view s') \<and> pk_of (view s') u t = Some pk
    \<and> conv (view s') = (conv (view s))((u, t) := Some (contents (view s') pk))
    \<and> contents (view s') pk = (case conv (view s) (u, t) of None \<Rightarrow> [] | Some ms \<Rightarrow> ms)"
proof (cases "pk_of (view s) u t")
  case None
  with r have "ADD_THREAD D u t s = (pk, s')" by (simp add: session_thread_def find_thread_cases(1) [OF assms(2, 3)])
  with add_thread_wf [OF wf None] None show ?thesis by (auto simp: conv_def contents_def)
next
  case (Some q)
  with r find_thread_cases(2) [OF assms(2, 3) Some] have "pk = q" "s' = s" by (auto simp: session_thread_def)
  with Some wf show ?thesis by (auto simp: conv_def)
qed

lemma add_message_eq:
  assumes wf: "wf_tables (view s)" and "pk_of (view s) u t = Some pk"
    and i: "i = int (length (msgs_of (view s) pk))"
  shows "wf_tables (view (snd (ADD_MESSAGE D pk i role content s)))
    \<and> row_sigs (view (snd (ADD_MESSAGE D pk i role content s))) = row_sigs (view s)
    \<and> msgs_of (view (snd (ADD_MESSAGE D pk i role content s))) pk
        = msgs_of (view s) pk @ [fst (ADD_MESSAGE D pk i role content s)]
    \<and> contents (view (snd (ADD_MESSAGE D pk i role content s))) pk = contents (view s) pk @ [(role, content)]
    \<and> (\<forall>q. q \<noteq> pk \<longrightarrow> contents (view (snd (ADD_MESSAGE D pk i role content s))) q = contents (view s) q)"
proof -
  let ?m = "fst (ADD_MESSAGE D pk i role content s)"
  have m: "mr_thread_pk ?m = pk" "mr_message_index ?m = i" "mr_role ?m = role" "mr_content ?m = content"
    using message_row_law [of pk i role content s] by (metis message_row.select_convs)+
  have new: "mr_id ?m \<notin> mr_id ` set (message_rows (view s))" by (rule message_key_law)
  have at: "mr_message_index ?m = int (length (msgs_of (view s) (mr_thread_pk ?m)))" by (simp only: m) (rule i)
  have "mr_thread_pk ?m \<in> fst ` set (row_sigs (view s))" using pk_of_in [OF assms(2)] m by force
  from wf_snoc [OF wf new at this] msgs_of_snoc [OF wf new at] show ?thesis
    by (simp add: add_message_law m contents_def)
qed

lemma add_messages_eq:
  assumes "wf_tables (view s)" and "pk_of (view s) u t = Some pk" and "i = int (length (msgs_of (view s) pk))"
  shows "wf_tables (view (add_messages D pk i ms s))
    \<and> row_sigs (view (add_messages D pk i ms s)) = row_sigs (view s)
    \<and> contents (view (add_messages D pk i ms s)) pk = contents (view s) pk @ ms
    \<and> (\<forall>q. q \<noteq> pk \<longrightarrow> contents (view (add_messages D pk i ms s)) q = contents (view s) q)"
  using assms
proof (induction ms arbitrary: i s)
  case Nil
  then show ?case by simp
next
  case (Cons m ms)
  obtain role content where m: "m = (role, content)" by (cases m)
  let ?s = "snd (ADD_MESSAGE D pk i role content s)"
  note a = add_message_eq [OF Cons.prems, of role content]
  have "pk_of (view ?s) u t = Some pk" using a Cons.prems(2) pk_of_cong [of "view ?s" "view s"] by simp
  moreover have "i + 1 = int (length (msgs_of (view ?s) pk))" using a Cons.prems(3) by simp
  ultimately show ?case using Cons.IH [of ?s "i + 1"] a by (simp add: m add.commute)
qed

lemma delete_rows_view:
  "view (delete_rows D rows s) =
     (view s)\<lparr>message_rows := filter (\<lambda>r. mr_id r \<notin> mr_id ` set rows) (message_rows (view s))\<rparr>"
  unfolding delete_rows_def
  by (induction rows arbitrary: s) (auto simp: delete_message_law intro!: filter_cong)

lemma delete_all_view:
  assumes "wf_tables (view s)"
  shows "view (delete_rows D (MESSAGES D pk s) s) =
     (view s)\<lparr>message_rows := filter (\<lambda>r. mr_thread_pk r \<noteq> pk) (message_rows (view s))\<rparr>"
proof -
  have inj: "inj_on mr_id (set (message_rows (view s)))" using assms by (simp add: wf_tables_def distinct_map)
  have "mr_id r \<notin> mr_id ` set (msgs_of (view s) pk) \<longleftrightarrow> mr_thread_pk r \<noteq> pk" if "r \<in> set (message_rows (view s))" for r
    using that inj_onD [OF inj _ that] by (auto simp: set_msgs_of)
  then have "filter (\<lambda>r. mr_id r \<notin> mr_id ` set (msgs_of (view s) pk)) (message_rows (view s))
      = filter (\<lambda>r. mr_thread_pk r \<noteq> pk) (message_rows (view s))" by (intro filter_cong) simp_all
  then show ?thesis by (simp only: delete_rows_view messages_law)
qed

lemma delete_all_eq:
  assumes "wf_tables (view s)"
    and s': "s' = delete_rows D (MESSAGES D pk s) s"
  shows "wf_tables (view s')" "row_sigs (view s') = row_sigs (view s)" "msgs_of (view s') pk = []"
    "q \<noteq> pk \<Longrightarrow> contents (view s') q = contents (view s) q"
  using wf_drop [OF assms(1)] unfolding s' delete_all_view [OF assms(1)]
  by (simp_all add: msgs_of_drop contents_def)

lemma touch_eq [simp]:
  "wf_tables (view (TOUCH_THREAD D pk s)) = wf_tables (view s)"
  "row_sigs (view (TOUCH_THREAD D pk s)) = row_sigs (view s)"
  "msgs_of (view (TOUCH_THREAD D pk s)) = msgs_of (view s)"
  "contents (view (TOUCH_THREAD D pk s)) = contents (view s)"
  by (simp_all add: touch_law contents_def fun_eq_iff)

lemma replace_messages_eq:
  assumes "wf_tables (view s)" and pk: "pk_of (view s) u t = Some pk"
  shows "wf_tables (view (replace_messages D pk ms s))
    \<and> conv (view (replace_messages D pk ms s)) = (conv (view s))((u, t) := Some ms)
    \<and> contents (view (replace_messages D pk ms s)) pk = ms"
proof -
  let ?s = "delete_rows D (MESSAGES D pk s) s"
  note d = delete_all_eq [OF assms(1) refl, where pk = pk]
  have "pk_of (view ?s) u t = Some pk" using d(2) pk pk_of_cong [of "view ?s" "view s"] by simp
  then have a: "wf_tables (view (add_messages D pk 0 ms ?s))"
    "row_sigs (view (add_messages D pk 0 ms ?s)) = row_sigs (view s)"
    "contents (view (add_messages D pk 0 ms ?s)) pk = ms"
    "\<And>q. q \<noteq> pk \<Longrightarrow> contents (view (add_messages D pk 0 ms ?s)) q = contents (view s) q"
    using add_messages_eq [of ?s u t pk 0 ms] d by (simp_all add: contents_def)
  show ?thesis
    using conv_upd [OF assms, of "view (replace_messages D pk ms s)"] a by (simp add: replace_messages_def)
qed

lemma option_eqI: "(\<And>q. x = Some q \<longleftrightarrow> y = Some q) \<Longrightarrow> x = y"
  by (cases x) force+

lemma append_message_db_eq:
  assumes wf: "wf_tables (view s)" and ne: "py_strip u \<noteq> []" "py_strip t \<noteq> []" "py_strip role \<noteq> []" "content \<noteq> []"
  defines "p \<equiv> (py_strip u, py_strip t)"
  shows "\<exists>m. fst (append_message_db D u t role content s) = Inr m
      \<and> (mr_role m, mr_content m) = (py_strip role, content)
      \<and> mr_message_index m = int (length (case conv (view s) p of None \<Rightarrow> [] | Some ms \<Rightarrow> ms))"
    and "wf_tables (view (snd (append_message_db D u t role content s)))"
    and "conv (view (snd (append_message_db D u t role content s))) =
      (conv (view s))(p := Some ((case conv (view s) p of None \<Rightarrow> [] | Some ms \<Rightarrow> ms) @ [(py_strip role, content)]))"
proof -
  obtain pk s1 where th: "session_thread D (py_strip u) (py_strip t) s = (pk, s1)" by fastforce
  note t = session_thread_eq [OF wf ne(1, 2) th, folded p_def]
  define i where "i = int (length (msgs_of (view s1) pk))"
  have len: "i = int (length (contents (view s1) pk))" by (simp add: i_def contents_def)
  have "map mr_message_index (msgs_of (view s1) pk) = [0..i - 1]" using t by (simp add: wf_tables_def i_def)
  then have "(case map mr_message_index (MESSAGES D pk s1) of [] \<Rightarrow> - 1 | i # is \<Rightarrow> fold max is i) + 1 = i"
    using next_index [of i] by (simp add: messages_law i_def)
  then have eq: "append_message_db D u t role content s =
      (Inr (fst (ADD_MESSAGE D pk i (py_strip role) content s1)), TOUCH_THREAD D pk (snd (ADD_MESSAGE D pk i (py_strip role) content s1)))"
    using ne by (simp add: append_message_db_def th Let_def)
  have pk: "pk_of (view s1) (py_strip u) (py_strip t) = Some pk" and wf1: "wf_tables (view s1)" using t by blast+
  note a = add_message_eq [OF wf1 pk i_def, of "py_strip role" content]
  have c: "contents (view s1) pk = (case conv (view s) p of None \<Rightarrow> [] | Some ms \<Rightarrow> ms)" using t by blast
  let ?m = "fst (ADD_MESSAGE D pk i (py_strip role) content s1)"
  have "mr_message_index ?m = i" "mr_role ?m = py_strip role" "mr_content ?m = content"
    using message_row_law [of pk i "py_strip role" content s1] by (metis message_row.select_convs)+
  then show "\<exists>m. fst (append_message_db D u t role content s) = Inr m
      \<and> (mr_role m, mr_content m) = (py_strip role, content)
      \<and> mr_message_index m = int (length (case conv (view s) p of None \<Rightarrow> [] | Some ms \<Rightarrow> ms))"
    using len c by (simp add: eq)
  show "wf_tables (view (snd (append_message_db D u t role content s)))" using a by (simp add: eq)
  show "conv (view (snd (append_message_db D u t role content s))) =
      (conv (view s))(p := Some ((case conv (view s) p of None \<Rightarrow> [] | Some ms \<Rightarrow> ms) @ [(py_strip role, content)]))"
    using conv_upd [OF wf1 pk, of "view (snd (append_message_db D u t role content s))"] a t c by (simp add: eq p_def)
qed

lemma get_messages_eq:
  assumes ne: "py_strip u \<noteq> []" "py_strip t \<noteq> []"
  shows "map (\<lambda>m. (mr_role m, mr_content m)) (get_messages D u t s) =
     (case conv (view s) (py_strip u, py_strip t) of None \<Rightarrow> [] | Some ms \<Rightarrow> ms)"
  using find_thread_pk [OF ne, of s]
  by (auto simp: get_messages_def conv_def messages_law contents_def split: option.split)

lemma delete_thread_messages_eq:
  assumes wf: "wf_tables (view s)" and ne: "py_strip u \<noteq> []" "py_strip t \<noteq> []"
  defines "p \<equiv> (py_strip u, py_strip t)"
  shows "fst (delete_thread_messages D u t s) = int (length (case conv (view s) p of None \<Rightarrow> [] | Some ms \<Rightarrow> ms))"
    and "wf_tables (view (snd (delete_thread_messages D u t s)))"
    and "conv (view (snd (delete_thread_messages D u t s))) =
      (conv (view s))(p := map_option (\<lambda>_. []) (conv (view s) p))"
proof -
  have "fst (delete_thread_messages D u t s) = int (length (case conv (view s) p of None \<Rightarrow> [] | Some ms \<Rightarrow> ms))
     \<and> wf_tables (view (snd (delete_thread_messages D u t s)))
     \<and> conv (view (snd (delete_thread_messages D u t s))) = (conv (view s))(p := map_option (\<lambda>_. []) (conv (view s) p))"
  proof (cases "pk_of (view s) (py_strip u) (py_strip t)")
    case None
    then show ?thesis using wf
      by (simp add: delete_thread_messages_def find_thread_cases(1) [OF ne] conv_def p_def fun_upd_idem)
  next
    case (Some pk)
    then obtain r where r: "find_thread D (py_strip u) (py_strip t) s = Some r" "tr_id r = pk"
      using find_thread_cases(2) [OF ne] by blast
    let ?s = "delete_rows D (MESSAGES D pk s) s"
    note d = delete_all_eq [OF wf refl, where pk = pk]
    have "conv (view (TOUCH_THREAD D pk ?s)) = (conv (view s))(p := Some [])"
      using conv_upd [OF wf Some, of "view (TOUCH_THREAD D pk ?s)"] d by (simp add: p_def contents_def)
    moreover have "conv (view s) p = Some (contents (view s) pk)" by (simp add: conv_def p_def Some)
    ultimately show ?thesis using r d by (simp add: delete_thread_messages_def contents_def messages_law Let_def)
  qed
  then show "fst (delete_thread_messages D u t s) = int (length (case conv (view s) p of None \<Rightarrow> [] | Some ms \<Rightarrow> ms))"
    and "wf_tables (view (snd (delete_thread_messages D u t s)))"
    and "conv (view (snd (delete_thread_messages D u t s))) = (conv (view s))(p := map_option (\<lambda>_. []) (conv (view s) p))"
    by blast+
qed

lemma delete_thread_eq:
  assumes wf: "wf_tables (view s)" and ne: "py_strip u \<noteq> []" "py_strip t \<noteq> []"
  defines "p \<equiv> (py_strip u, py_strip t)"
  shows "fst (delete_thread D u t s) = Inr (if conv (view s) p = None then 0 else 1)
    \<and> wf_tables (view (snd (delete_thread D u t s))) \<and> conv (view (snd (delete_thread D u t s))) = (conv (view s))(p := None)"
proof (cases "pk_of (view s) (py_strip u) (py_strip t)")
  case None
  then show ?thesis using wf ne
    by (simp add: delete_thread_def find_thread_cases(1) [OF ne] conv_def p_def fun_upd_idem Let_def)
next
  case (Some pk)
  then obtain r where r: "find_thread D (py_strip u) (py_strip t) s = Some r" "tr_id r = pk"
    using find_thread_cases(2) [OF ne] by blast
  let ?s = "DELETE_THREAD D pk s"
  have sigs: "row_sigs (view ?s) = filter (\<lambda>r. fst r \<noteq> pk) (row_sigs (view s))"
    by (simp add: delete_thread_law row_sigs_def filter_map comp_def)
  have ms: "msgs_of (view ?s) q = (if q = pk then [] else msgs_of (view s) q)" for q
    using msgs_of_drop [where tb = "view s" and pk = pk and q = q] by (simp add: delete_thread_law msgs_of_def)
  have mrows: "message_rows (view ?s) = filter (\<lambda>r. mr_thread_pk r \<noteq> pk) (message_rows (view s))"
    by (simp add: delete_thread_law)
  have wf': "wf_tables (view ?s)"
    using wf by (auto simp: wf_tables_def sigs ms mrows distinct_map_filter image_iff) (metis prod.collapse)
  have pk': "pk_of (view ?s) v w = (if (v, w) = (py_strip u, py_strip t) then None else pk_of (view s) v w)" for v w
  proof (rule option_eqI)
    fix q
    have "pk_of (view ?s) v w = Some q \<longleftrightarrow> pk_of (view s) v w = Some q \<and> q \<noteq> pk"
      using wf wf' by (simp add: pk_of_Some_iff wf_tables_def sigs)
    then show "pk_of (view ?s) v w = Some q \<longleftrightarrow> (if (v, w) = (py_strip u, py_strip t) then None else pk_of (view s) v w) = Some q"
      using Some pk_of_unique [OF wf Some, of v w] by (metis Pair_inject option.discI option.inject)
  qed
  have c: "conv (view ?s) (v, w) = ((conv (view s))(p := None)) (v, w)" for v w
  proof (cases "(v, w) = (py_strip u, py_strip t)")
    case False
    then have "q \<noteq> pk" if "pk_of (view s) v w = Some q" for q
      using that pk_of_unique [OF wf Some, of v w] by blast
    then show ?thesis using False
      by (cases "pk_of (view s) v w") (simp_all only: conv_def p_def pk', simp_all add: contents_def ms)
  qed (simp add: conv_def p_def pk')
  have "conv (view s) p = Some (contents (view s) pk)" by (simp add: conv_def p_def Some)
  then show ?thesis using r wf' ne c by (auto simp: delete_thread_def fun_eq_iff)
qed

lemma snapshot_arguments_ok:
  "snapshot_arguments u t ms = Inr (u', t', ms') \<Longrightarrow> u' = py_strip u \<and> t' = py_strip t \<and> u' \<noteq> [] \<and> t' \<noteq> []"
  by (auto simp: snapshot_arguments_def require_non_empty_def Let_def split: sum.splits if_splits)

lemma replace_thread_snapshot_db_eq:
  assumes wf: "wf_tables (view s)" and args: "snapshot_arguments u t ms = Inr (u', t', ms')"
  shows "\<exists>rows. fst (replace_thread_snapshot_db D u t ms s) = Inr rows \<and> map (\<lambda>m. (mr_role m, mr_content m)) rows = ms'"
    and "wf_tables (view (snd (replace_thread_snapshot_db D u t ms s)))"
    and "conv (view (snd (replace_thread_snapshot_db D u t ms s))) = (conv (view s))((u', t') := Some ms')"
proof -
  obtain pk s1 where th: "session_thread D u' t' s = (pk, s1)" by fastforce
  have ne: "u' \<noteq> []" "t' \<noteq> []" using snapshot_arguments_ok [OF args] by blast+
  note t = session_thread_eq [OF wf ne th]
  then have "wf_tables (view s1)" "pk_of (view s1) u' t' = Some pk" by blast+
  note r = replace_messages_eq [OF this, of ms']
  show "\<exists>rows. fst (replace_thread_snapshot_db D u t ms s) = Inr rows \<and> map (\<lambda>m. (mr_role m, mr_content m)) rows = ms'"
    using r by (simp add: replace_thread_snapshot_db_def args th Let_def messages_law contents_def)
  show "wf_tables (view (snd (replace_thread_snapshot_db D u t ms s)))"
    using r by (simp add: replace_thread_snapshot_db_def args th Let_def)
  show "conv (view (snd (replace_thread_snapshot_db D u t ms s))) = (conv (view s))((u', t') := Some ms')"
    using r t by (simp add: replace_thread_snapshot_db_def args th Let_def)
qed

lemma snapshot_matches_iff:
  "snapshot_matches_rows ms rows \<longleftrightarrow> ms = map (\<lambda>m. (mr_role m, mr_content m)) rows"
proof (induction ms arbitrary: rows)
  case Nil
  then show ?case by (auto simp: snapshot_matches_rows_def)
next
  case (Cons m ms)
  then show ?case by (cases m; cases rows) (auto simp: snapshot_matches_rows_def)
qed

lemma import_eq:
  assumes wf: "wf_tables (view s)" and args: "snapshot_arguments u t ms = Inr (u', t', ms')"
  shows "(\<exists>rows. fst (import_thread_snapshot D u t ms s) = Inr rows \<and> map (\<lambda>m. (mr_role m, mr_content m)) rows = ms')
    \<and> wf_tables (view (snd (import_thread_snapshot D u t ms s)))
    \<and> (if (case conv (view s) (u', t') of None \<Rightarrow> [] | Some old \<Rightarrow> old) = ms' then snd (import_thread_snapshot D u t ms s) = s
       else conv (view (snd (import_thread_snapshot D u t ms s))) = (conv (view s))((u', t') := Some ms'))"
proof -
  obtain pk s1 where th: "session_thread D u' t' s = (pk, s1)" by fastforce
  have ne: "u' \<noteq> []" "t' \<noteq> []" using snapshot_arguments_ok [OF args] by blast+
  note t = session_thread_eq [OF wf ne th]
  have match: "snapshot_matches_rows ms' (MESSAGES D pk s1) \<longleftrightarrow> (case conv (view s) (u', t') of None \<Rightarrow> [] | Some old \<Rightarrow> old) = ms'"
    using t by (auto simp: snapshot_matches_iff messages_law contents_def)
  show ?thesis
  proof (cases "snapshot_matches_rows ms' (MESSAGES D pk s1)")
    case True
    then show ?thesis using match wf by (simp add: import_thread_snapshot_def args th snapshot_matches_iff)
  next
    case False
    have "import_thread_snapshot D u t ms s = replace_thread_snapshot_db D u t ms s"
      using False by (simp add: import_thread_snapshot_def replace_thread_snapshot_db_def args th)
    then show ?thesis using replace_thread_snapshot_db_eq [OF wf args] match False by simp
  qed
qed

end

section \<open>Properties\<close>

text \<open>
  C28: the relational store refines a map from a user and a thread id to a message list.
  From well-formed tables (unique keys, no orphans, messages numbered from zero without a
  gap) and for names that are not blank, appending adds one message at the end with the
  next number and creates the thread if needed; reading returns the messages in order;
  emptying and deleting a thread, and replacing its messages, change that thread only and
  report what they did. Every method keeps the tables well-formed.
\<close>

theorem conversation_db_refines:
  assumes db: "sql_store D view" and wf: "wf_tables (view s)"
    and names: "py_strip u \<noteq> []" "py_strip t \<noteq> []" "py_strip role \<noteq> []" "content \<noteq> []"
    and snap: "normalize_snapshot_messages ms = Inr ms'"
  defines "p \<equiv> (py_strip u, py_strip t)"
  defines "old \<equiv> (case conv (view s) p of None \<Rightarrow> [] | Some ms \<Rightarrow> ms)"
  shows "conv (view (snd (append_message_db D u t role content s))) = (conv (view s))(p := Some (old @ [(py_strip role, content)]))
    \<and> wf_tables (view (snd (append_message_db D u t role content s)))
    \<and> map (\<lambda>m. (mr_role m, mr_content m)) (get_messages D u t s) = old
    \<and> fst (delete_thread_messages D u t s) = int (length old)
    \<and> conv (view (snd (delete_thread_messages D u t s))) = (conv (view s))(p := map_option (\<lambda>_. []) (conv (view s) p))
    \<and> wf_tables (view (snd (delete_thread_messages D u t s)))
    \<and> fst (delete_thread D u t s) = Inr (if conv (view s) p = None then 0 else 1)
    \<and> conv (view (snd (delete_thread D u t s))) = (conv (view s))(p := None)
    \<and> wf_tables (view (snd (delete_thread D u t s)))
    \<and> conv (view (snd (replace_thread_snapshot_db D u t ms s))) = (conv (view s))(p := Some ms')
    \<and> wf_tables (view (snd (replace_thread_snapshot_db D u t ms s)))"
proof -
  have "snapshot_arguments u t ms = Inr (py_strip u, py_strip t, ms')"
    using names snap by (simp add: snapshot_arguments_def require_non_empty_def)
  note r = sql_store.replace_thread_snapshot_db_eq [OF db wf this, folded p_def]
  note a = sql_store.append_message_db_eq [OF db wf names, folded p_def, folded old_def]
  note m = sql_store.get_messages_eq [OF db names(1, 2), folded p_def, of s, folded old_def]
  note d = sql_store.delete_thread_messages_eq [OF db wf names(1, 2), folded p_def, folded old_def]
  note e = sql_store.delete_thread_eq [OF db wf names(1, 2), folded p_def]
  show ?thesis using a(2, 3) m d e r(2, 3) by blast
qed

lemma empty_wf: "wf_tables empty_tables" "conv empty_tables = (\<lambda>_. None)"
  by (simp_all add: wf_tables_def row_sigs_def msgs_of_def empty_tables_def conv_def pk_of_def fun_eq_iff)

theorem conversation_db_refines_witness:
  "conv (snd (append_message_db mem_sql ''ann'' ''t'' ''user'' ''hi'' empty_tables)) (''ann'', ''t'') = Some [(''user'', ''hi'')]"
proof -
  have s: "py_strip ''ann'' = ''ann''" "py_strip ''t'' = ''t''" "py_strip ''user'' = ''user''"
    by (simp_all add: py_strip_def py_lstrip_def py_rstrip_def py_isspace_def)
  show ?thesis
    using conversation_db_refines [OF memq.sql_store_axioms empty_wf(1), of "''ann''" "''t''" "''user''" "''hi''" "[]" "[]"] empty_wf(2)
    by (simp add: s)
qed

text \<open>
  Importing a snapshot is idempotent. After an import the thread holds exactly the
  normalised snapshot (unless an empty snapshot of a missing thread, which creates
  nothing), and importing the same snapshot again changes nothing and returns the same
  messages.
\<close>

theorem import_idempotent:
  assumes db: "sql_store D view" and wf: "wf_tables (view s)"
    and args: "snapshot_arguments u t ms = Inr (u', t', ms')"
    and s': "s' = snd (import_thread_snapshot D u t ms s)"
  shows "(case conv (view s') (u', t') of None \<Rightarrow> [] | Some ms \<Rightarrow> ms) = ms'
    \<and> snd (import_thread_snapshot D u t ms s') = s'
    \<and> (\<exists>rows. fst (import_thread_snapshot D u t ms s') = Inr rows \<and> map (\<lambda>m. (mr_role m, mr_content m)) rows = ms')
    \<and> (\<forall>p. p \<noteq> (u', t') \<longrightarrow> conv (view s') p = conv (view s) p)"
proof -
  note i = sql_store.import_eq [OF db wf args, folded s']
  then have stored: "(case conv (view s') (u', t') of None \<Rightarrow> [] | Some ms \<Rightarrow> ms) = ms'"
    and wf': "wf_tables (view s')" and other: "\<forall>p. p \<noteq> (u', t') \<longrightarrow> conv (view s') p = conv (view s) p"
    by (auto split: if_splits)
  show ?thesis using sql_store.import_eq [OF db wf' args] stored other by simp
qed

theorem import_idempotent_witness:
  "snd (import_thread_snapshot mem_sql ''ann'' ''t'' [(''user'', ''hi'')]
     (snd (import_thread_snapshot mem_sql ''ann'' ''t'' [(''user'', ''hi'')] empty_tables)))
   = snd (import_thread_snapshot mem_sql ''ann'' ''t'' [(''user'', ''hi'')] empty_tables)"
proof -
  have "snapshot_arguments ''ann'' ''t'' [(''user'', ''hi'')] = Inr (''ann'', ''t'', [(''user'', ''hi'')])"
    by (simp add: snapshot_arguments_def require_non_empty_def py_strip_def py_lstrip_def py_rstrip_def py_isspace_def)
  from import_idempotent [OF memq.sql_store_axioms empty_wf(1) this refl] show ?thesis by simp
qed

end
