(* ===== verification/Dual_Write.thy ===== *)
theory Dual_Write
  imports Chat_Store Conversation_Db
begin

text \<open>
  Conversations in two stores (\<open>persistence/\<close>): the coordinator that writes to Redis
  first and mirrors to the database as far as it can
  (\<open>conversation_write_coordinator.py\<close>), the read-only Redis source of the maintenance
  utility (\<open>conversation_cli.py\<close>), the comparison of both stores
  (\<open>conversation_parity.py\<close>) and the migration from one to the other
  (\<open>conversation_migration.py\<close>, \<open>conversation_migrator.py\<close>). The properties say that
  Redis keeps the last messages of what the database holds, and what the comparison reports.
\<close>

section \<open>The coordinator\<close>

record ('s, 'd) write_coordinator =
  cw_chat :: "'s chat_store"
  cw_db :: "'d sql option"
  cw_db_down :: bool
  dual_write_enabled :: bool

text \<open>\<open>cw_db_down\<close>: the database raises on every statement; the coordinator logs and goes on.\<close>

definition mirror_best_effort ::
  "('s, 'd) write_coordinator \<Rightarrow> ('d sql \<Rightarrow> 'd \<Rightarrow> 'd) \<Rightarrow> 'd \<Rightarrow> 'd" where
  "mirror_best_effort w action d = (case cw_db w of None \<Rightarrow> d
     | Some D \<Rightarrow> if \<not> dual_write_enabled w \<or> cw_db_down w then d else action D d)"

text \<open>A write to Redis, then its mirror; an exception of the first propagates.\<close>

definition then_mirror ::
  "('s, 'd) write_coordinator \<Rightarrow> ('a, 's) outcome \<Rightarrow> ('a \<Rightarrow> 'd sql \<Rightarrow> 'd \<Rightarrow> 'd) \<Rightarrow> 'd \<Rightarrow> ('a, 's \<times> 'd) outcome" where
  "then_mirror w r action d = (case r of (Inl e, s) \<Rightarrow> (Inl e, (s, d))
     | (Inr x, s) \<Rightarrow> (Inr x, (s, mirror_best_effort w (action x) d)))"

definition ensure_thread ::
  "('s, 'd) write_coordinator \<Rightarrow> clock \<Rightarrow> string \<Rightarrow> string option \<Rightarrow> 's \<times> 'd \<Rightarrow> (string, 's \<times> 'd) outcome" where
  "ensure_thread w c username thread_id sd = then_mirror w (create_thread (cw_chat w) c username thread_id (fst sd))
     (\<lambda>created D d. snd (create_or_get_thread D None username created d)) (snd sd)"

definition append_message_cw ::
  "('s, 'd) write_coordinator \<Rightarrow> clock \<Rightarrow> string \<Rightarrow> string \<Rightarrow> string \<Rightarrow> string option \<Rightarrow> 's \<times> 'd \<Rightarrow> (unit, 's \<times> 'd) outcome" where
  "append_message_cw w c username role content thread_id sd =
     then_mirror w (append_message (cw_chat w) c username role content thread_id (fst sd))
       (\<lambda>_ D d. snd (append_message_db D username (normalize_thread_id thread_id) role content d)) (snd sd)"

definition clear_thread ::
  "('s, 'd) write_coordinator \<Rightarrow> clock \<Rightarrow> string \<Rightarrow> string option \<Rightarrow> bool \<Rightarrow> 's \<times> 'd \<Rightarrow> (unit, 's \<times> 'd) outcome" where
  "clear_thread w c username thread_id preserve_thread sd =
     then_mirror w (clear_history (cw_chat w) c username thread_id preserve_thread (fst sd))
       (\<lambda>_ D d. if preserve_thread then snd (delete_thread_messages D username (normalize_thread_id thread_id) d)
                else snd (delete_thread D username (normalize_thread_id thread_id) d)) (snd sd)"

definition normalize_snapshot :: "message list \<Rightarrow> message list" where
  "normalize_snapshot messages = filter (\<lambda>m. (m_role m = ''user'' \<or> m_role m = ''assistant'') \<and> m_content m \<noteq> [])
     (map (\<lambda>m. \<lparr>m_role = py_strip (m_role m), m_content = py_strip (m_content m)\<rparr>) messages)"

fun append_all ::
  "'s chat_store \<Rightarrow> clock \<Rightarrow> string \<Rightarrow> string \<Rightarrow> message list \<Rightarrow> 's \<Rightarrow> (unit, 's) outcome" where
  "append_all cs c username thread_id [] s = (Inr (), s)"
| "append_all cs c username thread_id (m # ms) s =
     obind (append_message cs c username (py_strip (m_role m)) (py_strip (m_content m)) (Some thread_id) s)
       (\<lambda>_. append_all cs c username thread_id ms)"

definition replace_thread_snapshot ::
  "('s, 'd) write_coordinator \<Rightarrow> clock \<Rightarrow> string \<Rightarrow> string \<Rightarrow> message list \<Rightarrow> 's \<times> 'd \<Rightarrow> (unit, 's \<times> 'd) outcome" where
  "replace_thread_snapshot w c username thread_id messages sd =
     (let normalized = normalize_snapshot messages in
      then_mirror w
        (obind (clear_history (cw_chat w) c username (Some thread_id) True (fst sd))
           (\<lambda>_. append_all (cw_chat w) c username thread_id normalized))
        (\<lambda>_ D d. snd (replace_thread_snapshot_db D username (normalize_thread_id (Some thread_id))
                    (map (\<lambda>m. (m_role m, m_content m)) normalized) d)) (snd sd))"

section \<open>The read-only source of the utility\<close>

text \<open>
  \<open>ro_scan\<close> is what \<open>SCAN\<close> yields for the prefix, \<open>ro_exists\<close> whether the legacy list
  exists. Unlike the web tier's store, the source skips an entry that is not JSON and
  writes nothing.
\<close>

record 's ro_source =
  ro_redis :: "'s chat_redis option"
  ro_scan :: "string \<Rightarrow> 's \<Rightarrow> string list"
  ro_max_history :: int

record source_summary =
  so_thread_id :: string
  so_updated_at :: int
  so_message_count :: int

definition not_connected :: exn where
  "not_connected = RuntimeError ''Redis source is not connected''"

fun ro_decode :: "chat_raw list \<Rightarrow> message list" where
  "ro_decode [] = []"
| "ro_decode (Malformed # es) = ro_decode es"
| "ro_decode (Entry e # es) = (case entry_message e of None \<Rightarrow> ro_decode es | Some m \<Rightarrow> m # ro_decode es)"

definition candidate_keys :: "string \<Rightarrow> string \<Rightarrow> string list" where
  "candidate_keys username tid = history_key username (Some tid) #
     (if tid = DEFAULT_CHAT_THREAD_ID then [legacy_history_key username] else [])"

fun first_entries :: "'s chat_redis \<Rightarrow> string list \<Rightarrow> 's \<Rightarrow> chat_raw list" where
  "first_entries R [] s = []"
| "first_entries R (k # ks) s = (let entries = LRANGE R k 0 (- 1) s in if entries \<noteq> [] then entries else first_entries R ks s)"

definition ro_get_history :: "'s ro_source \<Rightarrow> 's \<Rightarrow> string \<Rightarrow> string option \<Rightarrow> exn + message list" where
  "ro_get_history so s username thread_id = (case require_non_empty username ''username'' of Inl e \<Rightarrow> Inl e
     | Inr u \<Rightarrow> (case ro_redis so of None \<Rightarrow> Inl not_connected
     | Some R \<Rightarrow> Inr (py_suffix (ro_max_history so)
         (ro_decode (first_entries R (candidate_keys u (normalize_thread_id thread_id)) s)))))"

definition ro_registry_scores :: "'s chat_redis \<Rightarrow> string \<Rightarrow> 's \<Rightarrow> (string \<times> int) list" where
  "ro_registry_scores R username s = fold (\<lambda>(m, sc). AList.update m sc) (ZREVRANGE R (thread_registry_key username) s) []"

fun ro_first_timestamp :: "'s chat_redis \<Rightarrow> string list \<Rightarrow> 's \<Rightarrow> int" where
  "ro_first_timestamp R [] s = 0"
| "ro_first_timestamp R (k # ks) s = (case rev (LRANGE R k (- 1) (- 1) s) of
     Entry e # _ \<Rightarrow> safe_int (ce_created_at e)
   | _ \<Rightarrow> ro_first_timestamp R ks s)"

definition ro_latest_timestamp :: "'s chat_redis \<Rightarrow> string \<Rightarrow> string \<Rightarrow> 's \<Rightarrow> int" where
  "ro_latest_timestamp R username thread_id s =
     ro_first_timestamp R (candidate_keys username (normalize_thread_id (Some thread_id))) s"

text \<open>
  The loop over the set of thread ids has no order of its own; the summaries are sorted
  by time, most recent first, then by thread id.
\<close>

definition ro_list_threads :: "'s ro_source \<Rightarrow> 's \<Rightarrow> string \<Rightarrow> exn + source_summary list" where
  "ro_list_threads so s username = (case require_non_empty username ''username'' of Inl e \<Rightarrow> Inl e
     | Inr u \<Rightarrow> (case ro_redis so of None \<Rightarrow> Inl not_connected
     | Some R \<Rightarrow>
         let scores = ro_registry_scores R u s;
             scanned = List.map_filter (extract_thread_id_from_history_key u) (ro_scan so (history_key_prefix u) s);
             legacy = (if 0 < LLEN R (legacy_history_key u) s then [DEFAULT_CHAT_THREAD_ID] else []);
             ids = remdups (map fst scores @ scanned @ legacy);
             summary_of = (\<lambda>t. \<lparr>so_thread_id = t,
               so_updated_at = (case map_of scores t of Some sc \<Rightarrow> sc | None \<Rightarrow> ro_latest_timestamp R u t s),
               so_message_count = len (case ro_get_history so s u (Some t) of Inr h \<Rightarrow> h | Inl _ \<Rightarrow> [])\<rparr>)
         in Inr (sort_key (\<lambda>x. (- so_updated_at x, so_thread_id x)) (map summary_of ids))))"

section \<open>Parity\<close>

datatype parity_status = Matched | MissingInDb | MissingInSource | ContentMismatch | EmptyThread

record thread_parity =
  tp_thread_id :: string
  tp_status :: parity_status
  tp_source_message_count :: int
  tp_db_message_count :: int

record user_parity =
  up_username :: string
  up_matched :: "string list"
  up_missing_in_db :: "string list"
  up_missing_in_source :: "string list"
  up_content_mismatch :: "string list"
  up_empty :: "string list"

definition normalize_source_messages :: "message list \<Rightarrow> (string \<times> string) list" where
  "normalize_source_messages messages = map (\<lambda>m. (py_strip (m_role m), py_strip (m_content m))) messages"

definition normalize_db_messages :: "message_row list \<Rightarrow> (string \<times> string) list" where
  "normalize_db_messages messages = map (\<lambda>m. (py_strip (mr_role m), py_strip (mr_content m))) messages"

definition compare_history_snapshot_to_messages ::
  "message list \<Rightarrow> message_row list \<Rightarrow> string \<Rightarrow> thread_parity" where
  "compare_history_snapshot_to_messages source_messages db_messages thread_id =
     (let status = (if source_messages = [] \<and> db_messages = [] then EmptyThread
        else if source_messages \<noteq> [] \<and> db_messages = [] then MissingInDb
        else if source_messages = [] \<and> db_messages \<noteq> [] then MissingInSource
        else if normalize_source_messages source_messages = normalize_db_messages db_messages then Matched
        else ContentMismatch)
      in \<lparr>tp_thread_id = thread_id, tp_status = status, tp_source_message_count = len source_messages,
          tp_db_message_count = len db_messages\<rparr>)"

definition compare_history_snapshot_to_store ::
  "message list \<Rightarrow> 'd sql \<Rightarrow> string \<Rightarrow> string \<Rightarrow> 'd \<Rightarrow> thread_parity" where
  "compare_history_snapshot_to_store source_messages D username thread_id d =
     compare_history_snapshot_to_messages source_messages (get_messages D username thread_id d) thread_id"

text \<open>The source of a comparison or a migration: the two methods of its protocol.\<close>

record history_source =
  get_history_of :: "string \<Rightarrow> string option \<Rightarrow> exn + message list"
  list_threads_of :: "string \<Rightarrow> exn + source_summary list"

definition ro_as_source :: "'s ro_source \<Rightarrow> 's \<Rightarrow> history_source" where
  "ro_as_source so s = \<lparr>get_history_of = ro_get_history so s, list_threads_of = ro_list_threads so s\<rparr>"

definition compare_thread_for_user ::
  "history_source \<Rightarrow> 'd sql \<Rightarrow> string \<Rightarrow> string \<Rightarrow> 'd \<Rightarrow> exn + thread_parity" where
  "compare_thread_for_user src D username thread_id d =
     (case get_history_of src username (Some thread_id) of Inl e \<Rightarrow> Inl e
      | Inr source_messages \<Rightarrow> Inr (compare_history_snapshot_to_store source_messages D username thread_id d))"

fun extract_thread_ids :: "source_summary list \<Rightarrow> exn + string list" where
  "extract_thread_ids [] = Inr []"
| "extract_thread_ids (x # xs) = (let thread_id = py_strip (so_thread_id x) in
     if thread_id = [] then Inl (ValueError ''thread summary must include thread_id or id'')
     else case extract_thread_ids xs of Inl e \<Rightarrow> Inl e | Inr ids \<Rightarrow> Inr (thread_id # ids))"

fun compare_loop ::
  "history_source \<Rightarrow> 'd sql \<Rightarrow> string \<Rightarrow> string list \<Rightarrow> 'd \<Rightarrow> exn + (string \<times> parity_status) list" where
  "compare_loop src D username [] d = Inr []"
| "compare_loop src D username (t # ts) d =
     (case compare_thread_for_user src D username t d of Inl e \<Rightarrow> Inl e
      | Inr p \<Rightarrow> (case compare_loop src D username ts d of Inl e \<Rightarrow> Inl e
      | Inr rest \<Rightarrow> Inr ((t, tp_status p) # rest)))"

definition with_status :: "parity_status \<Rightarrow> (string \<times> parity_status) list \<Rightarrow> string list" where
  "with_status st rs = map fst (filter (\<lambda>r. snd r = st) rs)"

definition compare_all_threads_for_user ::
  "history_source \<Rightarrow> 'd sql \<Rightarrow> string \<Rightarrow> 'd \<Rightarrow> exn + user_parity" where
  "compare_all_threads_for_user src D username d =
     (case list_threads_of src username of Inl e \<Rightarrow> Inl e
      | Inr summaries \<Rightarrow> (case extract_thread_ids summaries of Inl e \<Rightarrow> Inl e
      | Inr source_ids \<Rightarrow> (case list_threads_db D username d of Inl e \<Rightarrow> Inl e
      | Inr db_threads \<Rightarrow>
          (case compare_loop src D username (sort (remdups (source_ids @ map tr_thread_id db_threads))) d of Inl e \<Rightarrow> Inl e
           | Inr rs \<Rightarrow> Inr \<lparr>up_username = username, up_matched = with_status Matched rs,
               up_missing_in_db = with_status MissingInDb rs, up_missing_in_source = with_status MissingInSource rs,
               up_content_mismatch = with_status ContentMismatch rs, up_empty = with_status EmptyThread rs\<rparr>))))"

section \<open>Migration\<close>

fun normalize_history_to_snapshot :: "message list \<Rightarrow> exn + snapshot" where
  "normalize_history_to_snapshot [] = Inr []"
| "normalize_history_to_snapshot (m # ms) =
     (let role = py_strip (m_role m); content = py_strip (m_content m) in
      if role = [] then Inl (ValueError ''history message role must not be empty'')
      else if content = [] then Inl (ValueError ''history message content must not be empty'')
      else case normalize_history_to_snapshot ms of Inl e \<Rightarrow> Inl e | Inr rest \<Rightarrow> Inr ((role, content) # rest))"

definition migrate_thread_from_history ::
  "'d sql \<Rightarrow> string \<Rightarrow> string \<Rightarrow> message list \<Rightarrow> 'd \<Rightarrow> (message_row list, 'd) outcome" where
  "migrate_thread_from_history D username thread_id history d =
     (case normalize_history_to_snapshot history of Inl e \<Rightarrow> (Inl e, d)
      | Inr snapshot \<Rightarrow> import_thread_snapshot D username thread_id snapshot d)"

fun migrate_threads_for_user ::
  "'d sql \<Rightarrow> string \<Rightarrow> (string \<times> message list) list \<Rightarrow> 'd \<Rightarrow> ((string \<times> message_row list) list, 'd) outcome" where
  "migrate_threads_for_user D username [] d = (Inr [], d)"
| "migrate_threads_for_user D username ((thread_id, history) # hs) d =
     obind (migrate_thread_from_history D username thread_id history d) (\<lambda>rows d.
       obind (migrate_threads_for_user D username hs d) (\<lambda>rest d. (Inr ((thread_id, rows) # rest), d)))"

record thread_migration =
  tm_thread_id :: string
  tm_migrated :: bool
  tm_message_count :: int
  tm_skipped_empty :: bool

record user_migration =
  um_username :: string
  um_migrated_thread_count :: int
  um_migrated_message_count :: int
  um_skipped_empty_threads :: "string list"

definition migrate_thread_for_user ::
  "history_source \<Rightarrow> 'd sql \<Rightarrow> string \<Rightarrow> string \<Rightarrow> 'd \<Rightarrow> (thread_migration, 'd) outcome" where
  "migrate_thread_for_user src D username thread_id d =
     (case get_history_of src username (Some thread_id) of Inl e \<Rightarrow> (Inl e, d)
      | Inr history \<Rightarrow>
          if history = [] then (Inr \<lparr>tm_thread_id = thread_id, tm_migrated = False, tm_message_count = 0, tm_skipped_empty = True\<rparr>, d)
          else obind (migrate_thread_from_history D username thread_id history d) (\<lambda>imported d.
            (Inr \<lparr>tm_thread_id = thread_id, tm_migrated = True, tm_message_count = len imported, tm_skipped_empty = False\<rparr>, d)))"

fun migrate_loop ::
  "history_source \<Rightarrow> 'd sql \<Rightarrow> string \<Rightarrow> string list \<Rightarrow> int \<Rightarrow> int \<Rightarrow> string list \<Rightarrow> 'd \<Rightarrow> (user_migration, 'd) outcome" where
  "migrate_loop src D username [] threads_n messages_n skipped d =
     (Inr \<lparr>um_username = username, um_migrated_thread_count = threads_n, um_migrated_message_count = messages_n,
           um_skipped_empty_threads = skipped\<rparr>, d)"
| "migrate_loop src D username (t # ts) threads_n messages_n skipped d =
     obind (migrate_thread_for_user src D username t d) (\<lambda>result d.
       if tm_skipped_empty result then migrate_loop src D username ts threads_n messages_n (skipped @ [tm_thread_id result]) d
       else migrate_loop src D username ts (threads_n + 1) (messages_n + tm_message_count result) skipped d)"

text \<open>The first occurrence of every thread id, in the order of the summaries.\<close>

definition first_occurrences :: "string list \<Rightarrow> string list" where
  "first_occurrences ids = rev (remdups (rev ids))"

definition migrate_all_threads_for_user ::
  "history_source \<Rightarrow> 'd sql \<Rightarrow> string \<Rightarrow> 'd \<Rightarrow> (user_migration, 'd) outcome" where
  "migrate_all_threads_for_user src D username d =
     (case list_threads_of src username of Inl e \<Rightarrow> (Inl e, d)
      | Inr summaries \<Rightarrow> (case extract_thread_ids summaries of Inl e \<Rightarrow> (Inl e, d)
      | Inr ids \<Rightarrow> migrate_loop src D username (first_occurrences ids) 0 0 [] d))"

section \<open>When the two stores agree\<close>

definition stored :: "tables \<Rightarrow> string \<times> string \<Rightarrow> snapshot" where
  "stored tb p = (case conv tb p of None \<Rightarrow> [] | Some ms \<Rightarrow> ms)"

definition msg_pair :: "message \<Rightarrow> string \<times> string" where
  "msg_pair m = (m_role m, m_content m)"

text \<open>Redis holds the last \<open>n\<close> messages of the conversation in the database, and nothing it cannot decode.\<close>

definition in_step :: "int \<Rightarrow> chat_space \<Rightarrow> tables \<Rightarrow> string \<times> string \<Rightarrow> bool" where
  "in_step n ks tb p \<longleftrightarrow> (\<exists>ms. decode_entries (threads n ks p) = Inr ms \<and> length ms = length (threads n ks p)
     \<and> map msg_pair ms = py_suffix n (stored tb p))"

definition chat_role :: "string \<Rightarrow> bool" where
  "chat_role role \<longleftrightarrow> role = ''user'' \<or> role = ''assistant''"

lemma chat_role_strip: "chat_role role \<Longrightarrow> py_strip role = role \<and> role \<noteq> []"
  by (auto simp: chat_role_def py_strip_def py_lstrip_def py_rstrip_def py_isspace_def)

lemma strip_normalize [simp]: "py_strip (normalize_thread_id t) = normalize_thread_id t" "normalize_thread_id t \<noteq> []"
  by (simp_all add: normalize_thread_id_def strip_opt_def Let_def) (simp add: DEFAULT_CHAT_THREAD_ID_def)

lemma decode_snoc:
  "decode_entries es = Inr ms \<Longrightarrow> entry_message e = Some m \<Longrightarrow> decode_entries (es @ [Entry e]) = Inr (ms @ [m])"
proof (induction es arbitrary: ms rule: decode_entries.induct)
  case (3 e' es)
  then show ?case by (auto split: sum.splits option.splits)
qed simp_all

lemma decode_drop:
  "decode_entries es = Inr ms \<Longrightarrow> length ms = length es \<Longrightarrow> decode_entries (drop k es) = Inr (drop k ms)"
proof (induction es arbitrary: ms k rule: decode_entries.induct)
  case (3 e es)
  then obtain ms' where tl: "decode_entries es = Inr ms'" by (auto split: sum.splits option.splits)
  have "length ms' \<le> length es" using decode_entries_length [OF tl] by simp
  then obtain m where m: "entry_message e = Some m" "ms = m # ms'" using 3(2, 3) tl by (auto split: option.splits)
  then show ?case using 3 tl by (cases k) simp_all
qed auto

lemma decode_suffix:
  assumes "decode_entries es = Inr ms" and "length ms = length es" and "entry_message e = Some m"
  shows "decode_entries (py_suffix n (es @ [Entry e])) = Inr (py_suffix n (ms @ [m]))"
    and "length (py_suffix n (ms @ [m])) = length (py_suffix n (es @ [Entry e]))"
  using decode_drop [OF decode_snoc [OF assms(1, 3)]] assms(2) by (simp_all add: py_suffix_def del: drop_append)

lemma map_py_suffix: "map f (py_suffix n xs) = py_suffix n (map f xs)"
  by (simp add: py_suffix_def drop_map)

lemma normalize_snapshot_ok:
  assumes "m \<in> set (normalize_snapshot ms)"
  shows "chat_role (m_role m)" "py_strip (m_content m) = m_content m" "m_content m \<noteq> []"
  using assms by (auto simp: normalize_snapshot_def chat_role_def)

lemma normalized_pairs:
  "\<forall>m \<in> set ms. chat_role (m_role m) \<and> py_strip (m_content m) = m_content m \<and> m_content m \<noteq> [] \<Longrightarrow>
     normalize_snapshot_messages (map msg_pair ms) = Inr (map msg_pair ms)"
  by (induction ms) (simp_all add: msg_pair_def require_non_empty_def chat_role_strip)

context connected_chat
begin

lemma append_all_threads:
  assumes u: "plain_user u" and ok: "\<forall>m \<in> set ms. chat_role (m_role m) \<and> py_strip (m_content m) = m_content m \<and> m_content m \<noteq> []"
    and "threads (max_history cs) (view s) (u, normalize_thread_id (Some t)) = es"
    and "decode_entries es = Inr (py_suffix (max_history cs) old)" and "length (py_suffix (max_history cs) old) = length es"
  shows "\<exists>s' es'. append_all cs c u t ms s = (Inr (), s')
    \<and> threads (max_history cs) (view s') (u, normalize_thread_id (Some t)) = es'
    \<and> decode_entries es' = Inr (py_suffix (max_history cs) (old @ ms)) \<and> length (py_suffix (max_history cs) (old @ ms)) = length es'
    \<and> (\<forall>v q. plain_user v \<longrightarrow> (v, q) \<noteq> (u, normalize_thread_id (Some t)) \<longrightarrow>
         threads (max_history cs) (view s') (v, q) = threads (max_history cs) (view s) (v, q))"
  using assms(2-)
proof (induction ms arbitrary: s es old)
  case Nil
  then show ?case by simp
next
  case (Cons m ms)
  let ?t = "normalize_thread_id (Some t)" and ?n = "max_history cs"
  let ?e = "\<lparr>ce_role = m_role m, ce_content = Some (m_content m), ce_created_at = Some (MInt (now c))\<rparr>"
  have m: "chat_role (m_role m)" "py_strip (m_content m) = m_content m" "py_strip (m_role m) = m_role m"
    using Cons.prems(1) chat_role_strip by auto
  obtain sm where step: "append_message cs c u (m_role m) (m_content m) (Some t) s = (Inr (), sm)"
    using append_refines [OF u u] by (metis prod.collapse)
  have th: "threads ?n (view sm) (v, q) = spec_append ?n u ?t (Entry ?e) (threads ?n (view s)) (v, q)" if "plain_user v" for v q
    using append_refines [OF u that, of c "m_role m" "m_content m" "Some t" s] step by simp
  have here: "threads ?n (view sm) (u, ?t) = py_suffix ?n (es @ [Entry ?e])"
    using th [OF u, of ?t] Cons.prems(2) by (simp add: spec_append_def)
  have "entry_message ?e = Some m" using m(1) by (auto simp: entry_message_def chat_role_def)
  note dec = decode_suffix [OF Cons.prems(3, 4) this, of ?n, unfolded py_suffix_snoc [OF history_positive]]
  obtain s' es' where "append_all cs c u t ms sm = (Inr (), s')"
    "threads ?n (view s') (u, ?t) = es'" "decode_entries es' = Inr (py_suffix ?n ((old @ [m]) @ ms))"
    "length (py_suffix ?n ((old @ [m]) @ ms)) = length es'"
    "\<forall>v q. plain_user v \<longrightarrow> (v, q) \<noteq> (u, ?t) \<longrightarrow> threads ?n (view s') (v, q) = threads ?n (view sm) (v, q)"
    using Cons.IH [OF _ here dec] Cons.prems(1) by auto
  then show ?case using step m th by (fastforce simp: spec_append_def)
qed

end

locale dual_stores = connected_chat R view cs + db: sql_store D dview
  for R :: "'s chat_redis" and view :: "'s \<Rightarrow> chat_space" and cs :: "'s chat_store"
    and D :: "'d sql" and dview :: "'d \<Rightarrow> tables" +
  fixes w :: "('s, 'd) write_coordinator"
  assumes chat: "cw_chat w = cs" and database: "cw_db w = Some D"
    and mirroring: "dual_write_enabled w" "\<not> cw_db_down w"
begin

abbreviation agree :: "'s \<Rightarrow> 'd \<Rightarrow> string \<times> string \<Rightarrow> bool" where
  "agree s d p \<equiv> in_step (max_history cs) (view s) (dview d) p"

lemma then_mirror_ok [simp]: "then_mirror w (Inr x, s) action d = (Inr x, (s, action x D d))"
  by (simp add: then_mirror_def mirror_best_effort_def database mirroring)

lemma append_cw_eq:
  assumes "plain_user u"
  shows "append_message_cw w c u role content t (s, d) =
     (Inr (), (snd (append_message cs c u role content t s), snd (append_message_db D u (normalize_thread_id t) role content d)))"
proof -
  obtain s1 where "append_message cs c u role content t s = (Inr (), s1)"
    using append_refines [OF assms assms] by (metis prod.collapse)
  then show ?thesis by (simp add: append_message_cw_def chat)
qed

lemma clear_cw_eq:
  assumes "plain_user u"
  shows "clear_thread w c u t preserve (s, d) = (Inr (), (snd (clear_history cs c u t preserve s),
     if preserve then snd (delete_thread_messages D u (normalize_thread_id t) d) else snd (delete_thread D u (normalize_thread_id t) d)))"
proof -
  obtain s1 where "clear_history cs c u t preserve s = (Inr (), s1)"
    using clear_refines [OF assms assms] by (metis prod.collapse)
  then show ?thesis by (simp add: clear_thread_def chat)
qed

lemma append_keeps_step:
  assumes u: "plain_user u" "py_strip u = u" "u \<noteq> []" and msg: "chat_role role" "content \<noteq> []"
    and wf: "wf_tables (dview d)" and p: "p = (u, normalize_thread_id t)"
    and r: "append_message_cw w c u role content t (s, d) = (x, (s', d'))"
  shows "agree s d p \<Longrightarrow> agree s' d' p" "plain_user v \<Longrightarrow> (v, q) \<noteq> p \<Longrightarrow> agree s d (v, q) \<Longrightarrow> agree s' d' (v, q)"
    "wf_tables (dview d')"
proof -
  let ?e = "\<lparr>ce_role = role, ce_content = Some content, ce_created_at = Some (MInt (now c))\<rparr>"
  let ?n = "max_history cs"
  have s': "s' = snd (append_message cs c u role content t s)"
    and d': "d' = snd (append_message_db D u (normalize_thread_id t) role content d)"
    using r append_cw_eq [OF u(1)] by auto
  have th: "threads ?n (view s') (v, q) = spec_append ?n u (normalize_thread_id t) (Entry ?e) (threads ?n (view s)) (v, q)"
    if "plain_user v" for v q
    using append_refines [OF u(1) that] s' by blast
  note a = db.append_message_db_eq [OF wf, of u "normalize_thread_id t" role content, folded d']
  have st: "stored (dview d') p' = (if p' = p then stored (dview d) p @ [(role, content)] else stored (dview d) p')" for p'
    using a(3) u msg chat_role_strip [OF msg(1)] by (simp add: p stored_def)
  show "wf_tables (dview d')" using a(2) u msg chat_role_strip [OF msg(1)] by simp
  show "agree s' d' p" if ag: "agree s d p"
  proof -
    obtain ms where ms: "decode_entries (threads ?n (view s) p) = Inr ms" "length ms = length (threads ?n (view s) p)"
        "map msg_pair ms = py_suffix ?n (stored (dview d) p)"
      using ag by (auto simp: in_step_def)
    have "threads ?n (view s') p = py_suffix ?n (threads ?n (view s) p @ [Entry ?e])"
      using th [OF u(1), of "normalize_thread_id t"] by (simp add: p spec_append_def)
    moreover have "entry_message ?e = Some \<lparr>m_role = role, m_content = content\<rparr>"
      using msg(1) by (auto simp: entry_message_def chat_role_def)
    note decode_suffix [OF ms(1, 2) this, of ?n]
    moreover have "map msg_pair (py_suffix ?n (ms @ [\<lparr>m_role = role, m_content = content\<rparr>])) = py_suffix ?n (stored (dview d') p)"
      using st [of p] by (simp add: map_py_suffix ms(3) history_positive) (simp add: msg_pair_def)
    ultimately show ?thesis by (auto simp: in_step_def)
  qed
  show "agree s' d' (v, q)" if "plain_user v" "(v, q) \<noteq> p" "agree s d (v, q)"
    using th [OF that(1), of q] st [of "(v, q)"] that by (auto simp: in_step_def spec_append_def p)
qed

lemma clear_keeps_step:
  assumes u: "plain_user u" "py_strip u = u" "u \<noteq> []" and wf: "wf_tables (dview d)" and p: "p = (u, normalize_thread_id t)"
    and r: "clear_thread w c u t preserve (s, d) = (x, (s', d'))"
  shows "agree s' d' p" "plain_user v \<Longrightarrow> (v, q) \<noteq> p \<Longrightarrow> agree s d (v, q) \<Longrightarrow> agree s' d' (v, q)" "wf_tables (dview d')"
proof -
  let ?n = "max_history cs"
  have s': "s' = snd (clear_history cs c u t preserve s)" using r clear_cw_eq [OF u(1)] by auto
  have d': "d' = (if preserve then snd (delete_thread_messages D u (normalize_thread_id t) d)
     else snd (delete_thread D u (normalize_thread_id t) d))" using r clear_cw_eq [OF u(1)] by auto
  have th: "threads ?n (view s') (v, q) = spec_clear u (normalize_thread_id t) (threads ?n (view s)) (v, q)"
    if "plain_user v" for v q
    using clear_refines [OF u(1) that] s' by blast
  have ne: "py_strip u \<noteq> []" "py_strip (normalize_thread_id t) \<noteq> []" using u by simp_all
  note a = db.delete_thread_messages_eq [OF wf ne] db.delete_thread_eq [OF wf ne]
  have st: "stored (dview d') p' = (if p' = p then [] else stored (dview d) p')" for p'
    using a u by (auto simp: d' p stored_def split: option.split)
  show "wf_tables (dview d')" using a by (simp add: d')
  show "agree s' d' p" using th [OF u(1), of "normalize_thread_id t"] st [of p] by (simp add: in_step_def p spec_clear_def)
  show "agree s' d' (v, q)" if "plain_user v" "(v, q) \<noteq> p" "agree s d (v, q)"
    using th [OF that(1), of q] st [of "(v, q)"] that by (auto simp: in_step_def spec_clear_def p)
qed

lemma replace_keeps_step:
  assumes u: "plain_user u" "py_strip u = u" "u \<noteq> []" and wf: "wf_tables (dview d)" and p: "p = (u, normalize_thread_id (Some t))"
    and r: "replace_thread_snapshot w c u t ms (s, d) = (x, (s', d'))"
  shows "agree s' d' p" "plain_user v \<Longrightarrow> (v, q) \<noteq> p \<Longrightarrow> agree s d (v, q) \<Longrightarrow> agree s' d' (v, q)"
    "wf_tables (dview d')" "stored (dview d') p = map msg_pair (normalize_snapshot ms)"
proof -
  let ?n = "max_history cs" and ?ms = "normalize_snapshot ms" and ?t = "normalize_thread_id (Some t)"
  have ok: "\<forall>m \<in> set ?ms. chat_role (m_role m) \<and> py_strip (m_content m) = m_content m \<and> m_content m \<noteq> []"
    using normalize_snapshot_ok by blast
  obtain s1 where s1: "clear_history cs c u (Some t) True s = (Inr (), s1)"
    using clear_refines [OF u(1) u(1)] by (metis prod.collapse)
  have th1: "threads ?n (view s1) (v, q) = spec_clear u ?t (threads ?n (view s)) (v, q)" if "plain_user v" for v q
    using clear_refines [OF u(1) that, of c "Some t" True s] s1 by simp
  have "threads ?n (view s1) (u, ?t) = []" using th1 [OF u(1), of ?t] by (simp add: spec_clear_def)
  then obtain s2 where s2: "append_all cs c u t ?ms s1 = (Inr (), s2)"
    and dec: "decode_entries (threads ?n (view s2) (u, ?t)) = Inr (py_suffix ?n ?ms)" "length (py_suffix ?n ?ms) = length (threads ?n (view s2) (u, ?t))"
    and other: "\<And>v q. plain_user v \<Longrightarrow> (v, q) \<noteq> (u, ?t) \<Longrightarrow> threads ?n (view s2) (v, q) = threads ?n (view s1) (v, q)"
    using append_all_threads [OF u(1) ok, of s1 t "[]" "[]" c] by auto
  have eq: "s' = s2" "d' = snd (replace_thread_snapshot_db D u ?t (map msg_pair ?ms) d)"
    using r s1 s2 by (auto simp: replace_thread_snapshot_def chat Let_def msg_pair_def [abs_def])
  have "snapshot_arguments u ?t (map msg_pair ?ms) = Inr (u, ?t, map msg_pair ?ms)"
    using u normalized_pairs [OF ok] by (simp add: snapshot_arguments_def require_non_empty_def)
  note a = db.replace_thread_snapshot_db_eq [OF wf this, folded eq(2)]
  have st: "stored (dview d') p' = (if p' = p then map msg_pair ?ms else stored (dview d) p')" for p'
    using a(3) by (simp add: stored_def p)
  show "wf_tables (dview d')" by (rule a(2))
  show "stored (dview d') p = map msg_pair ?ms" using st by simp
  show "agree s' d' p" using dec st [of p] by (simp add: in_step_def p eq(1) map_py_suffix)
  show "agree s' d' (v, q)" if "plain_user v" "(v, q) \<noteq> p" "agree s d (v, q)"
    using other [of v q] th1 [OF that(1), of q] st [of "(v, q)"] that by (auto simp: in_step_def spec_clear_def p eq(1))
qed

lemma compare_agreeing:
  assumes "plain_user u" "py_strip u = u" "u \<noteq> []" and "bounded (max_history cs) (view s)" and p: "p = (u, normalize_thread_id t)"
    and "agree s d p"
  shows "\<exists>history. fst (get_history cs c u t s) = Inr history \<and> map msg_pair history = py_suffix (max_history cs) (stored (dview d) p)
    \<and> tp_status (compare_history_snapshot_to_store history D u (normalize_thread_id t) d) =
        (if stored (dview d) p = [] then EmptyThread else if len (stored (dview d) p) \<le> max_history cs then Matched else ContentMismatch)"
proof -
  let ?n = "max_history cs"
  obtain ms where ms: "decode_entries (threads ?n (view s) p) = Inr ms" "map msg_pair ms = py_suffix ?n (stored (dview d) p)"
    using assms(6) by (auto simp: in_step_def)
  have h: "fst (get_history cs c u t s) = Inr ms"
    using get_refines [OF assms(1) assms(1) assms(4), of c t] ms(1) by (simp add: p)
  let ?rows = "get_messages D u (normalize_thread_id t) d"
  have rows: "map (\<lambda>m. (mr_role m, mr_content m)) ?rows = stored (dview d) p"
    using db.get_messages_eq [of u "normalize_thread_id t" d] assms(2, 3) by (simp add: p stored_def)
  then have len_rows: "length ?rows = length (stored (dview d) p)" by (metis length_map)
  have len_ms: "length ms = length (py_suffix ?n (stored (dview d) p))" using ms(2) by (metis length_map)
  have db_text: "normalize_db_messages ?rows = map (\<lambda>(r, c). (py_strip r, py_strip c)) (stored (dview d) p)"
    by (simp add: normalize_db_messages_def rows [symmetric])
  have source_text: "normalize_source_messages ms = map (\<lambda>(r, c). (py_strip r, py_strip c)) (map msg_pair ms)"
    by (simp add: normalize_source_messages_def msg_pair_def)
  note compare = compare_history_snapshot_to_store_def compare_history_snapshot_to_messages_def Let_def
  have "tp_status (compare_history_snapshot_to_store ms D u (normalize_thread_id t) d) =
      (if stored (dview d) p = [] then EmptyThread else if len (stored (dview d) p) \<le> ?n then Matched else ContentMismatch)"
  proof (cases "stored (dview d) p = []")
    case True
    then show ?thesis using len_rows len_ms by (simp add: compare)
  next
    case False
    then have ne: "?rows \<noteq> []" "ms \<noteq> []" using len_rows len_ms history_positive by auto
    show ?thesis
    proof (cases "len (stored (dview d) p) \<le> ?n")
      case True
      then show ?thesis using False ne db_text source_text ms(2) by (simp add: compare py_suffix_short)
    next
      case longer: False
      have "length ms \<noteq> length ?rows"
        using longer length_py_suffix_le [OF history_positive, of "stored (dview d) p"] len_rows len_ms by linarith
      then have "normalize_source_messages ms \<noteq> normalize_db_messages ?rows"
        by (auto simp: normalize_db_messages_def normalize_source_messages_def dest: map_eq_imp_length_eq)
      then show ?thesis using False longer ne by (simp add: compare)
    qed
  qed
  then show ?thesis using h ms(2) by blast
qed

text \<open>At the bound of the Redis list, the next message makes the stores differ.\<close>

lemma compare_at_cap:
  assumes u: "plain_user u" "py_strip u = u" "u \<noteq> []" and msg: "chat_role role" "content \<noteq> []"
    and b: "bounded (max_history cs) (view s)" and wf: "wf_tables (dview d)"
    and full: "len (stored (dview d) (u, normalize_thread_id t)) = max_history cs"
    and r: "append_message_cw w c u role content t (s, d) = (x, (s', d'))"
    and h: "fst (get_history cs c' u t s') = Inr history"
  shows "history \<noteq> [] \<Longrightarrow>
      tp_status (compare_history_snapshot_to_store history D u (normalize_thread_id t) d') = ContentMismatch"
    and "tp_db_message_count (compare_history_snapshot_to_store history D u (normalize_thread_id t) d') = max_history cs + 1"
    and "len history \<le> max_history cs"
proof -
  let ?n = "max_history cs" and ?p = "(u, normalize_thread_id t)"
  have s': "s' = snd (append_message cs c u role content t s)"
    and d': "d' = snd (append_message_db D u (normalize_thread_id t) role content d)"
    using r append_cw_eq [OF u(1)] by auto
  have b': "bounded ?n (view s')" using append_refines [OF u(1) u(1)] b s' by blast
  have "decode_entries (threads ?n (view s') ?p) = Inr history"
    using get_refines [OF u(1) u(1) b', of c' t] h by simp
  moreover have "len (threads ?n (view s') ?p) \<le> ?n"
    using length_py_suffix_le [OF history_positive] by (auto simp: threads_def)
  ultimately show short: "len history \<le> ?n" using decode_entries_length by fastforce
  have "stored (dview d') ?p = stored (dview d) ?p @ [(role, content)]"
    using db.append_message_db_eq(3) [OF wf, of u "normalize_thread_id t" role content] u msg chat_role_strip [OF msg(1)]
    by (simp add: d' stored_def)
  then have "len (get_messages D u (normalize_thread_id t) d') = ?n + 1"
    using db.get_messages_eq [of u "normalize_thread_id t" d'] u full
    by (metis (no_types, lifting) length_append_singleton length_map of_nat_Suc add.commute prod.inject stored_def strip_normalize)
  then show "tp_db_message_count (compare_history_snapshot_to_store history D u (normalize_thread_id t) d') = ?n + 1"
    and "history \<noteq> [] \<Longrightarrow> tp_status (compare_history_snapshot_to_store history D u (normalize_thread_id t) d') = ContentMismatch"
    using short history_positive
    by (auto simp: compare_history_snapshot_to_store_def compare_history_snapshot_to_messages_def Let_def
        normalize_db_messages_def normalize_source_messages_def dest!: map_eq_imp_length_eq)
qed

end

section \<open>Migration reaches parity\<close>

lemma history_snapshot:
  "normalize_history_to_snapshot h = Inr snap \<Longrightarrow>
     snap = normalize_source_messages h \<and> normalize_snapshot_messages snap = Inr snap"
proof (induction h arbitrary: snap)
  case Nil
  then show ?case by (simp add: normalize_source_messages_def)
next
  case (Cons m h)
  then show ?case
    by (auto simp: normalize_source_messages_def require_non_empty_def Let_def split: sum.splits if_splits)
qed

context sql_store
begin

lemma migrate_then_compare:
  assumes wf: "wf_tables (view d)" and u: "py_strip u \<noteq> []" "py_strip t \<noteq> []"
    and h: "get_history_of src u (Some t) = Inr h" "h \<noteq> []"
    and snap: "normalize_history_to_snapshot h = Inr snap"
    and d': "d' = snd (migrate_thread_for_user src D u t d)"
  shows "fst (migrate_thread_for_user src D u t d)
      = Inr \<lparr>tm_thread_id = t, tm_migrated = True, tm_message_count = len h, tm_skipped_empty = False\<rparr>"
    and "compare_thread_for_user src D u t d'
      = Inr \<lparr>tp_thread_id = t, tp_status = Matched, tp_source_message_count = len h, tp_db_message_count = len h\<rparr>"
    and "snd (migrate_thread_for_user src D u t d') = d'"
    and "wf_tables (view d')"
    and "p \<noteq> (py_strip u, py_strip t) \<Longrightarrow> conv (view d') p = conv (view d) p"
proof -
  let ?p = "(py_strip u, py_strip t)"
  have snap': "snap = normalize_source_messages h" "normalize_snapshot_messages snap = Inr snap"
    using history_snapshot [OF snap] by blast+
  have len: "length snap = length h" by (simp add: snap'(1) normalize_source_messages_def)
  have args: "snapshot_arguments u t snap = Inr (py_strip u, py_strip t, snap)"
    using u snap'(2) by (simp add: snapshot_arguments_def require_non_empty_def)
  have mig: "migrate_thread_for_user src D u t e = obind (import_thread_snapshot D u t snap e) (\<lambda>imported d.
      (Inr \<lparr>tm_thread_id = t, tm_migrated = True, tm_message_count = len imported, tm_skipped_empty = False\<rparr>, d))" for e
    using h by (simp add: migrate_thread_for_user_def migrate_thread_from_history_def snap)
  obtain rows where rows: "fst (import_thread_snapshot D u t snap d) = Inr rows" "map (\<lambda>m. (mr_role m, mr_content m)) rows = snap"
    using import_eq [OF wf args] by blast
  then have eq: "migrate_thread_for_user src D u t d =
      (Inr \<lparr>tm_thread_id = t, tm_migrated = True, tm_message_count = len rows, tm_skipped_empty = False\<rparr>,
       snd (import_thread_snapshot D u t snap d))"
    by (cases "import_thread_snapshot D u t snap d") (simp add: mig)
  have "length rows = length h" using rows(2) len by (metis length_map)
  then show "fst (migrate_thread_for_user src D u t d)
      = Inr \<lparr>tm_thread_id = t, tm_migrated = True, tm_message_count = len h, tm_skipped_empty = False\<rparr>"
    by (simp add: eq)
  have d'': "d' = snd (import_thread_snapshot D u t snap d)" by (simp add: d' eq)
  note i = import_eq [OF wf args, folded d'']
  show wf': "wf_tables (view d')" using i by blast
  have st: "(case conv (view d') ?p of None \<Rightarrow> [] | Some ms \<Rightarrow> ms) = snap" using i by (auto split: if_splits)
  show "conv (view d') p = conv (view d) p" if "p \<noteq> ?p" using i that by (auto split: if_splits)
  have msgs: "map (\<lambda>m. (mr_role m, mr_content m)) (get_messages D u t d') = snap"
    using get_messages_eq [OF u, of d'] st by simp
  then have "length (get_messages D u t d') = length h" using len by (metis length_map)
  moreover have "normalize_db_messages (get_messages D u t d') = map (\<lambda>(r, c). (py_strip r, py_strip c)) snap"
    unfolding msgs [symmetric] by (simp add: normalize_db_messages_def)
  moreover have "map (\<lambda>(r, c). (py_strip r, py_strip c)) snap = normalize_source_messages h"
    by (simp add: snap'(1) normalize_source_messages_def)
  moreover from calculation(1) have "get_messages D u t d' \<noteq> []" using h(2) by auto
  ultimately show "compare_thread_for_user src D u t d'
      = Inr \<lparr>tp_thread_id = t, tp_status = Matched, tp_source_message_count = len h, tp_db_message_count = len h\<rparr>"
    using h by (simp add: compare_thread_for_user_def compare_history_snapshot_to_store_def
        compare_history_snapshot_to_messages_def Let_def)
  show "snd (migrate_thread_for_user src D u t d') = d'"
    using import_eq [OF wf' args] st
    by (cases "import_thread_snapshot D u t snap d'") (auto simp: mig)
qed

end

definition mem_coordinator :: "(chat_space, tables) write_coordinator" where
  "mem_coordinator = \<lparr>cw_chat = mem_chat, cw_db = Some mem_sql, cw_db_down = False, dual_write_enabled = True\<rparr>"

interpretation memdw: dual_stores mem_redis "\<lambda>s. s" mem_chat mem_sql "\<lambda>s. s" mem_coordinator
  by unfold_locales (simp_all add: mem_coordinator_def)

section \<open>Properties\<close>

text \<open>
  C29: with a working database the mirrored writes keep the two stores in step: Redis holds
  the last \<open>max_history\<close> messages of the conversation that the database holds. If this is so
  before, it is so after appending a message, clearing a thread and replacing its messages,
  in that thread and in every other one; a cleared or replaced thread is in step whatever was
  there before, and a replaced one has exactly the new messages in the database. The
  comparison of the maintenance utility then reports an empty thread, a match if the
  conversation is within the bound, and a content mismatch if it is longer.
\<close>

theorem dual_write_in_step:
  assumes dual: "dual_stores R view cs D dview w"
    and u: "plain_user u" "py_strip u = u" "u \<noteq> []" and msg: "chat_role role" "content \<noteq> []"
    and wf: "wf_tables (dview d)" and p: "p = (u, normalize_thread_id t)" and p': "p' = (u, normalize_thread_id (Some t'))"
    and app: "append_message_cw w c u role content t (s, d) = (x, (s1, d1))"
    and clr: "clear_thread w c u t preserve (s, d) = (y, (s2, d2))"
    and rep: "replace_thread_snapshot w c u t' ms (s, d) = (z, (s3, d3))"
    and v: "plain_user v" "in_step (max_history cs) (view s) (dview d) (v, q)"
  shows "in_step (max_history cs) (view s1) (dview d1) (v, q) \<and> wf_tables (dview d1)
    \<and> in_step (max_history cs) (view s2) (dview d2) (v, q) \<and> wf_tables (dview d2)
    \<and> in_step (max_history cs) (view s3) (dview d3) (v, q) \<and> wf_tables (dview d3)
    \<and> in_step (max_history cs) (view s2) (dview d2) p
    \<and> in_step (max_history cs) (view s3) (dview d3) p' \<and> stored (dview d3) p' = map msg_pair (normalize_snapshot ms)
    \<and> (bounded (max_history cs) (view s) \<and> in_step (max_history cs) (view s) (dview d) p \<longrightarrow>
        (\<exists>history. fst (get_history cs c u t s) = Inr history \<and> map msg_pair history = py_suffix (max_history cs) (stored (dview d) p)
          \<and> tp_status (compare_history_snapshot_to_store history D u (normalize_thread_id t) d) =
              (if stored (dview d) p = [] then EmptyThread
               else if len (stored (dview d) p) \<le> max_history cs then Matched else ContentMismatch)))"
proof -
  note a = dual_stores.append_keeps_step [OF dual u msg wf p app]
  note b = dual_stores.clear_keeps_step [OF dual u wf p clr]
  note r = dual_stores.replace_keeps_step [OF dual u wf p' rep]
  have "in_step (max_history cs) (view s1) (dview d1) (v, q)" using a(1, 2) v by (cases "(v, q) = p") auto
  moreover have "in_step (max_history cs) (view s2) (dview d2) (v, q)" using b(1, 2) v by (cases "(v, q) = p") auto
  moreover have "in_step (max_history cs) (view s3) (dview d3) (v, q)" using r(1, 2) v by (cases "(v, q) = p'") auto
  ultimately show ?thesis using a(3) b(1, 3) r(1, 3, 4) dual_stores.compare_agreeing [OF dual u _ p, of s d c] by blast
qed

lemma demo_names: "plain_user ''ann''" "py_strip ''ann'' = ''ann''" "chat_role ''user''"
  by (simp_all add: plain_user_def chat_role_def py_strip_def py_lstrip_def py_rstrip_def py_isspace_def)

theorem dual_write_in_step_witness:
  "in_step 100 (fst (snd (append_message_cw mem_coordinator \<lparr>now = 5, now_ms = 5000\<rparr> ''ann'' ''user'' ''hi'' None (empty_keyspace, empty_tables))))
     (snd (snd (append_message_cw mem_coordinator \<lparr>now = 5, now_ms = 5000\<rparr> ''ann'' ''user'' ''hi'' None (empty_keyspace, empty_tables))))
     (''ann'', ''default'')"
proof -
  let ?c = "\<lparr>now = 5, now_ms = 5000\<rparr>" and ?sd = "(empty_keyspace, empty_tables) :: chat_space \<times> tables"
  let ?a = "append_message_cw mem_coordinator ?c ''ann'' ''user'' ''hi'' None ?sd"
  let ?b = "clear_thread mem_coordinator ?c ''ann'' None True ?sd"
  let ?r = "replace_thread_snapshot mem_coordinator ?c ''ann'' ''t'' [] ?sd"
  have pair: "X = (fst X, (fst (snd X), snd (snd X)))" for X :: "(exn + unit) \<times> chat_space \<times> tables" by simp
  have "in_step (max_history mem_chat) empty_keyspace empty_tables (''ann'', ''default'')"
    using empty_threads empty_wf(2) by (simp add: in_step_def stored_def mem_chat_def)
  then show ?thesis
    using dual_write_in_step [OF memdw.dual_stores_axioms demo_names(1, 2) _ demo_names(3) _ empty_wf(1) refl refl
        pair [of ?a] pair [of ?b] pair [of ?r] demo_names(1), of "''default''"]
    by (simp add: mem_chat_def)
qed

text \<open>
  C30: the two stores part at the bound. The Redis list keeps the last \<open>max_history\<close>
  messages and the database keeps all, so one more message on a thread whose database copy
  already has \<open>max_history\<close> of them makes the comparison report a content mismatch, with
  one message more in the database than Redis can hold, although every write succeeded.
\<close>

theorem parity_lost_at_bound:
  assumes dual: "dual_stores R view cs D dview w"
    and u: "plain_user u" "py_strip u = u" "u \<noteq> []" and msg: "chat_role role" "content \<noteq> []"
    and b: "bounded (max_history cs) (view s)" and wf: "wf_tables (dview d)"
    and full: "len (stored (dview d) (u, normalize_thread_id t)) = max_history cs"
    and app: "append_message_cw w c u role content t (s, d) = (x, (s', d'))"
    and h: "fst (get_history cs c' u t s') = Inr history" "history \<noteq> []"
    and result: "result = compare_history_snapshot_to_store history D u (normalize_thread_id t) d'"
  shows "tp_status result = ContentMismatch \<and> tp_db_message_count result = max_history cs + 1 \<and> len history \<le> max_history cs"
  using dual_stores.compare_at_cap [OF dual u msg b wf full app h(1)] h(2) result by simp

definition small_coordinator :: "(chat_space, tables) write_coordinator" where
  "small_coordinator = mem_coordinator\<lparr>cw_chat := mem_chat\<lparr>max_history := 1\<rparr>\<rparr>"

interpretation smalldw: dual_stores mem_redis "\<lambda>s. s" "mem_chat\<lparr>max_history := 1\<rparr>" mem_sql "\<lambda>s. s" small_coordinator
  by unfold_locales (simp_all add: small_coordinator_def mem_coordinator_def mem_chat_def)

definition full_tables :: tables where
  "full_tables = snd (append_message_db mem_sql ''ann'' ''t'' ''user'' ''hi'' empty_tables)"

lemma demo_thread: "py_strip ''t'' = ''t''" "normalize_thread_id (Some ''t'') = ''t''"
  by (simp_all add: normalize_thread_id_def strip_opt_def py_strip_def py_lstrip_def py_rstrip_def py_isspace_def)

lemma full_tables_ok: "wf_tables full_tables" "stored full_tables (''ann'', ''t'') = [(''user'', ''hi'')]"
  using memq.append_message_db_eq [OF empty_wf(1), of "''ann''" "''t''" "''user''" "''hi''"] empty_wf(2)
    chat_role_strip [OF demo_names(3)]
  by (simp_all add: full_tables_def demo_names demo_thread stored_def)

theorem parity_lost_at_bound_witness:
  "\<exists>s' d' history. append_message_cw small_coordinator \<lparr>now = 5, now_ms = 5000\<rparr> ''ann'' ''user'' ''yo'' (Some ''t'') (empty_keyspace, full_tables)
      = (Inr (), (s', d')) \<and> len history = 1
    \<and> tp_status (compare_history_snapshot_to_store history mem_sql ''ann'' ''t'' d') = ContentMismatch"
proof -
  let ?c = "\<lparr>now = 5, now_ms = 5000\<rparr>" and ?cs = "mem_chat\<lparr>max_history := 1\<rparr>"
  obtain s' d' where app: "append_message_cw small_coordinator ?c ''ann'' ''user'' ''yo'' (Some ''t'') (empty_keyspace, full_tables) = (Inr (), (s', d'))"
    using smalldw.append_cw_eq [OF demo_names(1)] by blast
  have b: "bounded 1 (empty_keyspace :: chat_space)" by (simp add: bounded_def empty_keyspace_def)
  have s': "s' = snd (append_message ?cs ?c ''ann'' ''user'' ''yo'' (Some ''t'') empty_keyspace)"
    using app smalldw.append_cw_eq [OF demo_names(1)] by simp
  have th0: "threads 1 (empty_keyspace :: chat_space) = (\<lambda>_. [])"
    by (auto simp: threads_def empty_keyspace_def fun_eq_iff)
  have th: "threads 1 s' (''ann'', ''t'') = [Entry \<lparr>ce_role = ''user'', ce_content = Some ''yo'', ce_created_at = Some (MInt 5)\<rparr>]"
    and b': "bounded 1 s'"
    using smalldw.append_refines [OF demo_names(1) demo_names(1), of ?c "''user''" "''yo''" "Some ''t''" empty_keyspace "''t''"] b
    by (simp_all add: s' spec_append_def demo_thread th0 py_suffix_def)
  have h: "fst (get_history ?cs ?c ''ann'' (Some ''t'') s') = Inr [\<lparr>m_role = ''user'', m_content = ''yo''\<rparr>]"
    using smalldw.get_refines [OF demo_names(1) demo_names(1), of s' ?c "Some ''t''"] b' th
    by (simp add: demo_thread entry_message_def)
  have "tp_status (compare_history_snapshot_to_store [\<lparr>m_role = ''user'', m_content = ''yo''\<rparr>] mem_sql ''ann'' ''t'' d') = ContentMismatch"
    using parity_lost_at_bound [OF smalldw.dual_stores_axioms demo_names(1, 2) _ demo_names(3) _ _ full_tables_ok(1) _ app h _ refl] b full_tables_ok(2)
    by (simp add: demo_thread)
  then show ?thesis using app
    by (intro exI [of _ s'] exI [of _ d'] exI [of _ "[\<lparr>m_role = ''user'', m_content = ''yo''\<rparr>]"]) simp
qed

text \<open>
  C31: migration reaches parity. Migrating a thread whose history is not empty and has no
  blank role or content stores exactly that history, changes no other thread, and the
  comparison then reports a match with equal counts; migrating again changes nothing.
\<close>

theorem migration_reaches_parity:
  assumes "sql_store D view" "wf_tables (view d)" "py_strip u \<noteq> []" "py_strip t \<noteq> []"
    and "get_history_of src u (Some t) = Inr h" "h \<noteq> []"
    and "normalize_history_to_snapshot h = Inr snap"
    and "migrate_thread_for_user src D u t d = (r, d')"
  shows "r = Inr \<lparr>tm_thread_id = t, tm_migrated = True, tm_message_count = len h, tm_skipped_empty = False\<rparr>
    \<and> compare_thread_for_user src D u t d'
      = Inr \<lparr>tp_thread_id = t, tp_status = Matched, tp_source_message_count = len h, tp_db_message_count = len h\<rparr>
    \<and> snd (migrate_thread_for_user src D u t d') = d' \<and> wf_tables (view d')
    \<and> (\<forall>p. p \<noteq> (py_strip u, py_strip t) \<longrightarrow> conv (view d') p = conv (view d) p)"
  using sql_store.migrate_then_compare [OF assms(1-7), of d'] assms(8) by auto

definition demo_source :: history_source where
  "demo_source = \<lparr>get_history_of = (\<lambda>u t. Inr [\<lparr>m_role = ''user'', m_content = ''hi''\<rparr>]), list_threads_of = (\<lambda>u. Inr [])\<rparr>"

theorem migration_reaches_parity_witness:
  "\<exists>d'. migrate_thread_for_user demo_source mem_sql ''ann'' ''t'' empty_tables
      = (Inr \<lparr>tm_thread_id = ''t'', tm_migrated = True, tm_message_count = 1, tm_skipped_empty = False\<rparr>, d')
    \<and> compare_thread_for_user demo_source mem_sql ''ann'' ''t'' d'
      = Inr \<lparr>tp_thread_id = ''t'', tp_status = Matched, tp_source_message_count = 1, tp_db_message_count = 1\<rparr>"
proof -
  have "normalize_history_to_snapshot [\<lparr>m_role = ''user'', m_content = ''hi''\<rparr>] = Inr [(''user'', ''hi'')]"
    by (simp add: py_strip_def py_lstrip_def py_rstrip_def py_isspace_def)
  moreover obtain r d' where "migrate_thread_for_user demo_source mem_sql ''ann'' ''t'' empty_tables = (r, d')" by fastforce
  ultimately show ?thesis
    using migration_reaches_parity [OF memq.sql_store_axioms empty_wf(1), of "''ann''" "''t''" demo_source "[\<lparr>m_role = ''user'', m_content = ''hi''\<rparr>]"]
    by (simp add: demo_names demo_thread demo_source_def)
qed

end
