(* ===== verification/Conversation_Api.thy ===== *)
theory Conversation_Api
  imports Dual_Write Session
begin

text \<open>
  The thread routes of the web tier (\<open>app.py\<close>): the list of a user's threads, creating,
  reading, clearing and deleting one. Redis is the leading store; with the read switches on,
  an answer is taken from the database where it says the same, and else from Redis. The
  properties: the switches never change what a user sees, a route shows exactly the stored
  conversation, and the page always has a thread to show.
\<close>

section \<open>The parts of the application\<close>

text \<open>
  \<open>ca_db_millis\<close> turns a time of the database into whole milliseconds
  (\<open>int(t.timestamp() * 1000)\<close>), \<open>ca_markdown\<close> is \<open>markdown\<close> followed by \<open>bleach.clean\<close>; the
  chat store and the database are those of the coordinator (\<open>build_conversation_writer\<close>).
\<close>

record ('a, 't, 'd) conversation_app =
  ca_web :: "'a web"
  ca_writer :: "('t, 'd) write_coordinator"
  ca_db_millis :: "int \<Rightarrow> int"
  ca_markdown :: "string \<Rightarrow> string"
  PERSISTENT_DB_READ_THREADS :: bool
  PERSISTENT_DB_READ_MESSAGES :: bool
  PERSISTENT_DB_SHADOW_COMPARE :: bool

definition create_conversation_write_coordinator :: "'t chat_store \<Rightarrow> 'd sql option \<Rightarrow> bool \<Rightarrow> bool \<Rightarrow> ('t, 'd) write_coordinator" where
  "create_conversation_write_coordinator chat_store_of db_store db_down dual_write =
     \<lparr>cw_chat = chat_store_of, cw_db = db_store, cw_db_down = db_down, dual_write_enabled = dual_write\<rparr>"

record thread_view =
  tv_id :: string
  tv_title :: string
  tv_updated_at :: int
  tv_message_count :: int

record message_view =
  mv_id :: nat
  mv_role :: string
  mv_content :: string
  mv_html :: "string option"

section \<open>Summaries and messages\<close>

definition normalize_chat_thread_id :: "string option \<Rightarrow> string" where
  "normalize_chat_thread_id thread_id = (let normalized = strip_opt thread_id in
     if normalized = [] then DEFAULT_CHAT_THREAD_ID else normalized)"

text \<open>\<open>(title or "...").strip() or "..."\<close>.\<close>

definition shown_title :: "string \<Rightarrow> string" where
  "shown_title title = (let t = py_strip (if title = [] then NEW_CHAT_TITLE else title) in if t = [] then NEW_CHAT_TITLE else t)"

definition serialize_thread_summary :: "thread_summary \<Rightarrow> thread_view" where
  "serialize_thread_summary thread = \<lparr>
     tv_id = normalize_chat_thread_id (Some (th_thread_id thread)),
     tv_title = shown_title (th_title thread),
     tv_updated_at = max 0 (th_updated_at thread) * 1000,
     tv_message_count = max 0 (th_message_count thread)\<rparr>"

text \<open>An operation of the chat store on the state of both stores.\<close>

definition on_chat :: "('t \<Rightarrow> ('b, 't) outcome) \<Rightarrow> 't \<times> 'd \<Rightarrow> ('b, 't \<times> 'd) outcome" where
  "on_chat f sd = (case f (fst sd) of (r, s) \<Rightarrow> (r, (s, snd sd)))"

definition summaries_of ::
  "('t, 'd) write_coordinator \<Rightarrow> clock \<Rightarrow> string \<Rightarrow> 't \<times> 'd \<Rightarrow> (thread_view list, 't \<times> 'd) outcome" where
  "summaries_of w c username sd =
     obind (on_chat (list_threads (cw_chat w) c username) sd) (\<lambda>threads sd. (Inr (map serialize_thread_summary threads), sd))"

definition load_thread_summaries ::
  "('t, 'd) write_coordinator \<Rightarrow> bool \<Rightarrow> clock \<Rightarrow> string \<Rightarrow> 't \<times> 'd \<Rightarrow> (thread_view list, 't \<times> 'd) outcome" where
  "load_thread_summaries w with_writer c username sd =
     obind (summaries_of w c username sd) (\<lambda>threads sd.
       if threads \<noteq> [] then (Inr threads, sd)
       else obind (if with_writer then ensure_thread w c username (Some DEFAULT_CHAT_THREAD_ID) sd
                   else on_chat (create_thread (cw_chat w) c username (Some DEFAULT_CHAT_THREAD_ID)) sd)
              (\<lambda>_. summaries_of w c username))"

definition resolve_active_thread_id :: "string option \<Rightarrow> thread_view list \<Rightarrow> string" where
  "resolve_active_thread_id thread_id thread_list =
     (let requested_thread_id = normalize_chat_thread_id thread_id in
      if requested_thread_id \<in> tv_id ` set thread_list then requested_thread_id
      else case thread_list of t # _ \<Rightarrow> tv_id t | [] \<Rightarrow> DEFAULT_CHAT_THREAD_ID)"

definition find_thread_summary :: "thread_view list \<Rightarrow> string option \<Rightarrow> thread_view option" where
  "find_thread_summary thread_list thread_id = find (\<lambda>t. tv_id t = normalize_chat_thread_id thread_id) thread_list"

definition render_markdown :: "(string \<Rightarrow> string) \<Rightarrow> string \<Rightarrow> string" where
  "render_markdown md t = (if t = [] then [] else md t)"

definition prepare_messages :: "(string \<Rightarrow> string) \<Rightarrow> message list \<Rightarrow> message_view list" where
  "prepare_messages md messages = map (\<lambda>(index, m). \<lparr>mv_id = index, mv_role = m_role m, mv_content = m_content m,
     mv_html = (if m_role m = ''assistant'' then Some (render_markdown md (m_content m)) else None)\<rparr>) (enumerate 0 messages)"

section \<open>Reading from the database\<close>

definition prepare_db_store_messages :: "message_row list \<Rightarrow> message list" where
  "prepare_db_store_messages messages = map (\<lambda>m. \<lparr>m_role = mr_role m, m_content = mr_content m\<rparr>) messages"

definition build_db_thread_summaries_from_store ::
  "(int \<Rightarrow> int) \<Rightarrow> 'd sql \<Rightarrow> string \<Rightarrow> 'd \<Rightarrow> exn + thread_view list" where
  "build_db_thread_summaries_from_store millis D username d =
     (case list_threads_db D username d of Inl e \<Rightarrow> Inl e
      | Inr rows \<Rightarrow> Inr (map (\<lambda>thread.
          let history = prepare_db_store_messages (get_messages D username (tr_thread_id thread) d) in
          \<lparr>tv_id = normalize_chat_thread_id (Some (tr_thread_id thread)), tv_title = build_thread_title history,
           tv_updated_at = max 0 (millis (tr_updated_at thread)), tv_message_count = len history\<rparr>) rows))"

definition summarize_thread_list_for_cutover_compare :: "thread_view list \<Rightarrow> (string \<times> string \<times> int) list" where
  "summarize_thread_list_for_cutover_compare thread_list =
     map (\<lambda>t. (normalize_chat_thread_id (Some (tv_id t)), shown_title (tv_title t), max 0 (tv_message_count t))) thread_list"

definition resolve_thread_summaries_for_read_response ::
  "('a, 't, 'd, 'z) conversation_app_scheme \<Rightarrow> string \<Rightarrow> thread_view list \<Rightarrow> 'd \<Rightarrow> thread_view list" where
  "resolve_thread_summaries_for_read_response app username redis_threads d =
     (if \<not> PERSISTENT_DB_READ_THREADS app then redis_threads
      else case cw_db (ca_writer app) of None \<Rightarrow> redis_threads
      | Some D \<Rightarrow>
          if cw_db_down (ca_writer app) then redis_threads
          else case build_db_thread_summaries_from_store (ca_db_millis app) D username d of
            Inl _ \<Rightarrow> redis_threads
          | Inr db_threads \<Rightarrow>
              if summarize_thread_list_for_cutover_compare redis_threads = summarize_thread_list_for_cutover_compare db_threads
              then db_threads else redis_threads)"

text \<open>The shadow comparison only logs; its value here is the verdict that it logs.\<close>

definition maybe_run_shadow_compare_for_conversation_read ::
  "('a, 't, 'd, 'z) conversation_app_scheme \<Rightarrow> string \<Rightarrow> string \<Rightarrow> message list \<Rightarrow> 'd \<Rightarrow> thread_parity option" where
  "maybe_run_shadow_compare_for_conversation_read app username thread_id history d =
     (if \<not> PERSISTENT_DB_SHADOW_COMPARE app then None
      else case cw_db (ca_writer app) of None \<Rightarrow> None
      | Some D \<Rightarrow> if cw_db_down (ca_writer app) then None
          else Some (compare_history_snapshot_to_store history D username thread_id d))"

definition resolve_thread_messages_for_read_response ::
  "('a, 't, 'd, 'z) conversation_app_scheme \<Rightarrow> string \<Rightarrow> string \<Rightarrow> message list \<Rightarrow> 'd \<Rightarrow> message list \<times> thread_parity option" where
  "resolve_thread_messages_for_read_response app username thread_id redis_history d =
     (if \<not> PERSISTENT_DB_READ_MESSAGES app then
        (redis_history, maybe_run_shadow_compare_for_conversation_read app username thread_id redis_history d)
      else case cw_db (ca_writer app) of None \<Rightarrow> (redis_history, None)
      | Some D \<Rightarrow>
          if cw_db_down (ca_writer app) then (redis_history, None)
          else let db_messages = get_messages D username thread_id d;
                   result = compare_history_snapshot_to_messages redis_history db_messages thread_id
               in (if tp_status result = Matched \<or> tp_status result = EmptyThread
                   then prepare_db_store_messages db_messages else redis_history, Some result))"

section \<open>Routes\<close>

text \<open>
  The routes run for a user that \<open>get_current_user_required\<close> has let in. \<open>threads_page\<close> is the
  JSON of a list of threads with the active one.
\<close>

record threads_page =
  pg_threads :: "thread_view list"
  pg_active_thread_id :: string

definition get_chat_threads ::
  "('a, 't, 'd, 'z) conversation_app_scheme \<Rightarrow> clock \<Rightarrow> request \<Rightarrow> user_info \<Rightarrow> 't \<times> 'd \<Rightarrow> (threads_page, 't \<times> 'd) outcome" where
  "get_chat_threads app c request current_user sd =
     obind (load_thread_summaries (ca_writer app) True c (ui_username current_user) sd) (\<lambda>redis_threads sd.
       let threads = resolve_thread_summaries_for_read_response app (ui_username current_user) redis_threads (snd sd) in
       (Inr \<lparr>pg_threads = threads, pg_active_thread_id = resolve_active_thread_id (rq_query request ''thread_id'') threads\<rparr>, sd))"

text \<open>\<open>hex\<close> is the random part of the new identifier; the route also returns the summary of the new thread.\<close>

definition create_chat_thread ::
  "('a, 't, 'd, 'z) conversation_app_scheme \<Rightarrow> clock \<Rightarrow> string \<Rightarrow> request \<Rightarrow> user_info \<Rightarrow> 't \<times> 'd
    \<Rightarrow> (thread_view option \<times> threads_page, 't \<times> 'd) outcome" where
  "create_chat_thread app c hex request current_user sd =
     (case enforce_csrf (ca_web app) request of Inl e \<Rightarrow> (Inl e, sd)
      | Inr _ \<Rightarrow>
        obind (ensure_thread (ca_writer app) c (ui_username current_user) (Some (''thread-'' @ hex)) sd) (\<lambda>created_thread_id sd.
        obind (load_thread_summaries (ca_writer app) True c (ui_username current_user) sd) (\<lambda>threads sd.
          (Inr (find_thread_summary threads (Some created_thread_id),
                \<lparr>pg_threads = threads, pg_active_thread_id = created_thread_id\<rparr>), sd))))"

definition get_chat_thread_messages ::
  "('a, 't, 'd, 'z) conversation_app_scheme \<Rightarrow> clock \<Rightarrow> string \<Rightarrow> user_info \<Rightarrow> 't \<times> 'd
    \<Rightarrow> (thread_view \<times> message_view list, 't \<times> 'd) outcome" where
  "get_chat_thread_messages app c thread_id current_user sd =
     (let username = ui_username current_user in
      obind (load_thread_summaries (ca_writer app) True c username sd) (\<lambda>redis_threads sd.
        let threads = resolve_thread_summaries_for_read_response app username redis_threads (snd sd) in
        case find_thread_summary threads (Some thread_id) of
          None \<Rightarrow> (Inl (HTTPException 404 ''Thread not found''), sd)
        | Some thread \<Rightarrow>
            obind (on_chat (get_history (cw_chat (ca_writer app)) c username (Some (tv_id thread))) sd) (\<lambda>history sd.
              (Inr (thread, prepare_messages (ca_markdown app)
                 (fst (resolve_thread_messages_for_read_response app username (tv_id thread) history (snd sd)))), sd))))"

text \<open>\<open>active\<close> is the field of the body, \<open>None\<close> where the body cannot be read.\<close>

definition delete_chat_thread ::
  "('a, 't, 'd, 'z) conversation_app_scheme \<Rightarrow> clock \<Rightarrow> string \<Rightarrow> string \<Rightarrow> string option \<Rightarrow> request \<Rightarrow> user_info \<Rightarrow> 't \<times> 'd
    \<Rightarrow> (string \<times> threads_page, 't \<times> 'd) outcome" where
  "delete_chat_thread app c hex thread_id active request current_user sd =
     (case enforce_csrf (ca_web app) request of Inl e \<Rightarrow> (Inl e, sd)
      | Inr _ \<Rightarrow>
        let username = ui_username current_user;
            normalized_thread_id = normalize_chat_thread_id (Some thread_id);
            requested_active_thread_id = normalize_chat_thread_id active;
            w = ca_writer app
        in obind (clear_thread w c username (Some normalized_thread_id) False sd) (\<lambda>_ sd.
           obind (summaries_of w c username sd) (\<lambda>redis_threads sd.
           obind (if redis_threads \<noteq> [] then (Inr redis_threads, sd)
                  else obind (ensure_thread w c username (Some (''thread-'' @ hex)) sd) (\<lambda>_. summaries_of w c username)) (\<lambda>redis_threads sd.
             let threads = resolve_thread_summaries_for_read_response app username redis_threads (snd sd) in
             (Inr (normalized_thread_id, \<lparr>pg_threads = threads,
                pg_active_thread_id = resolve_active_thread_id (Some requested_active_thread_id) threads\<rparr>), sd)))))"

text \<open>\<open>body_thread\<close> is the field of the body, read only if the query names no thread.\<close>

definition clear_chat ::
  "('a, 't, 'd, 'z) conversation_app_scheme \<Rightarrow> clock \<Rightarrow> string option \<Rightarrow> request \<Rightarrow> user_info \<Rightarrow> 't \<times> 'd \<Rightarrow> (string, 't \<times> 'd) outcome" where
  "clear_chat app c body_thread request current_user sd =
     (case enforce_csrf (ca_web app) request of Inl e \<Rightarrow> (Inl e, sd)
      | Inr _ \<Rightarrow>
        let thread_id = normalize_chat_thread_id (case rq_query request ''thread_id'' of Some t \<Rightarrow> Some t | None \<Rightarrow> body_thread)
        in obind (clear_thread (ca_writer app) c (ui_username current_user) (Some thread_id) True sd) (\<lambda>_ sd. (Inr thread_id, sd)))"

definition api_render_markdown ::
  "('a, 't, 'd, 'z) conversation_app_scheme \<Rightarrow> string \<Rightarrow> request \<Rightarrow> exn + string" where
  "api_render_markdown app t request =
     (case enforce_csrf (ca_web app) request of Inl e \<Rightarrow> Inl e | Inr _ \<Rightarrow> Inr (render_markdown (ca_markdown app) t))"

section \<open>What the routes show\<close>

lemma normalize_chat [simp]: "normalize_chat_thread_id t = normalize_thread_id t"
  by (simp add: normalize_chat_thread_id_def normalize_thread_id_def)

definition registered :: "chat_space \<Rightarrow> string \<Rightarrow> string set" where
  "registered ks u = fst ` set (zsets ks (thread_registry_key u))"

definition view_of :: "(string \<Rightarrow> message list) \<Rightarrow> string \<times> int \<Rightarrow> thread_view" where
  "view_of msgs p = serialize_thread_summary (summary msgs p)"

lemma view_of_simps [simp]: "tv_id (view_of msgs p) = normalize_thread_id (Some (fst p))"
    "tv_title (view_of msgs p) = shown_title (build_thread_title (msgs (normalize_thread_id (Some (fst p)))))"
    "tv_message_count (view_of msgs p) = len (msgs (normalize_thread_id (Some (fst p))))"
  by (simp_all add: view_of_def serialize_thread_summary_def summary_def split: prod.split)

lemma registry_key_legacy [simp]: "thread_registry_key u \<noteq> legacy_history_key u"
  by (simp add: thread_registry_key_def legacy_history_key_def)

context connected_chat
begin

lemma registered_touch: "\<exists>s'. touch_thread_registry cs c u t ts s = (Inr (), s')
    \<and> registered (view s') u = insert (normalize_thread_id (Some t)) (registered (view s) u)"
  by (simp add: touch_thread_registry_def registered_def zadd_law)

lemma registered_stamp: "registered (view s) u \<subseteq> registered (view (snd
    (obind (latest_history_timestamp cs k s) (\<lambda>ts s. obind (touch_thread_registry cs c u t ts s) (\<lambda>_ s. (Inr b, s)))))) u"
proof -
  obtain ts where ts: "latest_history_timestamp cs k s = (Inr ts, s)" by (simp add: latest_history_timestamp_def)
  obtain s' where "touch_thread_registry cs c u t ts s = (Inr (), s')" "registered (view s) u \<subseteq> registered (view s') u"
    using registered_touch [of c u t ts s] by auto
  with ts show ?thesis by simp
qed

lemma zsets_fold_rpush [simp]: "zsets (view (fold (RPUSH R k) es s)) = zsets (view s)"
  by (induction es arbitrary: s) (simp_all add: rpush_law)

lemma registered_migrate: "registered (view s) u \<subseteq> registered (view (snd (migrate_legacy_default_history_if_needed cs c u k s))) u"
proof -
  define s1 where "s1 = DEL R (legacy_history_key u) (LTRIM R k (- max_history cs) (- 1) (fold (RPUSH R k) (lists (view s) (legacy_history_key u)) s))"
  have "registered (view s1) u = registered (view s) u"
    by (simp add: s1_def registered_def del_law ltrim_law)
  then show ?thesis
    using registered_stamp [of s u k c DEFAULT_CHAT_THREAD_ID False] registered_stamp [of s1 u k c DEFAULT_CHAT_THREAD_ID True]
    by (simp add: migrate_legacy_default_history_if_needed_def lrange_law Let_def s1_def [symmetric])
qed

lemma registered_sync_loop: "registered (view s) u \<subseteq> registered (view (snd (sync_registry_loop cs c u ks s))) u"
proof (induction ks arbitrary: s)
  case Nil
  show ?case by simp
next
  case (Cons k ks)
  obtain ts where ts: "latest_history_timestamp cs k s = (Inr ts, s)" by (simp add: latest_history_timestamp_def)
  show ?case
  proof (cases "extract_thread_id_from_history_key u k")
    case None
    with Cons show ?thesis by simp
  next
    case (Some t)
    obtain s1 where s1: "touch_thread_registry cs c u t ts s = (Inr (), s1)" "registered (view s) u \<subseteq> registered (view s1) u"
      using registered_touch [of c u t ts s] by auto
    with Some ts Cons [of s] Cons [of s1] show ?thesis by auto
  qed
qed

lemma registered_listed: "registered (view s) u \<subseteq> registered (view (listed cs c u s)) u"
proof -
  have "registered (view s1) u \<subseteq> registered (view (snd (sync_thread_registry_from_existing_buckets cs c u s1))) u" for s1
    using registered_sync_loop by (simp add: sync_thread_registry_from_existing_buckets_def connected split: option.split)
  with registered_migrate show ?thesis unfolding listed_def by (meson subset_trans)
qed

lemma registered_create: "\<exists>s'. create_thread cs c u t s = (Inr (normalize_thread_id t), s') \<and> lists (view s') = lists (view s)
    \<and> registered (view s') u = insert (normalize_thread_id t) (registered (view s) u)"
  using touch_eq [of c u "normalize_thread_id t" "now c" s] registered_touch [of c u "normalize_thread_id t" "now c" s]
  by (auto simp: create_thread_def)

end

text \<open>The web tier over a connected chat store; \<open>good\<close> is what its requests rely on and keep.\<close>

locale conversation_tier = connected_chat R view "cw_chat w"
  for R :: "'t chat_redis" and view :: "'t \<Rightarrow> chat_space" and w :: "('t, 'd) write_coordinator"
begin

definition good :: "string \<Rightarrow> (string \<Rightarrow> message list) \<Rightarrow> 't \<Rightarrow> bool" where
  "good u msgs s \<longleftrightarrow> plain_user u \<and> bounded (max_history (cw_chat w)) (view s) \<and> (\<forall>t. decode_entries (abs_threads s (u, t)) = Inr (msgs t))"

definition same_threads :: "'t \<Rightarrow> 't \<Rightarrow> bool" where
  "same_threads s s' \<longleftrightarrow> (\<forall>v r. plain_user v \<longrightarrow> abs_threads s' (v, r) = abs_threads s (v, r))"

lemma good_same: "good u msgs s \<Longrightarrow> same_threads s s' \<Longrightarrow> bounded (max_history (cw_chat w)) (view s') \<Longrightarrow> good u msgs s'"
  by (simp add: good_def same_threads_def)

lemma same_threads_trans: "same_threads s s' \<Longrightarrow> same_threads s' s'' \<Longrightarrow> same_threads s s''"
  by (simp add: same_threads_def)

lemma good_lists: "good u msgs s \<Longrightarrow> lists (view s') = lists (view s) \<Longrightarrow> good u msgs s' \<and> same_threads s s'"
  using threads_cong [of "view s'" "view s"] bounded_cong [of "view s'" "view s"]
  by (simp add: good_def same_threads_def)

lemma summaries_eq:
  assumes "good u msgs s"
  shows "\<exists>ks s'. summaries_of w c u (s, d) = (Inr (map (view_of msgs) ks), (s', d)) \<and> registered (view s) u \<subseteq> fst ` set ks
    \<and> good u msgs s' \<and> same_threads s s'"
proof -
  note l = list_threads_eq [of u s msgs c]
  obtain s' where "list_threads (cw_chat w) c u s
      = (Inr (map (summary msgs) (rev (zsets (view (listed (cw_chat w) c u s)) (thread_registry_key u)))), s')"
    "bounded (max_history (cw_chat w)) (view s')" "same_threads s s'"
    using l assms unfolding good_def same_threads_def by (metis prod.collapse)
  moreover have "registered (view s) u \<subseteq> fst ` set (rev (zsets (view (listed (cw_chat w) c u s)) (thread_registry_key u)))"
    using registered_listed [of s u c] by (simp add: registered_def)
  ultimately show ?thesis using good_same [OF assms]
    by (intro exI [of _ "rev (zsets (view (listed (cw_chat w) c u s)) (thread_registry_key u))"] exI [of _ s'])
      (simp add: summaries_of_def on_chat_def view_of_def [abs_def] comp_def)
qed

lemma ensure_eq:
  assumes "good u msgs s"
  shows "\<exists>s' d'. ensure_thread w c u t (s, d) = (Inr (normalize_thread_id t), (s', d')) \<and> good u msgs s' \<and> same_threads s s'
    \<and> normalize_thread_id t \<in> registered (view s') u"
  using registered_create [of c u t s] good_lists [OF assms] by (auto simp: ensure_thread_def then_mirror_def)

lemma load_eq:
  assumes "good u msgs s"
  shows "\<exists>ks s' d'. load_thread_summaries w True c u (s, d) = (Inr (map (view_of msgs) ks), (s', d'))
    \<and> ks \<noteq> [] \<and> registered (view s) u \<subseteq> fst ` set ks \<and> good u msgs s' \<and> same_threads s s'"
proof -
  obtain ks s1 where 1: "summaries_of w c u (s, d) = (Inr (map (view_of msgs) ks), (s1, d))" "registered (view s) u \<subseteq> fst ` set ks"
    "good u msgs s1" "same_threads s s1" using summaries_eq [OF assms] by blast
  show ?thesis
  proof (cases "ks = []")
    case False
    with 1 show ?thesis by (auto simp: load_thread_summaries_def)
  next
    case True
    obtain s2 d2 where 2: "ensure_thread w c u (Some DEFAULT_CHAT_THREAD_ID) (s1, d) = (Inr DEFAULT_CHAT_THREAD_ID, (s2, d2))"
      "good u msgs s2" "same_threads s1 s2" "DEFAULT_CHAT_THREAD_ID \<in> registered (view s2) u"
      using ensure_eq [OF 1(3), of c "Some DEFAULT_CHAT_THREAD_ID" d] by auto
    obtain ks' s3 where 3: "summaries_of w c u (s2, d2) = (Inr (map (view_of msgs) ks'), (s3, d2))"
      "registered (view s2) u \<subseteq> fst ` set ks'" "good u msgs s3" "same_threads s2 s3" using summaries_eq [OF 2(2)] by blast
    have "ks' \<noteq> []" using 2(4) 3(2) by auto
    moreover have "same_threads s s3" using 1(4) 2(3) 3(4) same_threads_trans by blast
    ultimately show ?thesis using 1 2 3 True by (intro exI [of _ ks'] exI [of _ s3] exI [of _ d2]) (simp add: load_thread_summaries_def)
  qed
qed

lemma history_eq:
  assumes "good u msgs s"
  shows "\<exists>s'. on_chat (get_history (cw_chat w) c u t) (s, d) = (Inr (msgs (normalize_thread_id t)), (s', d)) \<and> good u msgs s' \<and> same_threads s s'"
proof -
  obtain s' where s': "get_history (cw_chat w) c u t s = (fst (get_history (cw_chat w) c u t s), s')" by (metis prod.collapse)
  have "same_threads s s'" "bounded (max_history (cw_chat w)) (view s')" "fst (get_history (cw_chat w) c u t s) = Inr (msgs (normalize_thread_id t))"
    using get_refines [of u _ s c t] assms s' by (simp_all add: good_def same_threads_def) (metis snd_conv)+
  then show ?thesis using s' good_same [OF assms] by (auto simp: on_chat_def split: prod.split)
qed

lemma clear_eq:
  assumes "good u msgs s"
  shows "\<exists>s' d'. clear_thread w c u t preserve (s, d) = (Inr (), (s', d')) \<and> good u (msgs(normalize_thread_id t := [])) s'
    \<and> (\<forall>v r. plain_user v \<longrightarrow> abs_threads s' (v, r) = spec_clear u (normalize_thread_id t) (abs_threads s) (v, r))"
proof -
  obtain s' where s': "clear_history (cw_chat w) c u t preserve s = (Inr (), s')"
    using clear_refines [of u u c t preserve s] assms unfolding good_def by (metis prod.collapse)
  have "\<forall>v r. plain_user v \<longrightarrow> abs_threads s' (v, r) = spec_clear u (normalize_thread_id t) (abs_threads s) (v, r)"
    "bounded (max_history (cw_chat w)) (view s')"
    using clear_refines [of u _ c t preserve s] clear_refines [of u u c t preserve s] assms s' by (simp_all add: good_def) blast
  then show ?thesis using s' assms
    by (auto simp: clear_thread_def then_mirror_def good_def spec_clear_def)
qed

lemma delete_list_eq:
  assumes "good u msgs s"
  shows "\<exists>ks s' d'. (\<forall>f. obind (summaries_of w c u (s, d)) (\<lambda>views sd. obind (if views \<noteq> [] then (Inr views, sd)
        else obind (ensure_thread w c u t sd) (\<lambda>_. summaries_of w c u)) f) = f (map (view_of msgs) ks) (s', d'))
    \<and> ks \<noteq> [] \<and> registered (view s) u \<subseteq> fst ` set ks \<and> same_threads s s'"
proof -
  obtain ks s1 where 1: "summaries_of w c u (s, d) = (Inr (map (view_of msgs) ks), (s1, d))" "registered (view s) u \<subseteq> fst ` set ks"
    "good u msgs s1" "same_threads s s1" using summaries_eq [OF assms] by blast
  show ?thesis
  proof (cases "ks = []")
    case False
    with 1 show ?thesis by (intro exI [of _ ks] exI [of _ s1] exI [of _ d]) simp
  next
    case True
    obtain s2 d2 where 2: "ensure_thread w c u t (s1, d) = (Inr (normalize_thread_id t), (s2, d2))"
      "good u msgs s2" "same_threads s1 s2" "normalize_thread_id t \<in> registered (view s2) u"
      using ensure_eq [OF 1(3)] by blast
    obtain ks' s3 where 3: "summaries_of w c u (s2, d2) = (Inr (map (view_of msgs) ks'), (s3, d2))"
      "registered (view s2) u \<subseteq> fst ` set ks'" "good u msgs s3" "same_threads s2 s3" using summaries_eq [OF 2(2)] by blast
    have "ks' \<noteq> []" using 2(4) 3(2) by auto
    moreover have "same_threads s s3" using 1(4) 2(3) 3(4) same_threads_trans by blast
    ultimately show ?thesis using 1 2 3 True by (intro exI [of _ ks'] exI [of _ s3] exI [of _ d2]) simp
  qed
qed

end

interpretation memconv: conversation_tier mem_redis "\<lambda>s. s" mem_coordinator
  by unfold_locales (simp_all add: mem_coordinator_def mem_chat_def)

section \<open>Properties\<close>

definition shown :: "thread_view \<Rightarrow> string \<times> string \<times> int" where
  "shown v = (tv_id v, shown_title (tv_title v), tv_message_count v)"

lemma shown_title_idem [simp]: "shown_title (shown_title t) = shown_title t"
proof -
  have "py_strip NEW_CHAT_TITLE = NEW_CHAT_TITLE" "NEW_CHAT_TITLE \<noteq> []" by code_simp+
  then show ?thesis by (simp add: shown_title_def Let_def)
qed

lemma active_of_ids: "resolve_active_thread_id x vs = (if normalize_chat_thread_id x \<in> set (map tv_id vs) then normalize_chat_thread_id x
    else case map tv_id vs of t # _ \<Rightarrow> t | [] \<Rightarrow> DEFAULT_CHAT_THREAD_ID)"
  by (auto simp: resolve_active_thread_id_def Let_def split: list.split)

lemma find_of_ids: "map_option tv_id (find_thread_summary vs x) = find (\<lambda>i. i = normalize_chat_thread_id x) (map tv_id vs)"
  unfolding find_thread_summary_def by (induction vs) auto

lemma summarize_shown:
  "\<forall>v \<in> set vs. normalize_chat_thread_id (Some (tv_id v)) = tv_id v \<and> 0 \<le> tv_message_count v \<Longrightarrow>
     summarize_thread_list_for_cutover_compare vs = map shown vs"
  by (auto simp: summarize_thread_list_for_cutover_compare_def shown_def)

lemma normal_views: "\<forall>v \<in> set (map serialize_thread_summary ts). normalize_chat_thread_id (Some (tv_id v)) = tv_id v \<and> 0 \<le> tv_message_count v"
    "build_db_thread_summaries_from_store millis D u d = Inr vs \<Longrightarrow>
       \<forall>v \<in> set vs. normalize_chat_thread_id (Some (tv_id v)) = tv_id v \<and> 0 \<le> tv_message_count v"
  by (auto simp: serialize_thread_summary_def build_db_thread_summaries_from_store_def Let_def split: sum.splits)

lemma resolved_threads_shown:
  "map shown (resolve_thread_summaries_for_read_response app u (map serialize_thread_summary ts) d) = map shown (map serialize_thread_summary ts)"
proof (cases "resolve_thread_summaries_for_read_response app u (map serialize_thread_summary ts) d = map serialize_thread_summary ts")
  case False
  then obtain D vs where "build_db_thread_summaries_from_store (ca_db_millis app) D u d = Inr vs"
    "resolve_thread_summaries_for_read_response app u (map serialize_thread_summary ts) d = vs"
    "summarize_thread_list_for_cutover_compare (map serialize_thread_summary ts) = summarize_thread_list_for_cutover_compare vs"
    by (auto simp: resolve_thread_summaries_for_read_response_def split: if_splits option.splits sum.splits)
  then show ?thesis using summarize_shown [OF normal_views(1)] summarize_shown [OF normal_views(2)] by metis
qed simp

lemma resolved_messages_same:
  "normalize_source_messages (fst (resolve_thread_messages_for_read_response app u t h d)) = normalize_source_messages h"
proof -
  have db: "normalize_source_messages (prepare_db_store_messages rows) = normalize_db_messages rows" for rows
    by (simp add: normalize_source_messages_def prepare_db_store_messages_def normalize_db_messages_def)
  have "normalize_source_messages h = normalize_db_messages rows"
    if "tp_status (compare_history_snapshot_to_messages h rows t) \<in> {Matched, EmptyThread}" for rows
    using that by (auto simp: compare_history_snapshot_to_messages_def normalize_source_messages_def normalize_db_messages_def Let_def split: if_splits)
  then show ?thesis
    by (auto simp: resolve_thread_messages_for_read_response_def db Let_def split: option.split)
qed

text \<open>
  C10: the database never changes what a user sees. Whatever the read switches are and
  whatever the database holds or does, the answer to a request lists the same threads in the
  same order with the same titles and numbers of messages as Redis, selects the same active
  thread, finds the same thread, and shows the same messages up to surrounding white space.
\<close>

theorem read_cutover_faithful:
  "let redis = map serialize_thread_summary ts; response = resolve_thread_summaries_for_read_response app u redis d in
     map shown response = map shown redis
     \<and> resolve_active_thread_id x response = resolve_active_thread_id x redis
     \<and> map_option tv_id (find_thread_summary response x) = map_option tv_id (find_thread_summary redis x)
     \<and> normalize_source_messages (fst (resolve_thread_messages_for_read_response app u t h d)) = normalize_source_messages h"
proof -
  let ?redis = "map serialize_thread_summary ts"
  let ?response = "resolve_thread_summaries_for_read_response app u ?redis d"
  have "map fst (map shown ?response) = map fst (map shown ?redis)" by (simp only: resolved_threads_shown)
  then have "map tv_id ?response = map tv_id ?redis" by (simp add: comp_def shown_def)
  then show ?thesis
    unfolding Let_def active_of_ids find_of_ids by (simp only: resolved_threads_shown resolved_messages_same simp_thms)
qed

lemma prepared_messages: "map (\<lambda>m. (py_strip (mv_role m), py_strip (mv_content m))) (prepare_messages md h) = normalize_source_messages h"
    "map mv_id (prepare_messages md h) = [0..<length h]"
  by (rule nth_equalityI; simp add: prepare_messages_def normalize_source_messages_def enumerate_eq_zip)+

text \<open>A thread that the response names is the stored one; one that it does not name is not registered.\<close>

lemma resolved_views: "map shown (resolve_thread_summaries_for_read_response app u (map (view_of msgs) ks) d) = map shown (map (view_of msgs) ks)"
proof -
  have "map (view_of msgs) ks = map serialize_thread_summary (map (summary msgs) ks)" by (simp add: view_of_def)
  then show ?thesis by (simp only: resolved_threads_shown)
qed

lemma found_thread:
  assumes "find_thread_summary (resolve_thread_summaries_for_read_response app u (map (view_of msgs) ks) d) (Some t) = Some thread"
    and "tid = normalize_thread_id (Some t)"
  shows "tv_id thread = tid" "shown thread = (tid, shown_title (build_thread_title (msgs tid)), len (msgs tid))"
proof -
  let ?response = "resolve_thread_summaries_for_read_response app u (map (view_of msgs) ks) d"
  have "thread \<in> set ?response" and id: "tv_id thread = tid" using assms by (auto simp: find_thread_summary_def find_Some_iff)
  then have "shown thread \<in> set (map shown ?response)" by (simp only: set_map imageI)
  then obtain p where "shown thread = shown (view_of msgs p)" unfolding resolved_views set_map by blast
  with id show "tv_id thread = tid" "shown thread = (tid, shown_title (build_thread_title (msgs tid)), len (msgs tid))"
    by (simp_all add: shown_def)
qed

lemma missing_thread:
  assumes "find_thread_summary (resolve_thread_summaries_for_read_response app u (map (view_of msgs) ks) d) (Some t) = None"
    and "A \<subseteq> fst ` set ks"
  shows "normalize_thread_id (Some t) \<notin> (\<lambda>t. normalize_thread_id (Some t)) ` A"
proof -
  have "normalize_thread_id (Some t) \<notin> tv_id ` set (resolve_thread_summaries_for_read_response app u (map (view_of msgs) ks) d)"
    using assms(1) by (force simp: find_thread_summary_def find_None_iff)
  then have "normalize_thread_id (Some t) \<notin> (\<lambda>p. normalize_thread_id (Some (fst p))) ` set ks"
    using arg_cong [OF resolved_views [of app u msgs ks d], of "\<lambda>xs. fst ` set xs"] by (simp add: image_image shown_def)
  then show ?thesis using image_mono [OF assms(2), of "\<lambda>t. normalize_thread_id (Some t)"] by (auto simp: image_image)
qed

text \<open>
  C11: a thread shows its conversation. For a user whose stored conversations can be read, the
  messages of a registered thread are those that the chat store holds for it, numbered from
  zero and equal up to surrounding white space, with its title and their number; only a
  thread that is not registered can be answered with status 404; and no stored conversation
  of anyone changes by looking at it.
\<close>

theorem thread_messages_faithful:
  assumes tier: "conversation_tier R view (ca_writer app)" and u: "plain_user (ui_username user)" "plain_user v"
    and n: "n = max_history (cw_chat (ca_writer app))" and tid: "tid = normalize_thread_id (Some thread_id)"
    and inv: "bounded n (view s)"
    and readable: "\<And>t. decode_entries (threads n (view s) (ui_username user, t)) = Inr (msgs t)"
    and run: "get_chat_thread_messages app c thread_id user (s, d) = (result, (s', d'))"
  shows "threads n (view s') (v, r) = threads n (view s) (v, r)
    \<and> (case result of
         Inl e \<Rightarrow> e = HTTPException 404 ''Thread not found'' \<and> tid \<notin> (\<lambda>t. normalize_thread_id (Some t)) ` registered (view s) (ui_username user)
       | Inr (thread, messages) \<Rightarrow> shown thread = (tid, shown_title (build_thread_title (msgs tid)), len (msgs tid))
           \<and> map mv_id messages = [0..<length messages]
           \<and> map (\<lambda>m. (py_strip (mv_role m), py_strip (mv_content m))) messages = normalize_source_messages (msgs tid))"
proof -
  let ?w = "ca_writer app" and ?u = "ui_username user"
  note trans = conversation_tier.same_threads_trans [OF tier] and same = conversation_tier.same_threads_def [OF tier]
  have good: "conversation_tier.good view ?w ?u msgs s" using u inv readable by (simp add: conversation_tier.good_def [OF tier] n)
  obtain ks s1 d1 where 1: "load_thread_summaries ?w True c ?u (s, d) = (Inr (map (view_of msgs) ks), (s1, d1))"
    "registered (view s) ?u \<subseteq> fst ` set ks" "conversation_tier.good view ?w ?u msgs s1" "conversation_tier.same_threads view ?w s s1"
    using conversation_tier.load_eq [OF tier good] by blast
  let ?response = "resolve_thread_summaries_for_read_response app ?u (map (view_of msgs) ks) d1"
  show ?thesis
  proof (cases "find_thread_summary ?response (Some thread_id)")
    case None
    then have "result = Inl (HTTPException 404 ''Thread not found'')" "s' = s1"
      using run 1(1) by (auto simp: get_chat_thread_messages_def Let_def)
    moreover have "threads n (view s1) (v, r) = threads n (view s) (v, r)" using 1(4) u by (simp add: same n)
    ultimately show ?thesis using missing_thread [OF None 1(2)] by (simp add: tid)
  next
    case (Some thread)
    note found = found_thread [OF Some tid]
    obtain s2 where 2: "on_chat (get_history (cw_chat ?w) c ?u (Some tid)) (s1, d1) = (Inr (msgs tid), (s2, d1))"
      "conversation_tier.same_threads view ?w s1 s2"
      using conversation_tier.history_eq [OF tier 1(3), of c "Some tid" d1] by (auto simp: tid)
    have "s' = s2" and res: "result = Inr (thread, prepare_messages (ca_markdown app)
        (fst (resolve_thread_messages_for_read_response app ?u tid (msgs tid) d1)))"
      using run 1(1) 2(1) Some found(1) by (auto simp: get_chat_thread_messages_def Let_def)
    moreover have "threads n (view s2) (v, r) = threads n (view s) (v, r)"
      using trans [OF 1(4) 2(2)] u by (simp add: same n)
    moreover have "length (prepare_messages md h) = length h" for md h by (simp add: prepare_messages_def)
    ultimately show ?thesis using found(2) by (simp add: prepared_messages resolved_messages_same)
  qed
qed

lemma find_listed: "normalize_chat_thread_id x \<in> tv_id ` set vs \<Longrightarrow>
    \<exists>t \<in> set vs. find_thread_summary vs x = Some t \<and> tv_id t = normalize_chat_thread_id x"
  unfolding find_thread_summary_def by (induction vs) auto

lemma active_listed: "vs \<noteq> [] \<Longrightarrow> resolve_active_thread_id x vs \<in> tv_id ` set vs"
  by (auto simp: resolve_active_thread_id_def Let_def split: list.split)

lemma resolved_ids: "set (map tv_id (resolve_thread_summaries_for_read_response app u (map (view_of msgs) ks) d)) = set (map tv_id (map (view_of msgs) ks))"
proof -
  have "map fst (map shown (resolve_thread_summaries_for_read_response app u (map (view_of msgs) ks) d)) = map fst (map shown (map (view_of msgs) ks))"
    by (simp only: resolved_views)
  then have "map tv_id (resolve_thread_summaries_for_read_response app u (map (view_of msgs) ks) d) = map tv_id (map (view_of msgs) ks)"
    by (simp add: comp_def shown_def)
  then show ?thesis by simp
qed

lemma resolved_nonempty: "ks \<noteq> [] \<Longrightarrow> resolve_thread_summaries_for_read_response app u (map (view_of msgs) ks) d \<noteq> []"
  using resolved_ids [of app u msgs ks d] by force

context conversation_tier
begin

lemma listed_page:
  assumes good: "good u msgs s" and app: "ca_writer app = w" "ui_username user = u"
    and run: "get_chat_threads app c request user (s, d) = (r1, sd1)"
  shows "\<exists>p. r1 = Inr p \<and> pg_active_thread_id p \<in> tv_id ` set (pg_threads p)
    \<and> (\<lambda>t. normalize_thread_id (Some t)) ` registered (view s) u \<subseteq> tv_id ` set (pg_threads p)"
proof -
  obtain ks s1 d1 where 1: "load_thread_summaries w True c u (s, d) = (Inr (map (view_of msgs) ks), (s1, d1))" "ks \<noteq> []"
    "registered (view s) u \<subseteq> fst ` set ks" using load_eq [OF good] by blast
  let ?shown = "resolve_thread_summaries_for_read_response app u (map (view_of msgs) ks) d1"
  have "r1 = Inr \<lparr>pg_threads = ?shown, pg_active_thread_id = resolve_active_thread_id (rq_query request ''thread_id'') ?shown\<rparr>"
    using run 1(1) by (simp add: get_chat_threads_def app Let_def)
  moreover have "(\<lambda>t. normalize_thread_id (Some t)) ` registered (view s) u \<subseteq> tv_id ` set ?shown"
    using image_mono [OF 1(3), of "\<lambda>t. normalize_thread_id (Some t)"] resolved_ids [of app u msgs ks d1] by (simp add: image_image)
  ultimately show ?thesis using active_listed [OF resolved_nonempty [OF 1(2)]] by simp
qed

lemma created_page:
  assumes good: "good u msgs s" and app: "ca_writer app = w" "ui_username user = u" and csrf: "enforce_csrf (ca_web app) request = Inr ()"
    and run: "create_chat_thread app c hex request user (s, d) = (r2, sd2)"
  shows "\<exists>found p. r2 = Inr (found, p) \<and> pg_active_thread_id p = normalize_thread_id (Some (''thread-'' @ hex))
    \<and> (\<exists>t \<in> set (pg_threads p). found = Some t \<and> tv_id t = pg_active_thread_id p)"
proof -
  let ?new = "Some (''thread-'' @ hex)"
  obtain s2 d2 where 2: "ensure_thread w c u ?new (s, d) = (Inr (normalize_thread_id ?new), (s2, d2))"
    "good u msgs s2" "normalize_thread_id ?new \<in> registered (view s2) u" using ensure_eq [OF good] by blast
  obtain ks s3 d3 where 3: "load_thread_summaries w True c u (s2, d2) = (Inr (map (view_of msgs) ks), (s3, d3))"
    "registered (view s2) u \<subseteq> fst ` set ks" using load_eq [OF 2(2)] by blast
  let ?views = "map (view_of msgs) ks" and ?id = "normalize_thread_id ?new"
  have "r2 = Inr (find_thread_summary ?views (Some ?id), \<lparr>pg_threads = ?views, pg_active_thread_id = ?id\<rparr>)"
    using run csrf 2(1) 3(1) by (simp add: create_chat_thread_def app)
  moreover have "normalize_chat_thread_id (Some ?id) \<in> tv_id ` set ?views"
    using 2(3) 3(2) normalize_thread_id_idem by (force simp: image_iff)
  from find_listed [OF this] have "\<exists>t \<in> set ?views. find_thread_summary ?views (Some ?id) = Some t \<and> tv_id t = ?id"
    using normalize_thread_id_idem by simp
  ultimately show ?thesis by simp
qed

lemma deleted_page:
  assumes good: "good u msgs s" and v: "plain_user v" and app: "ca_writer app = w" "ui_username user = u"
    and csrf: "enforce_csrf (ca_web app) request = Inr ()"
    and run: "delete_chat_thread app c hex thread_id active request user (s, d) = (r3, sd3)"
  shows "\<exists>p. r3 = Inr (normalize_thread_id (Some thread_id), p) \<and> pg_active_thread_id p \<in> tv_id ` set (pg_threads p)
    \<and> abs_threads (fst sd3) (v, r) = spec_clear u (normalize_thread_id (Some thread_id)) (abs_threads s) (v, r)"
proof -
  let ?tid = "normalize_thread_id (Some thread_id)" and ?new = "Some (''thread-'' @ hex)"
  let ?ms = "msgs(?tid := [])"
  obtain s4 d4 where 4: "clear_thread w c u (Some ?tid) False (s, d) = (Inr (), (s4, d4))" "good u ?ms s4"
    "abs_threads s4 (v, r) = spec_clear u ?tid (abs_threads s) (v, r)"
    using clear_eq [OF good, of c "Some ?tid" False d] v by auto
  let ?f = "\<lambda>views sd. (Inr (?tid, \<lparr>pg_threads = resolve_thread_summaries_for_read_response app u views (snd sd),
      pg_active_thread_id = resolve_active_thread_id (Some (normalize_chat_thread_id active)) (resolve_thread_summaries_for_read_response app u views (snd sd))\<rparr>), sd)"
  obtain ks s5 d5 where 5: "obind (summaries_of w c u (s4, d4)) (\<lambda>views sd. obind (if views \<noteq> [] then (Inr views, sd)
      else obind (ensure_thread w c u ?new sd) (\<lambda>_. summaries_of w c u)) ?f) = ?f (map (view_of ?ms) ks) (s5, d5)"
    "ks \<noteq> []" "same_threads s4 s5" using delete_list_eq [OF 4(2)] by blast
  let ?shown = "resolve_thread_summaries_for_read_response app u (map (view_of ?ms) ks) d5"
  have "delete_chat_thread app c hex thread_id active request user (s, d) = (Inr (?tid, \<lparr>pg_threads = ?shown,
      pg_active_thread_id = resolve_active_thread_id (Some (normalize_chat_thread_id active)) ?shown\<rparr>), (s5, d5))"
    unfolding delete_chat_thread_def Let_def csrf sum.case app normalize_chat [of "Some thread_id"] 4(1) obind_simps 5(1) snd_conv ..
  then have "r3 = Inr (?tid, \<lparr>pg_threads = ?shown, pg_active_thread_id = resolve_active_thread_id (Some (normalize_chat_thread_id active)) ?shown\<rparr>)"
    "sd3 = (s5, d5)" using run by simp_all
  moreover have "abs_threads s5 (v, r) = abs_threads s4 (v, r)" using 5(3) v by (simp add: same_threads_def)
  ultimately show ?thesis using 4(3) active_listed [OF resolved_nonempty [OF 5(2)]] by simp
qed

end

definition demo_conversations :: "(auth_space, chat_space, tables) conversation_app" where
  "demo_conversations = \<lparr>ca_web = demo_web, ca_writer = mem_coordinator, ca_db_millis = (\<lambda>t. 1000 * t), ca_markdown = (\<lambda>t. t),
     PERSISTENT_DB_READ_THREADS = True, PERSISTENT_DB_READ_MESSAGES = True, PERSISTENT_DB_SHADOW_COMPARE = False\<rparr>"

lemma demo_conversation_tier: "conversation_tier mem_redis (\<lambda>s. s) (ca_writer demo_conversations)" "cw_chat (ca_writer demo_conversations) = mem_chat"
    "ui_username demo_user = ''ann''"
  using memconv.conversation_tier_axioms by (simp_all add: demo_conversations_def mem_coordinator_def demo_user_def)

lemma listed_readable: "bounded (max_history mem_chat) listed_space"
    "decode_entries (threads (max_history mem_chat) listed_space (''ann'', t)) = Inr (if t = ''b'' then [\<lparr>m_role = ''user'', m_content = ''hi''\<rparr>] else [])"
  by (auto simp: bounded_def threads_def listed_space_def mem_chat_def bucket_def legacy_history_key_def py_suffix_def entry_message_def
      DEFAULT_CHAT_THREAD_ID_def)

theorem thread_messages_faithful_witness:
  "\<exists>thread messages. fst (get_chat_thread_messages demo_conversations demo_clock ''b'' demo_user (listed_space, empty_tables)) = Inr (thread, messages)
     \<and> map (\<lambda>m. (py_strip (mv_role m), py_strip (mv_content m))) messages = [(''user'', ''hi'')]"
proof -
  let ?run = "get_chat_thread_messages demo_conversations demo_clock ''b'' demo_user (listed_space, empty_tables)"
  have b: "normalize_thread_id (Some ''b'') = ''b''" "py_strip ''user'' = ''user''" "py_strip ''hi'' = ''hi''" by code_simp+
  have reg: "''b'' \<in> registered listed_space ''ann''" by (simp add: registered_def listed_space_def)
  obtain r s' d' where run: "?run = (r, (s', d'))" by (metis prod.collapse)
  have u: "plain_user (ui_username demo_user)" by (simp add: demo_conversation_tier demo_names)
  note t = thread_messages_faithful [OF demo_conversation_tier(1) u u refl refl, where s = listed_space and thread_id = "''b''"]
  show ?thesis
  proof (cases r)
    case (Inl e)
    have "''b'' \<notin> (\<lambda>t. normalize_thread_id (Some t)) ` registered listed_space ''ann''"
      using t [OF _ _ run] listed_readable Inl by (simp add: demo_conversation_tier b)
    with reg b(1) show ?thesis by force
  next
    case (Inr p)
    then show ?thesis
      using t [OF _ _ run] listed_readable by (cases p) (simp add: demo_conversation_tier b run normalize_source_messages_def)
  qed
qed

text \<open>
  C12: there is always a thread to show. The list of threads is never empty and its active
  thread is in it; every registered thread is listed. Creating a thread makes it the active
  one and finds it in the list. Deleting a thread empties this conversation of the user and
  no other, and again leaves a list with an active thread. A forged request to create or
  delete changes nothing.
\<close>

theorem always_a_thread:
  assumes tier: "conversation_tier R view (ca_writer app)" and u: "plain_user (ui_username user)" "plain_user v"
    and n: "n = max_history (cw_chat (ca_writer app))" and tid: "tid = normalize_thread_id (Some thread_id)"
    and inv: "bounded n (view s)"
    and readable: "\<And>t. decode_entries (threads n (view s) (ui_username user, t)) = Inr (msgs t)"
    and get: "get_chat_threads app c request user (s, d) = (r1, sd1)"
    and create: "create_chat_thread app c hex request user (s, d) = (r2, sd2)"
    and delete: "delete_chat_thread app c hex thread_id active request user (s, d) = (r3, sd3)"
  shows "(\<exists>p. r1 = Inr p \<and> pg_active_thread_id p \<in> tv_id ` set (pg_threads p)
        \<and> (\<lambda>t. normalize_thread_id (Some t)) ` registered (view s) (ui_username user) \<subseteq> tv_id ` set (pg_threads p))
    \<and> (case r2 of Inl e \<Rightarrow> enforce_csrf (ca_web app) request = Inl e \<and> sd2 = (s, d)
       | Inr (found, p) \<Rightarrow> pg_active_thread_id p = normalize_thread_id (Some (''thread-'' @ hex))
           \<and> (\<exists>t \<in> set (pg_threads p). found = Some t \<and> tv_id t = pg_active_thread_id p))
    \<and> (case r3 of Inl e \<Rightarrow> enforce_csrf (ca_web app) request = Inl e \<and> sd3 = (s, d)
       | Inr (t, p) \<Rightarrow> t = tid \<and> pg_active_thread_id p \<in> tv_id ` set (pg_threads p)
           \<and> threads n (view (fst sd3)) (v, r) = spec_clear (ui_username user) tid (threads n (view s)) (v, r))"
proof -
  have good: "conversation_tier.good view (ca_writer app) (ui_username user) msgs s"
    using u inv readable by (simp add: conversation_tier.good_def [OF tier] n)
  note first = conversation_tier.listed_page [OF tier good refl refl get]
  show ?thesis
  proof (cases "enforce_csrf (ca_web app) request")
    case (Inl e)
    then show ?thesis using first create delete by (auto simp: create_chat_thread_def delete_chat_thread_def)
  next
    case (Inr x)
    then have csrf: "enforce_csrf (ca_web app) request = Inr ()" by simp
    show ?thesis
      using first conversation_tier.created_page [OF tier good refl refl csrf create]
        conversation_tier.deleted_page [OF tier good u(2) refl refl csrf delete, of r] by (auto simp: n tid)
  qed
qed

theorem always_a_thread_witness:
  "\<exists>p. fst (get_chat_threads demo_conversations demo_clock demo_rq demo_user (listed_space, empty_tables)) = Inr p
     \<and> {''a'', ''b''} \<subseteq> tv_id ` set (pg_threads p)"
proof -
  have u: "plain_user (ui_username demo_user)" by (simp add: demo_conversation_tier demo_names)
  have reg: "registered listed_space ''ann'' = {''a'', ''b''}" by (simp add: registered_def listed_space_def)
  have ids: "normalize_thread_id (Some ''a'') = ''a''" "normalize_thread_id (Some ''b'') = ''b''" by code_simp+
  show ?thesis
    using always_a_thread [OF demo_conversation_tier(1) u u refl refl, where s = listed_space and d = empty_tables
          and msgs = "\<lambda>t. if t = ''b'' then [\<lparr>m_role = ''user'', m_content = ''hi''\<rparr>] else []",
        OF _ _ surjective_pairing surjective_pairing surjective_pairing, where c = demo_clock and request = demo_rq] listed_readable
    by (simp add: demo_conversation_tier reg ids) blast
qed

end
