(* ===== verification/Ollama_Client.thy ===== *)
theory Ollama_Client
  imports Observability
begin

text \<open>
  The worker's view of its host (\<open>worker.py\<close>): the client of the Ollama server with its
  retries (\<open>OllamaWorkerClient\<close>) and the report of the local resources that the scheduler
  plans with (\<open>LocalResourceMonitor\<close>). The server, the operating system and the GPU
  libraries are arguments: what every request meets, and what the host answers.
\<close>

section \<open>Exceptions and attempts\<close>

text \<open>
  The exceptions that the worker tells apart. \<open>TransportError\<close> stands for the three
  transport failures of httpx that are retried; \<open>OtherError\<close> for every other exception.
\<close>

datatype worker_exn =
    HTTPStatusError int
  | TransportError string
  | OllamaModelNotFoundError string
  | NoLLMModelsAvailableError string
  | JobCancelledByUser
  | JobDeadlineExceeded
  | TimeoutError
  | OtherError string

text \<open>One attempt: the status and the response, or the exception that sending raised.\<close>

datatype 'r attempt = Response int 'r | Raised worker_exn

text \<open>\<open>raise_for_status\<close> accepts the statuses from 200 to 299 only.\<close>

definition is_success :: "int \<Rightarrow> bool" where
  "is_success status_code \<longleftrightarrow> 200 \<le> status_code \<and> status_code < 300"

fun is_transport :: "worker_exn \<Rightarrow> bool" where
  "is_transport (TransportError m) = True"
| "is_transport e = False"

text \<open>
  The loop of both request methods. \<open>reject\<close> is the early check of a response (the 404 of
  \<open>stream_chat\<close>); the result holds the response or exception and the sleeps.
\<close>

function retry_loop ::
  "(int \<Rightarrow> 'r \<Rightarrow> worker_exn option) \<Rightarrow> string \<Rightarrow> (int \<Rightarrow> 'r attempt) \<Rightarrow> int \<Rightarrow> rat \<Rightarrow> int \<Rightarrow> worker_exn option
    \<Rightarrow> (worker_exn + 'r) \<times> rat list" where
  "retry_loop reject failure srv attempts backoff attempt last_exc =
     (if attempts < attempt then (Inl (case last_exc of None \<Rightarrow> OtherError failure | Some e \<Rightarrow> e), [])
      else let again = (\<lambda>last_exc. case retry_loop reject failure srv attempts backoff (attempt + 1) last_exc of
               (r, sleeps) \<Rightarrow> (r, fl (backoff * of_int attempt) # sleeps))
      in case srv attempt of
        Raised exc \<Rightarrow>
          if is_transport exc \<and> attempt < attempts then again (Some exc) else (Inl exc, [])
      | Response status_code r \<Rightarrow> (case reject status_code r of
            Some exc \<Rightarrow> (Inl exc, [])
          | None \<Rightarrow>
              if 500 \<le> status_code \<and> attempt < attempts then again last_exc
              else if is_success status_code then (Inr r, [])
              else (Inl (HTTPStatusError status_code), [])))"
  by pat_completeness auto
termination by (relation "measure (\<lambda>(reject, failure, srv, attempts, backoff, attempt, last_exc). nat (attempts + 1 - attempt))") auto

declare retry_loop.simps [simp del]

definition request_with_retry ::
  "worker_settings \<Rightarrow> bool \<Rightarrow> (int \<Rightarrow> 'r attempt) \<Rightarrow> (worker_exn + 'r) \<times> rat list" where
  "request_with_retry ws initialized srv =
     (if \<not> initialized then (Inl (OtherError ''Ollama client is not initialized''), [])
      else retry_loop (\<lambda>_ _. None) ''Ollama request failed'' srv (OLLAMA_RETRY_ATTEMPTS ws)
             (OLLAMA_RETRY_BACKOFF_SECONDS ws) 1 None)"

text \<open>
  A response of \<open>stream_chat\<close>: its body and, for a 404, the \<open>error\<close> text of the JSON body
  (empty if there is none).
\<close>

record 'b stream_response =
  sr_body :: 'b
  sr_error :: string

definition reject_404 :: "string \<Rightarrow> int \<Rightarrow> 'b stream_response \<Rightarrow> worker_exn option" where
  "reject_404 model_name status_code r = (if status_code = 404
     then Some (if py_contains ''not found'' (py_lower (sr_error r)) then OllamaModelNotFoundError model_name
                else HTTPStatusError 404)
     else None)"

definition stream_chat ::
  "worker_settings \<Rightarrow> bool \<Rightarrow> string \<Rightarrow> (int \<Rightarrow> 'b stream_response attempt) \<Rightarrow> (worker_exn + 'b stream_response) \<times> rat list" where
  "stream_chat ws initialized model_name srv =
     (if \<not> initialized then (Inl (OtherError ''Ollama client is not initialized''), [])
      else if model_name = [] then (Inl (NoLLMModelsAvailableError ''No LLM models available''), [])
      else retry_loop (reject_404 model_name) ''Ollama stream request failed'' srv (OLLAMA_RETRY_ATTEMPTS ws)
             (OLLAMA_RETRY_BACKOFF_SECONDS ws) 1 None)"

section \<open>Models\<close>

text \<open>``Light model'', ``Medium model'', ``Heavy model''.\<close>

definition LIGHT_MODEL :: string where
  "LIGHT_MODEL =
     cp1251 [203, 229, 227, 234, 224, 255, 32, 236, 238, 228, 229, 235, 252]"

definition MEDIUM_MODEL :: string where
  "MEDIUM_MODEL =
     cp1251 [209, 240, 229, 228, 237, 255, 255, 32, 236, 238, 228, 229, 235, 252]"

definition HEAVY_MODEL :: string where
  "HEAVY_MODEL =
     cp1251 [210, 255, 230, 229, 235, 224, 255, 32, 236, 238, 228, 229, 235, 252]"

definition GIB :: int where
  "GIB = 1024 * 1024 * 1024"

definition catalog_entry :: "string \<Rightarrow> int option \<Rightarrow> model_info" where
  "catalog_entry model_name sz = (let model_size = int_or sz 0;
       model_type = (if model_size < 3 * GIB then LIGHT_MODEL else if model_size < 8 * GIB then MEDIUM_MODEL else HEAVY_MODEL)
     in \<lparr>mi_name = model_name, mi_description = model_type @ '' ('' @ py_str_int (model_size div GIB) @ '' GB)'',
         mi_size = model_size, mi_status = ''active''\<rparr>)"

text \<open>
  The body of \<open>/api/tags\<close> and \<open>/api/ps\<close>: \<open>None\<close> if it is not JSON, else the name and size of
  every listed model. \<open>model_info["name"]\<close> raises where the name is missing.
\<close>

type_synonym models_body = "(string option \<times> int option) list option"

fun catalog_loop :: "(string option \<times> int option) list \<Rightarrow> catalog \<Rightarrow> worker_exn + catalog" where
  "catalog_loop [] cat = Inr cat"
| "catalog_loop ((None, sz) # ms) cat = Inl (OtherError ''name'')"
| "catalog_loop ((Some n, sz) # ms) cat = catalog_loop ms (AList.update n (catalog_entry n sz) cat)"

definition fetch_model_catalog ::
  "worker_settings \<Rightarrow> bool \<Rightarrow> (int \<Rightarrow> models_body attempt) \<Rightarrow> worker_exn + catalog" where
  "fetch_model_catalog ws initialized srv = (case fst (request_with_retry ws initialized srv) of
       Inl e \<Rightarrow> Inl e
     | Inr None \<Rightarrow> Inl (OtherError ''JSONDecodeError'')
     | Inr (Some models) \<Rightarrow> (case catalog_loop models [] of Inl e \<Rightarrow> Inl e
         | Inr cat \<Rightarrow> if cat = [] then Inl (NoLLMModelsAvailableError ''No LLM models available'') else Inr cat))"

definition fetch_loaded_models ::
  "worker_settings \<Rightarrow> bool \<Rightarrow> (int \<Rightarrow> models_body attempt) \<Rightarrow> worker_exn + string list" where
  "fetch_loaded_models ws initialized srv = (case fst (request_with_retry ws initialized srv) of
       Inl e \<Rightarrow> Inr []
     | Inr None \<Rightarrow> Inl (OtherError ''JSONDecodeError'')
     | Inr (Some models) \<Rightarrow> Inr (List.map_filter (\<lambda>(n, sz). str_or n None) models))"

section \<open>Local resources\<close>

text \<open>
  What the host answers: the counters of psutil (if it is installed), \<open>sysconf\<close> (\<open>None\<close> if
  the platform lacks it, \<open>Some None\<close> if it raises), the load average, the NVML library
  (what it reads of a device index, \<open>None\<close> if a call raises), the exit status and output of
  nvidia-smi (\<open>None\<close> if it cannot be run), and \<open>float\<close> on a text.
\<close>

record psutil_counters =
  vm_total :: int
  vm_available :: int
  ps_cpu_percent :: rat

record nvml_reading =
  nv_total :: int
  nv_free :: int
  nv_used :: int
  nv_utilization :: rat
  nv_temperature :: rat

record host =
  h_cpu_count :: int
  h_psutil :: "psutil_counters option"
  h_sysconf :: "(int \<times> int) option option"
  h_loadavg :: "rat option"
  h_nvml :: "(int \<Rightarrow> nvml_reading option) option"
  h_smi :: "(int \<times> string) option"
  h_float :: "string \<Rightarrow> rat option"

definition to_mb :: "int \<Rightarrow> int" where
  "to_mb bytes = \<lfloor>py_truediv bytes (1024 * 1024)\<rfloor>"

definition memory_snapshot_mb :: "settings \<Rightarrow> host \<Rightarrow> int \<times> int" where
  "memory_snapshot_mb cfg h = (case h_psutil h of
       Some vm \<Rightarrow> (to_mb (vm_total vm), to_mb (vm_available vm))
     | None \<Rightarrow> (case h_sysconf h of
         Some (Some (total_pages, page_size)) \<Rightarrow> (let total_mb = to_mb (total_pages * page_size) in
           (total_mb, max (total_mb div 2) (SCHEDULER_RAM_SAFETY_MARGIN_MB cfg + SCHEDULER_TOKEN_GRANULARITY_MB cfg)))
       | _ \<Rightarrow> (0, 0)))"

definition cpu_percent :: "host \<Rightarrow> rat" where
  "cpu_percent h = (case h_psutil h of
       Some ps \<Rightarrow> ps_cpu_percent ps
     | None \<Rightarrow> (case h_loadavg h of
         Some load \<Rightarrow> min 100 (fl (fl (load / of_int (max (h_cpu_count h) 1)) * 100))
       | None \<Rightarrow> 0))"

record gpu_info =
  gpu_index :: int
  vram_total_mb :: int
  vram_free_mb :: int
  used_vram_mb :: int
  gpu_utilization :: rat
  gpu_temperature_c :: rat

text \<open>The loop over the lines of nvidia-smi; \<open>int\<close> and \<open>float\<close> raise on what is no number.\<close>

fun smi_loop :: "worker_settings \<Rightarrow> (string \<Rightarrow> rat option) \<Rightarrow> string list \<Rightarrow> worker_exn + gpu_info option" where
  "smi_loop ws float_of [] = Inr None"
| "smi_loop ws float_of (line # ls) = (case map py_strip (py_split_char CHR '','' line) of
     [p0, p1, p2, p3, p4, p5] \<Rightarrow>
       (case py_int_of_string p0 of None \<Rightarrow> Inl (OtherError ''ValueError'')
        | Some index \<Rightarrow>
            if WORKER_GPU_INDEX ws \<noteq> None \<and> WORKER_GPU_INDEX ws \<noteq> Some index then smi_loop ws float_of ls
            else (case (py_int_of_string p1, py_int_of_string p2, py_int_of_string p3, float_of p4, float_of p5) of
                (Some total_mb, Some free, Some used, Some utilization, Some temperature) \<Rightarrow>
                  Inr (Some \<lparr>gpu_index = index, vram_total_mb = total_mb, vram_free_mb = free, used_vram_mb = used,
                    gpu_utilization = utilization, gpu_temperature_c = temperature\<rparr>)
              | _ \<Rightarrow> Inl (OtherError ''ValueError'')))
   | _ \<Rightarrow> smi_loop ws float_of ls)"

definition query_nvml :: "worker_settings \<Rightarrow> host \<Rightarrow> gpu_info option" where
  "query_nvml ws h = (case h_nvml h of None \<Rightarrow> None
     | Some read \<Rightarrow> (let index = (case WORKER_GPU_INDEX ws of Some i \<Rightarrow> i | None \<Rightarrow> 0) in
         map_option (\<lambda>r. \<lparr>gpu_index = index, vram_total_mb = to_mb (nv_total r), vram_free_mb = to_mb (nv_free r),
           used_vram_mb = to_mb (nv_used r), gpu_utilization = nv_utilization r,
           gpu_temperature_c = nv_temperature r\<rparr>) (read index)))"

definition query_gpu :: "worker_settings \<Rightarrow> host \<Rightarrow> worker_exn + gpu_info option" where
  "query_gpu ws h = (case query_nvml ws h of Some gpu \<Rightarrow> Inr (Some gpu)
     | None \<Rightarrow> (case h_smi h of None \<Rightarrow> Inr None
       | Some (returncode, stdout) \<Rightarrow>
           if returncode \<noteq> 0 then Inr None else smi_loop ws (h_float h) (py_splitlines stdout)))"

text \<open>
  The capacity in tokens: on a GPU what the free video memory holds beyond the margins, on
  a CPU what the free RAM holds, scaled by the idle share of the processor, at most one
  token per core, with a floor of eight on hosts with at least 12 GiB.
\<close>

definition gpu_capacity_tokens :: "settings \<Rightarrow> gpu_info \<Rightarrow> int" where
  "gpu_capacity_tokens cfg gpu =
     (let usable_vram_mb = max 0 (vram_free_mb gpu - SCHEDULER_GPU_SAFETY_MARGIN_MB cfg
            - SCHEDULER_GPU_FRAGMENTATION_MARGIN_MB cfg)
      in if vram_total_mb gpu \<noteq> 0 then max 1 (usable_vram_mb div max (SCHEDULER_TOKEN_GRANULARITY_MB cfg) 1) else 0)"

definition cpu_capacity_tokens :: "settings \<Rightarrow> int \<Rightarrow> rat \<Rightarrow> int \<Rightarrow> int \<Rightarrow> int" where
  "cpu_capacity_tokens cfg cpu_count busy ram_total_mb ram_free_mb =
     (let usable_ram_mb = max 0 (ram_free_mb - SCHEDULER_RAM_SAFETY_MARGIN_MB cfg);
          ram_tokens = (if usable_ram_mb \<noteq> 0 then usable_ram_mb div max (SCHEDULER_TOKEN_GRANULARITY_MB cfg) 1 else 0);
          load_factor = max (1 / 4) (fl (fl (100 - busy) / 100));
          base_capacity_tokens = max 1 (min cpu_count (int_or (Some \<lfloor>py_mul_float ram_tokens load_factor\<rfloor>) 1))
      in if 12 * 1024 \<le> ram_total_mb then max base_capacity_tokens 8 else base_capacity_tokens)"

text \<open>
  The report; \<open>ollama\<close> is the server's answer to the request for the loaded models (\<open>None\<close> on
  a parser worker, which has no client). The report has no field for pinned models.
\<close>

definition target_report ::
  "settings \<Rightarrow> worker_settings \<Rightarrow> host \<Rightarrow> int \<times> int \<Rightarrow> string list \<Rightarrow> gpu_info option \<Rightarrow> target" where
  "target_report cfg ws h memory loaded_models gpu = \<lparr>tg_target_id = WORKER_TARGET_ID ws, tg_node_id = WORKER_NODE_ID ws,
     tg_target_kind = (case gpu of Some x \<Rightarrow> ''gpu'' | None \<Rightarrow> ''cpu''),
     tg_cpu_count = h_cpu_count h, tg_cpu_percent = cpu_percent h,
     tg_ram_total_mb = fst memory, tg_ram_free_mb = snd memory,
     tg_vram_total_mb = (case gpu of Some x \<Rightarrow> vram_total_mb x | None \<Rightarrow> 0),
     tg_vram_free_mb = (case gpu of Some x \<Rightarrow> vram_free_mb x | None \<Rightarrow> 0),
     tg_loaded_models = loaded_models, tg_pinned_models = [],
     tg_base_capacity_tokens = (case gpu of Some x \<Rightarrow> gpu_capacity_tokens cfg x
       | None \<Rightarrow> cpu_capacity_tokens cfg (h_cpu_count h) (cpu_percent h) (fst memory) (snd memory)),
     tg_last_seen = 0\<rparr>"

definition collect_target_report ::
  "settings \<Rightarrow> worker_settings \<Rightarrow> host \<Rightarrow> (int \<Rightarrow> models_body attempt) option \<Rightarrow> worker_exn + target" where
  "collect_target_report cfg ws h ollama =
     (case (case ollama of None \<Rightarrow> Inr [] | Some srv \<Rightarrow> fetch_loaded_models ws True srv) of Inl e \<Rightarrow> Inl e
      | Inr loaded_models \<Rightarrow>
     (case (if WORKER_TARGET_KIND ws = ''auto'' \<or> WORKER_TARGET_KIND ws = ''gpu'' then query_gpu ws h else Inr None) of
        Inl e \<Rightarrow> Inl e
      | Inr gpu \<Rightarrow> Inr (target_report cfg ws h (memory_snapshot_mb cfg h) loaded_models gpu)))"

section \<open>Retries\<close>

text \<open>
  The specification of a request: an attempt is retried on a transport failure or a server
  error, and the first attempt that is not, or the last one, decides.
\<close>

definition retryable :: "(int \<Rightarrow> 'r \<Rightarrow> worker_exn option) \<Rightarrow> 'r attempt \<Rightarrow> bool" where
  "retryable reject a = (case a of Raised e \<Rightarrow> is_transport e | Response st r \<Rightarrow> reject st r = None \<and> 500 \<le> st)"

definition verdict :: "(int \<Rightarrow> 'r \<Rightarrow> worker_exn option) \<Rightarrow> 'r attempt \<Rightarrow> worker_exn + 'r" where
  "verdict reject a = (case a of Raised e \<Rightarrow> Inl e | Response st r \<Rightarrow> (case reject st r of Some e \<Rightarrow> Inl e
     | None \<Rightarrow> if is_success st then Inr r else Inl (HTTPStatusError st)))"

definition decided_at :: "(int \<Rightarrow> 'r \<Rightarrow> worker_exn option) \<Rightarrow> (int \<Rightarrow> 'r attempt) \<Rightarrow> int \<Rightarrow> int \<Rightarrow> bool" where
  "decided_at reject srv attempts k \<longleftrightarrow> (\<forall>i \<in> {1..<k}. retryable reject (srv i)) \<and> (k = attempts \<or> \<not> retryable reject (srv k))"

lemma retry_loop_step:
  assumes "attempt \<le> attempts"
  shows "retry_loop reject failure srv attempts backoff attempt last_exc =
    (if retryable reject (srv attempt) \<and> attempt < attempts
     then (\<lambda>(r, sleeps). (r, fl (backoff * of_int attempt) # sleeps))
       (retry_loop reject failure srv attempts backoff (attempt + 1)
          (case srv attempt of Raised e \<Rightarrow> Some e | _ \<Rightarrow> last_exc))
     else (verdict reject (srv attempt), []))"
  using assms by (subst retry_loop.simps)
    (auto simp: Let_def retryable_def verdict_def is_success_def split: attempt.split option.split)

lemma retry_loop_decides:
  assumes "attempt \<le> attempts"
  shows "\<exists>k \<in> {attempt..attempts}. (\<forall>i \<in> {attempt..<k}. retryable reject (srv i))
    \<and> (k = attempts \<or> \<not> retryable reject (srv k))
    \<and> retry_loop reject failure srv attempts backoff attempt last_exc
      = (verdict reject (srv k), map (\<lambda>i. fl (backoff * of_int i)) [attempt..k - 1])"
  using assms
proof (induction "nat (attempts - attempt)" arbitrary: attempt last_exc rule: less_induct)
  case less
  show ?case
  proof (cases "retryable reject (srv attempt) \<and> attempt < attempts")
    case False
    then show ?thesis using less.prems retry_loop_step [OF less.prems, of reject failure srv backoff last_exc]
      by (intro bexI [of _ attempt]) auto
  next
    case True
    define exc where "exc = (case srv attempt of Raised e \<Rightarrow> Some e | _ \<Rightarrow> last_exc)"
    have "nat (attempts - (attempt + 1)) < nat (attempts - attempt)" "attempt + 1 \<le> attempts" using True by auto
    from less.hyps [OF this, of exc] obtain k where k: "k \<in> {attempt + 1..attempts}"
      "\<forall>i \<in> {attempt + 1..<k}. retryable reject (srv i)" "k = attempts \<or> \<not> retryable reject (srv k)"
      "retry_loop reject failure srv attempts backoff (attempt + 1) exc
        = (verdict reject (srv k), map (\<lambda>i. fl (backoff * of_int i)) [attempt + 1..k - 1])"
      by blast
    have "{attempt..<k} = insert attempt {attempt + 1..<k}" using k(1) by auto
    moreover have "[attempt..k - 1] = attempt # [attempt + 1..k - 1]" using k(1) by (intro upto_rec1) auto
    moreover have "retry_loop reject failure srv attempts backoff attempt last_exc
        = (verdict reject (srv k), fl (backoff * of_int attempt) # map (\<lambda>i. fl (backoff * of_int i)) [attempt + 1..k - 1])"
      by (subst retry_loop_step [OF less.prems]) (simp only: exc_def [symmetric] k(4) True if_True prod.case simp_thms)
    ultimately show ?thesis using k(1-3) True by (intro bexI [of _ k]) auto
  qed
qed

text \<open>
  C37: requests to the model server. With at least one attempt configured, exactly one
  attempt decides: every earlier one met a transport failure or a server error, and it is
  the last one allowed or met something else. Its outcome is the result (a success, the
  status error, the exception; for a chat request a 404 that names a missing model is told
  apart), and the waits before it grow linearly with the attempt.
\<close>

theorem retry_semantics:
  assumes "1 \<le> OLLAMA_RETRY_ATTEMPTS ws" and "model_name \<noteq> []"
  shows "(\<exists>k \<in> {1..OLLAMA_RETRY_ATTEMPTS ws}. decided_at (\<lambda>_ _. None) srv (OLLAMA_RETRY_ATTEMPTS ws) k
      \<and> request_with_retry ws True srv
        = (verdict (\<lambda>_ _. None) (srv k), map (\<lambda>i. fl (OLLAMA_RETRY_BACKOFF_SECONDS ws * of_int i)) [1..k - 1]))
    \<and> (\<exists>k \<in> {1..OLLAMA_RETRY_ATTEMPTS ws}. decided_at (reject_404 model_name) chat (OLLAMA_RETRY_ATTEMPTS ws) k
      \<and> stream_chat ws True model_name chat
        = (verdict (reject_404 model_name) (chat k), map (\<lambda>i. fl (OLLAMA_RETRY_BACKOFF_SECONDS ws * of_int i)) [1..k - 1]))"
  using retry_loop_decides [OF assms(1), of "\<lambda>_ _. None" srv "''Ollama request failed''" "OLLAMA_RETRY_BACKOFF_SECONDS ws" None]
    retry_loop_decides [OF assms(1), of "reject_404 model_name" chat "''Ollama stream request failed''"
      "OLLAMA_RETRY_BACKOFF_SECONDS ws" None] assms(2)
  by (simp add: request_with_retry_def stream_chat_def decided_at_def)

theorem retry_semantics_witness:
  "fst (request_with_retry default_worker_settings True (\<lambda>i. if i < 3 then Raised (TransportError ''x'') else Response 200 ''ok'')) = Inr ''ok''"
proof -
  let ?srv = "\<lambda>i::int. if i < 3 then Raised (TransportError ''x'') else Response 200 ''ok''"
  have a: "OLLAMA_RETRY_ATTEMPTS default_worker_settings = 3" by (simp add: default_worker_settings_def)
  obtain k where k: "k \<in> {1..3}" "decided_at (\<lambda>_ _. None) ?srv 3 k"
    "fst (request_with_retry default_worker_settings True ?srv) = verdict (\<lambda>_ _. None) (?srv k)"
    using retry_semantics [of default_worker_settings "''m''" ?srv] unfolding a by force
  have "k = 3" using k(1, 2) by (auto simp: decided_at_def retryable_def split: if_splits)
  with k(3) show ?thesis by (simp add: verdict_def is_success_def)
qed

section \<open>Capacity\<close>

lemma cpu_capacity_bounds:
  "1 \<le> cpu_capacity_tokens cfg n busy total_mb free"
  "cpu_capacity_tokens cfg n busy total_mb free \<le> max (if 12 * 1024 \<le> total_mb then 8 else 1) n"
  by (auto simp: cpu_capacity_tokens_def Let_def max_def min_def)

lemma gpu_capacity_bounds:
  assumes "1 \<le> SCHEDULER_TOKEN_GRANULARITY_MB cfg"
  shows "0 \<le> gpu_capacity_tokens cfg x \<and> (gpu_capacity_tokens cfg x \<le> 1
    \<or> gpu_capacity_tokens cfg x * SCHEDULER_TOKEN_GRANULARITY_MB cfg
        + SCHEDULER_GPU_SAFETY_MARGIN_MB cfg + SCHEDULER_GPU_FRAGMENTATION_MARGIN_MB cfg \<le> vram_free_mb x)"
proof -
  define n u where "n = SCHEDULER_TOKEN_GRANULARITY_MB cfg"
    and "u = vram_free_mb x - SCHEDULER_GPU_SAFETY_MARGIN_MB cfg - SCHEDULER_GPU_FRAGMENTATION_MARGIN_MB cfg"
  have n: "1 \<le> n" using assms by (simp add: n_def)
  define q where "q = max 0 u div n"
  have "q * n \<le> max 0 u" using n by (simp add: q_def minus_mod_eq_div_mult [symmetric])
  moreover have "q = 0" if "u \<le> 0" using that by (simp add: q_def)
  moreover have "gpu_capacity_tokens cfg x = (if vram_total_mb x \<noteq> 0 then max 1 q else 0)"
    using n by (simp add: gpu_capacity_tokens_def Let_def q_def n_def u_def max_def)
  ultimately show ?thesis unfolding n_def [symmetric] by (cases "q \<le> 1") (auto simp: u_def max_def split: if_splits)
qed

text \<open>
  The reported capacity is sane. The report carries the configured identity and no
  pinned models; with a GPU its tokens fit the video memory that is free beyond both
  margins, or are the single token of an almost full device; without one they are at least
  one and at most one per core, except that a host with 12 GiB of memory always offers
  eight.
\<close>

theorem target_report_capacity:
  assumes "collect_target_report cfg ws h ollama = Inr t" and "1 \<le> SCHEDULER_TOKEN_GRANULARITY_MB cfg"
  shows "tg_target_id t = WORKER_TARGET_ID ws \<and> tg_pinned_models t = [] \<and> 0 \<le> tg_base_capacity_tokens t
    \<and> (tg_target_kind t = ''gpu'' \<and> tg_base_capacity_tokens t \<le> 1
      \<or> tg_target_kind t = ''gpu'' \<and> tg_base_capacity_tokens t * SCHEDULER_TOKEN_GRANULARITY_MB cfg
          + SCHEDULER_GPU_SAFETY_MARGIN_MB cfg + SCHEDULER_GPU_FRAGMENTATION_MARGIN_MB cfg \<le> tg_vram_free_mb t
      \<or> tg_target_kind t = ''cpu'' \<and> 1 \<le> tg_base_capacity_tokens t \<and> tg_vram_free_mb t = 0
        \<and> tg_base_capacity_tokens t \<le> max (if 12 * 1024 \<le> tg_ram_total_mb t then 8 else 1) (tg_cpu_count t))"
proof -
  define memory where "memory = memory_snapshot_mb cfg h"
  obtain loaded gpu where t: "t = target_report cfg ws h memory loaded gpu"
    using assms(1) by (auto simp: collect_target_report_def memory_def split: sum.split_asm)
  show ?thesis
  proof (cases gpu)
    case None
    then show ?thesis using t cpu_capacity_bounds [of cfg "h_cpu_count h" "cpu_percent h" "fst memory" "snd memory"]
      by (simp add: target_report_def)
  next
    case (Some x)
    then show ?thesis using t gpu_capacity_bounds [OF assms(2), of x] by (simp add: target_report_def add.commute add.left_commute)
  qed
qed

definition demo_host :: host where
  "demo_host = \<lparr>h_cpu_count = 4, h_psutil = None, h_sysconf = None, h_loadavg = None, h_nvml = None,
     h_smi = None, h_float = (\<lambda>_. None)\<rparr>"

theorem target_report_capacity_witness:
  "\<exists>t. collect_target_report default_settings default_worker_settings demo_host None = Inr t
     \<and> tg_target_kind t = ''cpu'' \<and> 1 \<le> tg_base_capacity_tokens t \<and> tg_base_capacity_tokens t \<le> 4"
proof -
  let ?t = "target_report default_settings default_worker_settings demo_host (0, 0) [] None"
  have "collect_target_report default_settings default_worker_settings demo_host None = Inr ?t"
    by (simp add: collect_target_report_def default_worker_settings_def query_gpu_def query_nvml_def memory_snapshot_mb_def demo_host_def)
  moreover have "1 \<le> SCHEDULER_TOKEN_GRANULARITY_MB default_settings" by (simp add: default_settings_def)
  moreover have "tg_target_kind ?t = ''cpu''" "tg_cpu_count ?t = 4" "tg_ram_total_mb ?t = 0" by (simp_all add: target_report_def demo_host_def)
  ultimately show ?thesis using target_report_capacity [of default_settings default_worker_settings demo_host None ?t] by auto
qed

end
