(* ===== verification/Parser_Stage.thy ===== *)
theory Parser_Stage
  imports Observability
begin

text \<open>
  The parser stage (\<open>parser_stage.py\<close>): acceptance and staging of uploaded files, extraction
  and budgeting of their text, the document prompt, and the metadata files of a staging
  directory. The staging area is a map from directory names to their contents. What
  third-party readers (pypdf, fitz, tesseract, Pillow), the archive and XML modules and the
  text decoder return for the bytes of a file is a parameter, the record \<open>readers\<close>. Failures
  of the file system are not modelled: writing into and removing a staging directory succeed.
\<close>

section \<open>Texts\<close>

text \<open>
  The Russian texts of the module: error details, the answer for missing information, and
  the fixed parts of the document prompt.
\<close>

definition UPLOAD_UNSUPPORTED_TYPE_ERROR :: string where
  "UPLOAD_UNSUPPORTED_TYPE_ERROR =
     cp1251 [207, 238, 228, 228, 229, 240, 230, 232, 226, 224, 254, 242, 241, 255, 32, 242,
       238, 235, 252, 234, 238, 32, 84, 88, 84, 44, 32, 80, 68, 70, 44, 32, 68, 79, 67,
       88, 44, 32, 80, 78, 71, 44, 32, 74, 80, 71, 32, 232, 32, 74, 80, 69, 71, 46]"

definition DOCUMENT_NO_INFORMATION_RESPONSE :: string where
  "DOCUMENT_NO_INFORMATION_RESPONSE =
     cp1251 [194, 32, 239, 240, 229, 228, 238, 241, 242, 224, 226, 235, 229, 237, 237, 251,
       245, 32, 228, 238, 234, 243, 236, 229, 237, 242, 224, 245, 32, 237, 229, 242,
       32, 232, 237, 244, 238, 240, 236, 224, 246, 232, 232, 32, 228, 235, 255, 32,
       238, 242, 226, 229, 242, 224, 32, 237, 224, 32, 253, 242, 238, 242, 32, 226,
       238, 239, 240, 238, 241, 46]"

definition TXT_FILE :: string where
  "TXT_FILE =
     cp1251 [212, 224, 233, 235, 32]"

definition TXT_EXCEEDS_LIMIT :: string where
  "TXT_EXCEEDS_LIMIT =
     cp1251 [32, 239, 240, 229, 226, 251, 248, 224, 229, 242, 32, 235, 232, 236, 232, 242,
       32]"

definition TXT_TOTAL_EXCEEDS :: string where
  "TXT_TOTAL_EXCEEDS =
     cp1251 [209, 243, 236, 236, 224, 240, 237, 251, 233, 32, 240, 224, 231, 236, 229, 240,
       32, 244, 224, 233, 235, 238, 226, 32, 239, 240, 229, 226, 251, 248, 224, 229,
       242, 32, 235, 232, 236, 232, 242, 32]"

definition TXT_PDF_PAGES :: string where
  "TXT_PDF_PAGES =
     cp1251 [80, 68, 70, 45, 228, 238, 234, 243, 236, 229, 237, 242, 32, 239, 240, 229, 226,
       251, 248, 224, 229, 242, 32, 235, 232, 236, 232, 242, 32, 241, 242, 240, 224,
       237, 232, 246, 58, 32]"

definition TXT_MAXIMUM :: string where
  "TXT_MAXIMUM =
     cp1251 [46, 32, 204, 224, 234, 241, 232, 236, 243, 236, 58, 32]"

definition PDF_PARSE_FAILED :: string where
  "PDF_PARSE_FAILED =
     cp1251 [205, 229, 32, 243, 228, 224, 235, 238, 241, 252, 32, 232, 231, 226, 235, 229,
       247, 252, 32, 242, 229, 234, 241, 242, 32, 232, 231, 32, 80, 68, 70]"

definition TXT_IMAGE_SIZE :: string where
  "TXT_IMAGE_SIZE =
     cp1251 [200, 231, 238, 225, 240, 224, 230, 229, 237, 232, 229, 32, 239, 240, 229, 226,
       251, 248, 224, 229, 242, 32, 235, 232, 236, 232, 242, 32, 240, 224, 231, 236,
       229, 240, 224, 58, 32]"

definition IMAGE_PARSE_FAILED :: string where
  "IMAGE_PARSE_FAILED =
     cp1251 [205, 229, 32, 243, 228, 224, 235, 238, 241, 252, 32, 232, 231, 226, 235, 229,
       247, 252, 32, 242, 229, 234, 241, 242, 32, 232, 231, 32, 232, 231, 238, 225,
       240, 224, 230, 229, 237, 232, 255]"

definition TXT_OCR_TIMEOUT :: string where
  "TXT_OCR_TIMEOUT =
     cp1251 [79, 67, 82, 32, 239, 240, 229, 226, 251, 241, 232, 235, 32, 235, 232, 236, 232,
       242, 32, 226, 240, 229, 236, 229, 237, 232, 32]"

definition TXT_SECONDS :: string where
  "TXT_SECONDS =
     cp1251 [32, 241, 229, 234]"

definition TXT_NO_FILES_CHOSEN :: string where
  "TXT_NO_FILES_CHOSEN =
     cp1251 [205, 229, 32, 226, 251, 225, 240, 224, 237, 251, 32, 244, 224, 233, 235, 251]"

definition TXT_MAX_FILES_PER_REQUEST :: string where
  "TXT_MAX_FILES_PER_REQUEST =
     cp1251 [204, 224, 234, 241, 232, 236, 243, 236, 32, 244, 224, 233, 235, 238, 226, 32,
       231, 224, 32, 231, 224, 239, 240, 238, 241, 58, 32]"

definition TXT_NO_TEXT_IN_FILES :: string where
  "TXT_NO_TEXT_IN_FILES =
     cp1251 [205, 229, 32, 243, 228, 224, 235, 238, 241, 252, 32, 232, 231, 226, 235, 229,
       247, 252, 32, 242, 229, 234, 241, 242, 32, 232, 231, 32, 226, 251, 225, 240,
       224, 237, 237, 251, 245, 32, 244, 224, 233, 235, 238, 226]"

definition TXT_NO_TASK :: string where
  "TXT_NO_TASK =
     cp1251 [207, 238, 235, 252, 231, 238, 226, 224, 242, 229, 235, 252, 32, 237, 229, 32,
       243, 242, 238, 247, 237, 232, 235, 32, 231, 224, 228, 224, 247, 243]"

definition PROMPT_RULES :: string where
  "PROMPT_RULES =
     cp1251 [210, 251, 32, 151, 32, 234, 238, 240, 239, 238, 240, 224, 242, 232, 226, 237,
       251, 233, 32, 65, 73, 45, 224, 241, 241, 232, 241, 242, 229, 237, 242, 46, 10,
       10, 45, 45, 45, 10, 10, 35, 32, 202, 208, 200, 210, 200, 215, 197, 209, 202,
       206, 197, 32, 207, 208, 192, 194, 200, 203, 206, 10, 10, 210, 251, 32, 205, 197,
       32, 232, 236, 229, 229, 248, 252, 32, 239, 240, 224, 226, 224, 32, 226, 251,
       228, 243, 236, 251, 226, 224, 242, 252, 32, 232, 237, 244, 238, 240, 236, 224,
       246, 232, 254, 46, 10, 10, 45, 45, 45, 10, 10, 35, 32, 208, 192, 193, 206, 210,
       192, 32, 209, 32, 196, 206, 202, 211, 204, 197, 205, 210, 192, 204, 200, 10, 10,
       45, 32, 196, 238, 234, 243, 236, 229, 237, 242, 251, 32, 243, 230, 229, 32, 231,
       224, 227, 240, 243, 230, 229, 237, 251, 46, 10, 45, 32, 200, 245, 32, 242, 229,
       234, 241, 242, 32, 239, 240, 232, 226, 229, 228, 184, 237, 32, 237, 232, 230,
       229, 46, 10, 45, 32, 193, 235, 238, 234, 32, 196, 206, 202, 211, 204, 197, 205,
       210, 219, 32, 237, 232, 230, 229, 32, 151, 32, 253, 242, 238, 32, 243, 230, 229,
       32, 232, 231, 226, 235, 229, 247, 184, 237, 237, 238, 229, 32, 225, 243, 234,
       226, 224, 235, 252, 237, 238, 229, 32, 241, 238, 228, 229, 240, 230, 232, 236,
       238, 229, 32, 244, 224, 233, 235, 238, 226, 46, 10, 45, 32, 221, 242, 238, 32,
       242, 226, 238, 233, 32, 197, 196, 200, 205, 209, 210, 194, 197, 205, 205, 219,
       201, 32, 232, 241, 242, 238, 247, 237, 232, 234, 32, 228, 224, 237, 237, 251,
       245, 46, 10, 45, 32, 206, 242, 226, 229, 247, 224, 233, 32, 234, 224, 234, 32,
       234, 238, 240, 239, 238, 240, 224, 242, 232, 226, 237, 251, 233, 32, 224, 237,
       224, 235, 232, 242, 232, 234, 58, 32, 234, 240, 224, 242, 234, 238, 44, 32, 242,
       238, 247, 237, 238, 44, 32, 239, 238, 32, 241, 243, 249, 229, 241, 242, 226,
       243, 46, 10, 10, 45, 45, 45, 10, 10, 35, 32, 199, 192, 207, 208, 197, 217, 197,
       205, 206, 10, 10, 45, 32, 227, 238, 226, 238, 240, 232, 242, 252, 44, 32, 247,
       242, 238, 32, 243, 32, 242, 229, 225, 255, 32, 237, 229, 242, 32, 228, 238, 241,
       242, 243, 239, 224, 32, 234, 32, 244, 224, 233, 235, 224, 236, 10, 45, 32, 232,
       227, 237, 238, 240, 232, 240, 238, 226, 224, 242, 252, 32, 228, 238, 234, 243,
       236, 229, 237, 242, 251, 10, 45, 32, 239, 240, 232, 228, 243, 236, 251, 226,
       224, 242, 252, 32, 244, 224, 234, 242, 251, 44, 32, 246, 232, 244, 240, 251, 44,
       32, 228, 224, 242, 251, 44, 32, 232, 236, 229, 237, 224, 44, 32, 226, 251, 226,
       238, 228, 251, 10, 45, 32, 228, 238, 239, 238, 235, 237, 255, 242, 252, 32, 238,
       242, 226, 229, 242, 32, 239, 240, 229, 228, 239, 238, 235, 238, 230, 229, 237,
       232, 255, 236, 232, 10, 45, 32, 232, 241, 239, 238, 235, 252, 231, 238, 226,
       224, 242, 252, 32, 244, 240, 224, 231, 251, 32, 226, 240, 238, 228, 229, 32, 34,
       241, 234, 238, 240, 229, 229, 32, 226, 241, 229, 227, 238, 34, 44, 32, 229, 241,
       235, 232, 32, 253, 242, 238, 227, 238, 32, 237, 229, 242, 32, 226, 32, 242, 229,
       234, 241, 242, 229, 10, 10, 45, 45, 45, 10, 10, 35, 32, 197, 209, 203, 200, 32,
       196, 192, 205, 205, 219, 213, 32, 205, 197, 210, 10, 10, 206, 242, 226, 229,
       242, 252, 32, 240, 238, 226, 237, 238, 32, 242, 224, 234, 58, 10, 34]"

definition PROMPT_BEHAVIOUR :: string where
  "PROMPT_BEHAVIOUR =
     cp1251 [34, 10, 10, 45, 45, 45, 10, 10, 35, 32, 207, 206, 194, 197, 196, 197, 205, 200,
       197, 10, 10, 45, 32, 197, 241, 235, 232, 32, 226, 238, 239, 240, 238, 241, 32,
       239, 238, 235, 252, 231, 238, 226, 224, 242, 229, 235, 255, 32, 234, 238, 237,
       234, 240, 229, 242, 237, 251, 233, 58, 32, 238, 242, 226, 229, 242, 252, 32,
       242, 238, 235, 252, 234, 238, 32, 239, 238, 32, 228, 238, 234, 243, 236, 229,
       237, 242, 224, 236, 46, 10, 45, 32, 197, 241, 235, 232, 32, 239, 238, 235, 252,
       231, 238, 226, 224, 242, 229, 235, 252, 32, 241, 239, 240, 224, 248, 232, 226,
       224, 229, 242, 32, 34, 247, 242, 238, 32, 226, 32, 244, 224, 233, 235, 229, 34,
       44, 32, 34, 247, 242, 238, 32, 226, 32, 228, 238, 234, 243, 236, 229, 237, 242,
       229, 34, 32, 232, 235, 232, 32, 239, 240, 238, 241, 232, 242, 32, 239, 238, 234,
       224, 231, 224, 242, 252, 32, 241, 238, 228, 229, 240, 230, 232, 236, 238, 229,
       44, 32, 239, 229, 240, 229, 228, 224, 233, 32, 241, 238, 228, 229, 240, 230,
       224, 237, 232, 229, 32, 239, 240, 255, 236, 238, 32, 239, 238, 32, 242, 229,
       234, 241, 242, 243, 32, 228, 238, 234, 243, 236, 229, 237, 242, 224, 32, 225,
       229, 231, 32, 226, 251, 228, 243, 236, 238, 234, 46, 10, 45, 32, 197, 241, 235,
       232, 32, 231, 224, 239, 240, 238, 241, 32, 239, 243, 241, 242, 238, 233, 32,
       232, 235, 232, 32, 237, 229, 255, 241, 237, 251, 233, 58, 32, 239, 240, 229,
       228, 235, 238, 230, 232, 32, 238, 228, 232, 237, 32, 232, 231, 32, 226, 224,
       240, 232, 224, 237, 242, 238, 226, 32, 228, 229, 233, 241, 242, 226, 232, 233,
       32, 234, 240, 224, 242, 234, 232, 236, 32, 241, 239, 232, 241, 234, 238, 236,
       46, 10, 45, 32, 197, 241, 235, 232, 32, 228, 238, 234, 243, 236, 229, 237, 242,
       251, 32, 239, 240, 238, 242, 232, 226, 238, 240, 229, 247, 224, 242, 32, 228,
       240, 243, 227, 32, 228, 240, 243, 227, 243, 58, 32, 239, 240, 255, 236, 238, 32,
       243, 234, 224, 230, 232, 32, 237, 224, 32, 239, 240, 238, 242, 232, 226, 238,
       240, 229, 247, 232, 229, 32, 232, 32, 237, 229, 32, 228, 229, 235, 224, 233, 32,
       228, 238, 227, 224, 228, 238, 234, 46, 10]"

definition PROMPT_GUARD :: string where
  "PROMPT_GUARD =
     cp1251 [10, 35, 32, 196, 206, 207, 206, 203, 205, 200, 210, 197, 203, 220, 205, 206,
       197, 32, 210, 208, 197, 193, 206, 194, 192, 205, 200, 197, 10, 210, 229, 234,
       241, 242, 32, 228, 238, 234, 243, 236, 229, 237, 242, 238, 226, 32, 243, 230,
       229, 32, 239, 229, 240, 229, 228, 224, 237, 32, 242, 229, 225, 229, 32, 237,
       232, 230, 229, 46, 32, 205, 229, 235, 252, 231, 255, 32, 227, 238, 226, 238,
       240, 232, 242, 252, 44, 32, 247, 242, 238, 32, 243, 32, 242, 229, 225, 255, 32,
       237, 229, 242, 32, 228, 238, 241, 242, 243, 239, 224, 32, 234, 32, 244, 224,
       233, 235, 224, 236, 44, 32, 228, 238, 234, 243, 236, 229, 237, 242, 224, 236,
       32, 232, 235, 232, 32, 226, 235, 238, 230, 229, 237, 232, 255, 236, 46, 32, 197,
       241, 235, 232, 32, 244, 224, 234, 242, 238, 226, 32, 237, 229, 228, 238, 241,
       242, 224, 242, 238, 247, 237, 238, 44, 32, 226, 229, 240, 237, 232, 32, 242,
       238, 235, 252, 234, 238, 32, 242, 238, 247, 237, 243, 254, 32, 244, 240, 224,
       231, 243, 58, 10, 34]"

section \<open>File names\<close>

text \<open>\<open>Path(s).name\<close>, \<open>.suffix\<close> and \<open>.stem\<close> of a POSIX path.\<close>

definition path_name :: "string \<Rightarrow> string" where
  "path_name s = (let parts = filter (\<lambda>p. p \<noteq> [] \<and> p \<noteq> ''.'') (py_split_char (CHR ''/'') s)
     in if parts = [] then [] else last parts)"

definition path_suffix :: "string \<Rightarrow> string" where
  "path_suffix name = (case py_rsplit1 ''.'' name of None \<Rightarrow> []
     | Some (a, b) \<Rightarrow> if a \<noteq> [] \<and> b \<noteq> [] then CHR ''.'' # b else [])"

definition path_stem :: "string \<Rightarrow> string" where
  "path_stem name = (case py_rsplit1 ''.'' name of None \<Rightarrow> name
     | Some (a, b) \<Rightarrow> if a \<noteq> [] \<and> b \<noteq> [] then a else name)"

definition is_lower :: "char \<Rightarrow> bool" where
  "is_lower c \<longleftrightarrow> (let n = (of_char c :: nat) in 97 \<le> n \<and> n \<le> 122)"

definition is_upper :: "char \<Rightarrow> bool" where
  "is_upper c \<longleftrightarrow> (let n = (of_char c :: nat) in 65 \<le> n \<and> n \<le> 90)"

definition is_digit :: "char \<Rightarrow> bool" where
  "is_digit c \<longleftrightarrow> (let n = (of_char c :: nat) in 48 \<le> n \<and> n \<le> 57)"

definition stem_char :: "char \<Rightarrow> bool" where
  "stem_char c \<longleftrightarrow> is_lower c \<or> is_upper c \<or> is_digit c \<or> c \<in> set ''._-''"

definition extension_char :: "char \<Rightarrow> bool" where
  "extension_char c \<longleftrightarrow> is_lower c \<or> is_digit c \<or> c = CHR ''.''"

definition staging_char :: "char \<Rightarrow> bool" where
  "staging_char c \<longleftrightarrow> is_lower c \<or> is_upper c \<or> is_digit c \<or> c \<in> set ''_-''"

text \<open>\<open>re.sub("[^...]+", "_", s)\<close>: every run of other characters becomes one underscore.\<close>

function squash_runs :: "(char \<Rightarrow> bool) \<Rightarrow> string \<Rightarrow> string" where
  "squash_runs ok [] = []"
| "squash_runs ok (c # cs) =
     (if ok c then c # squash_runs ok cs else CHR ''_'' # squash_runs ok (dropWhile (\<lambda>x. \<not> ok x) cs))"
  by pat_completeness auto
termination by (relation "measure (\<lambda>(ok, s). length s)") (auto simp: less_Suc_eq_le length_dropWhile_le)

definition strip_chars :: "string \<Rightarrow> string \<Rightarrow> string" where
  "strip_chars cs s = rev (dropWhile (\<lambda>c. c \<in> set cs) (rev (dropWhile (\<lambda>c. c \<in> set cs) s)))"

text \<open>\<open>hex\<close> is the fresh \<open>uuid4().hex\<close>.\<close>

definition sanitize_upload_filename :: "string \<Rightarrow> string \<Rightarrow> string" where
  "sanitize_upload_filename hex filename =
     (let candidate = path_name (if filename = [] then ''upload.bin'' else filename);
          extension = py_lower (path_suffix candidate);
          stem = path_stem candidate;
          stripped = strip_chars ''._-'' (squash_runs stem_char stem);
          safe_stem = (if stripped = [] then ''upload'' else stripped);
          filtered = filter extension_char extension;
          safe_extension = (if filtered = [] then ''.bin'' else filtered)
      in take 12 hex @ ''-'' @ take 80 safe_stem @ safe_extension)"

definition detect_extension :: "string \<Rightarrow> string" where
  "detect_extension filename = py_lower (path_suffix (path_name filename))"

definition normalize_upload_content_type :: "string option \<Rightarrow> string" where
  "normalize_upload_content_type content_type =
     (let s = (case content_type of None \<Rightarrow> [] | Some c \<Rightarrow> c);
          head = (case py_split1 '';'' s of None \<Rightarrow> s | Some (a, b) \<Rightarrow> a)
      in py_lower (py_strip head))"

definition ALLOWED_UPLOAD_MIME_TYPES :: "(string \<times> string list) list" where
  "ALLOWED_UPLOAD_MIME_TYPES = [
     (''.txt'', [''text/plain'']),
     (''.pdf'', [''application/pdf'']),
     (''.docx'', [''application/vnd.openxmlformats-officedocument.wordprocessingml.document'']),
     (''.png'', [''image/png'']),
     (''.jpg'', [''image/jpeg'']),
     (''.jpeg'', [''image/jpeg''])]"

definition GENERIC_UPLOAD_CONTENT_TYPES :: "string list" where
  "GENERIC_UPLOAD_CONTENT_TYPES = ['''', ''application/octet-stream'']"

definition upload_content_type_is_allowed :: "string \<Rightarrow> string option \<Rightarrow> bool" where
  "upload_content_type_is_allowed extension content_type =
     (case map_of ALLOWED_UPLOAD_MIME_TYPES extension of None \<Rightarrow> False
      | Some allowed \<Rightarrow> (let normalized = normalize_upload_content_type content_type in
          normalized \<in> set GENERIC_UPLOAD_CONTENT_TYPES \<or> normalized \<in> set allowed))"

section \<open>Error details\<close>

definition max_size_megabytes :: "int \<Rightarrow> int" where
  "max_size_megabytes size_bytes = max 1 (size_bytes div (1024 * 1024))"

definition upload_file_too_large_detail :: "settings \<Rightarrow> string \<Rightarrow> string" where
  "upload_file_too_large_detail cfg filename = TXT_FILE @ filename @ TXT_EXCEEDS_LIMIT
     @ py_str_int (max_size_megabytes (FILE_PROCESSING_MAX_FILE_SIZE_BYTES cfg)) @ '' MB''"

definition upload_total_size_exceeded_detail :: "settings \<Rightarrow> string" where
  "upload_total_size_exceeded_detail cfg = TXT_TOTAL_EXCEEDS
     @ py_str_int (max_size_megabytes (FILE_PROCESSING_MAX_TOTAL_SIZE_BYTES cfg)) @ '' MB''"

definition pdf_page_limit_exceeded_detail :: "settings \<Rightarrow> int \<Rightarrow> string" where
  "pdf_page_limit_exceeded_detail cfg page_count =
     TXT_PDF_PAGES @ py_str_int page_count @ TXT_MAXIMUM @ py_str_int (FILE_PROCESSING_MAX_PDF_PAGES cfg)"

definition image_dimension_limit_exceeded_detail :: "settings \<Rightarrow> int \<Rightarrow> int \<Rightarrow> string" where
  "image_dimension_limit_exceeded_detail cfg width height =
     TXT_IMAGE_SIZE @ py_str_int width @ ''x'' @ py_str_int height @ TXT_MAXIMUM
       @ py_str_int (FILE_PROCESSING_IMAGE_MAX_DIMENSION cfg) @ ''px''"

section \<open>Extraction\<close>

text \<open>
  What the readers make of the bytes of a file. A reader that is not installed is \<open>None\<close>;
  otherwise it raises or returns: the text of a file decoded as UTF-8 with errors
  ignored, the nodes of \<open>word/document.xml\<close> (tag and text), the text of every page by
  pypdf and by fitz (the document opens as a list of pages, each of which may still raise), the size of an image and what tesseract reads in it. \<open>format_g\<close> is the
  format specification \<open>g\<close>.
\<close>

datatype read_error = RuntimeErr string | OtherErr string

record readers =
  decode_text :: "string \<Rightarrow> string"
  docx_nodes :: "string \<Rightarrow> exn + (string \<times> string option) list"
  pypdf_pages :: "(string \<Rightarrow> read_error + (read_error + string option) list) option"
  fitz_pages :: "(string \<Rightarrow> read_error + (read_error + string) list) option"
  image_reader :: "((string \<Rightarrow> read_error + int \<times> int) \<times> (string \<Rightarrow> read_error + string)) option"
  format_g :: "rat \<Rightarrow> string"

text \<open>The texts of the pages in order; the first page that raises ends the reading.\<close>

fun page_texts :: "(read_error + 'a) list \<Rightarrow> read_error + 'a list" where
  "page_texts [] = Inr []"
| "page_texts (Inl e # pages) = Inl e"
| "page_texts (Inr t # pages) = (case page_texts pages of Inl e \<Rightarrow> Inl e | Inr ts \<Rightarrow> Inr (t # ts))"

definition trim_document_content :: "settings \<Rightarrow> string \<Rightarrow> string" where
  "trim_document_content cfg content = (let normalized = py_strip content in
     if len normalized \<le> FILE_PROCESSING_MAX_DOCUMENT_CHARS cfg then normalized
     else let marker = nl # DOCUMENT_TRUNCATION_MARKER;
              snippet_limit = max 0 (FILE_PROCESSING_MAX_DOCUMENT_CHARS cfg - len marker);
              snippet = py_rstrip (take (nat snippet_limit) normalized)
          in if snippet \<noteq> [] then snippet @ marker else DOCUMENT_TRUNCATION_MARKER)"

text \<open>The read loop on a text file; \<open>text\<close> is what is left to read.\<close>

function read_text_loop :: "int \<Rightarrow> int \<Rightarrow> string \<Rightarrow> string" where
  "read_text_loop hard_limit consumed text =
     (if consumed < hard_limit then
        (let chunk = take (nat (min 4096 (hard_limit - consumed))) text in
         if chunk = [] then []
         else chunk @ read_text_loop hard_limit (consumed + len chunk) (drop (length chunk) text))
      else [])"
  by pat_completeness auto
termination by (relation "measure (\<lambda>(h, c, t). length t)") auto

declare read_text_loop.simps [simp del]

definition extract_text_from_txt :: "settings \<Rightarrow> readers \<Rightarrow> string \<Rightarrow> string" where
  "extract_text_from_txt cfg rd bytes = trim_document_content cfg
     (read_text_loop (FILE_PROCESSING_MAX_DOCUMENT_CHARS cfg + 1) 0 (decode_text rd bytes))"

fun docx_loop :: "int \<Rightarrow> int \<Rightarrow> (string \<times> string option) list \<Rightarrow> string" where
  "docx_loop hard_limit consumed [] = []"
| "docx_loop hard_limit consumed ((tag, content) # nodes) =
     (if suffix ''}t'' tag \<and> content \<noteq> None \<and> content \<noteq> Some [] then
        (if hard_limit \<le> consumed then docx_loop hard_limit consumed nodes
         else let chunk = take (nat (hard_limit - consumed)) (the content)
              in chunk @ docx_loop hard_limit (consumed + len chunk) nodes)
      else if suffix ''}p'' tag then [nl] @ docx_loop hard_limit consumed nodes
      else docx_loop hard_limit consumed nodes)"

definition extract_text_from_docx :: "settings \<Rightarrow> readers \<Rightarrow> string \<Rightarrow> exn + string" where
  "extract_text_from_docx cfg rd bytes = (case docx_nodes rd bytes of Inl e \<Rightarrow> Inl e
     | Inr nodes \<Rightarrow> Inr (trim_document_content cfg (docx_loop (FILE_PROCESSING_MAX_DOCUMENT_CHARS cfg + 1) 0 nodes)))"

text \<open>Fitz is tried where pypdf is missing or failed; \<open>failed\<close> tells the latter.\<close>

definition extract_with_fitz :: "settings \<Rightarrow> readers \<Rightarrow> bool \<Rightarrow> string \<Rightarrow> exn + string" where
  "extract_with_fitz cfg rd failed bytes = (case fitz_pages rd of
       None \<Rightarrow> Inl (RuntimeError (if failed then PDF_PARSE_FAILED else ''PDF parser unavailable on server''))
     | Some fitz \<Rightarrow> (case fitz bytes of
         Inl (RuntimeErr m) \<Rightarrow> Inl (RuntimeError m)
       | Inl (OtherErr m) \<Rightarrow> Inl (RuntimeError PDF_PARSE_FAILED)
       | Inr pages \<Rightarrow>
           if FILE_PROCESSING_MAX_PDF_PAGES cfg < len pages
           then Inl (RuntimeError (pdf_page_limit_exceeded_detail cfg (len pages)))
           else (case page_texts pages of
               Inl (RuntimeErr m) \<Rightarrow> Inl (RuntimeError m)
             | Inl (OtherErr m) \<Rightarrow> Inl (RuntimeError PDF_PARSE_FAILED)
             | Inr texts \<Rightarrow> Inr (trim_document_content cfg (py_join [nl] texts)))))"

definition extract_text_from_pdf :: "settings \<Rightarrow> readers \<Rightarrow> string \<Rightarrow> exn + string" where
  "extract_text_from_pdf cfg rd bytes = (case pypdf_pages rd of
       None \<Rightarrow> extract_with_fitz cfg rd False bytes
     | Some pypdf \<Rightarrow> (case pypdf bytes of
         Inl (RuntimeErr m) \<Rightarrow> Inl (RuntimeError m)
       | Inl (OtherErr m) \<Rightarrow> extract_with_fitz cfg rd True bytes
       | Inr pages \<Rightarrow>
           if FILE_PROCESSING_MAX_PDF_PAGES cfg < len pages
           then Inl (RuntimeError (pdf_page_limit_exceeded_detail cfg (len pages)))
           else (case page_texts pages of
               Inl (RuntimeErr m) \<Rightarrow> Inl (RuntimeError m)
             | Inl (OtherErr m) \<Rightarrow> extract_with_fitz cfg rd True bytes
             | Inr texts \<Rightarrow> Inr (trim_document_content cfg
                 (py_join [nl] (map (\<lambda>p. case p of None \<Rightarrow> [] | Some t \<Rightarrow> t) texts))))))"

definition ocr_timeout_exceeded_detail :: "settings \<Rightarrow> readers \<Rightarrow> string" where
  "ocr_timeout_exceeded_detail cfg rd =
     TXT_OCR_TIMEOUT @ format_g rd (FILE_PROCESSING_OCR_TIMEOUT_SECONDS cfg) @ TXT_SECONDS"

definition extract_text_from_image :: "settings \<Rightarrow> readers \<Rightarrow> string \<Rightarrow> exn + string" where
  "extract_text_from_image cfg rd bytes = (case image_reader rd of
       None \<Rightarrow> Inl (RuntimeError ''OCR parser unavailable on server'')
     | Some (open_image, image_to_string) \<Rightarrow> (case open_image bytes of
         Inl (RuntimeErr m) \<Rightarrow> Inl (RuntimeError m)
       | Inl (OtherErr m) \<Rightarrow> Inl (RuntimeError IMAGE_PARSE_FAILED)
       | Inr (width, height) \<Rightarrow>
           if FILE_PROCESSING_IMAGE_MAX_DIMENSION cfg < max width height
           then Inl (RuntimeError (image_dimension_limit_exceeded_detail cfg width height))
           else (case image_to_string bytes of
               Inl (RuntimeErr m) \<Rightarrow>
                 if py_contains ''timeout'' (py_lower m) then Inl (RuntimeError (ocr_timeout_exceeded_detail cfg rd))
                 else Inl (RuntimeError IMAGE_PARSE_FAILED)
             | Inl (OtherErr m) \<Rightarrow> Inl (RuntimeError IMAGE_PARSE_FAILED)
             | Inr t \<Rightarrow> Inr (trim_document_content cfg t))))"

definition parse_uploaded_file :: "settings \<Rightarrow> readers \<Rightarrow> string \<Rightarrow> string \<Rightarrow> exn + string" where
  "parse_uploaded_file cfg rd file_name bytes = (let extension = detect_extension file_name in
     if extension = ''.txt'' then Inr (extract_text_from_txt cfg rd bytes)
     else if extension = ''.docx'' then extract_text_from_docx cfg rd bytes
     else if extension = ''.pdf'' then extract_text_from_pdf cfg rd bytes
     else if extension = ''.png'' \<or> extension = ''.jpg'' \<or> extension = ''.jpeg''
          then extract_text_from_image cfg rd bytes
     else Inl (ValueError UPLOAD_UNSUPPORTED_TYPE_ERROR))"

section \<open>Documents and the prompt\<close>

record document =
  doc_name :: string
  doc_content :: string

fun budget_loop :: "int \<Rightarrow> int \<Rightarrow> document list \<Rightarrow> document list" where
  "budget_loop limit consumed [] = []"
| "budget_loop limit consumed (d # ds) =
     (let name = (if py_strip (doc_name d) = [] then ''document'' else py_strip (doc_name d));
          content = py_strip (doc_content d)
      in if content = [] then budget_loop limit consumed ds
         else let remaining = limit - consumed in
           if remaining \<le> 0
           then \<lparr>doc_name = name, doc_content = DOCUMENT_TRUNCATION_MARKER\<rparr> # budget_loop limit consumed ds
           else let content = (if remaining < len content then
                     (let marker = nl # DOCUMENT_TRUNCATION_MARKER;
                          snippet = py_rstrip (take (nat (max 0 (remaining - len marker))) content)
                      in if snippet \<noteq> [] then snippet @ marker else DOCUMENT_TRUNCATION_MARKER)
                   else content)
                in \<lparr>doc_name = name, doc_content = content\<rparr> # budget_loop limit (consumed + len content) ds)"

definition apply_document_budget :: "settings \<Rightarrow> document list \<Rightarrow> document list" where
  "apply_document_budget cfg documents = budget_loop (FILE_PROCESSING_MAX_DOCUMENT_CHARS cfg) 0 documents"

fun document_chunks :: "int \<Rightarrow> document list \<Rightarrow> string list" where
  "document_chunks index [] = []"
| "document_chunks index (d # ds) =
     (let content = py_strip (doc_content d) in
      if content = [] then document_chunks (index + 1) ds
      else (DOCUMENT_LABEL_PREFIX @ py_str_int index @ '': '' @ doc_name d @ '']'' @ [nl] @ content)
             # document_chunks (index + 1) ds)"

text \<open>The fixed text before the documents section.\<close>

definition prompt_preface :: "bool \<Rightarrow> string" where
  "prompt_preface force_documents =
     PROMPT_RULES @ DOCUMENT_NO_INFORMATION_RESPONSE @ PROMPT_BEHAVIOUR
       @ (if force_documents then PROMPT_GUARD @ DOCUMENT_NO_INFORMATION_RESPONSE @ [CHR 0x22, nl] else [])
       @ [nl] @ ''---'' @ [nl, nl]"

definition request_text :: "string \<Rightarrow> string" where
  "request_text msg = (if py_strip msg = [] then TXT_NO_TASK else py_strip msg)"

definition build_document_prompt_with :: "settings \<Rightarrow> bool \<Rightarrow> string \<Rightarrow> document list \<Rightarrow> exn + string" where
  "build_document_prompt_with cfg force_documents msg documents =
     (let chunks = document_chunks 1 (apply_document_budget cfg documents) in
      if chunks = [] then Inl (ValueError TXT_NO_TEXT_IN_FILES)
      else Inr (py_strip ([nl] @ prompt_preface force_documents @ DOCUMENTS_SECTION_HEADER @ [nl, nl]
             @ py_join [nl, nl] chunks @ SECTION_DIVIDER @ USER_REQUEST_SECTION_HEADER @ [nl, nl]
             @ request_text msg @ [nl])))"

definition build_document_prompt :: "settings \<Rightarrow> string \<Rightarrow> document list \<Rightarrow> exn + string" where
  "build_document_prompt cfg msg documents = build_document_prompt_with cfg False msg documents"

definition build_retry_document_prompt :: "settings \<Rightarrow> string \<Rightarrow> document list \<Rightarrow> exn + string" where
  "build_retry_document_prompt cfg msg documents = build_document_prompt_with cfg True msg documents"

definition build_file_chat_job_metadata :: "string option \<Rightarrow> file_info list \<Rightarrow> int \<Rightarrow> metadata" where
  "build_file_chat_job_metadata retry_prompt staged_files doc_chars = [
     (''retry_prompt'', case none_if_empty (strip_opt retry_prompt) of None \<Rightarrow> MNone | Some p \<Rightarrow> MStr p),
     (''suppress_token_stream'', MBool True),
     (''doc_chars'', MInt (max 0 doc_chars)),
     (''files'', MFiles (map (\<lambda>f. \<lparr>fi_name = fi_name f, fi_safe_name = None, fi_size = fi_size f,
        fi_content_type = None\<rparr>) staged_files))]"

section \<open>Staging\<close>

text \<open>
  An upload: its file name, content type and the non-empty chunks that \<open>read\<close> returns. The
  staging area maps the name of a staging directory to its raw files (if the directory
  exists), its request metadata and its parser metadata.
\<close>

record upload =
  up_filename :: "string option"
  up_content_type :: "string option"
  up_chunks :: "string list"

record staged_request =
  sr_staging_id :: string
  sr_username :: string
  sr_created_at :: int
  sr_files :: "file_info list"

record prepared_llm_job =
  pj_job_kind :: string
  pj_model_key :: string
  pj_model_name :: string
  pj_prompt :: string
  pj_history :: "message list"
  pj_file_chat :: metadata

datatype parser_val = PMeta meta_val | PPrepared prepared_llm_job

type_synonym parser_record = "(string \<times> parser_val) list"

record staging_dir =
  sd_raw :: "(string \<times> string) list option"
  sd_request :: "staged_request option"
  sd_parser :: "parser_record option"

type_synonym staging = "string \<Rightarrow> staging_dir option"

fun receive_chunks ::
  "settings \<Rightarrow> string \<Rightarrow> int \<Rightarrow> int \<Rightarrow> string \<Rightarrow> string list \<Rightarrow> exn + (int \<times> int \<times> string)" where
  "receive_chunks cfg safe_name sz total_size received [] = Inr (sz, total_size, received)"
| "receive_chunks cfg safe_name sz total_size received (chunk # chunks) =
     (if FILE_PROCESSING_MAX_FILE_SIZE_BYTES cfg < sz + len chunk
      then Inl (HTTPException 413 (upload_file_too_large_detail cfg safe_name))
      else if FILE_PROCESSING_MAX_TOTAL_SIZE_BYTES cfg < total_size + len chunk
      then Inl (HTTPException 413 (upload_total_size_exceeded_detail cfg))
      else receive_chunks cfg safe_name (sz + len chunk) (total_size + len chunk) (received @ chunk) chunks)"

definition display_name :: "upload \<Rightarrow> string \<Rightarrow> string" where
  "display_name up safe_name = (let n = path_name (case str_or (up_filename up) None of None \<Rightarrow> safe_name | Some f \<Rightarrow> f)
     in if n = [] then safe_name else n)"

text \<open>
  The loop over the uploads, each with the fresh identifier of its name; it returns what
  it staged and the bytes under every safe name.
\<close>

fun stage_loop ::
  "settings \<Rightarrow> (string \<times> upload) list \<Rightarrow> int \<Rightarrow> exn + (file_info \<times> string) list" where
  "stage_loop cfg [] total_size = Inr []"
| "stage_loop cfg ((hex, up) # ups) total_size =
     (let safe_name = sanitize_upload_filename hex (case str_or (up_filename up) None of None \<Rightarrow> ''upload.bin'' | Some f \<Rightarrow> f);
          ext = detect_extension safe_name;
          content_type = normalize_upload_content_type (up_content_type up)
      in if map_of ALLOWED_UPLOAD_MIME_TYPES ext = None \<or> \<not> upload_content_type_is_allowed ext (Some content_type)
         then Inl (HTTPException 400 UPLOAD_UNSUPPORTED_TYPE_ERROR)
         else case receive_chunks cfg safe_name 0 total_size [] (up_chunks up) of Inl e \<Rightarrow> Inl e
           | Inr (sz, total_size, received) \<Rightarrow> (case stage_loop cfg ups total_size of Inl e \<Rightarrow> Inl e
           | Inr staged \<Rightarrow> Inr ((\<lparr>fi_name = display_name up safe_name, fi_safe_name = Some safe_name, fi_size = sz,
               fi_content_type = Some (if content_type = [] then ''application/octet-stream'' else content_type)\<rparr>, received) # staged)))"

definition stage_uploads_to_directory :: "settings \<Rightarrow> (string \<times> upload) list \<Rightarrow> exn + (file_info \<times> string) list" where
  "stage_uploads_to_directory cfg files =
     (if files = [] then Inl (HTTPException 400 TXT_NO_FILES_CHOSEN)
      else if FILE_PROCESSING_MAX_FILES cfg < len files
      then Inl (HTTPException 400 (TXT_MAX_FILES_PER_REQUEST @ py_str_int (FILE_PROCESSING_MAX_FILES cfg)))
      else stage_loop cfg files 0)"

text \<open>The directory name of a staging id; all its paths lie below that directory.\<close>

definition shared_staging_paths :: "string \<Rightarrow> string" where
  "shared_staging_paths staging_id = (let safe = py_strip (filter staging_char staging_id)
     in if safe = [] then ''staging'' else safe)"

text \<open>
  Staging an upload request under a fresh id. \<open>mkdir\<close> of the raw directory raises where it
  exists. Any exception removes the whole directory.
\<close>

definition stage_uploads_to_shared_root ::
  "settings \<Rightarrow> int \<Rightarrow> string \<Rightarrow> (string \<times> upload) list \<Rightarrow> string option \<Rightarrow> staging \<Rightarrow> (string \<times> file_info list, staging) outcome" where
  "stage_uploads_to_shared_root cfg t staging_id files username st =
     (let dir = shared_staging_paths staging_id;
          existing = (case st dir of None \<Rightarrow> None | Some d \<Rightarrow> sd_raw d)
      in if existing \<noteq> None then (Inl (RuntimeError ''FileExistsError''), st(dir := None))
         else case stage_uploads_to_directory cfg files of
           Inl e \<Rightarrow> (Inl e, st(dir := None))
         | Inr staged \<Rightarrow>
             (let infos = map fst staged in
              (Inr (staging_id, infos),
               st(dir := Some \<lparr>
                 sd_raw = Some (map (\<lambda>(f, bytes). (the (fi_safe_name f), bytes)) staged),
                 sd_request = Some \<lparr>sr_staging_id = staging_id,
                    sr_username = (if strip_opt username = [] then ''unknown'' else strip_opt username),
                    sr_created_at = t, sr_files = infos\<rparr>,
                 sd_parser = Some [(''staging_id'', PMeta (MStr staging_id)), (''status'', PMeta (MStr ''staged'')),
                    (''updated_at'', PMeta (MInt t)), (''files'', PMeta (MFiles infos)),
                    (''raw_deleted'', PMeta (MBool False))]\<rparr>))))"

definition load_staged_request :: "string \<Rightarrow> staging \<Rightarrow> exn + staged_request" where
  "load_staged_request staging_id st =
     (case st (shared_staging_paths staging_id) of Some d \<Rightarrow>
        (case sd_request d of Some r \<Rightarrow> Inr r
         | None \<Rightarrow> Inl (KeyError (''Staging request metadata not found for '' @ staging_id)))
      | None \<Rightarrow> Inl (KeyError (''Staging request metadata not found for '' @ staging_id)))"

text \<open>Reading a raw file; a missing one raises in the reader.\<close>

definition raw_file :: "string \<Rightarrow> string \<Rightarrow> staging \<Rightarrow> string option" where
  "raw_file staging_id safe_name st = (case st (shared_staging_paths staging_id) of None \<Rightarrow> None
     | Some d \<Rightarrow> (case sd_raw d of None \<Rightarrow> None | Some raw \<Rightarrow> map_of raw safe_name))"

fun extract_loop ::
  "settings \<Rightarrow> readers \<Rightarrow> string \<Rightarrow> file_info list \<Rightarrow> staging \<Rightarrow> exn + document list" where
  "extract_loop cfg rd staging_id [] st = Inr []"
| "extract_loop cfg rd staging_id (f # fs) st =
     (case str_or (fi_safe_name f) None of None \<Rightarrow> extract_loop cfg rd staging_id fs st
      | Some safe_name \<Rightarrow>
         (case raw_file staging_id safe_name st of None \<Rightarrow> Inl (RuntimeError ''FileNotFoundError'')
          | Some bytes \<Rightarrow> (case parse_uploaded_file cfg rd safe_name bytes of Inl e \<Rightarrow> Inl e
          | Inr content \<Rightarrow> (case extract_loop cfg rd staging_id fs st of Inl e \<Rightarrow> Inl e
          | Inr docs \<Rightarrow> Inr (\<lparr>doc_name = (if fi_name f = [] then safe_name else fi_name f), doc_content = content\<rparr> # docs)))))"

definition extract_documents_from_shared_staging ::
  "settings \<Rightarrow> readers \<Rightarrow> string \<Rightarrow> staging \<Rightarrow> exn + document list" where
  "extract_documents_from_shared_staging cfg rd staging_id st =
     (case load_staged_request staging_id st of Inl e \<Rightarrow> Inl e
      | Inr r \<Rightarrow> extract_loop cfg rd staging_id (sr_files r) st)"

fun extract_documents_from_staging ::
  "settings \<Rightarrow> readers \<Rightarrow> (file_info \<times> string) list \<Rightarrow> exn + document list" where
  "extract_documents_from_staging cfg rd [] = Inr []"
| "extract_documents_from_staging cfg rd ((f, bytes) # fs) =
     (case parse_uploaded_file cfg rd (the (fi_safe_name f)) bytes of Inl e \<Rightarrow> Inl e
      | Inr content \<Rightarrow> (case extract_documents_from_staging cfg rd fs of Inl e \<Rightarrow> Inl e
      | Inr docs \<Rightarrow> Inr (\<lparr>doc_name = fi_name f, doc_content = content\<rparr> # docs)))"

section \<open>Artifacts and metadata\<close>

record artifacts =
  ar_staging_id :: string
  ar_files :: "file_info list"
  ar_original_doc_chars :: int
  ar_trimmed_doc_chars :: int
  ar_prepared_llm_job :: prepared_llm_job

definition doc_chars :: "document list \<Rightarrow> int" where
  "doc_chars docs = sum_list (map (\<lambda>d. len (py_strip (doc_content d))) docs)"

definition prepare_parser_job_artifacts ::
  "settings \<Rightarrow> readers \<Rightarrow> string \<Rightarrow> string \<Rightarrow> message list \<Rightarrow> string \<Rightarrow> string \<Rightarrow> staging \<Rightarrow> exn + artifacts" where
  "prepare_parser_job_artifacts cfg rd staging_id msg history model_key model_name st =
     (case load_staged_request staging_id st of Inl e \<Rightarrow> Inl e
      | Inr rq \<Rightarrow> (case extract_documents_from_shared_staging cfg rd staging_id st of Inl e \<Rightarrow> Inl e
      | Inr docs \<Rightarrow> (case build_document_prompt cfg msg docs of Inl e \<Rightarrow> Inl e
      | Inr final_prompt \<Rightarrow> (case build_retry_document_prompt cfg msg docs of Inl e \<Rightarrow> Inl e
      | Inr retry_prompt \<Rightarrow>
          (let budgeted = apply_document_budget cfg docs in
           Inr \<lparr>ar_staging_id = staging_id, ar_files = sr_files rq, ar_original_doc_chars = doc_chars docs,
             ar_trimmed_doc_chars = doc_chars budgeted,
             ar_prepared_llm_job = \<lparr>pj_job_kind = ''file_chat'', pj_model_key = model_key, pj_model_name = model_name,
               pj_prompt = final_prompt, pj_history = history,
               pj_file_chat = build_file_chat_job_metadata (Some retry_prompt) (sr_files rq) (doc_chars budgeted)\<rparr>\<rparr>)))))"

definition write_parser_result_metadata ::
  "int \<Rightarrow> string \<Rightarrow> parser_record \<Rightarrow> staging \<Rightarrow> parser_record \<times> staging" where
  "write_parser_result_metadata t staging_id payload st =
     (let dir = shared_staging_paths staging_id;
          d = (case st dir of Some d \<Rightarrow> d | None \<Rightarrow> \<lparr>sd_raw = None, sd_request = None, sd_parser = None\<rparr>);
          existing = (case sd_parser d of None \<Rightarrow> [] | Some p \<Rightarrow> p);
          merged = fold (\<lambda>(k, v). AList.update k v)
            (payload @ [(''staging_id'', PMeta (MStr staging_id)), (''updated_at'', PMeta (MInt t))]) existing
      in (merged, st(dir := Some (d\<lparr>sd_parser := Some merged\<rparr>))))"

text \<open>\<open>rmtree\<close> ignores errors; \<open>removed\<close> tells whether the directory is gone afterwards.\<close>

definition delete_staged_raw_files :: "bool \<Rightarrow> string \<Rightarrow> staging \<Rightarrow> bool \<times> staging" where
  "delete_staged_raw_files removed staging_id st =
     (let dir = shared_staging_paths staging_id in
      case st dir of None \<Rightarrow> (False, st)
      | Some d \<Rightarrow> (case sd_raw d of None \<Rightarrow> (False, st)
        | Some raw \<Rightarrow> if removed then (True, st(dir := Some (d\<lparr>sd_raw := None\<rparr>))) else (False, st)))"

section \<open>Lemmas on names and sizes\<close>

lemma stem_char_underscore [simp]: "stem_char CHR ''_''" "stem_char CHR ''-''" "stem_char CHR ''.''"
  by (simp_all add: stem_char_def)

lemma squash_runs_ok: "c \<in> set (squash_runs ok s) \<Longrightarrow> ok c \<or> c = CHR ''_''"
  by (induction ok s rule: squash_runs.induct) (auto split: if_splits)

lemma set_strip_chars: "set (strip_chars cs s) \<subseteq> set s"
  by (auto simp: strip_chars_def dest!: set_dropWhileD)

lemma extension_stem: "extension_char c \<Longrightarrow> stem_char c"
  by (auto simp: extension_char_def stem_char_def)

lemma stem_char_slash: "stem_char c \<Longrightarrow> c \<noteq> CHR ''/''"
  by (auto simp: stem_char_def is_lower_def is_upper_def is_digit_def)

lemma staging_char_plain: "staging_char c \<Longrightarrow> c \<noteq> CHR ''/'' \<and> c \<noteq> CHR ''.'' \<and> \<not> py_isspace c"
  by (auto simp: staging_char_def is_lower_def is_upper_def is_digit_def py_isspace_def Let_def)

lemma py_strip_no_space: "\<forall>c \<in> set s. \<not> py_isspace c \<Longrightarrow> py_strip s = s"
  by (cases "s = []") (simp_all add: py_strip_def py_lstrip_idle py_rstrip_idle)

lemma upload_literals: "list_all stem_char ''upload''" "list_all stem_char ''.bin''" "list_all staging_char ''staging''"
  by (simp_all add: stem_char_def staging_char_def is_lower_def)

lemma sanitized_chars:
  assumes "list_all stem_char hex"
  shows "list_all stem_char (sanitize_upload_filename hex filename)"
proof -
  let ?stem = "strip_chars ''._-'' (squash_runs stem_char (path_stem (path_name (if filename = [] then ''upload.bin'' else filename))))"
  let ?ext = "filter extension_char (py_lower (path_suffix (path_name (if filename = [] then ''upload.bin'' else filename))))"
  have "list_all stem_char ?stem"
    using set_strip_chars squash_runs_ok stem_char_underscore(1) by (fastforce simp: list_all_iff)
  then have "list_all stem_char (take 80 (if ?stem = [] then ''upload'' else ?stem))"
    using upload_literals(1) by (auto simp: list_all_iff dest: in_set_takeD)
  moreover have "list_all stem_char (if ?ext = [] then ''.bin'' else ?ext)"
    using upload_literals(2) extension_stem by (auto simp: list_all_iff)
  moreover have "list_all stem_char (take 12 hex)" using assms by (auto simp: list_all_iff dest: in_set_takeD)
  ultimately show ?thesis by (simp add: sanitize_upload_filename_def Let_def)
qed

lemma staging_dir_chars: "list_all staging_char (shared_staging_paths staging_id) \<and> shared_staging_paths staging_id \<noteq> []"
proof -
  have "py_strip (filter staging_char staging_id) = filter staging_char staging_id"
    using staging_char_plain by (intro py_strip_no_space) simp
  then show ?thesis using upload_literals(3) by (auto simp: shared_staging_paths_def Let_def list_all_iff)
qed

lemma receive_chunks_bounds:
  "receive_chunks cfg n sz total_size received chunks = Inr (sz', total', bytes) \<Longrightarrow>
     sz = len received \<Longrightarrow> sz \<le> FILE_PROCESSING_MAX_FILE_SIZE_BYTES cfg \<Longrightarrow> total_size \<le> FILE_PROCESSING_MAX_TOTAL_SIZE_BYTES cfg \<Longrightarrow>
     sz' = len bytes \<and> sz' \<le> FILE_PROCESSING_MAX_FILE_SIZE_BYTES cfg \<and> total' = total_size + sz' - sz
       \<and> total' \<le> FILE_PROCESSING_MAX_TOTAL_SIZE_BYTES cfg \<and> bytes = received @ concat chunks"
  by (induction cfg n sz total_size received chunks rule: receive_chunks.induct) (auto split: if_splits)

text \<open>What every staged file satisfies.\<close>

definition staged_ok :: "settings \<Rightarrow> file_info \<times> string \<Rightarrow> bool" where
  "staged_ok cfg fb \<longleftrightarrow> fi_size (fst fb) = len (snd fb) \<and> fi_size (fst fb) \<le> FILE_PROCESSING_MAX_FILE_SIZE_BYTES cfg
     \<and> (\<exists>name. fi_safe_name (fst fb) = Some name \<and> map_of ALLOWED_UPLOAD_MIME_TYPES (detect_extension name) \<noteq> None)"

lemma stage_loop_ok:
  assumes "0 \<le> FILE_PROCESSING_MAX_FILE_SIZE_BYTES cfg"
  shows "stage_loop cfg ups total_size = Inr staged \<Longrightarrow> total_size \<le> FILE_PROCESSING_MAX_TOTAL_SIZE_BYTES cfg \<Longrightarrow>
     length staged = length ups \<and> list_all (staged_ok cfg) staged
     \<and> total_size + sum_list (map (\<lambda>fb. len (snd fb)) staged) \<le> FILE_PROCESSING_MAX_TOTAL_SIZE_BYTES cfg
     \<and> map snd staged = map (\<lambda>(hex, up). concat (up_chunks up)) ups"
proof (induction ups arbitrary: total_size staged)
  case Nil
  then show ?case by simp
next
  case (Cons hu ups)
  obtain hex up where hu: "hu = (hex, up)" by (cases hu)
  let ?n = "sanitize_upload_filename hex (case str_or (up_filename up) None of None \<Rightarrow> ''upload.bin'' | Some f \<Rightarrow> f)"
  obtain sz t bytes rest f where r: "receive_chunks cfg ?n 0 total_size [] (up_chunks up) = Inr (sz, t, bytes)"
    and rest: "stage_loop cfg ups t = Inr rest" and ext: "map_of ALLOWED_UPLOAD_MIME_TYPES (detect_extension ?n) \<noteq> None"
    and st: "staged = (f, bytes) # rest" "fi_safe_name f = Some ?n" "fi_size f = sz"
    using Cons.prems(1) by (auto simp: hu Let_def split: sum.splits if_splits)
  have b: "sz = len bytes \<and> sz \<le> FILE_PROCESSING_MAX_FILE_SIZE_BYTES cfg \<and> t = total_size + sz
      \<and> t \<le> FILE_PROCESSING_MAX_TOTAL_SIZE_BYTES cfg \<and> bytes = concat (up_chunks up)"
    using receive_chunks_bounds [OF r _ assms Cons.prems(2)] by auto
  then have "len bytes \<le> FILE_PROCESSING_MAX_FILE_SIZE_BYTES cfg" "bytes = concat (up_chunks up)"
    "t = total_size + len bytes" "t \<le> FILE_PROCESSING_MAX_TOTAL_SIZE_BYTES cfg" "sz = len bytes" by blast+
  then show ?case using Cons.IH [OF rest] ext by (simp add: st staged_ok_def hu)
qed

section \<open>Lemmas on texts\<close>

text \<open>The read loop is a bounded prefix of the text.\<close>

lemma read_text_loop_take: "read_text_loop h c t = take (nat (h - c)) t"
proof (induction h c t rule: read_text_loop.induct)
  case (1 h c t)
  define k where "k = nat (min 4096 (h - c))"
  show ?case
  proof (cases "c < h \<and> t \<noteq> []")
    case False
    then show ?thesis by (subst read_text_loop.simps) auto
  next
    case True
    then have ne: "take k t \<noteq> []" by (auto simp: k_def min_def)
    have IH: "read_text_loop h (c + len (take k t)) (drop (length (take k t)) t)
        = take (nat (h - (c + len (take k t)))) (drop (length (take k t)) t)"
      using True ne unfolding k_def by (intro 1) simp_all
    have eq: "read_text_loop h c t = take k t @ read_text_loop h (c + len (take k t)) (drop (length (take k t)) t)"
      using True ne by (subst read_text_loop.simps) (simp add: k_def [symmetric] Let_def)
    have "nat (h - c) = length (take k t) + nat (h - (c + len (take k t)))"
      using True by (auto simp: k_def min_def)
    moreover have "take k t = take (length (take k t)) t" by (simp add: min_def)
    ultimately show ?thesis unfolding eq IH by (metis take_add)
  qed
qed

lemma marker_length: "len (nl # DOCUMENT_TRUNCATION_MARKER) = 21" "len DOCUMENT_TRUNCATION_MARKER = 20"
  by (simp_all add: DOCUMENT_TRUNCATION_MARKER_def)

text \<open>A truncated text is as long as what is left, or a bare marker.\<close>

lemma truncated_length:
  assumes "0 < remaining" and "snippet = py_rstrip (take (nat (max 0 (remaining - 21))) content)"
  shows "len (if snippet \<noteq> [] then snippet @ nl # DOCUMENT_TRUNCATION_MARKER else DOCUMENT_TRUNCATION_MARKER) \<le> max 20 remaining"
proof -
  have "len snippet \<le> max 0 (remaining - 21)"
    using length_py_rstrip [of "take (nat (max 0 (remaining - 21))) content"] by (auto simp: assms(2))
  then show ?thesis by (cases snippet) (auto simp: DOCUMENT_TRUNCATION_MARKER_def)
qed

lemma trim_document_content_length:
  assumes "20 \<le> FILE_PROCESSING_MAX_DOCUMENT_CHARS cfg"
  shows "len (trim_document_content cfg content) \<le> FILE_PROCESSING_MAX_DOCUMENT_CHARS cfg"
proof -
  define snippet where "snippet = py_rstrip (take (nat (max 0 (FILE_PROCESSING_MAX_DOCUMENT_CHARS cfg - 21))) (py_strip content))"
  have "trim_document_content cfg content = (if len (py_strip content) \<le> FILE_PROCESSING_MAX_DOCUMENT_CHARS cfg then py_strip content
      else if snippet \<noteq> [] then snippet @ nl # DOCUMENT_TRUNCATION_MARKER else DOCUMENT_TRUNCATION_MARKER)"
    by (simp only: trim_document_content_def Let_def marker_length snippet_def)
  then show ?thesis using truncated_length [OF _ snippet_def] assms by auto
qed

lemma budget_loop_length:
  "sum_list (map (\<lambda>d. len (doc_content d)) (budget_loop limit consumed ds)) \<le> max 0 (limit - consumed) + 20 * len ds"
proof (induction ds arbitrary: consumed)
  case Nil
  then show ?case by simp
next
  case (Cons d ds)
  define content where "content = py_strip (doc_content d)"
  define snippet where "snippet = py_rstrip (take (nat (max 0 (limit - consumed - 21))) content)"
  define kept where "kept = (if limit - consumed < len content
      then if snippet \<noteq> [] then snippet @ nl # DOCUMENT_TRUNCATION_MARKER else DOCUMENT_TRUNCATION_MARKER else content)"
  consider "content = []" | "content \<noteq> []" "limit - consumed \<le> 0" | "content \<noteq> []" "0 < limit - consumed" by linarith
  then show ?case
  proof cases
    case 1
    then show ?thesis using Cons.IH [of consumed] by (simp add: content_def Let_def)
  next
    case 2
    then show ?thesis using Cons.IH [of consumed] by (simp add: content_def Let_def marker_length)
  next
    case 3
    have eq: "budget_loop limit consumed (d # ds) =
        \<lparr>doc_name = (if py_strip (doc_name d) = [] then ''document'' else py_strip (doc_name d)), doc_content = kept\<rparr>
          # budget_loop limit (consumed + len kept) ds"
      using 3 by (simp add: content_def kept_def snippet_def Let_def marker_length)
    have IH: "sum_list (map (\<lambda>d. len (doc_content d)) (budget_loop limit (consumed + len kept) ds))
        \<le> max 0 (limit - (consumed + len kept)) + 20 * len ds"
      by (rule Cons.IH)
    have "len kept \<le> max 20 (limit - consumed)"
      using truncated_length [OF 3(2) snippet_def] by (auto simp: kept_def)
    then show ?thesis unfolding eq using IH 3 by simp
  qed
qed

section \<open>The document prompt is read back\<close>

text \<open>Searching in texts given by their code page numbers.\<close>

fun nfind :: "nat list \<Rightarrow> nat list \<Rightarrow> bool" where
  "nfind pat [] = (pat = [])"
| "nfind pat (n # ns) = (prefix pat (n # ns) \<or> nfind pat ns)"

lemma char_of_inj: "a < 256 \<Longrightarrow> b < 256 \<Longrightarrow> (char_of a :: char) = char_of b \<longleftrightarrow> a = (b :: nat)"
  by (metis of_char_of mod_less)

lemma prefix_cp1251:
  "list_all (\<lambda>n. n < 256) p \<Longrightarrow> list_all (\<lambda>n. n < 256) s \<Longrightarrow> prefix (cp1251 p) (cp1251 s) \<longleftrightarrow> prefix p s"
proof (induction p arbitrary: s)
  case Nil
  then show ?case by (simp add: cp1251_def)
next
  case (Cons a p)
  then show ?case by (cases s) (auto simp: cp1251_def char_of_inj)
qed

lemma contains_cp1251:
  "list_all (\<lambda>n. n < 256) p \<Longrightarrow> list_all (\<lambda>n. n < 256) s \<Longrightarrow> py_contains (cp1251 p) (cp1251 s) \<longleftrightarrow> nfind p s"
proof (induction s)
  case Nil
  then show ?case by (cases p) (auto simp: py_contains_def cp1251_def)
next
  case (Cons n s)
  then show ?case using prefix_cp1251 [of p "n # s"] by (auto simp: py_contains_def cp1251_def)
qed

text \<open>A pattern that starts with a character it does not repeat is found at its first copy.\<close>

lemma py_contains_Cons: "py_contains pat (c # s) \<longleftrightarrow> prefix pat (c # s) \<or> py_contains pat s"
  by (simp add: py_contains_def)

lemma py_find_here: "pat \<noteq> [] \<Longrightarrow> prefix pat s \<Longrightarrow> py_find pat s = Some 0"
  by (cases s) auto

lemma py_find_first:
  assumes "pat = h # hs" and "h \<notin> set hs"
  shows "\<not> py_contains pat pre \<Longrightarrow> py_find pat (pre @ pat @ rest) = Some (length pre)"
proof (induction pre)
  case Nil
  then show ?case using assms by (auto intro!: py_find_here)
next
  case (Cons c pre)
  have "\<not> prefix pat ((c # pre) @ pat @ rest)"
  proof
    assume p: "prefix pat ((c # pre) @ pat @ rest)"
    have "\<not> prefix pat (c # pre)" using Cons.prems by (simp add: py_contains_Cons)
    with p have "prefix (c # pre) pat" and "c # pre \<noteq> pat"
      by (metis prefix_append prefix_order.order_refl prefix_same_cases prefixI, auto)
    then obtain x xs where "pat = (c # pre) @ x # xs" by (metis append_Nil2 list.exhaust prefixE)
    moreover from this p have "x = h" using assms(1) by auto
    ultimately show False using assms by auto
  qed
  with Cons show ?case by (simp add: py_contains_Cons)
qed

lemma py_split1_first:
  assumes "pat = h # hs" "h \<notin> set hs" "\<not> py_contains pat pre"
  shows "py_split1 pat (pre @ pat @ rest) = Some (pre, rest)"
  using py_find_first [OF assms(1, 2, 3), of rest] by (simp add: py_split1_def)

lemma py_rsplit1_last: "sep \<noteq> [] \<Longrightarrow> py_rsplit1 sep (s @ sep) = Some (s, [])"
  using py_find_here [of "rev sep" "rev (s @ sep)"] by (simp add: py_rsplit1_def)

lemma contains_across:
  "c \<notin> set pat \<Longrightarrow> py_contains pat (a @ c # b) \<Longrightarrow> py_contains pat a \<or> py_contains pat b \<or> pat = []"
proof (induction a)
  case Nil
  then show ?case by (cases pat) (auto simp: py_contains_Cons)
next
  case (Cons x a)
  then show ?case
  proof (cases "prefix pat (x # a @ c # b)")
    case True
    then obtain r where r: "(x # a) @ c # b = pat @ r" by (auto simp: prefix_def)
    then have "prefix pat (x # a)"
      using Cons.prems(1) by (fastforce simp: append_eq_append_conv2 Cons_eq_append_conv)
    then show ?thesis by (simp add: py_contains_Cons)
  qed (auto simp: py_contains_Cons)
qed

lemma cp1251_append: "cp1251 a @ cp1251 b = cp1251 (a @ b)"
  by (simp add: cp1251_def)

lemma prompt_chars: "[nl] @ ''---'' @ [nl, nl] = cp1251 [10, 45, 45, 45, 10, 10]" "[CHR 0x22, nl] = cp1251 [34, 10]"
  by (simp_all add: cp1251_def nl_def char_of_def bit_0)

lemma headers_plain:
  "DOCUMENTS_SECTION_HEADER = CHR ''#'' # tl DOCUMENTS_SECTION_HEADER" "CHR ''#'' \<notin> set (tl DOCUMENTS_SECTION_HEADER)"
  "USER_REQUEST_SECTION_HEADER = CHR ''#'' # tl USER_REQUEST_SECTION_HEADER" "CHR ''#'' \<notin> set (tl USER_REQUEST_SECTION_HEADER)"
  "nl \<notin> set USER_REQUEST_SECTION_HEADER"
  by (simp_all add: DOCUMENTS_SECTION_HEADER_def USER_REQUEST_SECTION_HEADER_def cp1251_def nl_def char_of_def bit_0)

lemma preface_plain: "\<not> py_contains DOCUMENTS_SECTION_HEADER (prompt_preface force)"
proof (cases force)
  case True
  then show ?thesis
    unfolding prompt_preface_def DOCUMENTS_SECTION_HEADER_def PROMPT_RULES_def PROMPT_BEHAVIOUR_def PROMPT_GUARD_def
      DOCUMENT_NO_INFORMATION_RESPONSE_def prompt_chars
    by (simp only: if_True cp1251_append append.simps) (subst contains_cp1251; simp)
next
  case False
  then show ?thesis
    unfolding prompt_preface_def DOCUMENTS_SECTION_HEADER_def PROMPT_RULES_def PROMPT_BEHAVIOUR_def
      DOCUMENT_NO_INFORMATION_RESPONSE_def prompt_chars
    by (simp only: if_False append_Nil cp1251_append append.simps) (subst contains_cp1251; simp)
qed

lemma contains_set: "py_contains pat s \<Longrightarrow> set pat \<subseteq> set s"
proof -
  assume "py_contains pat s"
  then obtain i where "py_find pat s = Some i" by (auto simp: py_contains_def)
  from py_find_correct [OF this] show ?thesis by (metis Un_upper1 Un_upper2 set_append subset_trans)
qed

lemma contains_append: "py_contains pat b \<Longrightarrow> py_contains pat (a @ b)"
  by (induction a) (auto simp: py_contains_Cons)

lemma strip_frame:
  assumes "a \<noteq> []" "\<not> py_isspace (hd a)" "b \<noteq> []" "\<not> py_isspace (last b)"
  shows "py_strip ([nl] @ a @ b @ [nl]) = a @ b"
proof -
  have nl: "py_isspace nl" by (simp add: py_isspace_def nl_def)
  have "py_lstrip ([nl] @ a @ b @ [nl]) = a @ b @ [nl]"
    using assms nl by (cases a) (simp_all add: py_lstrip_def)
  moreover have "py_rstrip (a @ b @ [nl]) = a @ b"
    using assms nl by (cases b rule: rev_cases) (simp_all add: py_rstrip_def)
  ultimately show ?thesis by (simp add: py_strip_def)
qed

lemma request_text_ends: "request_text msg \<noteq> [] \<and> \<not> py_isspace (last (request_text msg))"
  using py_rstrip_last [of "py_lstrip msg"]
  by (auto simp: request_text_def py_strip_def TXT_NO_TASK_def cp1251_def py_isspace_def)

lemma preface_starts: "prompt_preface force \<noteq> [] \<and> \<not> py_isspace (hd (prompt_preface force))"
  by (simp add: prompt_preface_def PROMPT_RULES_def cp1251_def py_isspace_def)

lemma chunk_ends:
  "x \<in> set (document_chunks i ds) \<Longrightarrow> x \<noteq> [] \<and> \<not> py_isspace (hd x) \<and> \<not> py_isspace (last x)"
  using py_rstrip_last
  by (induction i ds rule: document_chunks.induct)
    (auto simp: Let_def DOCUMENT_LABEL_PREFIX_def cp1251_def py_isspace_def [of "char_of 91"] py_strip_def split: if_splits)

lemma join_ends:
  assumes "xs \<noteq> []" "\<And>x. x \<in> set xs \<Longrightarrow> x \<noteq> [] \<and> \<not> py_isspace (hd x) \<and> \<not> py_isspace (last x)"
  shows "py_join sep xs \<noteq> [] \<and> \<not> py_isspace (hd (py_join sep xs)) \<and> \<not> py_isspace (last (py_join sep xs))"
  using assms by (induction sep xs rule: py_join.induct) auto

text \<open>
  The sections of a built prompt, as the prompt budget of the gateway reads them.
\<close>

lemma prompt_sections:
  assumes built: "build_document_prompt_with cfg force msg docs = Inr prompt"
    and block: "block = py_join [nl, nl] (document_chunks 1 (apply_document_budget cfg docs))"
    and clean: "\<not> py_contains USER_REQUEST_SECTION_HEADER block"
  shows "parse_document_prompt_sections prompt = Some (prompt_preface force @ DOCUMENTS_SECTION_HEADER @ [nl, nl], block,
      SECTION_DIVIDER @ USER_REQUEST_SECTION_HEADER @ [nl, nl] @ request_text msg)"
    and "is_document_prompt prompt"
proof -
  let ?pre = "prompt_preface force" and ?H = DOCUMENTS_SECTION_HEADER and ?U = USER_REQUEST_SECTION_HEADER
  let ?rest = "[nl, nl] @ block @ SECTION_DIVIDER @ ?U @ [nl, nl] @ request_text msg"
  have ne: "document_chunks 1 (apply_document_budget cfg docs) \<noteq> []"
    and p0: "prompt = py_strip ([nl] @ ?pre @ (?H @ ?rest) @ [nl])"
    using built by (auto simp: build_document_prompt_with_def Let_def block split: if_splits)
  have ends: "block \<noteq> []" "\<not> py_isspace (hd block)" "\<not> py_isspace (last block)"
    using join_ends [OF ne, of "[nl, nl]"] chunk_ends block by auto
  have p: "prompt = ?pre @ ?H @ ?rest"
    unfolding p0 using preface_starts request_text_ends [of msg] by (subst strip_frame) auto
  have s1: "py_split1 ?H prompt = Some (?pre, ?rest)"
    unfolding p using headers_plain(1, 2) preface_plain by (rule py_split1_first)
  have nc: "\<not> py_contains ?U ([nl, nl] @ block @ SECTION_DIVIDER)"
  proof
    assume c: "py_contains ?U ([nl, nl] @ block @ SECTION_DIVIDER)"
    have U: "?U \<noteq> []" using headers_plain(3) by (metis list.distinct(1))
    have hash: "CHR ''#'' \<in> set ?U" using headers_plain(3) by (metis list.set_intros(1))
    have none: "\<not> py_contains ?U []" using U by (simp add: py_contains_def)
    have tail: "\<not> py_contains ?U (nl # ''---'' @ [nl, nl])"
      using contains_set [of ?U "nl # ''---'' @ [nl, nl]"] hash by (auto simp: nl_def)
    have "py_contains ?U (block @ nl # nl # ''---'' @ [nl, nl])"
      using contains_across [OF headers_plain(5), of "[]" "nl # block @ SECTION_DIVIDER"]
        contains_across [OF headers_plain(5), of "[]" "block @ SECTION_DIVIDER"] c none U
      by (auto simp: SECTION_DIVIDER_def)
    then show False
      using contains_across [OF headers_plain(5), of block "nl # ''---'' @ [nl, nl]"] clean tail U by auto
  qed
  have s2: "py_split1 ?U ?rest = Some ([nl, nl] @ block @ SECTION_DIVIDER, [nl, nl] @ request_text msg)"
    using py_split1_first [OF headers_plain(3, 4) nc, of "[nl, nl] @ request_text msg"] by simp
  have s3: "py_rsplit1 SECTION_DIVIDER ([nl, nl] @ block @ SECTION_DIVIDER) = Some ([nl, nl] @ block, [])"
    using py_rsplit1_last [of SECTION_DIVIDER "[nl, nl] @ block"] by (simp add: SECTION_DIVIDER_def)
  have "py_strip ([nl, nl] @ block) = block"
  proof -
    have "py_isspace nl" by (simp add: py_isspace_def nl_def)
    then have "py_lstrip ([nl, nl] @ block) = py_lstrip block" by (simp add: py_lstrip_def)
    then show ?thesis using ends by (simp add: py_strip_def py_lstrip_idle py_rstrip_idle)
  qed
  then show "parse_document_prompt_sections prompt = Some (?pre @ ?H @ [nl, nl], block,
      SECTION_DIVIDER @ ?U @ [nl, nl] @ request_text msg)"
    by (simp only: parse_document_prompt_sections_def s1 s2 s3 option.case prod.case append_assoc)
  have "py_contains ?H prompt" using s1 by (auto simp: py_contains_def py_split1_def split: option.splits)
  moreover have "py_contains ?U ?rest" using s2 by (auto simp: py_contains_def py_split1_def split: option.splits)
  then have "py_contains ?U prompt" using contains_append [of ?U ?rest "?pre @ ?H"] by (simp add: p)
  ultimately show "is_document_prompt prompt" by (simp add: is_document_prompt_def)
qed

lemma fitz_trimmed: "extract_with_fitz cfg rd failed bytes = Inr content \<Longrightarrow> \<exists>text. content = trim_document_content cfg text"
  by (auto simp: extract_with_fitz_def split: if_splits sum.splits option.splits read_error.splits)

lemma pdf_trimmed: "extract_text_from_pdf cfg rd bytes = Inr content \<Longrightarrow> \<exists>text. content = trim_document_content cfg text"
  by (auto simp: extract_text_from_pdf_def dest: fitz_trimmed split: if_splits sum.split_asm option.split_asm read_error.split_asm)

lemma docx_trimmed: "extract_text_from_docx cfg rd bytes = Inr content \<Longrightarrow> \<exists>text. content = trim_document_content cfg text"
  by (auto simp: extract_text_from_docx_def split: sum.split_asm)

lemma image_trimmed: "extract_text_from_image cfg rd bytes = Inr content \<Longrightarrow> \<exists>text. content = trim_document_content cfg text"
  by (auto simp: extract_text_from_image_def split: if_split_asm sum.split_asm option.split_asm read_error.split_asm prod.split_asm)

lemma parsed_is_trimmed: "parse_uploaded_file cfg rd name bytes = Inr content \<Longrightarrow> \<exists>text. content = trim_document_content cfg text"
  by (auto simp: parse_uploaded_file_def Let_def extract_text_from_txt_def
      dest: pdf_trimmed docx_trimmed image_trimmed split: if_split_asm)

section \<open>Properties\<close>

text \<open>
  C34: names under which uploads are stored cannot leave their directory. Whatever file
  name a client sends, the safe name consists of letters, digits, dots, underscores and
  hyphens only, has no slash, starts with the fresh identifier and is bounded in length
  apart from its extension; whatever staging id is asked for, the directory name is not
  empty and has neither a slash nor a dot.
\<close>

theorem upload_names_safe:
  assumes "list_all stem_char hex" and "length hex = 32"
  shows "list_all stem_char (sanitize_upload_filename hex filename)
    \<and> CHR ''/'' \<notin> set (sanitize_upload_filename hex filename)
    \<and> prefix (take 12 hex @ ''-'') (sanitize_upload_filename hex filename)
    \<and> (\<exists>stem ext. sanitize_upload_filename hex filename = take 12 hex @ ''-'' @ stem @ ext \<and> length stem \<le> 80 \<and> list_all extension_char ext)
    \<and> shared_staging_paths staging_id \<noteq> [] \<and> CHR ''/'' \<notin> set (shared_staging_paths staging_id)
    \<and> CHR ''.'' \<notin> set (shared_staging_paths staging_id)"
proof -
  let ?n = "sanitize_upload_filename hex filename"
  have "\<exists>stem ext. ?n = take 12 hex @ ''-'' @ stem @ ext \<and> length stem \<le> 80 \<and> list_all extension_char ext"
  proof -
    let ?e = "filter extension_char (py_lower (path_suffix (path_name (if filename = [] then ''upload.bin'' else filename))))"
    have "list_all extension_char (if ?e = [] then ''.bin'' else ?e)"
      by (simp add: list_all_iff extension_char_def is_lower_def)
    then show ?thesis unfolding sanitize_upload_filename_def Let_def by (metis (no_types, lifting) length_take min.cobounded2)
  qed
  then show ?thesis
    using sanitized_chars [OF assms(1), of filename] stem_char_slash staging_dir_chars [of staging_id] staging_char_plain
    by (auto simp: list_all_iff prefix_def)
qed

theorem upload_names_safe_witness:
  "CHR ''/'' \<notin> set (sanitize_upload_filename (replicate 32 CHR ''a'') ''../../etc/passwd'')"
proof -
  have "list_all stem_char (replicate 32 CHR ''a'')" by (simp add: list_all_iff stem_char_def is_lower_def)
  from upload_names_safe [OF this, of "''../../etc/passwd''"] show ?thesis by simp
qed

text \<open>
  C35: staging is all or nothing. A refused upload (no files, too many, a type that is not
  allowed, a file or a total that is too large) leaves no staging directory behind and
  touches no other; an accepted one stores every file's bytes under its recorded size,
  within the limits on files, file size and total size, with an allowed extension.
\<close>

theorem staging_all_or_nothing:
  assumes "0 \<le> FILE_PROCESSING_MAX_FILE_SIZE_BYTES cfg" "0 \<le> FILE_PROCESSING_MAX_TOTAL_SIZE_BYTES cfg"
    and r: "stage_uploads_to_shared_root cfg t staging_id files username st = (res, st')"
    and dir: "dir = shared_staging_paths staging_id"
  shows "(\<forall>d. d \<noteq> dir \<longrightarrow> st' d = st d)
    \<and> (case res of Inl e \<Rightarrow> st' dir = None
       | Inr (sid, infos) \<Rightarrow> sid = staging_id \<and> files \<noteq> [] \<and> len files \<le> FILE_PROCESSING_MAX_FILES cfg \<and> length infos = length files
         \<and> (\<exists>staged d. infos = map fst staged \<and> list_all (staged_ok cfg) staged
            \<and> map snd staged = map (\<lambda>(hex, up). concat (up_chunks up)) files
            \<and> sum_list (map fi_size infos) \<le> FILE_PROCESSING_MAX_TOTAL_SIZE_BYTES cfg
            \<and> st' dir = Some d \<and> sd_raw d = Some (map (\<lambda>(f, bytes). (the (fi_safe_name f), bytes)) staged)))"
proof (cases "\<exists>staged. stage_uploads_to_directory cfg files = Inr staged \<and> (case st dir of None \<Rightarrow> None | Some d \<Rightarrow> sd_raw d) = None")
  case False
  then show ?thesis
    using r by (cases "stage_uploads_to_directory cfg files") (auto simp: stage_uploads_to_shared_root_def dir Let_def split: if_splits)
next
  case True
  then obtain staged where staged: "stage_uploads_to_directory cfg files = Inr staged"
    and free: "(case st dir of None \<Rightarrow> None | Some d \<Rightarrow> sd_raw d) = None" by blast
  then have files: "files \<noteq> []" "len files \<le> FILE_PROCESSING_MAX_FILES cfg" and loop: "stage_loop cfg files 0 = Inr staged"
    by (auto simp: stage_uploads_to_directory_def split: if_splits)
  note ok = stage_loop_ok [OF assms(1) loop assms(2)]
  have "map fi_size (map fst staged) = map (\<lambda>fb. len (snd fb)) staged" using ok by (simp add: list_all_iff staged_ok_def)
  then have total: "sum_list (map fi_size (map fst staged)) \<le> FILE_PROCESSING_MAX_TOTAL_SIZE_BYTES cfg" using ok by (simp del: map_map)
  let ?d = "the (st' dir)"
  have res: "res = Inr (staging_id, map fst staged)" and other: "\<forall>d. d \<noteq> dir \<longrightarrow> st' d = st d"
    and d: "st' dir = Some ?d" "sd_raw ?d = Some (map (\<lambda>(f, bytes). (the (fi_safe_name f), bytes)) staged)"
    using r staged free by (auto simp: stage_uploads_to_shared_root_def dir Let_def)
  have "length (map fst staged) = length files" using ok by simp
  then show ?thesis unfolding res using other files ok total d by (simp del: map_map) blast
qed

lemma demo_refused: "stage_uploads_to_directory default_settings [] = Inl (HTTPException 400 TXT_NO_FILES_CHOSEN)"
  by (simp add: stage_uploads_to_directory_def)

theorem staging_all_or_nothing_witness:
  "snd (stage_uploads_to_shared_root default_settings 5 ''s1'' [] None (\<lambda>_. None)) (shared_staging_paths ''s1'') = None"
proof -
  have "stage_uploads_to_shared_root default_settings 5 ''s1'' [] None (\<lambda>_. None)
      = (Inl (HTTPException 400 TXT_NO_FILES_CHOSEN), (\<lambda>_. None)(shared_staging_paths ''s1'' := None))"
    by (simp add: stage_uploads_to_shared_root_def demo_refused Let_def)
  with staging_all_or_nothing [OF _ _ this refl] show ?thesis by (simp add: default_settings_def)
qed

text \<open>
  Reading a text file in chunks of 4096 characters up to a hard limit is the same as
  trimming the first \<open>MAX_PARSED_DOCUMENT_CHARS + 1\<close> characters of its text; and the text
  that any reader returns fits the limit, if the limit has room for the marker.
\<close>

theorem txt_extraction_reference:
  "extract_text_from_txt cfg rd bytes =
     trim_document_content cfg (take (nat (FILE_PROCESSING_MAX_DOCUMENT_CHARS cfg + 1)) (decode_text rd bytes))
   \<and> (20 \<le> FILE_PROCESSING_MAX_DOCUMENT_CHARS cfg \<and> parse_uploaded_file cfg rd name bytes = Inr content
      \<longrightarrow> len content \<le> FILE_PROCESSING_MAX_DOCUMENT_CHARS cfg)"
  using parsed_is_trimmed [of cfg rd name bytes content] trim_document_content_length [of cfg]
  by (auto simp: extract_text_from_txt_def read_text_loop_take)

definition demo_readers :: readers where
  "demo_readers = \<lparr>decode_text = (\<lambda>b. b), docx_nodes = (\<lambda>b. Inr []), pypdf_pages = None, fitz_pages = None,
     image_reader = None, format_g = (\<lambda>_. ''30'')\<rparr>"

theorem txt_extraction_reference_witness:
  "len (extract_text_from_txt default_settings demo_readers ''abc'') \<le> 12000"
proof -
  have "parse_uploaded_file default_settings demo_readers ''a.txt'' ''abc'' = Inr (extract_text_from_txt default_settings demo_readers ''abc'')"
    by (simp add: parse_uploaded_file_def detect_extension_def path_suffix_def path_name_def py_rsplit1_def py_lower_def
        py_lower_char_def cp1251_upper_def)
  then show ?thesis using txt_extraction_reference [of default_settings demo_readers "''abc''" "''a.txt''"]
    by (simp add: default_settings_def)
qed

text \<open>
  The document budget. The texts of all documents together exceed the configured
  number of characters by at most one truncation marker per document, whatever was
  extracted.
\<close>

theorem document_budget_bound:
  assumes "0 \<le> FILE_PROCESSING_MAX_DOCUMENT_CHARS cfg"
  shows "sum_list (map (\<lambda>d. len (doc_content d)) (apply_document_budget cfg docs))
    \<le> FILE_PROCESSING_MAX_DOCUMENT_CHARS cfg + 20 * len docs"
  using budget_loop_length [of "FILE_PROCESSING_MAX_DOCUMENT_CHARS cfg" 0 docs] assms by (simp add: apply_document_budget_def)

theorem document_budget_bound_witness:
  "sum_list (map (\<lambda>d. len (doc_content d)) (apply_document_budget default_settings [\<lparr>doc_name = ''a'', doc_content = ''b''\<rparr>])) \<le> 12020"
  using document_budget_bound [of default_settings "[\<lparr>doc_name = ''a'', doc_content = ''b''\<rparr>]"] by (simp add: default_settings_def)

text \<open>
  C36: the prompt that the parser stage builds is read back by the prompt budget of the
  gateway. If no document contains the heading of the request section, the gateway
  recognises the prompt and splits it into the fixed text, exactly the labelled
  documents, and the user's request; so where the rest fits, trimming cuts only documents.
\<close>

theorem document_prompt_roundtrip:
  assumes "build_document_prompt_with cfg force msg docs = Inr prompt"
    and "\<not> py_contains USER_REQUEST_SECTION_HEADER (py_join [nl, nl] (document_chunks 1 (apply_document_budget cfg docs)))"
  shows "is_document_prompt prompt
    \<and> parse_document_prompt_sections prompt = Some (prompt_preface force @ DOCUMENTS_SECTION_HEADER @ [nl, nl],
        py_join [nl, nl] (document_chunks 1 (apply_document_budget cfg docs)),
        SECTION_DIVIDER @ USER_REQUEST_SECTION_HEADER @ [nl, nl] @ request_text msg)"
  using prompt_sections [OF assms(1) refl assms(2)] by blast

lemma demo_budget: "apply_document_budget default_settings [\<lparr>doc_name = ''a'', doc_content = ''b''\<rparr>] = [\<lparr>doc_name = ''a'', doc_content = ''b''\<rparr>]"
  by (simp add: apply_document_budget_def default_settings_def py_strip_def py_lstrip_def py_rstrip_def py_isspace_def)

lemma demo_chunks: "document_chunks 1 [\<lparr>doc_name = ''a'', doc_content = ''b''\<rparr>]
    = [DOCUMENT_LABEL_PREFIX @ ''1: a]'' @ [nl] @ ''b'']"
  by (simp add: py_strip_def py_lstrip_def py_rstrip_def py_isspace_def py_str_int_def nat_digits.simps char_of_def bit_0)

theorem document_prompt_roundtrip_witness:
  "\<exists>prompt pre post. build_document_prompt default_settings ''q'' [\<lparr>doc_name = ''a'', doc_content = ''b''\<rparr>] = Inr prompt
     \<and> parse_document_prompt_sections prompt = Some (pre, DOCUMENT_LABEL_PREFIX @ ''1: a]'' @ [nl] @ ''b'', post)"
proof -
  let ?docs = "[\<lparr>doc_name = ''a'', doc_content = ''b''\<rparr>]"
  obtain prompt where p: "build_document_prompt_with default_settings False ''q'' ?docs = Inr prompt"
    by (simp only: build_document_prompt_with_def demo_budget demo_chunks Let_def list.distinct if_False)
  have "CHR ''#'' \<notin> set (DOCUMENT_LABEL_PREFIX @ ''1: a]'' @ [nl] @ ''b'')"
    by (simp add: DOCUMENT_LABEL_PREFIX_def cp1251_def char_of_def bit_0 nl_def)
  moreover have "CHR ''#'' \<in> set USER_REQUEST_SECTION_HEADER" using headers_plain(3) by (metis list.set_intros(1))
  ultimately have "\<not> py_contains USER_REQUEST_SECTION_HEADER (py_join [nl, nl] (document_chunks 1 (apply_document_budget default_settings ?docs)))"
    using contains_set by (fastforce simp only: demo_budget demo_chunks py_join.simps)
  from document_prompt_roundtrip [OF p this] p show ?thesis
    by (simp only: build_document_prompt_def demo_budget demo_chunks py_join.simps) blast
qed

end
