(* ===== verification/Worker.thy ===== *)
theory Worker
  imports Ollama_Client Parser_Stage Admission Dual_Write
begin

text \<open>
  The worker process (\<open>worker.py\<close>, class \<open>LLMWorker\<close>): one turn of each of its loops, the
  generation of an answer from the stream of the model server, chat and file-chat jobs,
  and parser jobs. The state joins the control plane, the conversation stores and the
  staging area; the model server and what other processes do meanwhile are arguments.
\<close>

section \<open>Texts\<close>

text \<open>``Generation stopped'', ``the model returned no answer text''.\<close>

definition CANCELLED_TEXT :: string where
  "CANCELLED_TEXT =
     cp1251 [195, 229, 237, 229, 240, 224, 246, 232, 255, 32, 238, 241, 242, 224, 237, 238,
       226, 235, 229, 237, 224]"

definition NO_ANSWER_TEXT :: string where
  "NO_ANSWER_TEXT =
     cp1251 [204, 238, 228, 229, 235, 252, 32, 237, 229, 32, 226, 229, 240, 237, 243, 235,
       224, 32, 242, 229, 234, 241, 242, 32, 238, 242, 226, 229, 242, 224, 46]"

text \<open>
  Phrases by which a model claims that it cannot read the files, and phrases by which it
  says that the documents do not hold the answer.
\<close>

definition DOCUMENT_RETRY_PATTERNS :: "string list" where
  "DOCUMENT_RETRY_PATTERNS = [
     cp1251 [237, 229, 32, 232, 236, 229, 254, 32, 228, 238, 241, 242, 243, 239, 224,
       32, 234, 32, 244, 224, 233, 235, 224, 236],
     cp1251 [237, 229, 32, 236, 238, 227, 243, 32, 239, 240, 238, 247, 232, 242, 224,
       242, 252, 32, 244, 224, 233, 235],
     cp1251 [237, 229, 32, 236, 238, 227, 243, 32, 238, 242, 234, 240, 251, 242, 252,
       32, 244, 224, 233, 235],
     cp1251 [237, 229, 32, 232, 236, 229, 254, 32, 228, 238, 241, 242, 243, 239, 224,
       32, 234, 32, 228, 238, 234, 243, 236, 229, 237, 242, 224, 236],
     cp1251 [243, 32, 236, 229, 237, 255, 32, 237, 229, 242, 32, 228, 238, 241, 242,
       243, 239, 224, 32, 234, 32, 244, 224, 233, 235, 224, 236],
     cp1251 [243, 32, 236, 229, 237, 255, 32, 237, 229, 242, 32, 228, 238, 241, 242,
       243, 239, 224, 32, 234, 32, 228, 238, 234, 243, 236, 229, 237, 242, 224, 236],
     cp1251 [237, 229, 32, 226, 232, 230, 243, 32, 241, 238, 228, 229, 240, 230, 232,
       236, 238, 229, 32, 244, 224, 233, 235, 224],
     cp1251 [237, 229, 32, 226, 232, 230, 243, 32, 241, 238, 228, 229, 240, 230, 232,
       236, 238, 229, 32, 228, 238, 234, 243, 236, 229, 237, 242, 224],
     cp1251 [231, 224, 227, 240, 243, 231, 232, 242, 229, 32, 244, 224, 233, 235],
     cp1251 [239, 240, 232, 234, 240, 229, 239, 232, 242, 229, 32, 244, 224, 233, 235]]"

definition DOCUMENT_NO_INFO_PATTERNS :: "string list" where
  "DOCUMENT_NO_INFO_PATTERNS = [
     cp1251 [237, 229, 32, 243, 234, 224, 231, 224, 237],
     cp1251 [237, 229, 32, 243, 234, 224, 231, 224, 237, 224],
     cp1251 [237, 229, 32, 243, 234, 224, 231, 224, 237, 238],
     cp1251 [237, 229, 32, 243, 234, 224, 231, 224, 237, 251],
     cp1251 [237, 229, 242, 32, 228, 224, 242, 251],
     cp1251 [237, 229, 242, 32, 228, 224, 237, 237, 251, 245],
     cp1251 [237, 229, 242, 32, 241, 226, 229, 228, 229, 237, 232, 233],
     cp1251 [237, 229, 32, 243, 239, 238, 236, 232, 237, 224, 229, 242, 241, 255],
     cp1251 [237, 229, 32, 241, 238, 228, 229, 240, 230, 232, 242, 241, 255],
     cp1251 [237, 229, 32, 241, 238, 228, 229, 240, 230, 232, 242, 32, 232, 237, 244,
       238, 240, 236, 224, 246, 232, 232],
     cp1251 [238, 242, 241, 243, 242, 241, 242, 226, 243, 229, 242],
     cp1251 [238, 242, 241, 243, 242, 241, 242, 226, 243, 254, 242],
     cp1251 [237, 229, 242, 32, 232, 237, 244, 238, 240, 236, 224, 246, 232, 232],
     cp1251 [237, 229, 32, 239, 240, 229, 228, 241, 242, 224, 226, 235, 229, 237, 224],
     cp1251 [237, 229, 32, 239, 240, 229, 228, 241, 242, 224, 226, 235, 229, 237]]"

section \<open>Helpers\<close>

definition meta_text :: "metadata \<Rightarrow> string \<Rightarrow> string" where
  "meta_text m k = (case map_of m k of Some (MStr v) \<Rightarrow> v | _ \<Rightarrow> [])"

definition meta_flag :: "metadata \<Rightarrow> string \<Rightarrow> bool" where
  "meta_flag m k = (case map_of m k of Some (MBool b) \<Rightarrow> b | _ \<Rightarrow> False)"

definition resolve_job_thread_id :: "job \<Rightarrow> string" where
  "resolve_job_thread_id job = (let normalized = py_strip (j_thread_id job) in
     if normalized \<noteq> [] then normalized
     else case j_file_chat job of
         Some file_chat \<Rightarrow> (let t = py_strip (meta_text file_chat ''thread_id'') in
           if t \<noteq> [] then t else DEFAULT_CHAT_THREAD_ID)
       | None \<Rightarrow> DEFAULT_CHAT_THREAD_ID)"

definition response_requires_document_retry :: "string \<Rightarrow> bool" where
  "response_requires_document_retry response_text = (let normalized = py_lower (py_strip response_text) in
     normalized = [] \<or> contains_any DOCUMENT_RETRY_PATTERNS normalized)"

definition normalize_document_response :: "string \<Rightarrow> string" where
  "normalize_document_response response_text = (let normalized = py_strip response_text in
     if normalized = [] then DOCUMENT_NO_INFORMATION_RESPONSE
     else if contains_any DOCUMENT_NO_INFO_PATTERNS (py_lower normalized) then DOCUMENT_NO_INFORMATION_RESPONSE
     else normalized)"

section \<open>The worker and its state\<close>

record ('s, 't, 'd) llm_worker =
  lw_gateway :: "'s gateway"
  lw_writer :: "('t, 'd) write_coordinator"
  lw_settings :: worker_settings
  lw_pool :: worker_pool
  lw_worker_id :: string
  lw_target_kind :: string
  lw_readers :: readers

record ('s, 't, 'd) wstate =
  w_server :: 's
  w_conv :: "'t \<times> 'd"
  w_staging :: staging

abbreviation is_parser_pool :: "('s, 't, 'd) llm_worker \<Rightarrow> bool" where
  "is_parser_pool w \<equiv> lw_pool w = PoolParser"

section \<open>Generation\<close>

text \<open>
  One line of a streamed response: when it arrives, what other processes have done to the
  control plane since the line before, and the line: blank, not JSON, or a chunk with the
  contents of \<open>message.content\<close> and \<open>response\<close> and its \<open>done\<close> flag. \<open>StreamRaised\<close> ends the
  stream with an exception, such as the job timeout.
\<close>

datatype stream_line =
    BlankLine
  | BadJson
  | Chunk "string option" "string option" bool
  | StreamRaised worker_exn

type_synonym 's stream_item = "int \<times> ('s \<Rightarrow> 's) \<times> stream_line"

text \<open>The model server: its answer to the model name, the messages and the attempt.\<close>

type_synonym 's model_server = "string \<Rightarrow> message list \<Rightarrow> int \<Rightarrow> 's stream_item list stream_response attempt"

fun generation_loop ::
  "'s gateway \<Rightarrow> string \<Rightarrow> int \<Rightarrow> bool \<Rightarrow> 's stream_item list \<Rightarrow> string \<Rightarrow> 's \<Rightarrow> (worker_exn + string) \<times> 's" where
  "generation_loop g job_id deadline_at emit_tokens [] assistant_text s = (Inr assistant_text, s)"
| "generation_loop g job_id deadline_at emit_tokens ((t, env, line) # items) assistant_text s =
     (let s = env s in
      case line of
        StreamRaised e \<Rightarrow> (Inl e, s)
      | BlankLine \<Rightarrow> generation_loop g job_id deadline_at emit_tokens items assistant_text s
      | BadJson \<Rightarrow>
          if deadline_at \<noteq> 0 \<and> deadline_at \<le> t then (Inl JobDeadlineExceeded, s)
          else if is_cancel_requested g job_id s then (Inl JobCancelledByUser, s)
          else (Inl (OtherError ''JSONDecodeError''), s)
      | Chunk content response finished \<Rightarrow>
          if deadline_at \<noteq> 0 \<and> deadline_at \<le> t then (Inl JobDeadlineExceeded, s)
          else if is_cancel_requested g job_id s then (Inl JobCancelledByUser, s)
          else let token = (case str_or content response of None \<Rightarrow> [] | Some tok \<Rightarrow> tok);
                   assistant_text = assistant_text @ token;
                   s = (if token \<noteq> [] \<and> emit_tokens then emit_event g job_id (bare_event (EvToken token)) s else s)
               in if finished then (Inr assistant_text, s)
                  else generation_loop g job_id deadline_at emit_tokens items assistant_text s)"

definition run_generation ::
  "('s, 't, 'd) llm_worker \<Rightarrow> 's model_server \<Rightarrow> string \<Rightarrow> string \<Rightarrow> message list \<Rightarrow> string \<Rightarrow> int \<Rightarrow> bool \<Rightarrow> 's
    \<Rightarrow> (worker_exn + string) \<times> 's" where
  "run_generation w srv job_id model_name history prompt deadline_at emit_tokens s =
     (let messages = fst (prepare_ollama_messages_with_metrics history prompt) in
      if is_parser_pool w then (Inl (OtherError ''AttributeError''), s)
      else case fst (stream_chat (lw_settings w) True model_name (srv model_name messages)) of
          Inl e \<Rightarrow> (Inl e, s)
        | Inr response \<Rightarrow>
            (case generation_loop (lw_gateway w) job_id deadline_at emit_tokens (sr_body response) [] s of
               (Inl e, s) \<Rightarrow> (Inl e, s)
             | (Inr assistant_text, s) \<Rightarrow>
                 (Inr (if py_strip assistant_text = [] then NO_ANSWER_TEXT else assistant_text), s)))"

definition run_file_chat_job ::
  "('s, 't, 'd) llm_worker \<Rightarrow> 's model_server \<Rightarrow> job \<Rightarrow> 's \<Rightarrow> (worker_exn + string) \<times> 's" where
  "run_file_chat_job w srv job s =
     (let file_chat = (case j_file_chat job of None \<Rightarrow> [] | Some m \<Rightarrow> m);
          quiet = meta_flag file_chat ''suppress_token_stream'';
          generate = (\<lambda>prompt. run_generation w srv (j_id job) (j_model_name job) (j_history job) prompt (j_deadline_at job))
      in case generate (j_prompt job) (\<not> quiet) s of
          (Inl e, s) \<Rightarrow> (Inl e, s)
        | (Inr first_text, s) \<Rightarrow>
            (let retry_prompt = py_strip (meta_text file_chat ''retry_prompt'') in
             case (if retry_prompt \<noteq> [] \<and> response_requires_document_retry first_text
                   then generate retry_prompt False s else (Inr first_text, s)) of
               (Inl e, s) \<Rightarrow> (Inl e, s)
             | (Inr assistant_text, s) \<Rightarrow>
                 (let assistant_text = normalize_document_response
                        (if response_requires_document_retry assistant_text then DOCUMENT_NO_INFORMATION_RESPONSE
                         else assistant_text)
                  in (Inr assistant_text,
                      if quiet then emit_event (lw_gateway w) (j_id job) (bare_event (EvResult assistant_text)) s else s))))"

section \<open>Chat and file-chat jobs\<close>

text \<open>\<open>conversation_writer.append_message\<close> with the role of the assistant.\<close>

definition reply ::
  "('s, 't, 'd) llm_worker \<Rightarrow> clock \<Rightarrow> job \<Rightarrow> string \<Rightarrow> ('s, 't, 'd) wstate \<Rightarrow> (unit, ('s, 't, 'd) wstate) outcome" where
  "reply w c job content st =
     (case append_message_cw (lw_writer w) c (j_username job) ''assistant'' content (Some (resolve_job_thread_id job)) (w_conv st)
      of (r, sd) \<Rightarrow> (r, st\<lparr>w_conv := sd\<rparr>))"

definition answer_job ::
  "('s, 't, 'd) llm_worker \<Rightarrow> 's model_server \<Rightarrow> job \<Rightarrow> 's \<Rightarrow> (worker_exn + string) \<times> 's" where
  "answer_job w srv job s =
     (if j_job_kind job = KindFileChat \<and> j_file_chat job \<noteq> None then run_file_chat_job w srv job s
      else run_generation w srv (j_id job) (j_model_name job) (j_history job) (j_prompt job) (j_deadline_at job) True s)"

text \<open>
  The body of the \<open>try\<close> block. Its result is the terminal status and error type that the
  final log line shows; a job cancelled before it starts keeps the initial values.
\<close>

definition try_job ::
  "('s, 't, 'd) llm_worker \<Rightarrow> clock \<Rightarrow> 's model_server \<Rightarrow> job \<Rightarrow> ('s, 't, 'd) wstate
    \<Rightarrow> (worker_exn + job_status \<times> error_type) \<times> ('s, 't, 'd) wstate" where
  "try_job w c srv job st =
     (if is_cancel_requested (lw_gateway w) (j_id job) (w_server st) then
        (case reply w c job CANCELLED_TEXT st of
           (Inl e, st) \<Rightarrow> (Inl (OtherError ''RuntimeError''), st)
         | (Inr _, st) \<Rightarrow> (Inr (Failed, ErrInternal), st\<lparr>w_server :=
             mark_job_cancelled (lw_gateway w) c (j_id job) (Some (lw_worker_id w)) (w_server st)\<rparr>))
      else case answer_job w srv job (w_server st) of
          (Inl e, s) \<Rightarrow> (Inl e, st\<lparr>w_server := s\<rparr>)
        | (Inr assistant_text, s) \<Rightarrow>
            (case reply w c job assistant_text (st\<lparr>w_server := s\<rparr>) of
               (Inl e, st) \<Rightarrow> (Inl (OtherError ''RuntimeError''), st)
             | (Inr _, st) \<Rightarrow> (Inr (Completed, ErrNone), st\<lparr>w_server :=
                 mark_job_completed (lw_gateway w) c (j_id job) assistant_text (Some (lw_worker_id w)) (w_server st)\<rparr>)))"

definition fail_job ::
  "('s, 't, 'd) llm_worker \<Rightarrow> clock \<Rightarrow> job \<Rightarrow> string \<Rightarrow> ('s, 't, 'd) wstate \<Rightarrow> ('s, 't, 'd) wstate" where
  "fail_job w c job error_text st = st\<lparr>w_server :=
     mark_job_failed (lw_gateway w) c (j_id job) error_text (Some (lw_worker_id w)) (w_server st)\<rparr>"

text \<open>The handlers: a reply to the user (not for a missed deadline), the terminal mark, and what is logged.\<close>

fun handle_exception ::
  "('s, 't, 'd) llm_worker \<Rightarrow> clock \<Rightarrow> job \<Rightarrow> worker_exn \<Rightarrow> ('s, 't, 'd) wstate
    \<Rightarrow> (job_status \<times> error_type, ('s, 't, 'd) wstate) outcome" where
  "handle_exception w c job JobCancelledByUser st = obind (reply w c job CANCELLED_TEXT st) (\<lambda>_ st.
     (Inr (Cancelled, classify_observability_error (Some CANCELLED_TEXT) None (Some Cancelled) ErrCancelled),
      st\<lparr>w_server := mark_job_cancelled (lw_gateway w) c (j_id job) (Some (lw_worker_id w)) (w_server st)\<rparr>))"
| "handle_exception w c job JobDeadlineExceeded st =
     (Inr (Failed, classify_observability_error (Some DEADLINE_EXCEEDED_ERROR) (Some ''inference'') None ErrInferenceTimeout),
      fail_job w c job DEADLINE_EXCEEDED_ERROR st)"
| "handle_exception w c job (OllamaModelNotFoundError m) st =
     (let error_text = ''LLM model not found: '' @ m in obind (reply w c job error_text st) (\<lambda>_ st.
       (Inr (Failed, classify_observability_error (Some error_text) None None ErrModelNotFound), fail_job w c job error_text st)))"
| "handle_exception w c job (NoLLMModelsAvailableError m) st = obind (reply w c job m st) (\<lambda>_ st.
     (Inr (Failed, classify_observability_error (Some m) None None ErrInternal), fail_job w c job m st))"
| "handle_exception w c job TimeoutError st = obind (reply w c job GENERIC_CHAT_ERROR st) (\<lambda>_ st.
     (Inr (Failed, classify_observability_error (Some ''timeout'') (Some ''inference'') None ErrInferenceTimeout),
      fail_job w c job GENERIC_CHAT_ERROR st))"
| "handle_exception w c job e st = obind (reply w c job GENERIC_CHAT_ERROR st) (\<lambda>_ st.
     (Inr (Failed, classify_observability_error (Some GENERIC_CHAT_ERROR) None None ErrInternal),
      fail_job w c job GENERIC_CHAT_ERROR st))"

definition process_llm_job ::
  "('s, 't, 'd) llm_worker \<Rightarrow> clock \<Rightarrow> 's model_server \<Rightarrow> job \<Rightarrow> ('s, 't, 'd) wstate
    \<Rightarrow> (job_status \<times> error_type, ('s, 't, 'd) wstate) outcome" where
  "process_llm_job w c srv job st = (case try_job w c srv job st of
     (Inl e, st) \<Rightarrow> handle_exception w c job e st
   | (Inr r, st) \<Rightarrow> (Inr r, st))"

section \<open>Parser jobs\<close>

text \<open>\<open>str(exc)\<close>; \<open>KeyError\<close> stands for the \<open>FileNotFoundError\<close> of the staging area, whose text is its message.\<close>

fun exn_text :: "exn \<Rightarrow> string" where
  "exn_text (HTTPException code detail) = py_str_int code @ '': '' @ detail"
| "exn_text (RuntimeError m) = m"
| "exn_text (ValueError m) = m"
| "exn_text (ParserChildEnqueueCancelled m) = m"
| "exn_text (KeyError m) = m"
| "exn_text RecursionError = ''maximum recursion depth exceeded''"
| "exn_text (TypeError m) = m"
| "exn_text (OverflowError m) = m"
| "exn_text (LookupError m) = m"
| "exn_text (AttributeError m) = m"

definition or_unknown_error :: "string \<Rightarrow> string" where
  "or_unknown_error m = (if m = [] then ''unknown error'' else m)"

definition prepared_child :: "string \<Rightarrow> string \<Rightarrow> prepared_llm_job \<Rightarrow> prepared_job" where
  "prepared_child staging_id thread_id p = \<lparr>pl_job_kind = Some (pj_job_kind p), pl_model_key = pj_model_key p,
     pl_model_name = pj_model_name p, pl_prompt = pj_prompt p, pl_history = pj_history p, pl_thread_id = Some thread_id,
     pl_file_chat = Some (pj_file_chat p), pl_workload_class = None, pl_staging_id = Some staging_id\<rparr>"

text \<open>The payloads written to the staging metadata and to the parser metadata of the root job.\<close>

definition prepared_payload :: "artifacts \<Rightarrow> parser_record" where
  "prepared_payload p = [(''status'', PMeta (MStr LIFECYCLE_STAGE_PARSER_PREPARED)), (''raw_deleted'', PMeta (MBool False)),
     (''staging_id'', PMeta (MStr (ar_staging_id p))), (''files'', PMeta (MFiles (ar_files p))),
     (''original_doc_chars'', PMeta (MInt (ar_original_doc_chars p))),
     (''trimmed_doc_chars'', PMeta (MInt (ar_trimmed_doc_chars p))),
     (''prepared_llm_job'', PPrepared (ar_prepared_llm_job p))]"

definition child_payload :: "string \<Rightarrow> bool \<Rightarrow> parser_record" where
  "child_payload child_job_id raw_deleted = [(''status'', PMeta (MStr LIFECYCLE_STAGE_CHILD_ENQUEUED)),
     (''child_job_id'', PMeta (MStr child_job_id)), (''raw_deleted'', PMeta (MBool raw_deleted))]"

definition prepared_metadata :: "artifacts \<Rightarrow> metadata" where
  "prepared_metadata p = [(''phase'', MStr LIFECYCLE_STAGE_PARSER_PREPARED), (''files'', MFiles (ar_files p)),
     (''original_doc_chars'', MInt (ar_original_doc_chars p)), (''trimmed_doc_chars'', MInt (ar_trimmed_doc_chars p)),
     (''raw_deleted'', MBool False), (''artifact'', MStr ''meta/parser.json'')]"

definition resumed_metadata :: "string \<Rightarrow> bool \<Rightarrow> metadata" where
  "resumed_metadata child_job_id raw_deleted = [(''phase'', MStr LIFECYCLE_STAGE_CHILD_ENQUEUED),
     (''raw_deleted'', MBool raw_deleted), (''child_job_id'', MStr child_job_id)]"

definition enqueued_metadata :: "artifacts \<Rightarrow> bool \<Rightarrow> string \<Rightarrow> bool \<Rightarrow> metadata" where
  "enqueued_metadata p raw_deleted child_job_id child_created = [(''phase'', MStr LIFECYCLE_STAGE_CHILD_ENQUEUED),
     (''files'', MFiles (ar_files p)), (''original_doc_chars'', MInt (ar_original_doc_chars p)),
     (''trimmed_doc_chars'', MInt (ar_trimmed_doc_chars p)), (''raw_deleted'', MBool raw_deleted),
     (''artifact'', MStr ''meta/parser.json''), (''child_job_id'', MStr child_job_id),
     (''child_job_created'', MBool child_created)]"

text \<open>Deleting the raw files, recording it, and parking the root job on its child.\<close>

definition park_on_child ::
  "('s, 't, 'd) llm_worker \<Rightarrow> clock \<Rightarrow> bool \<Rightarrow> string \<Rightarrow> string \<Rightarrow> string \<Rightarrow> (bool \<Rightarrow> metadata) \<Rightarrow> ('s, 't, 'd) wstate
    \<Rightarrow> ('s, 't, 'd) wstate" where
  "park_on_child w c removed job_id staging_id child_job_id updates st =
     (case delete_staged_raw_files removed staging_id (w_staging st) of (raw_deleted, staging) \<Rightarrow>
      case write_parser_result_metadata (now c) staging_id (child_payload child_job_id raw_deleted) staging of (_, staging) \<Rightarrow>
        st\<lparr>w_staging := staging, w_server := mark_job_waiting_on_child (lw_gateway w) job_id child_job_id
             LIFECYCLE_STAGE_CHILD_ENQUEUED (Some (updates raw_deleted)) (Some (lw_worker_id w)) (w_server st)\<rparr>)"

text \<open>
  The second \<open>try\<close> block: enqueue the child and park the root job. Any exception other than
  a cancelled root fails the job.
\<close>

definition hand_over ::
  "('s, 't, 'd) llm_worker \<Rightarrow> clock \<Rightarrow> string \<Rightarrow> bool \<Rightarrow> job \<Rightarrow> string \<Rightarrow> string \<Rightarrow> artifacts \<Rightarrow> ('s, 't, 'd) wstate
    \<Rightarrow> ('s, 't, 'd) wstate" where
  "hand_over w c uuid removed job staging_id thread_id p st =
     (let g = lw_gateway w in
      case enqueue_child_job_once g c uuid (j_id job) (prepared_child staging_id thread_id (ar_prepared_llm_job p)) (w_server st) of
        (Inr (child_job_id, child_created), s) \<Rightarrow>
          park_on_child w c removed (j_id job) staging_id child_job_id
            (\<lambda>raw_deleted. enqueued_metadata p raw_deleted child_job_id child_created) (st\<lparr>w_server := s\<rparr>)
      | (Inl (ParserChildEnqueueCancelled _), s) \<Rightarrow>
          st\<lparr>w_server := (case get_job g (j_id job) s of
              Some latest_job \<Rightarrow> if terminal (j_status latest_job) then s
                else mark_job_cancelled g c (j_id job) (Some (lw_worker_id w)) s
            | None \<Rightarrow> mark_job_cancelled g c (j_id job) (Some (lw_worker_id w)) s)\<rparr>
      | (Inl e, s) \<Rightarrow> fail_job w c job (''Parser child enqueue failed: '' @ or_unknown_error (exn_text e)) (st\<lparr>w_server := s\<rparr>))"

text \<open>
  From the preparation on. \<open>env\<close> is what other processes do to the control plane while the
  documents are read, \<open>timed_out\<close> whether that took too long; \<open>current_job\<close> was read before.
\<close>

definition prepared_root :: "job \<Rightarrow> artifacts \<Rightarrow> job" where
  "prepared_root current_job p = current_job\<lparr>
     j_parser_metadata := Some (meta_update (case j_parser_metadata current_job of None \<Rightarrow> [] | Some m \<Rightarrow> m) (prepared_metadata p)),
     j_lifecycle_stage := Some LIFECYCLE_STAGE_PARSER_PREPARED\<rparr>"

definition prepare_and_hand_over ::
  "('s, 't, 'd) llm_worker \<Rightarrow> clock \<Rightarrow> string \<Rightarrow> bool \<Rightarrow> ('s \<Rightarrow> 's) \<Rightarrow> bool \<Rightarrow> job \<Rightarrow> job \<Rightarrow> string \<Rightarrow> ('s, 't, 'd) wstate
    \<Rightarrow> ('s, 't, 'd) wstate" where
  "prepare_and_hand_over w c uuid removed env timed_out job current_job staging_id st =
     (let g = lw_gateway w; st = st\<lparr>w_server := env (w_server st)\<rparr> in
      if timed_out then fail_job w c job ''Parser artifact preparation timed out'' st
      else case prepare_parser_job_artifacts (gw_cfg g) (lw_readers w) staging_id (j_prompt current_job) (j_history current_job)
             (j_model_key current_job) (j_model_name current_job) (w_staging st) of
        Inl e \<Rightarrow> fail_job w c job (''Parser artifact preparation failed: '' @ or_unknown_error (exn_text e)) st
      | Inr p \<Rightarrow>
          (let st = st\<lparr>w_staging := snd (write_parser_result_metadata (now c) staging_id (prepared_payload p) (w_staging st))\<rparr> in
           case save_job g (prepared_root current_job p) (w_server st) of
             (Inl e, s) \<Rightarrow> fail_job w c job (''Parser artifact preparation failed: '' @ or_unknown_error (exn_text e)) (st\<lparr>w_server := s\<rparr>)
           | (Inr _, s) \<Rightarrow>
               (let st = st\<lparr>w_server := s\<rparr> in
                if (case get_job g (j_id job) s of Some latest_job \<Rightarrow> terminal (j_status latest_job) | None \<Rightarrow> False) then st
                else if is_cancel_requested g (j_id job) s
                then st\<lparr>w_server := mark_job_cancelled g c (j_id job) (Some (lw_worker_id w)) s\<rparr>
                else hand_over w c uuid removed job staging_id (resolve_job_thread_id current_job) p st)))"

definition process_parser_job ::
  "('s, 't, 'd) llm_worker \<Rightarrow> clock \<Rightarrow> string \<Rightarrow> bool \<Rightarrow> ('s \<Rightarrow> 's) \<Rightarrow> bool \<Rightarrow> job \<Rightarrow> ('s, 't, 'd) wstate
    \<Rightarrow> (unit, ('s, 't, 'd) wstate) outcome" where
  "process_parser_job w c uuid removed env timed_out job st =
     (let g = lw_gateway w; job_id = j_id job in
      if is_cancel_requested g job_id (w_server st)
      then (Inr (), st\<lparr>w_server := mark_job_cancelled g c job_id (Some (lw_worker_id w)) (w_server st)\<rparr>)
      else if \<not> is_parser_pool w then (Inr (), fail_job w c job ''Parser jobs must run on the parser worker pool'' st)
      else if \<not> ENABLE_PARSER_STAGE (gw_cfg g) then (Inr (), fail_job w c job ''Parser stage is disabled'' st)
      else let current_job = (case get_job g job_id (w_server st) of Some j \<Rightarrow> j | None \<Rightarrow> job) in
        case get_linked_child_job_id g job_id (w_server st) of
          (Inl e, s) \<Rightarrow> (Inl e, st\<lparr>w_server := s\<rparr>)
        | (Inr existing, s) \<Rightarrow>
            (let st = st\<lparr>w_server := s\<rparr>;
                 staging_id = strip_opt (str_or (j_staging_id current_job) (j_staging_id job))
             in if staging_id = [] then (Inr (), fail_job w c job ''Parser job is missing staging_id'' st)
                else case str_or existing None of
                    Some child_job_id \<Rightarrow> (Inr (), park_on_child w c removed job_id staging_id child_job_id (resumed_metadata child_job_id) st)
                  | None \<Rightarrow> (Inr (), prepare_and_hand_over w c uuid removed env timed_out job current_job staging_id st)))"

section \<open>Turns of the loops\<close>

definition process_job ::
  "('s, 't, 'd) llm_worker \<Rightarrow> clock \<Rightarrow> string \<Rightarrow> bool \<Rightarrow> ('s \<Rightarrow> 's) \<Rightarrow> bool \<Rightarrow> 's model_server \<Rightarrow> job \<Rightarrow> ('s, 't, 'd) wstate
    \<Rightarrow> (unit, ('s, 't, 'd) wstate) outcome" where
  "process_job w c uuid removed env timed_out srv job st =
     (if j_job_kind job = KindParse then process_parser_job w c uuid removed env timed_out job st
      else obind (process_llm_job w c srv job st) (\<lambda>_ st. (Inr (), st)))"

text \<open>One turn of \<open>heartbeat_loop\<close>; an exception is logged and the turn does nothing more.\<close>

definition heartbeat_turn ::
  "('s, 't, 'd) llm_worker \<Rightarrow> clock \<Rightarrow> host \<Rightarrow> (int \<Rightarrow> models_body attempt) \<Rightarrow> string list \<Rightarrow> 's \<Rightarrow> 's" where
  "heartbeat_turn w c h srv active_tasks s =
     (case collect_target_report (gw_cfg (lw_gateway w)) (lw_settings w) h (if is_parser_pool w then None else Some srv) of
        Inl e \<Rightarrow> s
      | Inr t \<Rightarrow> report_worker_heartbeat (lw_gateway w) c \<lparr>wk_worker_id = lw_worker_id w, wk_worker_pool = lw_pool w,
            wk_target_id = WORKER_TARGET_ID (lw_settings w), wk_target_kind = lw_target_kind w,
            wk_active_jobs = len active_tasks, wk_last_seen = 0\<rparr> (report_target_heartbeat (lw_gateway w) c t s))"

definition refresh_model_catalog_turn ::
  "('s, 't, 'd) llm_worker \<Rightarrow> clock \<Rightarrow> (int \<Rightarrow> models_body attempt) \<Rightarrow> 's \<Rightarrow> 's" where
  "refresh_model_catalog_turn w c srv s = (case fetch_model_catalog (lw_settings w) True srv of
     Inl e \<Rightarrow> s | Inr cat \<Rightarrow> set_model_catalog (lw_gateway w) c cat s)"

definition lease_turn :: "('s, 't, 'd) llm_worker \<Rightarrow> clock \<Rightarrow> string list \<Rightarrow> 's \<Rightarrow> 's" where
  "lease_turn w c active_tasks s = fold (renew_job_lease (lw_gateway w) c) active_tasks s"

text \<open>One turn of \<open>run\<close>: the claimed job becomes an active task; \<open>_on_task_done\<close> removes it.\<close>

definition run_turn ::
  "('s, 't, 'd) llm_worker \<Rightarrow> clock \<Rightarrow> string list \<Rightarrow> 's \<Rightarrow> job option \<times> string list \<times> 's" where
  "run_turn w c active_tasks s =
     (case claim_dispatch_job (lw_gateway w) c (lw_worker_id w) (lw_pool w) (WORKER_TARGET_ID (lw_settings w))
             (Some (lw_target_kind w)) s of
        (None, s) \<Rightarrow> (None, active_tasks, s)
      | (Some job, s) \<Rightarrow> (Some job, if j_id job \<in> set active_tasks then active_tasks else active_tasks @ [j_id job], s))"

definition on_task_done :: "string \<Rightarrow> string list \<Rightarrow> string list" where
  "on_task_done job_id active_tasks = removeAll job_id active_tasks"

section \<open>Lemmas\<close>

text \<open>Every job is stored under its own identifier.\<close>

definition keyed :: "(string \<Rightarrow> job option) \<Rightarrow> bool" where
  "keyed J \<longleftrightarrow> (\<forall>i j. J i = Some j \<longrightarrow> j_id j = i)"

lemma keyedD: "keyed J \<Longrightarrow> J i = Some j \<Longrightarrow> j_id j = i"
  by (simp add: keyed_def)

lemma keyed_upd: "keyed J \<Longrightarrow> keyed (J(j_id j := Some j))"
  by (simp add: keyed_def)

text \<open>What the other processes do while an answer is streamed keeps a property of the control plane.\<close>

definition env_keeps :: "('s \<Rightarrow> bool) \<Rightarrow> 's stream_item list \<Rightarrow> bool" where
  "env_keeps P items \<longleftrightarrow> (\<forall>(t, env, line) \<in> set items. \<forall>s. P s \<longrightarrow> P (env s))"

definition server_keeps :: "('s \<Rightarrow> bool) \<Rightarrow> 's model_server \<Rightarrow> bool" where
  "server_keeps P srv \<longleftrightarrow> (\<forall>m msgs k st r. srv m msgs k = Response st r \<longrightarrow> env_keeps P (sr_body r))"

lemma stream_chat_body:
  assumes "fst (stream_chat ws True m srv) = Inr r" and "\<And>k st r. srv k = Response st r \<Longrightarrow> Q r"
  shows "Q r"
proof -
  have "Q r" if "fst (retry_loop reject failure srv attempts backoff attempt exc) = Inr r" for reject failure attempts backoff attempt exc
    using that
  proof (induction "nat (attempts + 1 - attempt)" arbitrary: attempt exc rule: less_induct)
    case less
    show ?case
    proof (cases "attempts < attempt")
      case True
      then show ?thesis using less.prems by (simp add: retry_loop.simps)
    next
      case False
      then have smaller: "nat (attempts + 1 - (attempt + 1)) < nat (attempts + 1 - attempt)" and le: "attempt \<le> attempts" by auto
      show ?thesis
        using less.prems less.hyps [OF smaller] assms(2) [of attempt]
        unfolding retry_loop_step [OF le] by (auto simp: verdict_def case_prod_beta split: if_splits attempt.splits option.splits)
    qed
  qed
  then show ?thesis using assms(1) by (auto simp: stream_chat_def split: if_splits)
qed

context gateway_store
begin

lemma finish_own:
  assumes "keyed (jobs (view s))"
  shows "jobs (view (finish_job g c j stage b w s)) (j_id j) = Some j"
proof -
  have "j_id j \<noteq> j_id r" if "open_root ((jobs (view s))(j_id j := Some j)) j = Some r" for r
    using that linked_child_root_distinct [of j] keyedD [OF assms]
    unfolding open_root_upd by (auto simp: open_root_def split: if_splits option.splits)
  then show ?thesis by (simp add: finish_jobs split: option.split)
qed

lemma keyed_finish: "keyed (jobs (view s)) \<Longrightarrow> keyed (jobs (view (finish_job g c j stage b w s)))"
  by (auto simp: finish_jobs keyed_def split: option.split)

lemma completed_own:
  assumes "keyed (jobs (view s))" and "jobs (view (mark_job_completed g c i r w s)) i = Some j"
  shows "j_status j = Completed \<and> j_result j = Some r"
proof (cases "jobs (view s) i")
  case None
  then show ?thesis using assms(2) by (simp add: mark_job_completed_def)
next
  case (Some k)
  then have id: "j_id k = i" using keyedD [OF assms(1)] by simp
  let ?k = "k\<lparr>j_status := Completed, j_finished_at := Some (now c), j_finished_at_ms := Some (now_ms c), j_result := Some r\<rparr>"
  have "jobs (view (mark_job_completed g c i r w s)) i = Some ?k"
    using finish_own [OF assms(1), of c ?k] by (simp add: mark_job_completed_eq [OF Some id] id)
  then show ?thesis using assms(2) by auto
qed

lemma failed_own:
  assumes "keyed (jobs (view s))" and "jobs (view (mark_job_failed g c i e w s)) i = Some j"
  shows "j_status j = Failed \<and> j_error j = Some e"
proof (cases "jobs (view s) i")
  case None
  then show ?thesis using assms(2) by (simp add: mark_job_failed_def)
next
  case (Some k)
  then have id: "j_id k = i" using keyedD [OF assms(1)] by simp
  let ?k = "k\<lparr>j_status := Failed, j_finished_at := Some (now c), j_finished_at_ms := Some (now_ms c), j_error := Some e\<rparr>"
  have "jobs (view (mark_job_failed g c i e w s)) i = Some ?k"
    using finish_own [OF assms(1), of c ?k] by (simp add: mark_job_failed_def mark_job_failed_from_record_eq Some id)
  then show ?thesis using assms(2) by auto
qed

lemma cancelled_own:
  assumes "keyed (jobs (view s))" and "jobs (view (mark_job_cancelled g c i w s)) i = Some j"
  shows "terminal (j_status j)"
proof (cases "jobs (view s) i")
  case None
  then show ?thesis using assms(2) by (simp add: mark_job_cancelled_def)
next
  case (Some k)
  then have id: "j_id k = i" using keyedD [OF assms(1)] by simp
  let ?k = "k\<lparr>j_status := Cancelled, j_finished_at := Some (now c), j_finished_at_ms := Some (now_ms c)\<rparr>"
  show ?thesis
  proof (cases "terminal (j_status k)")
    case True
    then show ?thesis using assms(2) Some by (simp add: mark_job_cancelled_eq [OF Some id])
  next
    case False
    then have "jobs (view (mark_job_cancelled g c i w s)) i = Some ?k"
      using finish_own [OF assms(1), of c ?k] by (simp add: mark_job_cancelled_eq [OF Some id] id)
    then show ?thesis using assms(2) by auto
  qed
qed

lemma generation_keyed:
  assumes "env_keeps (\<lambda>s. keyed (jobs (view s))) items" and "keyed (jobs (view s))"
  shows "keyed (jobs (view (snd (generation_loop g i d e items acc s))))"
  using assms
proof (induction items arbitrary: acc s d e)
  case Nil
  then show ?case by simp
next
  case (Cons it items)
  obtain t env line where it: "it = (t, env, line)" by (cases it)
  have k: "keyed (jobs (view (env s)))" and rest: "env_keeps (\<lambda>s. keyed (jobs (view s))) items"
    using Cons.prems by (auto simp: env_keeps_def it)
  show ?case using k Cons.IH [OF rest] by (cases line) (simp_all add: it Let_def)
qed

end

section \<open>A worker with connected stores\<close>

locale connected_worker = gateway_store R view g + chat: connected_chat C cview cs
  for R :: "('s, gkey, gval, string, event) redis" and view :: "'s \<Rightarrow> gspace" and g :: "'s gateway"
    and C :: "'t chat_redis" and cview :: "'t \<Rightarrow> chat_space" and cs :: "'t chat_store" +
  fixes w :: "('s, 't, 'd) llm_worker"
  assumes gateway: "lw_gateway w = g" and writer: "cw_chat (lw_writer w) = cs"
begin

lemma reply_eq:
  assumes "plain_user (j_username job)"
  shows "\<exists>sd. reply w c job content st = (Inr (), st\<lparr>w_conv := sd\<rparr>)
    \<and> append_message_cw (lw_writer w) c (j_username job) ''assistant'' content (Some (resolve_job_thread_id job)) (w_conv st) = (Inr (), sd)"
proof -
  have "fst (append_message cs c (j_username job) ''assistant'' content (Some (resolve_job_thread_id job)) (fst (w_conv st))) = Inr ()"
    using chat.append_refines [OF assms assms] by blast
  then show ?thesis
    by (cases "append_message cs c (j_username job) ''assistant'' content (Some (resolve_job_thread_id job)) (fst (w_conv st))")
      (simp add: reply_def append_message_cw_def then_mirror_def writer)
qed

lemma run_generation_keyed:
  assumes "server_keeps (\<lambda>s. keyed (jobs (view s))) srv" and "keyed (jobs (view s))"
  shows "keyed (jobs (view (snd (run_generation w srv i m h p d e s))))"
proof (cases "fst (stream_chat (lw_settings w) True m (srv m (fst (prepare_ollama_messages_with_metrics h p))))")
  case (Inl a)
  then show ?thesis using assms(2) by (simp add: run_generation_def Let_def)
next
  case (Inr r)
  then have "env_keeps (\<lambda>s. keyed (jobs (view s))) (sr_body r)"
    by (rule stream_chat_body) (use assms(1) in \<open>auto simp: server_keeps_def\<close>)
  from generation_keyed [OF this assms(2), of i d e "[]"] show ?thesis
    using assms(2) Inr by (auto simp: run_generation_def Let_def gateway split: prod.split sum.split)
qed

lemma answer_keyed:
  assumes "server_keeps (\<lambda>s. keyed (jobs (view s))) srv" and "keyed (jobs (view s))"
  shows "keyed (jobs (view (snd (answer_job w srv job s))))"
proof -
  note gen = run_generation_keyed [OF assms(1)]
  have "keyed (jobs (view (snd (run_file_chat_job w srv job s))))"
    unfolding run_file_chat_job_def Let_def gateway
    using gen [OF assms(2)] gen [OF gen [OF assms(2)]]
    by (auto split: prod.split sum.split) (metis snd_conv)+
  then show ?thesis using gen [OF assms(2)] by (simp add: answer_job_def)
qed

end

text \<open>
  What the end of a job leaves: a terminal job, and at most one message of the assistant,
  which for a completed job is its result.
\<close>

definition settled ::
  "('s \<Rightarrow> gspace) \<Rightarrow> ('s, 't, 'd) llm_worker \<Rightarrow> clock \<Rightarrow> job \<Rightarrow> ('s, 't, 'd) wstate \<Rightarrow> job_status \<Rightarrow> ('s, 't, 'd) wstate \<Rightarrow> bool" where
  "settled view w c job st status st' \<longleftrightarrow>
     (let said = (\<lambda>t. append_message_cw (lw_writer w) c (j_username job) ''assistant'' t
                    (Some (resolve_job_thread_id job)) (w_conv st) = (Inr (), w_conv st'))
      in (\<forall>j. jobs (view (w_server st')) (j_id job) = Some j \<longrightarrow> terminal (j_status j))
       \<and> (w_conv st' = w_conv st \<or> (\<exists>t. said t))
       \<and> (status = Completed \<longrightarrow> (\<exists>t. said t \<and> (\<forall>j. jobs (view (w_server st')) (j_id job) = Some j
            \<longrightarrow> j_status j = Completed \<and> j_result j = Some t))))"

lemma settledI:
  assumes "\<And>j. jobs (view (w_server st')) (j_id job) = Some j \<Longrightarrow> terminal (j_status j)" and "status \<noteq> Completed"
    and "w_conv st' = w_conv st \<or> (\<exists>t. append_message_cw (lw_writer w) c (j_username job) ''assistant'' t
           (Some (resolve_job_thread_id job)) (w_conv st) = (Inr (), w_conv st'))"
  shows "settled view w c job st status st'"
  using assms by (simp add: settled_def)

context connected_worker
begin

lemma settled_marks:
  assumes k: "keyed (jobs (view (w_server st)))" and "status \<noteq> Completed"
    and sd: "append_message_cw (lw_writer w) c (j_username job) ''assistant'' t (Some (resolve_job_thread_id job)) (w_conv st) = (Inr (), sd)"
  shows "settled view w c job st status (fail_job w c job e (st\<lparr>w_conv := sd\<rparr>))"
    and "settled view w c job st status (fail_job w c job e st)"
    and "settled view w c job st status (st\<lparr>w_conv := sd, w_server := mark_job_cancelled g c (j_id job) wid (w_server st)\<rparr>)"
proof -
  have failed: "terminal (j_status j)" if "jobs (view (mark_job_failed g c (j_id job) e wid (w_server st))) (j_id job) = Some j" for j wid
    using failed_own [OF k that] by simp
  have said: "\<exists>t. append_message_cw (lw_writer w) c (j_username job) ''assistant'' t (Some (resolve_job_thread_id job)) (w_conv st) = (Inr (), sd)"
    using sd by blast
  show "settled view w c job st status (fail_job w c job e (st\<lparr>w_conv := sd\<rparr>))"
    by (rule settledI [OF _ assms(2)]) (use said failed in \<open>simp_all add: fail_job_def gateway\<close>)
  show "settled view w c job st status (fail_job w c job e st)"
    by (rule settledI [OF _ assms(2)]) (use failed in \<open>simp_all add: fail_job_def gateway\<close>)
  show "settled view w c job st status (st\<lparr>w_conv := sd, w_server := mark_job_cancelled g c (j_id job) wid (w_server st)\<rparr>)"
    by (rule settledI [OF _ assms(2)]) (use said cancelled_own [OF k] in simp_all)
qed

lemma handle_settles:
  assumes k: "keyed (jobs (view (w_server st)))" and "plain_user (j_username job)"
  shows "\<exists>status err st'. handle_exception w c job e st = (Inr (status, err), st') \<and> settled view w c job st status st'"
proof -
  define sd where "sd content = snd (append_message_cw (lw_writer w) c (j_username job) ''assistant'' content
    (Some (resolve_job_thread_id job)) (w_conv st))" for content
  have sd: "reply w c job content st = (Inr (), st\<lparr>w_conv := sd content\<rparr>)"
    "append_message_cw (lw_writer w) c (j_username job) ''assistant'' content (Some (resolve_job_thread_id job)) (w_conv st) = (Inr (), sd content)"
    for content
    using reply_eq [OF assms(2), of c content st] by (auto simp: sd_def)
  note marks = settled_marks [OF k _ sd(2)]
  have fail: "\<exists>status err st'. obind (reply w c job content st) (\<lambda>_ st. (Inr (Failed, x), fail_job w c job content st)) = (Inr (status, err), st')
      \<and> settled view w c job st status st'" for content x
    using marks(1) [where status = Failed] unfolding sd(1) obind_simps by blast
  show ?thesis
  proof (cases e)
    case JobCancelledByUser
    show ?thesis using marks(3) [where status = Cancelled]
      unfolding JobCancelledByUser handle_exception.simps sd(1) obind_simps gateway by fastforce
  next
    case JobDeadlineExceeded
    show ?thesis using marks(2) [where status = Failed]
      unfolding JobDeadlineExceeded handle_exception.simps by blast
  qed (use fail in \<open>simp_all only: handle_exception.simps Let_def\<close>)
qed

lemma process_settles:
  assumes "server_keeps (\<lambda>s. keyed (jobs (view s))) srv" and k: "keyed (jobs (view (w_server st)))"
    and u: "plain_user (j_username job)"
  shows "\<exists>status err st'. process_llm_job w c srv job st = (Inr (status, err), st') \<and> settled view w c job st status st'"
proof (cases "is_cancel_requested g (j_id job) (w_server st)")
  case True
  obtain sd where "reply w c job CANCELLED_TEXT st = (Inr (), st\<lparr>w_conv := sd\<rparr>)"
    "append_message_cw (lw_writer w) c (j_username job) ''assistant'' CANCELLED_TEXT (Some (resolve_job_thread_id job)) (w_conv st) = (Inr (), sd)"
    using reply_eq [OF u] by blast
  then show ?thesis
    using True by (auto simp: process_llm_job_def try_job_def gateway settled_def Let_def dest: cancelled_own [OF k])
next
  case False
  obtain r s where a: "answer_job w srv job (w_server st) = (r, s)" by fastforce
  then have ks: "keyed (jobs (view s))" using answer_keyed [OF assms(1) k] by (metis snd_conv)
  show ?thesis
  proof (cases r)
    case (Inl e)
    then have "process_llm_job w c srv job st = handle_exception w c job e (st\<lparr>w_server := s\<rparr>)"
      using False a by (simp add: process_llm_job_def try_job_def gateway)
    then show ?thesis
      using handle_settles [of "st\<lparr>w_server := s\<rparr>" job c e] ks u by (fastforce simp: settled_def Let_def)
  next
    case (Inr t)
    obtain sd where "reply w c job t (st\<lparr>w_server := s\<rparr>) = (Inr (), st\<lparr>w_server := s, w_conv := sd\<rparr>)"
      "append_message_cw (lw_writer w) c (j_username job) ''assistant'' t (Some (resolve_job_thread_id job)) (w_conv st) = (Inr (), sd)"
      using reply_eq [OF u, of c t "st\<lparr>w_server := s\<rparr>"] by auto
    then show ?thesis
      using False a Inr by (auto simp: process_llm_job_def try_job_def gateway settled_def Let_def dest: completed_own [OF ks])
  qed
qed

end

section \<open>Workers on the in-memory servers\<close>

definition mem_worker :: "settings \<Rightarrow> worker_pool \<Rightarrow> readers \<Rightarrow> (gspace, chat_space, tables) llm_worker" where
  "mem_worker cfg pool rd = \<lparr>lw_gateway = mem_gateway cfg, lw_writer = mem_coordinator,
     lw_settings = default_worker_settings, lw_pool = pool, lw_worker_id = ''w1'', lw_target_kind = ''cpu'', lw_readers = rd\<rparr>"

interpretation memw: connected_worker mem_redis "\<lambda>s. s" "mem_gateway cfg" mem_redis "\<lambda>s. s" mem_chat "mem_worker cfg pool rd"
  for cfg pool rd
  by unfold_locales (simp_all add: mem_worker_def mem_coordinator_def)

section \<open>Properties\<close>

text \<open>
  C38: a worker settles every chat or file-chat job it processes. Whatever the model server
  answers (connection failures, error statuses, a stream that breaks, is not JSON, or
  exceeds the deadline) and whatever other processes do to the control plane meanwhile, as
  long as they keep jobs under their identifiers: no exception escapes, the job is terminal
  afterwards unless its record is gone (the stores do not fail), at most one message of the assistant is added to
  the conversation, and a completed job's result is that message.
\<close>

theorem worker_settles:
  assumes "server_keeps (\<lambda>s. keyed (jobs s)) srv" and "keyed (jobs (w_server st))" and "plain_user (j_username job)"
  shows "\<exists>status err st'. process_llm_job (mem_worker cfg pool rd) c srv job st = (Inr (status, err), st')
    \<and> settled (\<lambda>s. s) (mem_worker cfg pool rd) c job st status st'"
  using assms by (rule memw.process_settles)

theorem worker_settles_witness:
  "\<exists>status err st'. process_llm_job (mem_worker default_settings PoolChat demo_readers) \<lparr>now = 110, now_ms = 110000\<rparr> (\<lambda>_ _ _. Raised (TransportError ''refused''))
      demo_job \<lparr>w_server = demo_space, w_conv = (empty_keyspace, empty_tables), w_staging = (\<lambda>_. None)\<rparr> = (Inr (status, err), st')
    \<and> (\<forall>j. jobs (w_server st') ''j1'' = Some j \<longrightarrow> terminal (j_status j))"
proof -
  have "server_keeps (\<lambda>s. keyed (jobs s)) (\<lambda>_ _ _. Raised (TransportError ''refused''))" by (simp add: server_keeps_def)
  moreover have "keyed (jobs demo_space)" by (simp add: demo_jobs keyed_def demo_job_def)
  moreover have "plain_user (j_username demo_job)" by (simp add: plain_user_def demo_job_def)
  ultimately show ?thesis
    using worker_settles [of "\<lambda>_ _ _. Raised (TransportError ''refused'')"
      "\<lparr>w_server = demo_space, w_conv = (empty_keyspace, empty_tables), w_staging = (\<lambda>_. None)\<rparr>" demo_job
      default_settings PoolChat demo_readers "\<lparr>now = 110, now_ms = 110000\<rparr>"]
    by (auto simp: settled_def Let_def demo_job_def)
qed

text \<open>Other processes leave the event stream of the job alone while its answer is streamed.\<close>

definition events_untouched :: "('s \<Rightarrow> gspace) \<Rightarrow> string \<Rightarrow> 's stream_item list \<Rightarrow> bool" where
  "events_untouched view job_id items \<longleftrightarrow> (\<forall>(t, env, line) \<in> set items. \<forall>s.
     streams (view (env s)) (EventsKey job_id) = streams (view s) (EventsKey job_id))"

abbreviation token_events :: "string list \<Rightarrow> event list" where
  "token_events tokens \<equiv> map (\<lambda>t. bare_event (EvToken t)) tokens"

context gateway_store
begin

lemma emit_token_stream:
  "streams (view (emit_event g i (bare_event (EvToken t)) s)) (EventsKey i) = streams (view s) (EventsKey i) @ [bare_event (EvToken t)]"
  by (auto simp: emit_event_def Let_def get_distinct_root_job_id_def bare_event_def split: option.split)

lemma generation_events:
  assumes "events_untouched view i items"
  shows "\<exists>tokens. streams (view (snd (generation_loop g i d True items acc s))) (EventsKey i)
      = streams (view s) (EventsKey i) @ token_events tokens
    \<and> (\<forall>answer. fst (generation_loop g i d True items acc s) = Inr answer \<longrightarrow> answer = acc @ concat tokens)"
  using assms
proof (induction items arbitrary: acc s)
  case Nil
  show ?case by (rule exI [of _ "[]"]) simp
next
  case (Cons it items)
  obtain t env line where it: "it = (t, env, line)" by (cases it)
  have same: "streams (view (env s)) (EventsKey i) = streams (view s) (EventsKey i)"
    and rest: "events_untouched view i items" using Cons.prems by (auto simp: events_untouched_def it)
  note IH = Cons.IH [OF rest]
  show ?case
  proof (cases line)
    case (Chunk content response finished)
    define tok where "tok = (case str_or content response of None \<Rightarrow> [] | Some x \<Rightarrow> x)"
    define s1 where "s1 = (if tok \<noteq> [] then emit_event g i (bare_event (EvToken tok)) (env s) else env s)"
    have s1: "streams (view s1) (EventsKey i) = streams (view s) (EventsKey i) @ token_events (if tok \<noteq> [] then [tok] else [])"
      by (simp add: s1_def emit_token_stream same)
    have loop: "generation_loop g i d True (it # items) acc s =
        (if d \<noteq> 0 \<and> d \<le> t then (Inl JobDeadlineExceeded, env s)
         else if is_cancel_requested g i (env s) then (Inl JobCancelledByUser, env s)
         else if finished then (Inr (acc @ tok), s1) else generation_loop g i d True items (acc @ tok) s1)"
      unfolding it Chunk generation_loop.simps Let_def stream_line.case tok_def [symmetric] s1_def by simp
    consider "generation_loop g i d True (it # items) acc s = (Inl JobDeadlineExceeded, env s)"
      | "generation_loop g i d True (it # items) acc s = (Inl JobCancelledByUser, env s)"
      | "generation_loop g i d True (it # items) acc s = (Inr (acc @ tok), s1)"
      | "generation_loop g i d True (it # items) acc s = generation_loop g i d True items (acc @ tok) s1"
      unfolding loop by presburger
    then show ?thesis
    proof cases
      case 3
      then show ?thesis using s1 by (intro exI [of _ "if tok \<noteq> [] then [tok] else []"]) auto
    next
      case 4
      obtain tokens where "streams (view (snd (generation_loop g i d True items (acc @ tok) s1))) (EventsKey i)
          = streams (view s1) (EventsKey i) @ token_events tokens"
        "\<forall>answer. fst (generation_loop g i d True items (acc @ tok) s1) = Inr answer \<longrightarrow> answer = (acc @ tok) @ concat tokens"
        using IH [of "acc @ tok" s1] by blast
      then show ?thesis unfolding 4 using s1 by (intro exI [of _ "(if tok \<noteq> [] then [tok] else []) @ tokens"]) auto
    qed (auto simp: same intro!: exI [of _ "[]"])
  next
    case BlankLine
    then show ?thesis using IH [of acc "env s"] by (simp add: it same)
  qed (auto simp: it same Let_def intro!: exI [of _ "[]"] split: if_splits)
qed

end

context connected_worker
begin

lemma run_generation_events:
  assumes "\<And>st r k. srv m (fst (prepare_ollama_messages_with_metrics h p)) k = Response st r \<Longrightarrow> events_untouched view i (sr_body r)"
  shows "\<exists>tokens. streams (view (snd (run_generation w srv i m h p d True s))) (EventsKey i)
      = streams (view s) (EventsKey i) @ token_events tokens
    \<and> (\<forall>answer. fst (run_generation w srv i m h p d True s) = Inr answer
        \<longrightarrow> answer = (if py_strip (concat tokens) = [] then NO_ANSWER_TEXT else concat tokens))"
proof (cases "is_parser_pool w \<or> (\<exists>e. fst (stream_chat (lw_settings w) True m (srv m (fst (prepare_ollama_messages_with_metrics h p)))) = Inl e)")
  case True
  then show ?thesis by (intro exI [of _ "[]"]) (auto simp: run_generation_def Let_def)
next
  case False
  then obtain r where r: "fst (stream_chat (lw_settings w) True m (srv m (fst (prepare_ollama_messages_with_metrics h p)))) = Inr r"
    by (cases "fst (stream_chat (lw_settings w) True m (srv m (fst (prepare_ollama_messages_with_metrics h p))))") auto
  then have "events_untouched view i (sr_body r)" by (rule stream_chat_body) (use assms in blast)
  from generation_events [OF this, of d "[]" s] show ?thesis
    using False r by (cases "generation_loop g i d True (sr_body r) [] s")
      (auto simp: run_generation_def Let_def gateway split: sum.split)
qed

end

text \<open>
  C39: the user sees exactly the answer that is stored. While an answer is generated, the
  events added to the job's stream are the tokens of the model server, in order, also when
  the generation ends in an exception; and the answer it returns is the concatenation of
  these tokens, or the fixed text for an empty answer.
\<close>

theorem streamed_answer:
  assumes "\<And>st r k. srv model_name (fst (prepare_ollama_messages_with_metrics history prompt)) k = Response st r
      \<Longrightarrow> events_untouched (\<lambda>s. s) job_id (sr_body r)"
  shows "\<exists>tokens. streams (snd (run_generation (mem_worker cfg pool rd) srv job_id model_name history prompt deadline_at True s)) (EventsKey job_id)
      = streams s (EventsKey job_id) @ token_events tokens
    \<and> (\<forall>answer. fst (run_generation (mem_worker cfg pool rd) srv job_id model_name history prompt deadline_at True s) = Inr answer
        \<longrightarrow> answer = (if py_strip (concat tokens) = [] then NO_ANSWER_TEXT else concat tokens))"
  using assms by (rule memw.run_generation_events)

definition demo_server :: "gspace model_server" where
  "demo_server = (\<lambda>_ _ _. Response 200 \<lparr>sr_body = [(0, id, Chunk (Some ''Hi'') None False), (0, id, Chunk None (Some '' you'') True)],
     sr_error = []\<rparr>)"

theorem streamed_answer_witness:
  "\<exists>tokens. streams (snd (run_generation (mem_worker default_settings PoolChat demo_readers) demo_server ''j1'' ''m'' [] ''q'' 0 True demo_space))
      (EventsKey ''j1'') = streams demo_space (EventsKey ''j1'') @ token_events tokens"
proof -
  have "events_untouched (\<lambda>s. s) ''j1'' (sr_body r)"
    if "demo_server ''m'' (fst (prepare_ollama_messages_with_metrics [] ''q'')) k = Response st r" for st r k
    using that by (auto simp: demo_server_def events_untouched_def)
  then show ?thesis
    using streamed_answer [of demo_server "''m''" "[]" "''q''" "''j1''" default_settings PoolChat demo_readers 0 demo_space] by blast
qed

section \<open>Answers about documents\<close>

lemma canned_stripped: "py_strip DOCUMENT_NO_INFORMATION_RESPONSE = DOCUMENT_NO_INFORMATION_RESPONSE"
proof -
  have "\<not> py_isspace (hd DOCUMENT_NO_INFORMATION_RESPONSE)" "\<not> py_isspace (last DOCUMENT_NO_INFORMATION_RESPONSE)"
    by (simp_all add: DOCUMENT_NO_INFORMATION_RESPONSE_def cp1251_def py_isspace_def)
  then show ?thesis by (simp add: py_strip_def py_lstrip_idle py_rstrip_idle)
qed

lemma canned_accepted: "\<not> response_requires_document_retry DOCUMENT_NO_INFORMATION_RESPONSE"
proof -
  have "py_lower DOCUMENT_NO_INFORMATION_RESPONSE \<noteq> []" by (simp add: DOCUMENT_NO_INFORMATION_RESPONSE_def cp1251_def py_lower_def)
  moreover have "\<not> contains_any DOCUMENT_RETRY_PATTERNS (py_lower DOCUMENT_NO_INFORMATION_RESPONSE)"
    unfolding contains_any_def DOCUMENT_RETRY_PATTERNS_def DOCUMENT_NO_INFORMATION_RESPONSE_def
    by (subst lower_cp1251) (simp, simp add: lower_code_def cp1251_upper_def contains_cp1251)
  ultimately show ?thesis by (simp add: response_requires_document_retry_def canned_stripped)
qed

lemma normalized_answer:
  assumes "\<not> response_requires_document_retry answer"
  shows "\<not> response_requires_document_retry (normalize_document_response answer)
    \<and> (normalize_document_response answer = DOCUMENT_NO_INFORMATION_RESPONSE
       \<or> \<not> contains_any DOCUMENT_NO_INFO_PATTERNS (py_lower (normalize_document_response answer)))"
  using assms canned_accepted
  by (simp add: normalize_document_response_def response_requires_document_retry_def Let_def)

text \<open>
  C40: what a user is told about uploaded documents. The answer of a file-chat job, whatever
  the model said in one or two attempts, is not empty and never claims that the files
  cannot be read; and an answer that says the documents lack the information is exactly the
  fixed sentence that the prompt asks for.
\<close>

theorem file_chat_answer:
  assumes "run_file_chat_job w srv job s = (Inr answer, s')"
  shows "\<not> response_requires_document_retry answer
    \<and> (answer = DOCUMENT_NO_INFORMATION_RESPONSE \<or> \<not> contains_any DOCUMENT_NO_INFO_PATTERNS (py_lower answer))"
proof -
  obtain x where "\<not> response_requires_document_retry x" "answer = normalize_document_response x"
    using assms canned_accepted by (auto simp: run_file_chat_job_def Let_def split: prod.splits sum.splits if_splits)
  then show ?thesis using normalized_answer by blast
qed

definition silent_server :: "gspace model_server" where
  "silent_server = (\<lambda>_ _ _. Response 200 \<lparr>sr_body = [], sr_error = []\<rparr>)"

theorem file_chat_answer_witness:
  "\<exists>answer s'. run_file_chat_job (mem_worker default_settings PoolChat demo_readers) silent_server demo_job demo_space = (Inr answer, s')
     \<and> \<not> response_requires_document_retry answer"
proof -
  let ?w = "mem_worker default_settings PoolChat demo_readers"
  have "stream_chat default_worker_settings True ''m'' (\<lambda>_. Response 200 r) = (Inr r, [])" for r :: "gspace stream_item list stream_response"
    by (simp add: stream_chat_def retry_loop.simps reject_404_def default_worker_settings_def is_success_def)
  then have "run_generation ?w silent_server ''j1'' ''m'' [] ''hi'' 520 True demo_space = (Inr NO_ANSWER_TEXT, demo_space)"
    by (simp add: run_generation_def mem_worker_def silent_server_def)
  then obtain answer s' where a: "run_file_chat_job ?w silent_server demo_job demo_space = (Inr answer, s')"
    by (simp add: run_file_chat_job_def demo_job_def meta_text_def meta_flag_def)
  from file_chat_answer [OF a] a show ?thesis by blast
qed

end
