(* ===== verification/Model_Policy.thy ===== *)
theory Model_Policy
  imports Session
begin

text \<open>
  Which models a user may use (\<open>auth_kerberos.py\<close>, \<open>config.py\<close>, \<open>app.py\<close>): the policy
  directory with one category of models per folder, the model registry, the groups that open
  a category, and the choice of the model of a request. The files are values of a JSON type;
  Python's dictionaries are association lists in insertion order.
\<close>

section \<open>JSON documents\<close>

datatype json = JNull | JBool bool | JInt int | JStr string | JList "json list" | JObj "(string \<times> json) list"

text \<open>\<open>bool(x)\<close>, and \<open>d.get(k)\<close> on a dictionary.\<close>

fun truthy :: "json \<Rightarrow> bool" where
  "truthy JNull = False"
| "truthy (JBool b) = b"
| "truthy (JInt i) = (i \<noteq> 0)"
| "truthy (JStr s) = (s \<noteq> [])"
| "truthy (JList xs) = (xs \<noteq> [])"
| "truthy (JObj kvs) = (kvs \<noteq> [])"

type_synonym dict = "(string \<times> json) list"

definition flag :: "dict \<Rightarrow> string \<Rightarrow> bool" where
  "flag d k = (case map_of d k of None \<Rightarrow> False | Some v \<Rightarrow> truthy v)"

text \<open>\<open>d.get("enabled", True) is False\<close>.\<close>

definition disabled :: "dict \<Rightarrow> bool" where
  "disabled d = (map_of d ''enabled'' = Some (JBool False))"

text \<open>
  \<open>str\<close> of a value that is not a text is the argument \<open>py_str\<close>. \<open>for x in v\<close> on a value that
  cannot be iterated is a \<open>TypeError\<close>; the keys of a dictionary and the characters of a text
  are texts.
\<close>

definition json_text :: "(json \<Rightarrow> string) \<Rightarrow> json \<Rightarrow> string" where
  "json_text py_str v = (case v of JStr s \<Rightarrow> s | _ \<Rightarrow> py_str v)"

definition text_or_empty :: "(json \<Rightarrow> string) \<Rightarrow> json option \<Rightarrow> string" where
  "text_or_empty py_str v = (case v of None \<Rightarrow> [] | Some x \<Rightarrow> if truthy x then json_text py_str x else [])"

definition text_or_default :: "(json \<Rightarrow> string) \<Rightarrow> json option \<Rightarrow> string \<Rightarrow> string" where
  "text_or_default py_str v dflt = (case v of None \<Rightarrow> dflt | Some x \<Rightarrow> if truthy x then json_text py_str x else dflt)"

fun json_items :: "json \<Rightarrow> exn + json list" where
  "json_items (JList xs) = Inr xs"
| "json_items (JObj kvs) = Inr (map (JStr \<circ> fst) kvs)"
| "json_items (JStr s) = Inr (map (\<lambda>c. JStr [c]) s)"
| "json_items _ = Inl (TypeError ''object is not iterable'')"

section \<open>The files\<close>

text \<open>
  \<open>mf_policies\<close> is \<open>None\<close> if the policy directory is missing, else the name of every
  subdirectory with its policy file: \<open>None\<close> if there is none, \<open>Some None\<close> if reading or
  decoding fails. \<open>mf_registry\<close> is likewise the registry file.
\<close>

record model_files =
  mf_policies :: "(string \<times> json option option) list option"
  mf_registry :: "json option option"
  mf_str :: "json \<Rightarrow> string"

record policy_model =
  pm_model_key :: string
  pm_display_name :: string
  pm_requires_gpu :: bool
  pm_experimental :: bool
  pm_category :: string

record policy_category =
  pc_category :: string
  pc_display_name :: string
  pc_models :: "(string \<times> policy_model) list"

record registry_model =
  rm_model_key :: string
  rm_display_name :: string
  rm_category :: string
  rm_enabled_for_validation_user :: bool
  rm_requires_gpu :: bool
  rm_experimental :: bool
  rm_sort_order :: int

definition MODEL_POLICY_CATEGORY_ORDER :: "(string \<times> int) list" where
  "MODEL_POLICY_CATEGORY_ORDER = [(''general'', 0), (''coding'', 1), (''admin'', 2)]"

definition MODEL_POLICY_GENERAL_CATEGORY :: string where
  "MODEL_POLICY_GENERAL_CATEGORY = ''general''"

definition category_rank :: "string \<Rightarrow> int" where
  "category_rank k = (case map_of MODEL_POLICY_CATEGORY_ORDER k of None \<Rightarrow> 3 | Some i \<Rightarrow> i)"

definition normalize_policy_category_name :: "(json \<Rightarrow> string) \<Rightarrow> json option \<Rightarrow> string" where
  "normalize_policy_category_name py_str v = py_lower (py_strip (text_or_empty py_str v))"

text \<open>Texts are compared by their code points.\<close>

definition points :: "string \<Rightarrow> nat list" where
  "points s = map code_point s"

definition policy_category_sort_key :: "string \<Rightarrow> int \<times> nat list" where
  "policy_category_sort_key name = (category_rank (py_lower name), points (py_lower name))"

fun group_mapping_loop :: "string set \<Rightarrow> string list \<Rightarrow> string list" where
  "group_mapping_loop seen [] = []"
| "group_mapping_loop seen (raw_group # gs) =
     (let key = py_lower (py_strip raw_group) in
      if py_strip raw_group = [] then group_mapping_loop seen gs
      else if key \<in> seen then group_mapping_loop seen gs
      else key # group_mapping_loop (insert key seen) gs)"

definition parse_group_mapping :: "string \<Rightarrow> string list" where
  "parse_group_mapping v = group_mapping_loop {} (py_split_char CHR '','' v)"

definition get_configured_model_access_groups_for_category :: "auth_settings \<Rightarrow> string \<Rightarrow> string set" where
  "get_configured_model_access_groups_for_category cfg category_key =
     (if category_key = ''coding'' then set (parse_group_mapping (MODEL_ACCESS_CODING_GROUPS cfg))
      else if category_key = ''admin'' then set (parse_group_mapping (MODEL_ACCESS_ADMIN_GROUPS cfg))
      else {})"

section \<open>The registry\<close>

definition normalize_registry_policy_tier :: "(json \<Rightarrow> string) \<Rightarrow> json option \<Rightarrow> string" where
  "normalize_registry_policy_tier py_str v = (let normalized = normalize_policy_category_name py_str v in
     if normalized \<in> fst ` set MODEL_POLICY_CATEGORY_ORDER then normalized else [])"

text \<open>\<open>str(d.get(k) or key).strip() or key\<close>.\<close>

definition display_name_or :: "(json \<Rightarrow> string) \<Rightarrow> dict \<Rightarrow> string \<Rightarrow> string" where
  "display_name_or py_str d key = (let n = py_strip (text_or_default py_str (map_of d ''display_name'') key) in if n = [] then key else n)"

definition registry_entry :: "(json \<Rightarrow> string) \<Rightarrow> dict \<Rightarrow> string \<Rightarrow> registry_model" where
  "registry_entry py_str d model_key = \<lparr>rm_model_key = model_key,
     rm_display_name = display_name_or py_str d model_key,
     rm_category = normalize_registry_policy_tier py_str (map_of d ''policy_tier''),
     rm_enabled_for_validation_user = flag d ''enabled_for_validation_user'',
     rm_requires_gpu = flag d ''gpu_required'',
     rm_experimental = flag d ''experimental'',
     rm_sort_order = (case map_of d ''installer_order'' of Some (JInt i) \<Rightarrow> i | _ \<Rightarrow> 3 * 1000)\<rparr>"

fun registry_loop :: "(json \<Rightarrow> string) \<Rightarrow> json list \<Rightarrow> (string \<times> registry_model) list \<Rightarrow> (string \<times> registry_model) list" where
  "registry_loop py_str [] cat = cat"
| "registry_loop py_str (JObj d # es) cat =
     (let model_key = py_strip (text_or_empty py_str (map_of d ''install_name'')) in
      registry_loop py_str es (if model_key = [] then cat else AList.update model_key (registry_entry py_str d model_key) cat))"
| "registry_loop py_str (_ # es) cat = registry_loop py_str es cat"

text \<open>\<open>payload.get\<close> runs before the check that the payload is a dictionary.\<close>

definition load_model_registry_catalog :: "model_files \<Rightarrow> exn + (string \<times> registry_model) list" where
  "load_model_registry_catalog fs = (case mf_registry fs of
     Some (Some (JObj d)) \<Rightarrow> (case map_of d ''models'' of
       Some (JList entries) \<Rightarrow> Inr (registry_loop (mf_str fs) entries [])
     | _ \<Rightarrow> Inr [])
   | Some (Some _) \<Rightarrow> Inl (AttributeError ''get'')
   | _ \<Rightarrow> Inr [])"

definition iter_registry_models :: "(string \<times> registry_model) list \<Rightarrow> string set option \<Rightarrow> bool \<Rightarrow> registry_model list" where
  "iter_registry_models registry_catalog category_keys validation_only =
     sort_key (\<lambda>m. (category_rank (rm_category m), rm_sort_order m, points (rm_model_key m)))
       (filter (\<lambda>m. (case category_keys of None \<Rightarrow> True | Some ks \<Rightarrow> rm_category m \<in> ks)
          \<and> (\<not> validation_only \<or> rm_enabled_for_validation_user m)) (map snd registry_catalog))"

section \<open>The policy directory\<close>

fun policy_models :: "(json \<Rightarrow> string) \<Rightarrow> string \<Rightarrow> json list \<Rightarrow> (string \<times> policy_model) list \<Rightarrow> (string \<times> policy_model) list" where
  "policy_models py_str category [] models = models"
| "policy_models py_str category (JObj d # es) models =
     (let model_key = py_strip (text_or_empty py_str (map_of d ''model_key'')) in
      policy_models py_str category es
        (if disabled d \<or> model_key = [] then models
         else AList.update model_key \<lparr>pm_model_key = model_key, pm_display_name = display_name_or py_str d model_key,
           pm_requires_gpu = flag d ''requires_gpu'', pm_experimental = flag d ''experimental'', pm_category = category\<rparr> models))"
| "policy_models py_str category (_ # es) models = policy_models py_str category es models"

fun policy_loop ::
  "(json \<Rightarrow> string) \<Rightarrow> (string \<times> json option option) list \<Rightarrow> (string \<times> policy_category) list \<Rightarrow> exn + (string \<times> policy_category) list" where
  "policy_loop py_str [] cat = Inr cat"
| "policy_loop py_str ((dir, Some (Some (JObj d))) # ds) cat =
     (let category = py_lower (py_strip (text_or_default py_str (map_of d ''category'') dir)) in
      if category = [] \<or> category \<noteq> py_lower dir \<or> disabled d then policy_loop py_str ds cat
      else (case (case map_of d ''models'' of None \<Rightarrow> Inr [] | Some v \<Rightarrow> json_items v) of
        Inl e \<Rightarrow> Inl e
      | Inr entries \<Rightarrow>
          let models = policy_models py_str category entries [] in
          policy_loop py_str ds (if models = [] then cat
            else AList.update category \<lparr>pc_category = category, pc_display_name = display_name_or py_str d dir, pc_models = models\<rparr> cat)))"
| "policy_loop py_str (_ # ds) cat = policy_loop py_str ds cat"

definition load_model_policy_catalog :: "model_files \<Rightarrow> exn + (string \<times> policy_category) list" where
  "load_model_policy_catalog fs = (case mf_policies fs of None \<Rightarrow> Inr []
     | Some dirs \<Rightarrow> policy_loop (mf_str fs) (sort_key (policy_category_sort_key \<circ> fst) dirs) [])"

section \<open>What a user may use\<close>

definition is_validation_user :: "auth_settings \<Rightarrow> user_info \<Rightarrow> bool" where
  "is_validation_user cfg user_info =
     (let configured = normalize_username (INSTALL_TEST_USER cfg) in
      configured \<noteq> [] \<and> normalize_username (ui_username user_info) = configured)"

text \<open>Both catalogs are given, the first is not empty.\<close>

definition get_allowed_model_categories_for_user ::
  "auth_settings \<Rightarrow> user_info \<Rightarrow> (string \<times> policy_category) list \<Rightarrow> (string \<times> registry_model) list \<Rightarrow> string list" where
  "get_allowed_model_categories_for_user cfg user_info catalog registry =
     (if is_validation_user cfg user_info then
        (let validation_categories = rm_category ` {m \<in> snd ` set registry. rm_enabled_for_validation_user m} in
         if registry \<noteq> [] \<and> validation_categories \<noteq> {} then filter (\<lambda>k. k \<in> validation_categories) (map fst catalog)
         else map fst catalog)
      else filter (\<lambda>k. k = MODEL_POLICY_GENERAL_CATEGORY
        \<or> get_configured_model_access_groups_for_category cfg k \<inter> set (groups_lower user_info) \<noteq> {}) (map fst catalog))"

record allowed_model = model_info +
  am_category :: string
  am_policy_display_name :: string
  am_requires_gpu :: bool
  am_experimental :: bool

type_synonym allowed_models = "(string \<times> allowed_model) list"

definition resolve_model_access_entry ::
  "model_info \<Rightarrow> string \<Rightarrow> string \<Rightarrow> policy_model option \<Rightarrow> registry_model option \<Rightarrow> allowed_model" where
  "resolve_model_access_entry live_model model_key category_key policy registry =
     (let chosen = text_or (map_option pm_display_name policy) (text_or (map_option rm_display_name registry) model_key);
          display_name = (if py_strip chosen = [] then model_key else py_strip chosen)
      in model_info.extend live_model (allowed_model.fields
           (text_or (Some category_key) (text_or (map_option pm_category policy) (text_or (map_option rm_category registry) [])))
           display_name
           (case policy of Some p \<Rightarrow> pm_requires_gpu p | None \<Rightarrow> (case registry of Some r \<Rightarrow> rm_requires_gpu r | None \<Rightarrow> False))
           (case policy of Some p \<Rightarrow> pm_experimental p | None \<Rightarrow> (case registry of Some r \<Rightarrow> rm_experimental r | None \<Rightarrow> False))))"

definition policy_of :: "(string \<times> policy_category) list \<Rightarrow> string \<Rightarrow> string \<Rightarrow> policy_model option" where
  "policy_of policy_catalog category_key model_key =
     (case map_of policy_catalog category_key of None \<Rightarrow> None | Some pc \<Rightarrow> map_of (pc_models pc) model_key)"

text \<open>The loop over registry models, and the loop over the models of one category.\<close>

definition allow_registry_model ::
  "catalog \<Rightarrow> (string \<times> policy_category) list \<Rightarrow> registry_model \<Rightarrow> allowed_models \<Rightarrow> allowed_models" where
  "allow_registry_model models policy_catalog rm allowed =
     (let model_key = py_strip (rm_model_key rm); category_key = py_strip (rm_category rm) in
      if model_key = [] then allowed
      else case map_of models model_key of None \<Rightarrow> allowed
      | Some live_model \<Rightarrow>
          AList.update model_key (resolve_model_access_entry live_model model_key category_key
            (if category_key = [] then None else policy_of policy_catalog category_key model_key) (Some rm)) allowed)"

definition allow_policy_model :: "catalog \<Rightarrow> string \<Rightarrow> string \<times> policy_model \<Rightarrow> allowed_models \<Rightarrow> allowed_models" where
  "allow_policy_model models category_key kp allowed =
     (case map_of models (fst kp) of None \<Rightarrow> allowed
      | Some live_model \<Rightarrow> AList.update (fst kp) (resolve_model_access_entry live_model (fst kp) category_key (Some (snd kp)) None) allowed)"

text \<open>\<open>live\<close> is what \<open>settings.get_available_models\<close> fetches.\<close>

definition get_allowed_models_for_user ::
  "auth_settings \<Rightarrow> model_files \<Rightarrow> catalog \<Rightarrow> user_info \<Rightarrow> catalog \<Rightarrow> exn + allowed_models" where
  "get_allowed_models_for_user cfg fs live user_info available_models =
     (let models = (if available_models = [] then live else available_models) in
      if models = [] then Inr []
      else case load_model_policy_catalog fs of Inl e \<Rightarrow> Inl e
      | Inr policy_catalog \<Rightarrow>
          if policy_catalog = [] then Inr []
          else (case load_model_registry_catalog fs of Inl e \<Rightarrow> Inl e
          | Inr registry \<Rightarrow> Inr
             (if is_validation_user cfg user_info \<and> registry \<noteq> [] then
                fold (allow_registry_model models policy_catalog) (iter_registry_models registry None True) []
              else
                let allowed_categories = get_allowed_model_categories_for_user cfg user_info policy_catalog registry in
                if allowed_categories = [] then []
                else if registry \<noteq> [] then
                  fold (allow_registry_model models policy_catalog) (iter_registry_models registry (Some (set allowed_categories)) False) []
                else fold (\<lambda>k. fold (allow_policy_model models k)
                    (case map_of policy_catalog k of None \<Rightarrow> [] | Some pc \<Rightarrow> pc_models pc)) allowed_categories [])))"

section \<open>The model of a request\<close>

definition pick_available_model :: "auth_settings \<Rightarrow> (string \<times> 'a model_info_scheme) list \<Rightarrow> string option" where
  "pick_available_model cfg models =
     (case models of [] \<Rightarrow> None
      | m # _ \<Rightarrow>
          if given (DEFAULT_MODEL cfg) \<and> the (DEFAULT_MODEL cfg) \<in> fst ` set models then DEFAULT_MODEL cfg
          else (case (if given (DEFAULT_MODEL cfg) then find (\<lambda>kv. Some (mi_name (snd kv)) = DEFAULT_MODEL cfg) models else None) of
            Some kv \<Rightarrow> Some (fst kv)
          | None \<Rightarrow> Some (fst m)))"

record model_choice =
  mc_key :: string
  mc_name :: string
  mc_description :: string

definition choice_of :: "string \<times> 'a model_info_scheme \<Rightarrow> model_choice" where
  "choice_of kv = \<lparr>mc_key = fst kv, mc_name = mi_name (snd kv), mc_description = mi_description (snd kv)\<rparr>"

definition NO_LLM_MODELS_AVAILABLE_ERROR :: string where
  "NO_LLM_MODELS_AVAILABLE_ERROR = ''No LLM models available''"

definition resolve_model_identifier :: "string option \<Rightarrow> allowed_models \<Rightarrow> model_choice option" where
  "resolve_model_identifier model_identifier allowed =
     (let candidate = strip_opt model_identifier in
      if candidate = [] then None
      else case map_of allowed candidate of
        Some info \<Rightarrow> Some (choice_of (candidate, info))
      | None \<Rightarrow> map_option choice_of (find (\<lambda>kv. mi_name (snd kv) = candidate) allowed))"

text \<open>\<open>(a or b or "").strip() or d\<close>.\<close>

definition requested_text :: "string option \<Rightarrow> string option \<Rightarrow> string \<Rightarrow> string" where
  "requested_text a b d = (let t = strip_opt (str_or a (str_or b (Some []))) in if t = [] then d else t)"

definition model_not_found :: "string \<Rightarrow> exn" where
  "model_not_found requested = LookupError (''LLM model not found: '' @ requested)"

definition resolve_model :: "auth_settings \<Rightarrow> allowed_models \<Rightarrow> user_info \<Rightarrow> bool \<Rightarrow> exn + model_choice" where
  "resolve_model cfg allowed current_user allow_fallback =
     (if allowed = [] then Inl (LookupError NO_LLM_MODELS_AVAILABLE_ERROR)
      else case resolve_model_identifier (ui_model_key current_user) allowed of Some m \<Rightarrow> Inr m
      | None \<Rightarrow> (case resolve_model_identifier (ui_model current_user) allowed of Some m \<Rightarrow> Inr m
        | None \<Rightarrow>
            if allow_fallback then
              (let fallback_key = text_or (pick_available_model cfg allowed) (fst (hd allowed)) in
               case map_of allowed fallback_key of None \<Rightarrow> Inl (KeyError fallback_key) | Some info \<Rightarrow> Inr (choice_of (fallback_key, info)))
            else Inl (model_not_found (requested_text (ui_model_key current_user) (ui_model current_user) ''unknown''))))"

definition resolve_requested_model ::
  "auth_settings \<Rightarrow> model_files \<Rightarrow> catalog \<Rightarrow> user_info \<Rightarrow> catalog \<Rightarrow> string option \<Rightarrow> bool \<Rightarrow> exn + model_choice" where
  "resolve_requested_model cfg fs live current_user available_models requested_model allow_user_fallback =
     (case get_allowed_models_for_user cfg fs live current_user available_models of Inl e \<Rightarrow> Inl e
      | Inr allowed \<Rightarrow>
          if allowed = [] then Inl (LookupError NO_LLM_MODELS_AVAILABLE_ERROR)
          else (case resolve_model_identifier requested_model allowed of Some m \<Rightarrow> Inr m
            | None \<Rightarrow> if strip_opt requested_model \<noteq> [] then Inl (model_not_found (strip_opt requested_model))
                else resolve_model cfg allowed current_user allow_user_fallback))"

definition resolve_runtime_model ::
  "auth_settings \<Rightarrow> model_files \<Rightarrow> catalog \<Rightarrow> user_info \<Rightarrow> catalog \<Rightarrow> string option \<Rightarrow> bool \<Rightarrow> exn + model_choice" where
  "resolve_runtime_model cfg fs live current_user available_models requested_model allow_user_fallback =
     (if available_models = [] then Inl (LookupError NO_LLM_MODELS_AVAILABLE_ERROR)
      else resolve_requested_model cfg fs live current_user available_models requested_model allow_user_fallback)"

text \<open>The model that a login assigns, with its status.\<close>

definition get_model_for_user :: "auth_settings \<Rightarrow> model_files \<Rightarrow> catalog \<Rightarrow> user_info \<Rightarrow> exn + model_choice \<times> string" where
  "get_model_for_user cfg fs live user_info =
     (case get_allowed_models_for_user cfg fs live user_info live of Inl e \<Rightarrow> Inl e
      | Inr allowed \<Rightarrow>
          if allowed = [] then
            (let placeholder = text_or (DEFAULT_MODEL cfg) ''llm-unavailable'' in
             Inr (\<lparr>mc_key = placeholder, mc_name = placeholder, mc_description = ''LLM runtime unavailable''\<rparr>, ''unavailable''))
          else
            (let selected_key = text_or (pick_available_model cfg allowed) (fst (hd allowed)) in
             case map_of allowed selected_key of None \<Rightarrow> Inl (KeyError selected_key)
             | Some info \<Rightarrow> Inr (choice_of (selected_key, info), mi_status info)))"


section \<open>Lemmas\<close>

lemma set_AList_update: "set (AList.update k v al) \<subseteq> insert (k, v) (set al)"
  by (induction al) (auto split: if_splits)

text \<open>What the loops put into their dictionaries.\<close>

definition registry_ok :: "(string \<times> registry_model) list \<Rightarrow> bool" where
  "registry_ok registry \<longleftrightarrow> (\<forall>x \<in> set registry. rm_model_key (snd x) = fst x \<and> fst x \<noteq> [] \<and> py_strip (fst x) = fst x
     \<and> rm_category (snd x) \<in> insert [] (fst ` set MODEL_POLICY_CATEGORY_ORDER))"

lemma registry_entry_facts: "rm_model_key (registry_entry py_str d k) = k"
    "rm_category (registry_entry py_str d k) \<in> insert [] (fst ` set MODEL_POLICY_CATEGORY_ORDER)"
  by (simp_all add: registry_entry_def normalize_registry_policy_tier_def Let_def)

lemma registry_ok_update: "registry_ok cat \<Longrightarrow> k \<noteq> [] \<Longrightarrow> py_strip k = k \<Longrightarrow> registry_ok (AList.update k (registry_entry py_str d k) cat)"
  using subsetD [OF set_AList_update [of k "registry_entry py_str d k" cat]] registry_entry_facts [of py_str d k]
  unfolding registry_ok_def by (metis fst_conv insertE snd_conv)

lemma registry_loop_ok: "registry_ok cat \<Longrightarrow> registry_ok (registry_loop py_str es cat)"
proof (induction py_str es cat rule: registry_loop.induct)
  case (2 py_str d es cat)
  then show ?case by (simp add: Let_def registry_ok_update)
qed simp_all

lemma load_registry_ok: "load_model_registry_catalog fs = Inr registry \<Longrightarrow> registry_ok registry"
proof -
  have "registry_ok []" by (simp add: registry_ok_def)
  with registry_loop_ok show "load_model_registry_catalog fs = Inr registry \<Longrightarrow> registry_ok registry"
    by (auto simp: load_model_registry_catalog_def split: option.splits json.splits)
qed

lemma iter_registry_set: "set (iter_registry_models registry ks validation_only) =
    {m \<in> snd ` set registry. (case ks of None \<Rightarrow> True | Some ks \<Rightarrow> rm_category m \<in> ks) \<and> (validation_only \<longrightarrow> rm_enabled_for_validation_user m)}"
  by (auto simp: iter_registry_models_def)

lemma category_names: "c \<in> insert [] (fst ` set MODEL_POLICY_CATEGORY_ORDER) \<Longrightarrow> py_strip c = c"
  by (auto simp: MODEL_POLICY_CATEGORY_ORDER_def text_evals)

lemma policy_loop_keys: "policy_loop py_str ds cat = Inr cat' \<Longrightarrow> [] \<notin> fst ` set cat \<Longrightarrow> [] \<notin> fst ` set cat'"
proof (induction py_str ds cat rule: policy_loop.induct)
  case (2 py_str dir d ds cat)
  have upd: "[] \<notin> fst ` set (AList.update k v cat)" if "k \<noteq> []" for k v
    using 2(4) that set_AList_update [of k v cat] by fastforce
  show ?case using 2 upd by (auto simp: Let_def split: if_splits sum.splits)
qed (auto simp: Let_def split: sum.splits)

lemma load_policy_keys: "load_model_policy_catalog fs = Inr cat \<Longrightarrow> [] \<notin> fst ` set cat"
  using policy_loop_keys [of "mf_str fs" _ "[]" cat] by (cases "mf_policies fs") (auto simp: load_model_policy_catalog_def)

lemma entry_live: "model_info.truncate (resolve_model_access_entry live key cat p r) = live"
  by (simp add: resolve_model_access_entry_def model_info.defs allowed_model.defs Let_def)

lemma entry_category: "cat \<noteq> [] \<Longrightarrow> am_category (resolve_model_access_entry live key cat p r) = cat"
  by (simp add: resolve_model_access_entry_def model_info.defs allowed_model.defs text_or_def Let_def)

lemma distinct_allow: "distinct (map fst al) \<Longrightarrow> distinct (map fst (allow_registry_model models pc rm al))"
    "distinct (map fst al) \<Longrightarrow> distinct (map fst (allow_policy_model models k kp al))"
  by (simp_all add: allow_registry_model_def allow_policy_model_def Let_def distinct_update split: option.split)

lemma allow_registry_set:
  assumes "kv \<in> set (fold (allow_registry_model models pc) rms [])"
  shows "\<exists>rm live. rm \<in> set rms \<and> fst kv = py_strip (rm_model_key rm) \<and> map_of models (fst kv) = Some live
    \<and> snd kv = resolve_model_access_entry live (fst kv) (py_strip (rm_category rm))
        (if py_strip (rm_category rm) = [] then None else policy_of pc (py_strip (rm_category rm)) (fst kv)) (Some rm)"
proof -
  let ?P = "\<lambda>al. \<forall>kv \<in> set al. \<exists>rm live. rm \<in> set rms \<and> fst kv = py_strip (rm_model_key rm) \<and> map_of models (fst kv) = Some live
    \<and> snd kv = resolve_model_access_entry live (fst kv) (py_strip (rm_category rm))
        (if py_strip (rm_category rm) = [] then None else policy_of pc (py_strip (rm_category rm)) (fst kv)) (Some rm)"
  have "?P (fold (allow_registry_model models pc) rms [])"
  proof (rule fold_invariant [where Q = "\<lambda>rm. rm \<in> set rms" and P = ?P])
    fix rm al assume rm: "rm \<in> set rms" and al: "?P al"
    show "?P (allow_registry_model models pc rm al)"
    proof
      fix kv assume kv: "kv \<in> set (allow_registry_model models pc rm al)"
      show "\<exists>rm live. rm \<in> set rms \<and> fst kv = py_strip (rm_model_key rm) \<and> map_of models (fst kv) = Some live
        \<and> snd kv = resolve_model_access_entry live (fst kv) (py_strip (rm_category rm))
            (if py_strip (rm_category rm) = [] then None else policy_of pc (py_strip (rm_category rm)) (fst kv)) (Some rm)"
      proof (cases "kv \<in> set al")
        case True
        with al show ?thesis by blast
      next
        case False
        obtain live where "map_of models (py_strip (rm_model_key rm)) = Some live"
            "kv \<in> set (AList.update (py_strip (rm_model_key rm)) (resolve_model_access_entry live (py_strip (rm_model_key rm)) (py_strip (rm_category rm))
              (if py_strip (rm_category rm) = [] then None else policy_of pc (py_strip (rm_category rm)) (py_strip (rm_model_key rm))) (Some rm)) al)"
          using kv False by (auto simp: allow_registry_model_def Let_def split: if_splits option.splits)
        then show ?thesis using False rm subsetD [OF set_AList_update] by fastforce
      qed
    qed
  qed simp_all
  with assms show ?thesis by blast
qed

lemma allow_policy_set:
  assumes "kv \<in> set (fold (\<lambda>k. fold (allow_policy_model models k) (case map_of pc k of None \<Rightarrow> [] | Some c \<Rightarrow> pc_models c)) ks [])"
  shows "\<exists>k c p live. k \<in> set ks \<and> map_of pc k = Some c \<and> (fst kv, p) \<in> set (pc_models c) \<and> map_of models (fst kv) = Some live
    \<and> snd kv = resolve_model_access_entry live (fst kv) k (Some p) None"
proof -
  let ?R = "\<lambda>kv. \<exists>k c p live. k \<in> set ks \<and> map_of pc k = Some c \<and> (fst kv, p) \<in> set (pc_models c) \<and> map_of models (fst kv) = Some live
    \<and> snd kv = resolve_model_access_entry live (fst kv) k (Some p) None"
  have "\<forall>kv \<in> set (fold (\<lambda>k. fold (allow_policy_model models k) (case map_of pc k of None \<Rightarrow> [] | Some c \<Rightarrow> pc_models c)) ks []). ?R kv"
  proof (rule fold_invariant [where Q = "\<lambda>k. k \<in> set ks" and P = "\<lambda>al. \<forall>kv \<in> set al. ?R kv"])
    fix k al assume k: "k \<in> set ks" and al: "\<forall>kv \<in> set al. ?R kv"
    show "\<forall>kv \<in> set (fold (allow_policy_model models k) (case map_of pc k of None \<Rightarrow> [] | Some c \<Rightarrow> pc_models c) al). ?R kv"
    proof (cases "map_of pc k")
      case None
      with al show ?thesis by simp
    next
      case (Some c)
      have "\<forall>kv \<in> set (fold (allow_policy_model models k) (pc_models c) al). ?R kv"
      proof (rule fold_invariant [where Q = "\<lambda>kp. kp \<in> set (pc_models c)" and P = "\<lambda>al. \<forall>kv \<in> set al. ?R kv"])
        fix kp al assume kp: "kp \<in> set (pc_models c)" and al: "\<forall>kv \<in> set al. ?R kv"
        show "\<forall>kv \<in> set (allow_policy_model models k kp al). ?R kv"
        proof (cases "map_of models (fst kp)")
          case None
          with al show ?thesis by (simp add: allow_policy_model_def)
        next
          case live: (Some live)
          have new: "?R (fst kp, resolve_model_access_entry live (fst kp) k (Some (snd kp)) None)"
            using k Some kp live by (intro exI [of _ k] exI [of _ c] exI [of _ "snd kp"] exI [of _ live]) simp
          have "set (allow_policy_model models k kp al) \<subseteq> insert (fst kp, resolve_model_access_entry live (fst kp) k (Some (snd kp)) None) (set al)"
            using set_AList_update by (simp add: allow_policy_model_def live)
          with new al show ?thesis by blast
        qed
      qed (use al in simp_all)
      then show ?thesis by (simp add: Some)
    qed
  qed simp_all
  with assms show ?thesis by blast
qed

text \<open>The category is open to the user.\<close>

definition category_open :: "auth_settings \<Rightarrow> user_info \<Rightarrow> string \<Rightarrow> bool" where
  "category_open cfg user_info k \<longleftrightarrow> k = MODEL_POLICY_GENERAL_CATEGORY
     \<or> get_configured_model_access_groups_for_category cfg k \<inter> set (groups_lower user_info) \<noteq> {}"

lemma distinct_allowed: "distinct (map fst (fold (allow_registry_model models pc) rms []))"
    "distinct (map fst (fold (\<lambda>k. fold (allow_policy_model models k) (policies k)) ks []))"
  by (rule fold_invariant [where Q = "\<lambda>_. True"], simp_all add: distinct_allow)
    (rule fold_invariant [where Q = "\<lambda>_. True"], simp_all, rule fold_invariant [where Q = "\<lambda>_. True"], simp_all add: distinct_allow)

lemma registry_allowed:
  assumes "(k, a) \<in> set (fold (allow_registry_model models pc) rms [])" and "set rms \<subseteq> snd ` set registry" and ok: "registry_ok registry"
  shows "\<exists>rm \<in> set rms. (k, rm) \<in> set registry \<and> map_of models k = Some (model_info.truncate a)
    \<and> (rm_category rm \<noteq> [] \<longrightarrow> am_category a = rm_category rm)"
proof -
  from allow_registry_set [OF assms(1)] obtain rm live p where
    rm: "rm \<in> set rms" "k = py_strip (rm_model_key rm)" "map_of models k = Some live"
      "a = resolve_model_access_entry live k (py_strip (rm_category rm)) p (Some rm)" by auto
  have "rm \<in> snd ` set registry" using rm(1) assms(2) by blast
  then have "(rm_model_key rm, rm) \<in> set registry" "py_strip (rm_model_key rm) = rm_model_key rm" "py_strip (rm_category rm) = rm_category rm"
    using ok category_names unfolding registry_ok_def by fastforce+
  with rm show ?thesis by (auto simp: entry_live entry_category)
qed

lemma policy_allowed:
  assumes "(k, a) \<in> set (fold (\<lambda>k. fold (allow_policy_model models k) (case map_of pc k of None \<Rightarrow> [] | Some c \<Rightarrow> pc_models c)) ks [])"
    and "[] \<notin> fst ` set pc"
  shows "map_of models k = Some (model_info.truncate a) \<and> am_category a \<in> set ks \<and> am_category a \<in> fst ` set pc
    \<and> (\<exists>c p. map_of pc (am_category a) = Some c \<and> (k, p) \<in> set (pc_models c))"
proof -
  from allow_policy_set [OF assms(1)] obtain k' c p live where
    p: "k' \<in> set ks" "map_of pc k' = Some c" "(k, p) \<in> set (pc_models c)" "map_of models k = Some live"
      "a = resolve_model_access_entry live k k' (Some p) None" by auto
  have in_pc: "k' \<in> fst ` set pc" using p(2) by (force dest: map_of_SomeD)
  then have "am_category a = k'" using assms(2) by (metis p(5) entry_category)
  with p in_pc show ?thesis by (auto simp: entry_live)
qed

lemma allowed_categories_open:
  "\<not> is_validation_user cfg user_info \<Longrightarrow> k \<in> set (get_allowed_model_categories_for_user cfg user_info catalog registry)
     \<longleftrightarrow> k \<in> fst ` set catalog \<and> category_open cfg user_info k"
  by (auto simp: get_allowed_model_categories_for_user_def category_open_def)

section \<open>Files for the examples\<close>

text \<open>Two categories; a model of the general one is disabled in its policy file but listed in the registry.\<close>

definition demo_files :: "bool \<Rightarrow> model_files" where
  "demo_files with_registry = \<lparr>mf_policies = Some
     [(''admin'', Some (Some (JObj [(''models'', JList [JObj [(''model_key'', JStr ''x'')]])]))),
      (''general'', Some (Some (JObj [(''models'', JList [JObj [(''model_key'', JStr ''m'')],
         JObj [(''model_key'', JStr ''d''), (''enabled'', JBool False)]])])))],
     mf_registry = (if with_registry then Some (Some (JObj [(''models'', JList
       [JObj [(''install_name'', JStr ''m''), (''policy_tier'', JStr ''general'')],
        JObj [(''install_name'', JStr ''d''), (''policy_tier'', JStr ''general'')],
        JObj [(''install_name'', JStr ''x''), (''policy_tier'', JStr ''admin'')]])])) else None),
     mf_str = (\<lambda>_. [])\<rparr>"

definition demo_models :: catalog where
  "demo_models = map (\<lambda>n. (n, \<lparr>mi_name = n, mi_description = n, mi_size = 1, mi_status = ''active''\<rparr>)) [''x'', ''m'', ''d'']"

section \<open>Properties\<close>

text \<open>
  C23: nobody gets a model that the policy keeps from him. Every model that a user may use is
  served right now, with the name and description of the server, and appears once. For a user
  who is not the validation user it belongs to a category that the policy directory defines
  and that is either the general one or open to one of his groups, and it has this category
  in the registry, or, without a registry, is an enabled model of this category; for the
  validation user it is a registry model that is enabled for him.
\<close>

theorem allowed_models_policy:
  assumes "get_allowed_models_for_user cfg fs live user_info available = Inr allowed" and "(k, a) \<in> set allowed"
    and models: "models = (if available = [] then live else available)"
  shows "map_of models k = Some (model_info.truncate a) \<and> distinct (map fst allowed)
    \<and> (\<exists>catalog registry. load_model_policy_catalog fs = Inr catalog \<and> load_model_registry_catalog fs = Inr registry
      \<and> (\<not> is_validation_user cfg user_info \<longrightarrow>
          am_category a \<in> fst ` set catalog \<and> category_open cfg user_info (am_category a)
          \<and> (if registry = [] then \<exists>c p. map_of catalog (am_category a) = Some c \<and> (k, p) \<in> set (pc_models c)
             else \<exists>rm. (k, rm) \<in> set registry \<and> rm_category rm = am_category a))
      \<and> (is_validation_user cfg user_info \<and> registry \<noteq> [] \<longrightarrow>
          (\<exists>rm. (k, rm) \<in> set registry \<and> rm_enabled_for_validation_user rm)))"
proof -
  obtain catalog registry where files: "load_model_policy_catalog fs = Inr catalog" "load_model_registry_catalog fs = Inr registry"
    using assms(1,2) by (auto simp: get_allowed_models_for_user_def Let_def split: if_splits sum.splits)
  note reg = load_registry_ok [OF files(2)]
  let ?cats = "get_allowed_model_categories_for_user cfg user_info catalog registry"
  consider (validation) "is_validation_user cfg user_info" "registry \<noteq> []"
      "allowed = fold (allow_registry_model models catalog) (iter_registry_models registry None True) []"
    | (registry) "registry \<noteq> []" "\<not> is_validation_user cfg user_info"
      "allowed = fold (allow_registry_model models catalog) (iter_registry_models registry (Some (set ?cats)) False) []"
    | (policy) "registry = []"
      "allowed = fold (\<lambda>k. fold (allow_policy_model models k) (case map_of catalog k of None \<Rightarrow> [] | Some pc \<Rightarrow> pc_models pc)) ?cats []"
    using assms(1,2) files by (auto simp: get_allowed_models_for_user_def models [symmetric] Let_def split: if_splits)
  then show ?thesis
  proof cases
    case validation
    have "set (iter_registry_models registry None True) \<subseteq> snd ` set registry" by (auto simp: iter_registry_set)
    from registry_allowed [OF assms(2) [unfolded validation(3)] this reg] show ?thesis
      using files validation(1,2) distinct_allowed(1) unfolding validation(3) by (fastforce simp: iter_registry_set)
  next
    case registry
    have sub: "set (iter_registry_models registry (Some (set ?cats)) False) \<subseteq> snd ` set registry" by (auto simp: iter_registry_set)
    from registry_allowed [OF assms(2) [unfolded registry(3)] sub reg] obtain rm where
      rm: "rm_category rm \<in> set ?cats" "(k, rm) \<in> set registry" "map_of models k = Some (model_info.truncate a)"
        "rm_category rm \<noteq> [] \<longrightarrow> am_category a = rm_category rm" by (auto simp: iter_registry_set)
    have cat: "rm_category rm \<in> fst ` set catalog" "category_open cfg user_info (rm_category rm)"
      using rm(1) allowed_categories_open [OF registry(2)] by simp_all
    then have "am_category a = rm_category rm" using load_policy_keys [OF files(1)] rm(4) by metis
    moreover have "distinct (map fst allowed)" unfolding registry(3) by (rule distinct_allowed)
    ultimately show ?thesis using rm files registry(1,2) cat by auto
  next
    case policy
    note p = policy_allowed [OF assms(2) [unfolded policy(2)] load_policy_keys [OF files(1)]]
    have "distinct (map fst allowed)" unfolding policy(2) by (rule distinct_allowed)
    then show ?thesis using p files policy(1) allowed_categories_open [of cfg user_info "am_category a" catalog registry] by auto
  qed
qed

lemma demo_allowed:
  "map_sum id (map (apsnd mi_name)) (get_allowed_models_for_user default_auth_settings (demo_files False) [] demo_user demo_models) = Inr [(''m'', ''m'')]"
  "map_sum id (map (apsnd mi_name)) (get_allowed_models_for_user default_auth_settings (demo_files True) [] demo_user demo_models) = Inr [(''d'', ''d''), (''m'', ''m'')]"
  by code_simp+

theorem allowed_models_policy_witness:
  "\<exists>allowed a. get_allowed_models_for_user default_auth_settings (demo_files True) [] demo_user demo_models = Inr allowed
     \<and> (''m'', a) \<in> set allowed \<and> am_category a = ''general''"
proof -
  let ?get = "get_allowed_models_for_user default_auth_settings (demo_files True) [] demo_user demo_models"
  obtain allowed where allowed: "?get = Inr allowed" "map (apsnd mi_name) allowed = [(''d'', ''d''), (''m'', ''m'')]"
    using demo_allowed(2) by (cases ?get) simp_all
  then obtain a where a: "(''m'', a) \<in> set allowed" by (auto simp: map_eq_Cons_conv)
  have "\<not> is_validation_user default_auth_settings demo_user" by code_simp
  then have "category_open default_auth_settings demo_user (am_category a)"
    using allowed_models_policy [OF allowed(1) a refl] by auto
  moreover have "groups_lower demo_user = []" by (simp add: groups_lower_def demo_user_def)
  ultimately have "am_category a = ''general''" by (simp add: category_open_def MODEL_POLICY_GENERAL_CATEGORY_def)
  with allowed(1) a show ?thesis by blast
qed

lemma choice_simps [simp]: "mc_key (choice_of kv) = fst kv" "mc_name (choice_of kv) = mi_name (snd kv)" "mc_description (choice_of kv) = mi_description (snd kv)"
  by (simp_all add: choice_of_def)

lemma resolve_identifier_sound:
  "resolve_model_identifier x allowed = Some m \<Longrightarrow> \<exists>kv \<in> set allowed. m = choice_of kv \<and> strip_opt x \<in> {fst kv, mi_name (snd kv)} \<and> strip_opt x \<noteq> []"
  by (fastforce simp: resolve_model_identifier_def find_Some_iff Let_def split: if_splits option.splits dest: map_of_SomeD)

lemma resolve_identifier_none:
  "resolve_model_identifier x allowed = None \<longleftrightarrow> strip_opt x = [] \<or> (\<forall>kv \<in> set allowed. strip_opt x \<notin> {fst kv, mi_name (snd kv)})"
proof (cases "strip_opt x = []")
  case True
  then show ?thesis by (simp add: resolve_model_identifier_def Let_def)
next
  case False
  show ?thesis
  proof (cases "map_of allowed (strip_opt x)")
    case None
    then have "strip_opt x \<notin> fst ` set allowed" by (simp add: map_of_eq_None_iff)
    then have "\<forall>kv \<in> set allowed. strip_opt x \<noteq> fst kv" by force
    with False None show ?thesis by (auto simp: resolve_model_identifier_def find_None_iff Let_def) blast
  next
    case (Some a)
    then have "\<exists>kv \<in> set allowed. strip_opt x = fst kv" by (force dest: map_of_SomeD)
    with False Some show ?thesis by (auto simp: resolve_model_identifier_def Let_def)
  qed
qed

lemma pick_available:
  assumes "models \<noteq> []"
  shows "\<exists>k \<in> fst ` set models. pick_available_model cfg models = Some k"
proof -
  obtain m ms where models: "models = m # ms" using assms by (cases models) simp_all
  let ?found = "if given (DEFAULT_MODEL cfg) then find (\<lambda>kv. Some (mi_name (snd kv)) = DEFAULT_MODEL cfg) models else None"
  consider (default) "given (DEFAULT_MODEL cfg) \<and> the (DEFAULT_MODEL cfg) \<in> fst ` set models"
    | (named) kv where "\<not> (given (DEFAULT_MODEL cfg) \<and> the (DEFAULT_MODEL cfg) \<in> fst ` set models)" "?found = Some kv"
    | (first) "\<not> (given (DEFAULT_MODEL cfg) \<and> the (DEFAULT_MODEL cfg) \<in> fst ` set models)" "?found = None"
    by fastforce
  then show ?thesis
  proof cases
    case default
    then obtain k where k: "DEFAULT_MODEL cfg = Some k" "given (DEFAULT_MODEL cfg)" "k \<in> fst ` set models" by (cases "DEFAULT_MODEL cfg") auto
    then have "pick_available_model cfg models = Some k" by (simp add: pick_available_model_def models)
    with k(3) show ?thesis by blast
  next
    case named
    then have "kv \<in> set models" by (auto simp: find_Some_iff split: if_splits)
    then have "fst kv \<in> fst ` set models" by simp
    moreover have "pick_available_model cfg models = Some (fst kv)"
      unfolding pick_available_model_def models list.case using named [unfolded models] by (simp only: if_False option.case)
    ultimately show ?thesis by blast
  next
    case first
    have "pick_available_model cfg models = Some (fst m)"
      unfolding pick_available_model_def models list.case using first [unfolded models] by (simp only: if_False option.case)
    then show ?thesis by (simp add: models)
  qed
qed

text \<open>
  Which model a name means: the one with this key, else the first one in the order of the
  list that has it as its name. The preferred model is the one that the configured default
  means, if its key is not empty, else the first one.
\<close>

definition designates :: "string \<Rightarrow> (string \<times> 'a model_info_scheme) list \<Rightarrow> string \<times> 'a model_info_scheme \<Rightarrow> bool" where
  "designates n models kv \<longleftrightarrow> n \<noteq> [] \<and> (\<exists>i < length models. kv = models ! i
     \<and> (if n \<in> fst ` set models then fst kv = n else mi_name (snd kv) = n \<and> (\<forall>j < i. mi_name (snd (models ! j)) \<noteq> n)))"

definition preferred :: "auth_settings \<Rightarrow> (string \<times> 'a model_info_scheme) list \<Rightarrow> string \<times> 'a model_info_scheme \<Rightarrow> bool" where
  "preferred cfg models kv \<longleftrightarrow> (if \<exists>d. designates (text_or (DEFAULT_MODEL cfg) []) models d \<and> fst d \<noteq> []
     then designates (text_or (DEFAULT_MODEL cfg) []) models kv else kv = hd models)"

text \<open>The same as a function.\<close>

definition meant :: "string \<Rightarrow> (string \<times> 'a model_info_scheme) list \<Rightarrow> (string \<times> 'a model_info_scheme) option" where
  "meant n models = (if n = [] then None else case map_of models n of
      Some info \<Rightarrow> Some (n, info) | None \<Rightarrow> find (\<lambda>kv. mi_name (snd kv) = n) models)"

lemma designates_meant:
  assumes "distinct (map fst models)"
  shows "designates n models kv \<longleftrightarrow> meant n models = Some kv"
proof (cases "map_of models n")
  case None
  then have "n \<notin> fst ` set models" by (simp add: map_of_eq_None_iff)
  then show ?thesis using None by (auto simp: designates_def meant_def find_Some_iff)
next
  case (Some info)
  then have key: "n \<in> fst ` set models" by (force dest: map_of_SomeD)
  have "kv \<in> set models \<and> fst kv = n \<longleftrightarrow> map_of models n = Some (snd kv) \<and> fst kv = n"
    using map_of_eq_Some_iff [OF assms, of n "snd kv"] by (cases kv) auto
  moreover have "designates n models kv \<longleftrightarrow> n \<noteq> [] \<and> kv \<in> set models \<and> fst kv = n"
    using key by (auto simp: designates_def in_set_conv_nth)
  ultimately show ?thesis by (cases kv) (auto simp: Some meant_def)
qed

lemma meant_in: "meant n models = Some kv \<Longrightarrow> kv \<in> set models"
  by (auto simp: meant_def find_Some_iff split: if_splits option.splits dest: map_of_SomeD)

lemma resolve_meant: "resolve_model_identifier x allowed = map_option choice_of (meant (strip_opt x) allowed)"
  by (simp add: resolve_model_identifier_def meant_def Let_def split: option.split)

lemma pick_meant:
  assumes "models \<noteq> []"
  shows "pick_available_model cfg models = Some (case meant (text_or (DEFAULT_MODEL cfg) []) models of Some kv \<Rightarrow> fst kv | None \<Rightarrow> fst (hd models))"
proof (cases "given (DEFAULT_MODEL cfg)")
  case False
  then have "text_or (DEFAULT_MODEL cfg) [] = []" by (cases "DEFAULT_MODEL cfg") (auto simp: text_or_def)
  then show ?thesis using False assms by (cases models) (simp_all add: pick_available_model_def meant_def)
next
  case True
  then obtain d where d: "DEFAULT_MODEL cfg = Some d" "d \<noteq> []" "text_or (DEFAULT_MODEL cfg) [] = d"
    by (cases "DEFAULT_MODEL cfg") (auto simp: text_or_def)
  obtain m ms where models: "models = m # ms" using assms by (cases models) simp_all
  show ?thesis
  proof (cases "map_of models d")
    case (Some info)
    then have "d \<in> fst ` set models" by (force dest: map_of_SomeD)
    then show ?thesis unfolding meant_def d(3) Some using d by (simp add: pick_available_model_def models)
  next
    case None
    then have "d \<notin> fst ` set models" by (simp add: map_of_eq_None_iff)
    then show ?thesis
      unfolding meant_def d(3) None using d
      by (cases "find (\<lambda>kv. mi_name (snd kv) = d) models") (simp_all add: pick_available_model_def models)
  qed
qed

lemma pick_preferred:
  assumes "distinct (map fst models)" and "models \<noteq> []" and k: "k = text_or (pick_available_model cfg models) (fst (hd models))"
  shows "\<exists>kv. preferred cfg models kv \<and> kv \<in> set models \<and> map_of models k = Some (snd kv) \<and> fst kv = k"
proof -
  have known: "map_of models (fst kv) = Some (snd kv)" if "kv \<in> set models" for kv
    using that assms(1) by (intro map_of_is_SomeI) simp_all
  have hd: "hd models \<in> set models" using assms(2) by simp
  note eq = preferred_def designates_meant [OF assms(1)] k pick_meant [OF assms(2)]
  show ?thesis
  proof (cases "meant (text_or (DEFAULT_MODEL cfg) []) models")
    case None
    then show ?thesis using hd known [OF hd] by (intro exI [of _ "hd models"]) (auto simp: eq text_or_def)
  next
    case (Some kv)
    note kv = meant_in [OF Some]
    show ?thesis
    proof (cases "fst kv = []")
      case True
      then show ?thesis using hd known [OF hd] Some by (intro exI [of _ "hd models"]) (auto simp: eq text_or_def)
    next
      case False
      then show ?thesis using kv known [OF kv] Some by (intro exI [of _ kv]) (auto simp: eq text_or_def)
    qed
  qed
qed

text \<open>
  C24: the model of a request. A request that names a model is served by the allowed model
  that the name means, by key before name; if no allowed model is meant, it is refused as not
  found instead of being given another one. A request without a name is served by what the
  model key of the session means, else by what its model name means, else, only where a
  fallback is permitted, by the preferred model, and is refused otherwise. Without allowed
  models the refusal says so.
\<close>

theorem runtime_model_choice:
  assumes "get_allowed_models_for_user cfg fs live user_info available = Inr allowed" and "available \<noteq> []" and "distinct (map fst allowed)"
    and "req = strip_opt requested" and "key = strip_opt (ui_model_key user_info)" and "name = strip_opt (ui_model user_info)"
  shows "case resolve_runtime_model cfg fs live user_info available requested fallback of
      Inr m \<Rightarrow> (\<exists>kv \<in> set allowed. m = choice_of kv \<and>
        (if req \<noteq> [] then designates req allowed kv
         else if \<exists>d. designates key allowed d then designates key allowed kv
         else if \<exists>d. designates name allowed d then designates name allowed kv
         else fallback \<and> preferred cfg allowed kv))
    | Inl e \<Rightarrow> if allowed = [] then e = LookupError NO_LLM_MODELS_AVAILABLE_ERROR
        else if req \<noteq> [] then \<not> (\<exists>d. designates req allowed d) \<and> e = model_not_found req
        else \<not> fallback \<and> \<not> (\<exists>d. designates key allowed d) \<and> \<not> (\<exists>d. designates name allowed d)
          \<and> e = model_not_found (requested_text (ui_model_key user_info) (ui_model user_info) ''unknown'')"
proof -
  note means = designates_meant [OF assms(3)]
  consider (nothing) "allowed = []" | (named) "allowed \<noteq> []" "req \<noteq> []" | (unnamed) "allowed \<noteq> []" "req = []" by blast
  then show ?thesis
  proof cases
    case nothing
    then show ?thesis using assms(1,2) by (simp add: resolve_runtime_model_def resolve_requested_model_def)
  next
    case named
    then show ?thesis
      using assms(1,2,4) meant_in [of req allowed] unfolding means
      by (cases "meant req allowed") (simp_all add: resolve_runtime_model_def resolve_requested_model_def resolve_meant)
  next
    case unnamed
    have "meant req allowed = None" using unnamed by (simp add: meant_def)
    then have eq: "resolve_runtime_model cfg fs live user_info available requested fallback = resolve_model cfg allowed user_info fallback"
      using assms(1,2,4) unnamed by (simp add: resolve_runtime_model_def resolve_requested_model_def resolve_meant)
    consider (by_key) kv where "meant key allowed = Some kv" | (by_name) kv where "meant key allowed = None" "meant name allowed = Some kv"
      | (neither) "meant key allowed = None" "meant name allowed = None" by (cases "meant key allowed"; cases "meant name allowed") auto
    then show ?thesis
    proof cases
      case (by_key kv)
      with unnamed meant_in [OF by_key] show ?thesis unfolding eq means by (simp add: resolve_model_def resolve_meant assms(5) [symmetric])
    next
      case (by_name kv)
      with unnamed meant_in [OF by_name(2)] show ?thesis
        unfolding eq means by (simp add: resolve_model_def resolve_meant assms(5,6) [symmetric])
    next
      case neither
      from pick_preferred [OF assms(3) unnamed(1) refl, of cfg] obtain kv where kv: "preferred cfg allowed kv" "kv \<in> set allowed"
        "map_of allowed (text_or (pick_available_model cfg allowed) (fst (hd allowed))) = Some (snd kv)"
        "fst kv = text_or (pick_available_model cfg allowed) (fst (hd allowed))" by blast
      have "map_of allowed (fst kv) = Some (snd kv)" using kv(3,4) by simp
      then have "resolve_model cfg allowed user_info fallback = (if fallback then Inr (choice_of kv)
          else Inl (model_not_found (requested_text (ui_model_key user_info) (ui_model user_info) ''unknown'')))"
        using unnamed neither by (simp add: resolve_model_def resolve_meant assms(5,6) [symmetric] kv(4) [symmetric] Let_def)
      then show ?thesis using unnamed neither kv(1,2) unfolding eq means by (cases fallback) auto
    qed
  qed
qed

theorem runtime_model_choice_witness:
  "resolve_runtime_model default_auth_settings (demo_files False) [] demo_user demo_models (Some ''x'') False = Inl (model_not_found ''x'')"
proof -
  let ?get = "get_allowed_models_for_user default_auth_settings (demo_files False) [] demo_user demo_models"
  obtain allowed where a: "?get = Inr allowed" "map (apsnd mi_name) allowed = [(''m'', ''m'')]"
    using demo_allowed(1) by (cases ?get) simp_all
  then obtain info where allowed: "allowed = [(''m'', info)]" "mi_name info = ''m''" by (cases allowed) auto
  have "strip_opt (Some ''x'') = ''x''" by (simp add: strip_opt_def text_evals)
  then show ?thesis
    using runtime_model_choice [OF a(1) _ _ refl refl refl, of "Some ''x''" False] allowed
    by (cases "resolve_runtime_model default_auth_settings (demo_files False) [] demo_user demo_models (Some ''x'') False")
      (simp_all add: demo_models_def designates_def)
qed

end
