(* ===== verification/Events.thy ===== *)
theory Events
  imports Jobs
begin

text \<open>
  The event stream of a job (\<open>llm_gateway.py\<close>, \<open>stream_events\<close>): the generator that the
  web tier reads while a job runs. The world it sees is the sequence of answers to its
  blocking reads; the model computes what it yields and whether it has returned.
\<close>

text \<open>
  One turn of the loop: the read raised a \<open>RedisError\<close> or timed out, and the job record
  that \<open>get_job\<close> then returned; or the entries that arrived.
\<close>

datatype poll = ReadFault "job option" | NoEvents "job option" | Entries "event list"

definition QUEUE_UNAVAILABLE :: string where
  "QUEUE_UNAVAILABLE = cp1251 [206, 247, 229, 240, 229, 228, 252, 32, 76, 76, 77, 32, 237, 229, 228, 238, 241,
     242, 243, 239, 237, 224]"

definition JOB_NOT_FOUND :: string where
  "JOB_NOT_FOUND = cp1251 [199, 224, 228, 224, 247, 224, 32, 237, 229, 32, 237, 224, 233, 228, 229, 237, 224]"

definition terminal_event :: "job \<Rightarrow> event" where
  "terminal_event job = bare_event
     (if j_status job = Failed
      then EvErrorDone (case str_or (j_error job) None of None \<Rightarrow> GENERIC_CHAT_ERROR | Some e \<Rightarrow> e)
      else if j_status job = Cancelled then EvCancelledDone else EvDone)"

text \<open>Yields the entries of a batch up to the first that is done.\<close>

fun yield_entries :: "event list \<Rightarrow> event list \<times> bool" where
  "yield_entries [] = ([], False)"
| "yield_entries (e # es) = (if body_done (ev_body e) then ([e], True)
     else case yield_entries es of (out, fin) \<Rightarrow> (e # out, fin))"

fun stream_loop :: "poll list \<Rightarrow> event list \<times> bool" where
  "stream_loop [] = ([], False)"
| "stream_loop (ReadFault (Some job) # ps) =
     (if terminal (j_status job) then ([terminal_event job], True) else stream_loop ps)"
| "stream_loop (ReadFault None # ps) = stream_loop ps"
| "stream_loop (NoEvents None # ps) = ([bare_event (EvErrorDone JOB_NOT_FOUND)], True)"
| "stream_loop (NoEvents (Some job) # ps) =
     (if terminal (j_status job) then ([terminal_event job], True) else stream_loop ps)"
| "stream_loop (Entries es # ps) = (case yield_entries es of
       (out, True) \<Rightarrow> (out, True)
     | (out, False) \<Rightarrow> (case stream_loop ps of (rest, fin) \<Rightarrow> (out @ rest, fin)))"

definition stream_events :: "bool \<Rightarrow> poll list \<Rightarrow> event list \<times> bool" where
  "stream_events online polls =
     (if \<not> online then ([bare_event (EvErrorDone QUEUE_UNAVAILABLE)], True) else stream_loop polls)"

section \<open>Lemmas\<close>

abbreviation event_done :: "event \<Rightarrow> bool" where
  "event_done e \<equiv> body_done (ev_body e)"

text \<open>A poll that lets the generator return.\<close>

fun ends :: "poll \<Rightarrow> bool" where
  "ends (ReadFault (Some job)) = terminal (j_status job)"
| "ends (ReadFault None) = False"
| "ends (NoEvents None) = True"
| "ends (NoEvents (Some job)) = terminal (j_status job)"
| "ends (Entries es) = list_ex event_done es"

fun entries_of :: "poll \<Rightarrow> event list" where
  "entries_of (Entries es) = es"
| "entries_of p = []"

definition well_ended :: "event list \<Rightarrow> bool \<Rightarrow> bool" where
  "well_ended out fin \<longleftrightarrow> (\<forall>e \<in> set (butlast out). \<not> event_done e) \<and> (fin \<longleftrightarrow> out \<noteq> [] \<and> event_done (last out))"

lemma terminal_event_done [simp]: "event_done (terminal_event job)"
  by (simp add: terminal_event_def bare_event_def)

lemma bare_event_body [simp]: "ev_body (bare_event b) = b"
  by (simp add: bare_event_def)

lemma yield_entries_eq:
  "yield_entries es = (takeWhile (\<lambda>e. \<not> event_done e) es @ take 1 (dropWhile (\<lambda>e. \<not> event_done e) es), list_ex event_done es)"
  by (induction es) auto

lemma well_ended_Cons: "well_ended out fin \<Longrightarrow> \<not> event_done e \<Longrightarrow> well_ended (e # out) fin"
  by (auto simp: well_ended_def)

lemma well_ended_append:
  "well_ended out fin \<Longrightarrow> \<forall>e \<in> set es. \<not> event_done e \<Longrightarrow> well_ended (es @ out) fin"
  by (induction es) (auto intro: well_ended_Cons)

lemma yield_entries_plain: "\<not> list_ex event_done es \<Longrightarrow> yield_entries es = (es, False)"
  by (induction es) auto

lemma yield_entries_well_ended: "well_ended (fst (yield_entries es)) (snd (yield_entries es))"
proof (induction es)
  case Nil
  show ?case by (simp add: well_ended_def)
next
  case (Cons e es)
  then show ?case
    using well_ended_Cons [OF Cons, of e] by (auto simp: split_beta) (simp add: well_ended_def)
qed

lemma stream_loop_entries:
  "stream_loop (Entries es # ps) = (if list_ex event_done es then (fst (yield_entries es), True)
     else (es @ fst (stream_loop ps), snd (stream_loop ps)))"
  using yield_entries_plain [of es] by (auto simp: yield_entries_eq split_beta)

lemma stream_loop_well_ended: "well_ended (fst (stream_loop ps)) (snd (stream_loop ps))"
proof (induction ps rule: stream_loop.induct)
  case (6 es ps)
  show ?case
  proof (cases "list_ex event_done es")
    case True
    then show ?thesis using yield_entries_well_ended [of es] by (simp only: stream_loop_entries) (simp add: yield_entries_eq)
  next
    case False
    then have "\<forall>e \<in> set es. \<not> event_done e" by (simp add: list_ex_iff)
    moreover have "well_ended (fst (stream_loop ps)) (snd (stream_loop ps))"
      using 6 [of es False] yield_entries_plain [OF False] by simp
    ultimately show ?thesis using False by (simp only: stream_loop_entries if_False fst_conv snd_conv) (rule well_ended_append)
  qed
qed (simp_all add: well_ended_def)

lemma stream_loop_returns: "snd (stream_loop ps) \<longleftrightarrow> list_ex ends ps"
  by (induction ps rule: stream_loop.induct)
    (simp_all only: stream_loop_entries, simp_all add: yield_entries_plain)

lemma stream_loop_append:
  "list_all (\<lambda>p. \<not> ends p) ps \<Longrightarrow>
     stream_loop (ps @ qs) = (concat (map entries_of ps) @ fst (stream_loop qs), snd (stream_loop qs))"
proof (induction ps)
  case Nil
  then show ?case by simp
next
  case (Cons p ps)
  then show ?case by (cases p rule: ends.cases) (simp_all add: yield_entries_plain)
qed

section \<open>Properties\<close>

text \<open>
  C33: the event stream of a job ends once. Whatever the reads return, no event after a
  final one is yielded, and the generator has returned exactly when its last event is
  final. It returns at the first answer that settles the job (a final event, a terminal or
  missing record after a timeout or a fault), and not before.
\<close>

theorem stream_ends_once:
  "(\<forall>e \<in> set (butlast (fst (stream_events online polls))). \<not> body_done (ev_body e))
   \<and> (snd (stream_events online polls) \<longleftrightarrow> fst (stream_events online polls) \<noteq> []
        \<and> body_done (ev_body (last (fst (stream_events online polls)))))
   \<and> (snd (stream_events online polls) \<longleftrightarrow> \<not> online \<or> list_ex ends polls)"
  using stream_loop_well_ended [of polls] stream_loop_returns [of polls]
  by (auto simp: stream_events_def well_ended_def)

theorem stream_ends_once_witness:
  "snd (stream_events True [NoEvents None])"
proof -
  have "list_ex ends [NoEvents None]" by simp
  then show ?thesis using stream_ends_once [of True "[NoEvents None]"] by blast
qed

text \<open>
  The reader misses nothing. While no answer settles the job every entry is
  yielded in order, faults and timeouts in between notwithstanding; and when the
  next batch holds the final event, everything up to it is yielded and the rest is not.
\<close>

theorem stream_delivers:
  assumes "list_all (\<lambda>p. \<not> ends p) polls" and "list_all (\<lambda>e. \<not> body_done (ev_body e)) before"
    and "body_done (ev_body final)"
  shows "stream_events True (polls @ Entries (before @ final # after) # later)
    = (concat (map entries_of polls) @ before @ [final], True)"
  using assms
  by (simp add: stream_events_def stream_loop_append yield_entries_eq list_ex_iff list_all_iff
      takeWhile_append2 dropWhile_append2)

theorem stream_delivers_witness:
  "stream_events True [Entries [bare_event EvQueued], NoEvents None] \<noteq> ([], False) \<and>
   stream_events True [Entries [bare_event EvQueued], Entries [bare_event (EvToken ''a''), bare_event EvDone, bare_event EvQueued]]
   = ([bare_event EvQueued, bare_event (EvToken ''a''), bare_event EvDone], True)"
  using stream_delivers [of "[Entries [bare_event EvQueued]]" "[bare_event (EvToken ''a'')]" "bare_event EvDone"
      "[bare_event EvQueued]" "[]"]
  by (simp add: stream_events_def)

end
