(* ===== verification/Chat_Api.thy ===== *)
theory Chat_Api
  imports Conversation_Api Worker Model_Policy Rate_Limiter Events
begin

text \<open>
  The chat routes of the web tier (\<open>app.py\<close>): a question, with or without files, passes the
  guards (forged request, rate limit, empty or suspicious text, queue pressure, model policy),
  becomes a job of the control plane, and is written to the conversation; its answer is
  streamed, or waited for. The properties say that nothing happens behind a failed guard, what
  exactly an accepted request does, and what a failed question with files leaves behind.
\<close>

section \<open>Texts\<close>

definition EMPTY_REQUEST_ERROR :: string where
  "EMPTY_REQUEST_ERROR =
     cp1251 [207, 243, 241, 242, 238, 233, 32, 231, 224, 239, 240, 238, 241]"

definition OVERLOADED_ERROR :: string where
  "OVERLOADED_ERROR =
     cp1251 [209, 229, 240, 226, 232, 241, 32, 239, 229, 240, 229, 227, 240, 243, 230, 229,
       237]"

definition UNAVAILABLE_ERROR :: string where
  "UNAVAILABLE_ERROR =
     cp1251 [209, 229, 240, 226, 232, 241, 32, 226, 240, 229, 236, 229, 237, 237, 238, 32,
       237, 229, 228, 238, 241, 242, 243, 239, 229, 237]"

definition GENERATION_CANCELLED_ERROR :: string where
  "GENERATION_CANCELLED_ERROR =
     cp1251 [195, 229, 237, 229, 240, 224, 246, 232, 255, 32, 225, 251, 235, 224, 32, 238,
       242, 236, 229, 237, 229, 237, 224]"

definition ANSWER_TIMEOUT_ERROR :: string where
  "ANSWER_TIMEOUT_ERROR =
     cp1251 [200, 241, 242, 229, 234, 235, 238, 32, 226, 240, 229, 236, 255, 32, 238, 230,
       232, 228, 224, 237, 232, 255, 32, 238, 242, 226, 229, 242, 224, 32, 236, 238,
       228, 229, 235, 232]"

definition ATTACHMENTS_FAILED_ERROR :: string where
  "ATTACHMENTS_FAILED_ERROR =
     cp1251 [205, 229, 32, 243, 228, 224, 235, 238, 241, 252, 32, 238, 225, 240, 224, 225,
       238, 242, 224, 242, 252, 32, 226, 235, 238, 230, 229, 237, 232, 255]"

definition TXT_TASK_UNCLEAR :: string where
  "TXT_TASK_UNCLEAR =
     cp1251 [207, 238, 235, 252, 231, 238, 226, 224, 242, 229, 235, 252, 32, 237, 229, 32,
       243, 242, 238, 247, 237, 232, 235, 32, 231, 224, 228, 224, 247, 243]"

definition TXT_ATTACHMENTS :: string where
  "TXT_ATTACHMENTS =
     cp1251 [91, 194, 235, 238, 230, 229, 237, 232, 255, 58, 32]"

definition DOCUMENT_UNCLEAR_REQUEST_RESPONSE :: string where
  "DOCUMENT_UNCLEAR_REQUEST_RESPONSE =
     cp1251 [223, 32, 226, 232, 230, 243, 44, 32, 247, 242, 238, 32, 226, 251, 32, 231, 224,
       227, 240, 243, 231, 232, 235, 232, 32, 228, 238, 234, 243, 236, 229, 237, 242,
       46, 32, 213, 238, 242, 232, 242, 229, 44, 32, 247, 242, 238, 225, 251, 32, 255,
       58, 10, 45, 32, 241, 228, 229, 235, 224, 235, 32, 234, 240, 224, 242, 234, 238,
       229, 32, 241, 238, 228, 229, 240, 230, 224, 237, 232, 229, 10, 45, 32, 232, 231,
       226, 235, 184, 234, 32, 234, 235, 254, 247, 229, 226, 251, 229, 32, 228, 224,
       237, 237, 251, 229, 10, 45, 32, 237, 224, 248, 184, 235, 32, 226, 224, 230, 237,
       251, 229, 32, 236, 238, 236, 229, 237, 242, 251, 63]"

section \<open>The application and its state\<close>

record ('a, 't, 'd, 'g, 'r) chat_app = "('a, 't, 'd) conversation_app" +
  ca_gateway :: "'g gateway"
  ca_limiter :: "'r rate_limiter"
  ca_files :: model_files
  ca_readers :: readers

record ('t, 'd, 'g, 'r) api_state =
  st_gateway :: 'g
  st_conversations :: "'t \<times> 'd"
  st_limiter :: 'r
  st_staging :: staging

text \<open>What a request draws from outside: the random parts of identifiers and whether the limiter's Redis fails.\<close>

record entropy =
  en_rate_hex :: string
  en_rate_fault :: bool
  en_job_id :: string
  en_retry_job_id :: string
  en_staging_id :: string

text \<open>The answer of a route: its JSON, or an error text with its status and a time to retry after.\<close>

datatype 'b answer = Answer 'b | Error_Answer int string "int option"

definition on_gateway :: "('g \<Rightarrow> ('b, 'g) outcome) \<Rightarrow> ('t, 'd, 'g, 'r) api_state \<Rightarrow> ('b, ('t, 'd, 'g, 'r) api_state) outcome" where
  "on_gateway f st = (case f (st_gateway st) of (r, g) \<Rightarrow> (r, st\<lparr>st_gateway := g\<rparr>))"

definition on_conversations ::
  "('t \<times> 'd \<Rightarrow> ('b, 't \<times> 'd) outcome) \<Rightarrow> ('t, 'd, 'g, 'r) api_state \<Rightarrow> ('b, ('t, 'd, 'g, 'r) api_state) outcome" where
  "on_conversations f st = (case f (st_conversations st) of (r, sd) \<Rightarrow> (r, st\<lparr>st_conversations := sd\<rparr>))"

definition on_limiter :: "('r \<Rightarrow> ('b, 'r) outcome) \<Rightarrow> ('t, 'd, 'g, 'r) api_state \<Rightarrow> ('b, ('t, 'd, 'g, 'r) api_state) outcome" where
  "on_limiter f st = (case f (st_limiter st) of (r, l) \<Rightarrow> (r, st\<lparr>st_limiter := l\<rparr>))"

definition on_staging :: "(staging \<Rightarrow> ('b, staging) outcome) \<Rightarrow> ('t, 'd, 'g, 'r) api_state \<Rightarrow> ('b, ('t, 'd, 'g, 'r) api_state) outcome" where
  "on_staging f st = (case f (st_staging st) of (r, x) \<Rightarrow> (r, st\<lparr>st_staging := x\<rparr>))"

section \<open>Suspicious text\<close>

definition SECURITY_WARNING :: string where
  "SECURITY_WARNING = ''[SECURITY WARNING: potentially unsafe input removed]''"

definition forbidden_patterns :: "string list" where
  "forbidden_patterns = [''ignore previous instructions'', ''act as '', ''system: '', ''you are now '', ''jailbreak'',
     ''prompt injection'', ''simulate '', ''execute '', ''os.system'', ''import os'', ''base64'', ''token:'']"

text \<open>The pattern \<open>name\(.*\)\<close>: a call that is closed on the same line.\<close>

fun contains_call :: "string \<Rightarrow> string \<Rightarrow> bool" where
  "contains_call name [] = False"
| "contains_call name (c # s) =
     (prefix (name @ ''('') (c # s) \<and> CHR '')'' \<in> set (takeWhile (\<lambda>x. x \<noteq> nl) (drop (length name) s)) \<or> contains_call name s)"

definition suspicious :: "string \<Rightarrow> bool" where
  "suspicious prompt = (let lowered = py_lower prompt in
     contains_any forbidden_patterns lowered \<or> contains_call ''open'' lowered \<or> contains_call ''eval'' lowered)"

definition filter_prompt_injection :: "string \<Rightarrow> string" where
  "filter_prompt_injection prompt = (if suspicious prompt then SECURITY_WARNING else prompt)"

section \<open>The guards of a question\<close>

definition normalized_model :: "string option \<Rightarrow> string option" where
  "normalized_model m = (let t = strip_opt m in if t = [] then None else Some t)"

text \<open>
  Queue pressure, catalog and model policy; an error of the lookup becomes the answer, any other
  exception propagates. With an offered catalog no \<open>KeyError\<close> can arise: a fallback is not allowed.
\<close>

definition choose_model ::
  "('a, 't, 'd, 'g, 'r) chat_app \<Rightarrow> clock \<Rightarrow> user_info \<Rightarrow> string option \<Rightarrow> 'g \<Rightarrow> ((int \<times> string \<times> int option) + model_choice, 'g) outcome" where
  "choose_model app c current_user requested_model g =
     (case get_queue_pressure (ca_gateway app) g of (pressure, g) \<Rightarrow>
      if qp_threshold pressure \<le> qp_queue_depth pressure then (Inr (Inl (503, OVERLOADED_ERROR, Some 5)), g)
      else case get_model_catalog (ca_gateway app) c g of (available_models, g) \<Rightarrow>
      if available_models = [] then (Inr (Inl (503, NO_LLM_MODELS_AVAILABLE_ERROR, None)), g)
      else case resolve_runtime_model (wb_cfg (ca_web app)) (ca_files app) (gw_available_models (ca_gateway app))
                  current_user available_models requested_model False of
        Inr m \<Rightarrow> (Inr (Inr m), g)
      | Inl (LookupError e) \<Rightarrow>
          (let msg = (if e = [] then ''LLM model not found'' else e) in
           (Inr (Inl (if msg = NO_LLM_MODELS_AVAILABLE_ERROR then 503 else 404, msg, None)), g))
      | Inl e \<Rightarrow> (Inl e, g))"

definition guarded ::
  "('a, 't, 'd, 'g, 'r) chat_app \<Rightarrow> clock \<Rightarrow> entropy \<Rightarrow> request \<Rightarrow> user_info \<Rightarrow> ('t, 'd, 'g, 'r) api_state
    \<Rightarrow> (unit, ('t, 'd, 'g, 'r) api_state) outcome" where
  "guarded app c en request current_user st =
     (case enforce_csrf (ca_web app) request of Inl e \<Rightarrow> (Inl e, st)
      | Inr _ \<Rightarrow> on_limiter (check (ca_limiter app) (now_ms c) (en_rate_hex en) (en_rate_fault en) (ui_username current_user)) st)"

definition budgeted :: "message list \<Rightarrow> message list" where
  "budgeted history = apply_history_budget history MAX_HISTORY_MESSAGES MAX_HISTORY_CHARS"

definition question :: "string \<Rightarrow> string \<Rightarrow> model_choice \<Rightarrow> string \<Rightarrow> message list \<Rightarrow> enqueue_request" where
  "question username thread_id m prompt history = \<lparr>eq_username = username, eq_model_key = mc_key m, eq_model_name = mc_name m,
     eq_prompt = prompt, eq_history = history, eq_thread_id = Some thread_id, eq_job_kind = ''chat'', eq_file_chat = None,
     eq_workload_class = ''chat'', eq_priority = None, eq_context_tokens = None, eq_max_output_tokens = None,
     eq_root_job_id = None, eq_parent_job_id = None, eq_staging_id = None, eq_parser_metadata = None,
     eq_lifecycle_stage = None, eq_child_job_id = None, eq_job_id_override = None\<rparr>"

text \<open>Enqueueing a job and then writing the question to the conversation.\<close>

definition ask ::
  "('a, 't, 'd, 'g, 'r) chat_app \<Rightarrow> clock \<Rightarrow> string \<Rightarrow> enqueue_request \<Rightarrow> string \<Rightarrow> ('t, 'd, 'g, 'r) api_state
    \<Rightarrow> (string, ('t, 'd, 'g, 'r) api_state) outcome" where
  "ask app c uuid rq entry st =
     obind (on_gateway (enqueue_job (ca_gateway app) c uuid rq) st) (\<lambda>job_id st.
     obind (on_conversations (append_message_cw (ca_writer app) c (eq_username rq) ''user'' entry (eq_thread_id rq)) st) (\<lambda>_ st.
       (Inr job_id, st)))"

section \<open>A question without files\<close>

record prompt_request =
  pr_prompt :: string
  pr_model :: "string option"
  pr_thread_id :: "string option"

text \<open>\<open>payload\<close> is \<open>None\<close> where the body is not a valid request. The answer is the stream of the job.\<close>

definition api_chat ::
  "('a, 't, 'd, 'g, 'r) chat_app \<Rightarrow> clock \<Rightarrow> entropy \<Rightarrow> prompt_request option \<Rightarrow> request \<Rightarrow> user_info \<Rightarrow> ('t, 'd, 'g, 'r) api_state
    \<Rightarrow> (string answer, ('t, 'd, 'g, 'r) api_state) outcome" where
  "api_chat app c en payload request current_user st =
     obind (guarded app c en request current_user st) (\<lambda>_ st.
     case payload of None \<Rightarrow> (Inr (Error_Answer 400 ''Invalid request format'' None), st)
     | Some p \<Rightarrow>
        let prompt = filter_prompt_injection (py_strip (pr_prompt p));
            requested_model = normalized_model (pr_model p);
            thread_id = normalize_chat_thread_id (pr_thread_id p);
            username = ui_username current_user
        in if prompt = [] then (Inr (Error_Answer 400 EMPTY_REQUEST_ERROR None), st)
           else obind (on_gateway (choose_model app c current_user requested_model) st) (\<lambda>choice st.
           case choice of Inl (code, msg, retry) \<Rightarrow> (Inr (Error_Answer code msg retry), st)
           | Inr m \<Rightarrow>
             obind (on_conversations (on_chat (get_history (cw_chat (ca_writer app)) c username (Some thread_id))) st) (\<lambda>original_history st.
             obind (ask app c (en_job_id en) (question username thread_id m prompt (budgeted original_history)) prompt st) (\<lambda>job_id st.
               (Inr (Answer job_id), st)))))"

text \<open>
  The events of the answer: the id of the job, then its event stream. A client that leaves
  cancels the job.
\<close>

datatype sse = Sse_Job string | Sse_Event event

definition event_stream :: "string \<Rightarrow> bool \<Rightarrow> poll list \<Rightarrow> sse list" where
  "event_stream job_id online polls = Sse_Job job_id # map Sse_Event (fst (stream_events online polls))"

definition client_left ::
  "nat \<Rightarrow> ('a, 't, 'd, 'g, 'r) chat_app \<Rightarrow> clock \<Rightarrow> string \<Rightarrow> user_info \<Rightarrow> ('t, 'd, 'g, 'r) api_state \<Rightarrow> (bool, ('t, 'd, 'g, 'r) api_state) outcome" where
  "client_left depth app c job_id current_user st = on_gateway (cancel_job depth (ca_gateway app) c job_id (Some (ui_username current_user))) st"

definition cancel_chat ::
  "nat \<Rightarrow> ('a, 't, 'd, 'g, 'r) chat_app \<Rightarrow> clock \<Rightarrow> string \<Rightarrow> request \<Rightarrow> user_info \<Rightarrow> ('t, 'd, 'g, 'r) api_state
    \<Rightarrow> (bool, ('t, 'd, 'g, 'r) api_state) outcome" where
  "cancel_chat depth app c job_id request current_user st =
     (case enforce_csrf (ca_web app) request of Inl e \<Rightarrow> (Inl e, st)
      | Inr _ \<Rightarrow> on_gateway (cancel_job depth (ca_gateway app) c job_id (Some (ui_username current_user))) st)"

section \<open>Waiting for a job\<close>

text \<open>
  What a wait finds. The list holds, for every poll before the deadline, what the other
  processes have done since the poll before.
\<close>

datatype waited = Finished job | Missing | Timed_Out

fun wait_for_terminal_job :: "'g gateway \<Rightarrow> string \<Rightarrow> (('t, 'd, 'g, 'r) api_state \<Rightarrow> ('t, 'd, 'g, 'r) api_state) list
    \<Rightarrow> ('t, 'd, 'g, 'r) api_state \<Rightarrow> waited \<times> ('t, 'd, 'g, 'r) api_state" where
  "wait_for_terminal_job g job_id [] st = (Timed_Out, st)"
| "wait_for_terminal_job g job_id (env # envs) st = (let st = env st in
     case get_job g job_id (st_gateway st) of None \<Rightarrow> (Missing, st)
     | Some job \<Rightarrow> if terminal (j_status job) then (Finished job, st) else wait_for_terminal_job g job_id envs st)"

section \<open>A question with files\<close>

definition history_entry :: "string \<Rightarrow> file_info list \<Rightarrow> string" where
  "history_entry prompt staged_files = (if prompt = [] then TXT_TASK_UNCLEAR else prompt) @ [nl, nl] @ TXT_ATTACHMENTS
     @ py_join '', '' (map fi_name staged_files) @ '']''"

text \<open>The metadata of \<open>parser_stage.py\<close> with the thread.\<close>

definition file_chat_job_metadata :: "string option \<Rightarrow> file_info list \<Rightarrow> int \<Rightarrow> string option \<Rightarrow> metadata" where
  "file_chat_job_metadata retry_prompt staged_files dc thread_id = [
     (''retry_prompt'', case none_if_empty (strip_opt retry_prompt) of None \<Rightarrow> MNone | Some p \<Rightarrow> MStr p),
     (''suppress_token_stream'', MBool True),
     (''doc_chars'', MInt (max 0 dc)),
     (''thread_id'', MStr (normalize_chat_thread_id thread_id)),
     (''files'', MFiles (map (\<lambda>f. \<lparr>fi_name = fi_name f, fi_safe_name = None, fi_size = fi_size f, fi_content_type = None\<rparr>) staged_files))]"

definition build_parser_job_metadata :: "file_info list \<Rightarrow> string option \<Rightarrow> metadata" where
  "build_parser_job_metadata staged_files requested_model =
     [(''phase'', MStr ''staged''), (''files'', MFiles staged_files)]
     @ (case normalized_model requested_model of None \<Rightarrow> [] | Some m \<Rightarrow> [(''requested_model'', MStr m)])"

definition wants_event_stream :: "request \<Rightarrow> bool" where
  "wants_event_stream request = py_contains ''text/event-stream'' (py_lower (case header request ''accept'' of None \<Rightarrow> [] | Some a \<Rightarrow> a))"

definition restore_chat_history ::
  "('a, 't, 'd, 'g, 'r) chat_app \<Rightarrow> clock \<Rightarrow> string \<Rightarrow> string \<Rightarrow> message list \<Rightarrow> ('t, 'd, 'g, 'r) api_state
    \<Rightarrow> (unit, ('t, 'd, 'g, 'r) api_state) outcome" where
  "restore_chat_history app c username thread_id history st =
     on_conversations (replace_thread_snapshot (ca_writer app) c username thread_id history) st"

definition enqueue_document_job ::
  "('a, 't, 'd, 'g, 'r) chat_app \<Rightarrow> clock \<Rightarrow> string \<Rightarrow> string \<Rightarrow> string \<Rightarrow> model_choice \<Rightarrow> string \<Rightarrow> message list \<Rightarrow> string \<Rightarrow> metadata
    \<Rightarrow> ('t, 'd, 'g, 'r) api_state \<Rightarrow> (string, ('t, 'd, 'g, 'r) api_state) outcome" where
  "enqueue_document_job app c uuid username thread_id m prompt history entry file_chat st =
     ask app c uuid ((question username thread_id m prompt (budgeted history))\<lparr>eq_job_kind := ''file_chat'', eq_file_chat := Some file_chat\<rparr>) entry st"

definition parser_question :: "string \<Rightarrow> string \<Rightarrow> model_choice \<Rightarrow> string \<Rightarrow> message list \<Rightarrow> string \<Rightarrow> file_info list \<Rightarrow> string option \<Rightarrow> enqueue_request" where
  "parser_question username thread_id m msg history staging_id staged_files requested_model =
     (question username thread_id m (py_strip msg) (budgeted history))\<lparr>eq_job_kind := ''parse'', eq_workload_class := ''parse'',
        eq_staging_id := Some staging_id, eq_parser_metadata := Some (build_parser_job_metadata staged_files requested_model)\<rparr>"

definition enqueue_parser_public_job ::
  "('a, 't, 'd, 'g, 'r) chat_app \<Rightarrow> clock \<Rightarrow> string \<Rightarrow> string \<Rightarrow> string \<Rightarrow> model_choice \<Rightarrow> string \<Rightarrow> message list \<Rightarrow> string \<Rightarrow> string
    \<Rightarrow> file_info list \<Rightarrow> string option \<Rightarrow> ('t, 'd, 'g, 'r) api_state \<Rightarrow> (string, ('t, 'd, 'g, 'r) api_state) outcome" where
  "enqueue_parser_public_job app c uuid username thread_id m msg history entry staging_id staged_files requested_model st =
     (if \<not> ENABLE_PARSER_STAGE (gw_cfg (ca_gateway app)) then (Inl (RuntimeError ''Parser stage is disabled''), st)
      else ask app c uuid (parser_question username thread_id m msg history staging_id staged_files requested_model) entry st)"

record files_answer =
  fa_response :: string
  fa_files :: "(string \<times> int) list"
  fa_job_id :: string

datatype files_reply = Files_Stream string | Files_Json files_answer

definition files_json :: "string \<Rightarrow> file_info list \<Rightarrow> string \<Rightarrow> files_reply answer" where
  "files_json response_text staged_files job_id = Answer (Files_Json
     \<lparr>fa_response = (if response_text = [] then DOCUMENT_UNCLEAR_REQUEST_RESPONSE else response_text),
      fa_files = map (\<lambda>f. (fi_name f, fi_size f)) staged_files, fa_job_id = job_id\<rparr>)"

definition rolled_back ::
  "('a, 't, 'd, 'g, 'r) chat_app \<Rightarrow> clock \<Rightarrow> string \<Rightarrow> string \<Rightarrow> message list \<Rightarrow> int \<Rightarrow> string \<Rightarrow> ('t, 'd, 'g, 'r) api_state
    \<Rightarrow> (files_reply answer, ('t, 'd, 'g, 'r) api_state) outcome" where
  "rolled_back app c username thread_id history code msg st =
     obind (restore_chat_history app c username thread_id history st) (\<lambda>_ st. (Inr (Error_Answer code msg None), st))"

text \<open>\<open>result.get("error") or "..."\<close>, of a job that was found.\<close>

definition job_error :: "waited \<Rightarrow> string" where
  "job_error result = (case result of Finished job \<Rightarrow> text_or (j_error job) UNAVAILABLE_ERROR | _ \<Rightarrow> UNAVAILABLE_ERROR)"

definition unanswered ::
  "('a, 't, 'd, 'g, 'r) chat_app \<Rightarrow> clock \<Rightarrow> string \<Rightarrow> string \<Rightarrow> message list \<Rightarrow> waited \<Rightarrow> ('t, 'd, 'g, 'r) api_state
    \<Rightarrow> (files_reply answer, ('t, 'd, 'g, 'r) api_state) outcome" where
  "unanswered app c username thread_id history result st =
     (case result of
        Finished job \<Rightarrow>
          if j_status job = Failed then rolled_back app c username thread_id history 503 (job_error result) st
          else if j_status job = Cancelled then rolled_back app c username thread_id history 409 GENERATION_CANCELLED_ERROR st
          else rolled_back app c username thread_id history 504 ANSWER_TIMEOUT_ERROR st
      | _ \<Rightarrow> rolled_back app c username thread_id history 504 ANSWER_TIMEOUT_ERROR st)"

definition completed_text :: "waited \<Rightarrow> string option" where
  "completed_text result = (case result of
     Finished job \<Rightarrow> if j_status job = Completed then Some (strip_opt (j_result job)) else None | _ \<Rightarrow> None)"

text \<open>The branch with the parser stage. \<open>envs\<close> is what others do while the route waits.\<close>

definition ask_parser_stage ::
  "('a, 't, 'd, 'g, 'r) chat_app \<Rightarrow> clock \<Rightarrow> entropy \<Rightarrow> bool \<Rightarrow> (string \<times> upload) list \<Rightarrow> string option \<Rightarrow> model_choice \<Rightarrow> string \<Rightarrow> string \<Rightarrow> string
    \<Rightarrow> (('t, 'd, 'g, 'r) api_state \<Rightarrow> ('t, 'd, 'g, 'r) api_state) list \<Rightarrow> ('t, 'd, 'g, 'r) api_state
    \<Rightarrow> (files_reply answer, ('t, 'd, 'g, 'r) api_state) outcome" where
  "ask_parser_stage app c en stream files requested_model m prompt thread_id username envs st =
     (let cfg = gw_cfg (ca_gateway app) in
      if \<not> ENABLE_PARSER_STAGE cfg then (Inl (RuntimeError ''Parser stage is disabled''), st)
      else obind (on_staging (stage_uploads_to_shared_root cfg (now c) (en_staging_id en) files (Some username)) st) (\<lambda>(staging_id, staged_files) st.
      obind (on_conversations (on_chat (get_history (cw_chat (ca_writer app)) c username (Some thread_id))) st) (\<lambda>original_history st.
      let history = budgeted original_history in
      obind (enqueue_parser_public_job app c (en_job_id en) username thread_id m prompt history (history_entry prompt staged_files)
               staging_id staged_files requested_model st) (\<lambda>job_id st.
        if stream then (Inr (Answer (Files_Stream job_id)), st)
        else case wait_for_terminal_job (ca_gateway app) job_id envs st of (result, st) \<Rightarrow>
          (case completed_text result of
             Some response_text \<Rightarrow> (Inr (files_json (normalize_document_response response_text) staged_files job_id), st)
           | None \<Rightarrow> unanswered app c username thread_id history result st)))))"

text \<open>The end of a completed question: an answer that asks for the file again is replaced, in the conversation too.\<close>

definition document_reply ::
  "('a, 't, 'd, 'g, 'r) chat_app \<Rightarrow> clock \<Rightarrow> string \<Rightarrow> string \<Rightarrow> message list \<Rightarrow> string \<Rightarrow> file_info list \<Rightarrow> string \<Rightarrow> string
    \<Rightarrow> ('t, 'd, 'g, 'r) api_state \<Rightarrow> (files_reply answer, ('t, 'd, 'g, 'r) api_state) outcome" where
  "document_reply app c username thread_id history entry staged_files response_text job_id st =
     (if response_requires_document_retry response_text then
        obind (restore_chat_history app c username thread_id history st) (\<lambda>_ st.
        obind (on_conversations (append_message_cw (ca_writer app) c username ''user'' entry (Some thread_id)) st) (\<lambda>_ st.
        obind (on_conversations (append_message_cw (ca_writer app) c username ''assistant'' DOCUMENT_NO_INFORMATION_RESPONSE (Some thread_id)) st) (\<lambda>_ st.
          (Inr (files_json (normalize_document_response DOCUMENT_NO_INFORMATION_RESPONSE) staged_files job_id), st))))
      else (Inr (files_json (normalize_document_response response_text) staged_files job_id), st))"

text \<open>The second round, after an answer that asks for the file again.\<close>

definition retry_question ::
  "('a, 't, 'd, 'g, 'r) chat_app \<Rightarrow> clock \<Rightarrow> string \<Rightarrow> string \<Rightarrow> string \<Rightarrow> model_choice \<Rightarrow> string \<Rightarrow> message list \<Rightarrow> string \<Rightarrow> file_info list
    \<Rightarrow> metadata \<Rightarrow> (('t, 'd, 'g, 'r) api_state \<Rightarrow> ('t, 'd, 'g, 'r) api_state) list \<Rightarrow> ('t, 'd, 'g, 'r) api_state
    \<Rightarrow> (files_reply answer, ('t, 'd, 'g, 'r) api_state) outcome" where
  "retry_question app c uuid username thread_id m retry_prompt history entry staged_files file_chat retry_envs st =
     obind (restore_chat_history app c username thread_id history st) (\<lambda>_ st.
     obind (enqueue_document_job app c uuid username thread_id m retry_prompt history entry file_chat st) (\<lambda>retry_job_id st.
     case wait_for_terminal_job (ca_gateway app) retry_job_id retry_envs st of (retry_result, st) \<Rightarrow>
       (case completed_text retry_result of
          Some response_text \<Rightarrow> document_reply app c username thread_id history entry staged_files response_text retry_job_id st
        | None \<Rightarrow> rolled_back app c username thread_id history 503 (job_error retry_result) st)))"

text \<open>A question with its prompts ready: enqueued, and either streamed or waited for.\<close>

definition ask_prepared ::
  "('a, 't, 'd, 'g, 'r) chat_app \<Rightarrow> clock \<Rightarrow> entropy \<Rightarrow> bool \<Rightarrow> string \<Rightarrow> string \<Rightarrow> model_choice \<Rightarrow> string \<Rightarrow> string \<Rightarrow> message list \<Rightarrow> string
    \<Rightarrow> file_info list \<Rightarrow> metadata \<Rightarrow> (('t, 'd, 'g, 'r) api_state \<Rightarrow> ('t, 'd, 'g, 'r) api_state) list
    \<Rightarrow> (('t, 'd, 'g, 'r) api_state \<Rightarrow> ('t, 'd, 'g, 'r) api_state) list \<Rightarrow> ('t, 'd, 'g, 'r) api_state
    \<Rightarrow> (files_reply answer, ('t, 'd, 'g, 'r) api_state) outcome" where
  "ask_prepared app c en stream username thread_id m final_prompt retry_prompt history entry staged_files file_chat envs retry_envs st =
     obind (enqueue_document_job app c (en_job_id en) username thread_id m final_prompt history entry file_chat st) (\<lambda>job_id st.
       if stream then (Inr (Answer (Files_Stream job_id)), st)
       else case wait_for_terminal_job (ca_gateway app) job_id envs st of (result, st) \<Rightarrow>
         (case completed_text result of
            None \<Rightarrow> unanswered app c username thread_id history result st
          | Some response_text \<Rightarrow>
              if response_requires_document_retry response_text
              then retry_question app c (en_retry_job_id en) username thread_id m retry_prompt history entry staged_files file_chat retry_envs st
              else document_reply app c username thread_id history entry staged_files response_text job_id st))"

definition ask_documents ::
  "('a, 't, 'd, 'g, 'r) chat_app \<Rightarrow> clock \<Rightarrow> entropy \<Rightarrow> bool \<Rightarrow> (string \<times> upload) list \<Rightarrow> model_choice \<Rightarrow> string \<Rightarrow> string \<Rightarrow> string
    \<Rightarrow> (('t, 'd, 'g, 'r) api_state \<Rightarrow> ('t, 'd, 'g, 'r) api_state) list \<Rightarrow> (('t, 'd, 'g, 'r) api_state \<Rightarrow> ('t, 'd, 'g, 'r) api_state) list
    \<Rightarrow> ('t, 'd, 'g, 'r) api_state \<Rightarrow> (files_reply answer, ('t, 'd, 'g, 'r) api_state) outcome" where
  "ask_documents app c en stream files m prompt thread_id username envs retry_envs st =
     (let cfg = gw_cfg (ca_gateway app) in
      case stage_uploads_to_directory cfg files of Inl e \<Rightarrow> (Inl e, st) | Inr staged \<Rightarrow>
      case extract_documents_from_staging cfg (ca_readers app) staged of Inl e \<Rightarrow> (Inl e, st) | Inr extracted_documents \<Rightarrow>
      let staged_files = map fst staged; budgeted_documents = apply_document_budget cfg extracted_documents in
      obind (on_conversations (on_chat (get_history (cw_chat (ca_writer app)) c username (Some thread_id))) st) (\<lambda>original_history st.
      case build_document_prompt cfg prompt budgeted_documents of Inl e \<Rightarrow> (Inl e, st) | Inr final_prompt \<Rightarrow>
      case build_retry_document_prompt cfg prompt budgeted_documents of Inl e \<Rightarrow> (Inl e, st) | Inr retry_prompt \<Rightarrow>
        ask_prepared app c en stream username thread_id m final_prompt retry_prompt (budgeted original_history)
          (history_entry prompt staged_files) staged_files
          (file_chat_job_metadata (Some retry_prompt) staged_files (doc_chars budgeted_documents) (Some thread_id)) envs retry_envs st))"

text \<open>The handlers at the end of the route: \<open>HTTPException\<close> is raised again.\<close>

definition file_failure :: "exn \<Rightarrow> exn + files_reply answer" where
  "file_failure e = (case e of
     HTTPException code detail \<Rightarrow> Inl e
   | ValueError m \<Rightarrow> Inr (Error_Answer 400 m None)
   | RuntimeError m \<Rightarrow> Inr (Error_Answer 503 m None)
   | ParserChildEnqueueCancelled m \<Rightarrow> Inr (Error_Answer 503 m None)
   | RecursionError \<Rightarrow> Inr (Error_Answer 503 (exn_text e) None)
   | _ \<Rightarrow> Inr (Error_Answer 500 ATTACHMENTS_FAILED_ERROR None))"

definition api_chat_with_files ::
  "('a, 't, 'd, 'g, 'r) chat_app \<Rightarrow> clock \<Rightarrow> entropy \<Rightarrow> string \<Rightarrow> string option \<Rightarrow> string option \<Rightarrow> (string \<times> upload) list
    \<Rightarrow> (('t, 'd, 'g, 'r) api_state \<Rightarrow> ('t, 'd, 'g, 'r) api_state) list \<Rightarrow> (('t, 'd, 'g, 'r) api_state \<Rightarrow> ('t, 'd, 'g, 'r) api_state) list
    \<Rightarrow> request \<Rightarrow> user_info \<Rightarrow> ('t, 'd, 'g, 'r) api_state \<Rightarrow> (files_reply answer, ('t, 'd, 'g, 'r) api_state) outcome" where
  "api_chat_with_files app c en msg model thread files envs retry_envs request current_user st =
     obind (guarded app c en request current_user st) (\<lambda>_ st.
     let prompt = filter_prompt_injection (py_strip msg);
         requested_model = normalized_model model;
         thread_id = normalize_chat_thread_id thread;
         username = ui_username current_user
     in obind (on_gateway (choose_model app c current_user requested_model) st) (\<lambda>choice st.
        case choice of Inl (code, msg, retry) \<Rightarrow> (Inr (Error_Answer code msg retry), st)
        | Inr m \<Rightarrow>
          case (if ENABLE_PARSER_PUBLIC_CUTOVER (gw_cfg (ca_gateway app))
                then ask_parser_stage app c en (wants_event_stream request) files requested_model m prompt thread_id username envs st
                else ask_documents app c en (wants_event_stream request) files m prompt thread_id username envs retry_envs st) of
            (Inl e, st) \<Rightarrow> (file_failure e, st)
          | r \<Rightarrow> r))"

section \<open>The effect of a question\<close>

lemma resolve_allowed:
  "resolve_requested_model cfg fs live user available requested False = Inr m \<Longrightarrow>
     \<exists>allowed kv. get_allowed_models_for_user cfg fs live user available = Inr allowed \<and> kv \<in> set allowed \<and> m = choice_of kv
       \<and> (strip_opt requested \<noteq> [] \<longrightarrow> strip_opt requested \<in> {fst kv, mi_name (snd kv)})"
proof -
  assume ok: "resolve_requested_model cfg fs live user available requested False = Inr m"
  then obtain allowed where allowed: "get_allowed_models_for_user cfg fs live user available = Inr allowed"
    by (auto simp: resolve_requested_model_def split: sum.splits)
  then have "\<exists>x. resolve_model_identifier x allowed = Some m \<and> (strip_opt requested \<noteq> [] \<longrightarrow> x = requested)"
    using ok by (auto simp: resolve_requested_model_def resolve_model_def split: if_splits option.splits)
  with resolve_identifier_sound allowed show ?thesis by blast
qed

lemma choose_allowed:
  "choose_model app c user requested g = (Inr (Inr m), g') \<Longrightarrow>
     \<exists>available allowed kv. get_allowed_models_for_user (wb_cfg (ca_web app)) (ca_files app) (gw_available_models (ca_gateway app)) user available = Inr allowed
       \<and> available \<noteq> [] \<and> kv \<in> set allowed \<and> m = choice_of kv
       \<and> (strip_opt requested \<noteq> [] \<longrightarrow> strip_opt requested \<in> {fst kv, mi_name (snd kv)})"
proof -
  assume "choose_model app c user requested g = (Inr (Inr m), g')"
  note ok = this [unfolded choose_model_def]
  obtain pressure g1 where p: "get_queue_pressure (ca_gateway app) g = (pressure, g1)" by fastforce
  obtain available g2 where a: "get_model_catalog (ca_gateway app) c g1 = (available, g2)" by fastforce
  let ?resolve = "resolve_runtime_model (wb_cfg (ca_web app)) (ca_files app) (gw_available_models (ca_gateway app)) user available requested False"
  have "available \<noteq> [] \<and> ?resolve = Inr m"
  proof (cases ?resolve)
    case (Inl e)
    then show ?thesis using ok by (cases e) (simp_all add: p a Let_def split: if_splits)
  qed (use ok in \<open>simp add: p a split: if_splits\<close>)
  then show ?thesis using resolve_allowed unfolding resolve_runtime_model_def by (metis (lifting))
qed

lemma guarded_cases:
  assumes "guarded app c en request user st = (r, st')"
  shows "st_gateway st' = st_gateway st" "st_conversations st' = st_conversations st"
    "r = Inr () \<Longrightarrow> enforce_csrf (ca_web app) request = Inr ()
       \<and> fst (check (ca_limiter app) (now_ms c) (en_rate_hex en) (en_rate_fault en) (ui_username user) (st_limiter st)) = Inr ()"
  using assms by (auto simp: guarded_def on_limiter_def split: sum.splits prod.splits)

lemma question_simps [simp]: "eq_username (question u t m p h) = u" "eq_thread_id (question u t m p h) = Some t" "eq_prompt (question u t m p h) = p"
    "eq_history (question u t m p h) = h" "eq_model_key (question u t m p h) = mc_key m" "eq_job_id_override (question u t m p h) = None"
  by (simp_all add: question_def)

lemma new_job_fields: "j_id (new_job cfg c rq i w p k info) = i" "j_status (new_job cfg c rq i w p k info) = Queued"
    "j_username (new_job cfg c rq i w p k info) = eq_username rq" "j_thread_id (new_job cfg c rq i w p k info) = normalize_thread_id (eq_thread_id rq)"
    "j_prompt (new_job cfg c rq i w p k info) = eq_prompt rq" "j_history (new_job cfg c rq i w p k info) = eq_history rq"
    "j_model_key (new_job cfg c rq i w p k info) = eq_model_key rq"
  by (simp_all add: new_job_def)

locale question_tier = gateway_store R view "ca_gateway app" + conv: conversation_tier C cview "ca_writer app"
  for R :: "('g, gkey, gval, string, event) redis" and view :: "'g \<Rightarrow> gspace"
    and C :: "'t chat_redis" and cview :: "'t \<Rightarrow> chat_space" and app :: "('a, 't, 'd, 'g, 'r) chat_app"
begin

abbreviation jobs_of :: "('t, 'd, 'g, 'r) api_state \<Rightarrow> string \<Rightarrow> job option" where
  "jobs_of st \<equiv> jobs (view (st_gateway st))"

abbreviation threads_of :: "('t, 'd, 'g, 'r) api_state \<Rightarrow> string \<times> string \<Rightarrow> chat_raw list" where
  "threads_of st \<equiv> threads (max_history (cw_chat (ca_writer app))) (cview (fst (st_conversations st)))"

lemma choose_frame: "jobs (view (snd (choose_model app c user requested s))) = jobs (view s)"
proof -
  have p: "jobs (view (snd (get_queue_pressure (ca_gateway app) s))) = jobs (view s)"
    using jobs_cong [of "view (snd (list_active_workers (ca_gateway app) s))" "view s"]
    by (simp add: get_queue_pressure_def case_prod_beta Let_def)
  show ?thesis
    by (auto simp: choose_model_def case_prod_beta Let_def p split: sum.split exn.split)
qed

lemma ask_cases:
  assumes u: "plain_user (eq_username rq)" and id: "eq_job_id_override rq = None" and r: "ask app c uuid rq entry st = (r, st')"
  obtains (refused) e where "r = Inl e" "jobs_of st' = jobs_of st" "st_conversations st' = st_conversations st"
  | (asked) w p kind info where "r = Inr uuid"
      "jobs_of st' = (jobs_of st)(uuid := Some (new_job (gw_cfg (ca_gateway app)) c rq uuid w p kind info))"
      "\<And>v q. plain_user v \<Longrightarrow> threads_of st' (v, q) = spec_append (max_history (cw_chat (ca_writer app))) (eq_username rq)
         (normalize_thread_id (eq_thread_id rq)) (Entry \<lparr>ce_role = ''user'', ce_content = Some entry, ce_created_at = Some (MInt (now c))\<rparr>)
         (threads_of st) (v, q)"
proof -
  obtain r1 g1 where e: "enqueue_job (ca_gateway app) c uuid rq (st_gateway st) = (r1, g1)" by fastforce
  from e show thesis
  proof (cases rule: enqueue_cases)
    case existing
    then show thesis by (simp add: id strip_opt_def)
  next
    case (failed x)
    then show thesis using r e by (intro refused [of x]) (auto simp: ask_def on_gateway_def unchanged_def)
  next
    case (queued i w p kind info s1)
    have i: "i = uuid" using queued(2) by (simp add: id strip_opt_def)
    have jobs1: "jobs (view g1) = (jobs (view s1))(i := Some (new_job (gw_cfg (ca_gateway app)) c rq i w p kind info))"
      by (rule jobs_upd) (simp add: queued(8))
    obtain s d where sd: "st_conversations st = (s, d)" by fastforce
    let ?t = "eq_thread_id rq" and ?cs = "cw_chat (ca_writer app)"
    obtain s2 where s2: "append_message ?cs c (eq_username rq) ''user'' entry ?t s = (Inr (), s2)"
      using conv.append_refines [OF u u] by (metis prod.collapse)
    note app = conv.append_refines [OF u, of _ c "''user''" entry ?t s, unfolded s2]
    obtain d2 where d2: "append_message_cw (ca_writer app) c (eq_username rq) ''user'' entry ?t (s, d) = (Inr (), (s2, d2))"
      using s2 by (simp add: append_message_cw_def then_mirror_def)
    show thesis
      using r e queued(1) d2 app jobs1 queued(7)
      by (intro asked [of w p kind info]) (auto simp: ask_def on_gateway_def on_conversations_def sd i unchanged_def)
  qed
qed

lemma history_state:
  assumes "conv.good u msgs s" and "st_conversations st = (s, d)"
  obtains s' where "on_conversations (on_chat (get_history (cw_chat (ca_writer app)) c u t)) st
      = (Inr (msgs (normalize_thread_id t)), st\<lparr>st_conversations := (s', d)\<rparr>)" "conv.good u msgs s'" "conv.same_threads s s'"
  using conv.history_eq [OF assms(1), of c t d] assms(2) by (auto simp: on_conversations_def)

lemma choose_state:
  assumes "on_gateway (choose_model app c user requested) st = (r, st')"
  shows "jobs_of st' = jobs_of st" "st_conversations st' = st_conversations st"
    "r = Inr (Inr m) \<Longrightarrow> \<exists>g. choose_model app c user requested (st_gateway st) = (Inr (Inr m), g)"
  using assms choose_frame [of c user requested "st_gateway st"] by (auto simp: on_gateway_def split: prod.splits)

end

context conversation_tier
begin

lemma replace_eq:
  assumes u: "plain_user u" and room: "len (normalize_snapshot ms) \<le> max_history (cw_chat w)"
  shows "\<exists>s' d'. replace_thread_snapshot w c u t ms (s, d) = (Inr (), (s', d'))
    \<and> decode_entries (abs_threads s' (u, normalize_thread_id (Some t))) = Inr (normalize_snapshot ms)"
proof -
  let ?ms = "normalize_snapshot ms" and ?t = "normalize_thread_id (Some t)"
  have ok: "\<forall>m \<in> set ?ms. chat_role (m_role m) \<and> py_strip (m_content m) = m_content m \<and> m_content m \<noteq> []"
    using normalize_snapshot_ok by blast
  obtain s1 where s1: "clear_history (cw_chat w) c u (Some t) True s = (Inr (), s1)"
    using clear_refines [OF u u] by (metis prod.collapse)
  have "abs_threads s1 (u, ?t) = []" using clear_refines [OF u u, of c "Some t" True s] s1 by (simp add: spec_clear_def)
  then obtain s2 where "append_all (cw_chat w) c u t ?ms s1 = (Inr (), s2)" "decode_entries (abs_threads s2 (u, ?t)) = Inr ?ms"
    using append_all_threads [OF u ok, of s1 t "[]" "[]" c] room by (auto simp: py_suffix_short)
  with s1 show ?thesis by (auto simp: replace_thread_snapshot_def then_mirror_def Let_def)
qed

end

lemma budgeted_room: "len (normalize_snapshot (budgeted h)) \<le> len h"
proof -
  have "length (normalize_snapshot ms) \<le> length ms" for ms
    by (simp add: normalize_snapshot_def order_trans [OF length_filter_le])
  moreover have "length (budgeted h) \<le> length h"
    using history_budget_loop_count [of "rev (py_suffix MAX_HISTORY_MESSAGES h)" MAX_HISTORY_CHARS]
    by (simp add: budgeted_def apply_history_budget_def Let_def py_suffix_def split: if_splits)
  ultimately show ?thesis by (meson of_nat_mono order_trans)
qed

context question_tier
begin

definition rolled :: "string \<Rightarrow> string \<Rightarrow> message list \<Rightarrow> ('t, 'd, 'g, 'r) api_state \<Rightarrow> bool" where
  "rolled u t h st \<longleftrightarrow> decode_entries (threads_of st (u, normalize_thread_id (Some t))) = Inr (normalize_snapshot (budgeted h))"

definition kept :: "('t, 'd, 'g, 'r) api_state \<Rightarrow> ('t, 'd, 'g, 'r) api_state \<Rightarrow> bool" where
  "kept st st' \<longleftrightarrow> (\<forall>v q. plain_user v \<longrightarrow> threads_of st' (v, q) = threads_of st (v, q))"

lemma restore_rolled:
  assumes "plain_user u" and "len h \<le> max_history (cw_chat (ca_writer app))"
  shows "\<exists>st'. restore_chat_history app c u t (budgeted h) st = (Inr (), st') \<and> rolled u t h st'"
proof -
  obtain s d where sd: "st_conversations st = (s, d)" by fastforce
  have room: "len (normalize_snapshot (budgeted h)) \<le> max_history (cw_chat (ca_writer app))" using budgeted_room [of h] assms(2) by simp
  show ?thesis using conv.replace_eq [OF assms(1) room, of c t s d]
    by (auto simp: restore_chat_history_def on_conversations_def sd rolled_def)
qed

lemma rolled_back_state:
  assumes "plain_user u" and "len h \<le> max_history (cw_chat (ca_writer app))"
  shows "\<exists>st'. rolled_back app c u t (budgeted h) code msg st = (Inr (Error_Answer code msg None), st') \<and> rolled u t h st'"
  using restore_rolled [OF assms, of c t st] by (auto simp: rolled_back_def)

lemma unanswered_state:
  assumes "plain_user u" and "len h \<le> max_history (cw_chat (ca_writer app))"
  shows "\<exists>code msg st'. unanswered app c u t (budgeted h) result st = (Inr (Error_Answer code msg None), st') \<and> rolled u t h st'"
proof -
  have "\<exists>code msg. unanswered app c u t (budgeted h) result st = rolled_back app c u t (budgeted h) code msg st"
    unfolding unanswered_def by (cases result) (simp_all split: if_splits, blast+)
  then obtain code msg where "unanswered app c u t (budgeted h) result st = rolled_back app c u t (budgeted h) code msg st" by blast
  with rolled_back_state [OF assms, of c t code msg st] show ?thesis by force
qed

lemma document_reply_state:
  assumes "plain_user u" and "len h \<le> max_history (cw_chat (ca_writer app))"
  shows "\<exists>txt st'. document_reply app c u t (budgeted h) entry staged_files response i st = (Inr (files_json (normalize_document_response txt) staged_files i), st')
    \<and> (txt = response \<and> \<not> response_requires_document_retry response \<or> txt = DOCUMENT_NO_INFORMATION_RESPONSE)"
proof (cases "response_requires_document_retry response")
  case True
  obtain st1 where 1: "restore_chat_history app c u t (budgeted h) st = (Inr (), st1)" using restore_rolled [OF assms] by blast
  have append: "\<exists>st'. on_conversations (append_message_cw (ca_writer app) c u role content (Some t)) st = (Inr (), st')" for role content st
  proof -
    obtain s d where sd: "st_conversations st = (s, d)" by fastforce
    obtain s2 where "append_message (cw_chat (ca_writer app)) c u role content (Some t) s = (Inr (), s2)"
      using conv.append_refines [OF assms(1) assms(1)] by (metis prod.collapse)
    then show ?thesis by (simp add: on_conversations_def sd append_message_cw_def then_mirror_def)
  qed
  obtain st2 where 2: "on_conversations (append_message_cw (ca_writer app) c u ''user'' entry (Some t)) st1 = (Inr (), st2)" using append by blast
  obtain st3 where "on_conversations (append_message_cw (ca_writer app) c u ''assistant'' DOCUMENT_NO_INFORMATION_RESPONSE (Some t)) st2 = (Inr (), st3)"
    using append by blast
  with True 1 2 show ?thesis by (simp add: document_reply_def)
qed (auto simp: document_reply_def)

lemma retry_free: "a = files_json (normalize_document_response txt) fs i \<Longrightarrow>
    (txt = response \<and> \<not> response_requires_document_retry response \<or> txt = DOCUMENT_NO_INFORMATION_RESPONSE) \<Longrightarrow>
    \<exists>fa. a = Answer (Files_Json fa) \<and> \<not> response_requires_document_retry (fa_response fa)"
proof -
  assume a: "a = files_json (normalize_document_response txt) fs i"
    and "txt = response \<and> \<not> response_requires_document_retry response \<or> txt = DOCUMENT_NO_INFORMATION_RESPONSE"
  then have ok: "\<not> response_requires_document_retry (normalize_document_response txt)" using normalized_answer canned_accepted by blast
  moreover have "response_requires_document_retry []" by (simp add: response_requires_document_retry_def py_lower_def)
  ultimately have "normalize_document_response txt \<noteq> []" by metis
  with a ok show ?thesis by (simp add: files_json_def)
qed

lemma kept_history:
  assumes "conv.good u msgs s" and "st_conversations st = (s, d)"
  obtains st' where "on_conversations (on_chat (get_history (cw_chat (ca_writer app)) c u t)) st = (Inr (msgs (normalize_thread_id t)), st')" "kept st st'"
proof -
  obtain s' where "on_conversations (on_chat (get_history (cw_chat (ca_writer app)) c u t)) st
      = (Inr (msgs (normalize_thread_id t)), st\<lparr>st_conversations := (s', d)\<rparr>)" "conv.same_threads s s'"
    using history_state [OF assms] by blast
  with assms(2) show thesis by (intro that [of "st\<lparr>st_conversations := (s', d)\<rparr>"]) (simp_all add: kept_def conv.same_threads_def)
qed

lemma ask_kept:
  assumes "plain_user (eq_username rq)" "eq_job_id_override rq = None" "ask app c uuid rq entry st = (Inl e, st')"
  shows "st_conversations st' = st_conversations st"
  using assms(3) by (cases rule: ask_cases [OF assms(1,2,3)]) simp_all

lemma kept_eq: "st_conversations st' = st_conversations st1 \<Longrightarrow> kept st st1 \<Longrightarrow> kept st st'"
    "st_conversations st' = st_conversations st1 \<Longrightarrow> rolled u t h st1 \<Longrightarrow> rolled u t h st'"
  by (simp_all add: kept_def rolled_def)

lemma history_bound:
  assumes "conv.good u msgs s"
  shows "len (msgs t) \<le> max_history (cw_chat (ca_writer app))"
proof -
  have "decode_entries (conv.abs_threads s (u, t)) = Inr (msgs t)" using assms by (simp add: conv.good_def)
  moreover have "len (conv.abs_threads s (u, t)) \<le> max_history (cw_chat (ca_writer app))"
    using length_py_suffix_le [OF conv.history_positive] by (auto simp: threads_def)
  ultimately show ?thesis using decode_entries_length by fastforce
qed

text \<open>
  How a question ends: an answer, which never asks for the file again if it is waited for, or
  an error that leaves the conversation as it was or rolled back.
\<close>

definition settled_question :: "string \<Rightarrow> string \<Rightarrow> message list \<Rightarrow> ('t, 'd, 'g, 'r) api_state
    \<Rightarrow> (files_reply answer, ('t, 'd, 'g, 'r) api_state) outcome \<Rightarrow> bool" where
  "settled_question u t h st x \<longleftrightarrow> (case fst x of
       Inr (Answer (Files_Stream i)) \<Rightarrow> True
     | Inr (Answer (Files_Json fa)) \<Rightarrow> \<not> response_requires_document_retry (fa_response fa)
     | _ \<Rightarrow> kept st (snd x) \<or> rolled u t h (snd x))"

lemma settled_simps:
  "settled_question u t h st (Inl e, st') \<longleftrightarrow> kept st st' \<or> rolled u t h st'"
  "settled_question u t h st (Inr (Error_Answer code msg r), st') \<longleftrightarrow> kept st st' \<or> rolled u t h st'"
  "settled_question u t h st (Inr (Answer (Files_Stream i)), st')"
  by (simp_all add: settled_question_def)

lemma settled_reply:
  assumes "plain_user u" and "len h \<le> max_history (cw_chat (ca_writer app))"
  shows "settled_question u t h st (document_reply app c u t (budgeted h) entry fs response i st2)"
proof -
  obtain ans st' where r: "document_reply app c u t (budgeted h) entry fs response i st2 = (Inr (files_json (normalize_document_response ans) fs i), st')"
    "ans = response \<and> \<not> response_requires_document_retry response \<or> ans = DOCUMENT_NO_INFORMATION_RESPONSE"
    using document_reply_state [OF assms] by blast
  obtain fa where "files_json (normalize_document_response ans) fs i = Answer (Files_Json fa)" "\<not> response_requires_document_retry (fa_response fa)"
    using retry_free [OF refl r(2)] by blast
  then show ?thesis by (simp add: r(1) settled_question_def)
qed

lemma settled_back:
  assumes "plain_user u" and "len h \<le> max_history (cw_chat (ca_writer app))"
  shows "settled_question u t h st (rolled_back app c u t (budgeted h) code msg st2)"
    and "settled_question u t h st (unanswered app c u t (budgeted h) result st2)"
  using rolled_back_state [OF assms, of c t code msg st2] unanswered_state [OF assms, of c t result st2] by (auto simp: settled_simps)

lemma enqueue_document_kept:
  "plain_user u \<Longrightarrow> enqueue_document_job app c uuid u t m p h entry meta st = (Inl e, st') \<Longrightarrow> st_conversations st' = st_conversations st"
  unfolding enqueue_document_job_def by (erule ask_kept [rotated 2]) (simp_all add: question_def)

lemma settled_retry:
  assumes u: "plain_user u" and bound: "len h \<le> max_history (cw_chat (ca_writer app))"
  shows "settled_question u t h st (retry_question app c uuid u t m p (budgeted h) entry fs meta envs st3)"
proof -
  obtain st4 where 4: "restore_chat_history app c u t (budgeted h) st3 = (Inr (), st4)" "rolled u t h st4"
    using restore_rolled [OF assms] by blast
  obtain r5 st5 where 5: "enqueue_document_job app c uuid u t m p (budgeted h) entry meta st4 = (r5, st5)" by fastforce
  show ?thesis
  proof (cases r5)
    case (Inl e)
    then have "rolled u t h st5" using enqueue_document_kept [OF u 5 [unfolded Inl]] kept_eq(2) 4(2) by blast
    then show ?thesis by (simp add: retry_question_def 4 5 Inl settled_simps)
  next
    case (Inr i)
    obtain res st6 where 6: "wait_for_terminal_job (ca_gateway app) i envs st5 = (res, st6)" by fastforce
    show ?thesis
      by (cases "completed_text res") (simp_all add: retry_question_def 4 5 Inr 6 settled_back [OF assms] settled_reply [OF assms])
  qed
qed

lemma settled_prepared:
  assumes u: "plain_user u" and bound: "len h \<le> max_history (cw_chat (ca_writer app))" and kept: "kept st st1"
  shows "settled_question u t h st (ask_prepared app c en stream u t m p p' (budgeted h) entry fs meta envs retry_envs st1)"
proof -
  obtain r2 st2 where 2: "enqueue_document_job app c (en_job_id en) u t m p (budgeted h) entry meta st1 = (r2, st2)" by fastforce
  show ?thesis
  proof (cases r2)
    case (Inl e)
    then have "kept st st2" using enqueue_document_kept [OF u 2 [unfolded Inl]] kept_eq(1) kept by blast
    then show ?thesis by (simp add: ask_prepared_def 2 Inl settled_simps)
  next
    case (Inr i)
    obtain res st3 where 3: "wait_for_terminal_job (ca_gateway app) i envs st2 = (res, st3)" by fastforce
    show ?thesis
      by (cases stream; cases "completed_text res")
        (simp_all add: ask_prepared_def 2 Inr 3 settled_simps settled_back [OF u bound] settled_reply [OF u bound] settled_retry [OF u bound])
  qed
qed

lemma kept_refl [simp]: "kept st st"
  by (simp add: kept_def)

lemma settled_documents:
  assumes good: "conv.good u msgs s" and sd: "st_conversations st = (s, d)" and t: "normalize_thread_id (Some t) = t"
  shows "settled_question u t (msgs t) st (ask_documents app c en stream files m prompt t u envs retry_envs st)"
proof -
  have u: "plain_user u" using good by (simp add: conv.good_def)
  let ?cfg = "gw_cfg (ca_gateway app)"
  obtain st1 where 1: "on_conversations (on_chat (get_history (cw_chat (ca_writer app)) c u (Some t))) st = (Inr (msgs t), st1)" "kept st st1"
    using kept_history [OF good sd, of c "Some t"] t by metis
  note prepared = settled_prepared [OF u history_bound [OF good, of t] 1(2)]
  show ?thesis
    unfolding ask_documents_def Let_def 1(1) obind_simps
    by (simp add: settled_simps 1(2) prepared split: sum.split)
qed

text \<open>The branch with the parser stage: there the answer is not looked at, only the errors settle.\<close>

lemma settled_parser:
  assumes good: "conv.good u msgs s" and sd: "st_conversations st = (s, d)" and t: "normalize_thread_id (Some t) = t"
  shows "\<exists>a st'. ask_parser_stage app c en stream files req m prompt t u envs st = (Inr (Answer a), st')
    \<or> settled_question u t (msgs t) st (ask_parser_stage app c en stream files req m prompt t u envs st)"
proof (cases "ENABLE_PARSER_STAGE (gw_cfg (ca_gateway app))")
  case False
  then show ?thesis by (simp add: ask_parser_stage_def settled_simps)
next
  case True
  have u: "plain_user u" using good by (simp add: conv.good_def)
  note bound = history_bound [OF good, of t]
  obtain r1 st1 where 1: "on_staging (stage_uploads_to_shared_root (gw_cfg (ca_gateway app)) (now c) (en_staging_id en) files (Some u)) st = (r1, st1)"
    by fastforce
  have c1: "st_conversations st1 = st_conversations st" using 1 by (auto simp: on_staging_def split: prod.splits)
  show ?thesis
  proof (cases r1)
    case (Inl e)
    then show ?thesis using True 1 c1 by (simp add: ask_parser_stage_def settled_simps kept_def)
  next
    case (Inr staged)
    obtain sid fs where fs: "staged = (sid, fs)" by fastforce
    obtain st2 where 2: "on_conversations (on_chat (get_history (cw_chat (ca_writer app)) c u (Some t))) st1 = (Inr (msgs t), st2)" "kept st1 st2"
      using kept_history [OF good, of st1 d c "Some t"] c1 sd t by metis
    have k2: "kept st st2" using 2(2) c1 by (simp add: kept_def)
    obtain r3 st3 where 3: "enqueue_parser_public_job app c (en_job_id en) u t m prompt (budgeted (msgs t)) (history_entry prompt fs) sid fs req st2 = (r3, st3)"
      by fastforce
    show ?thesis
    proof (cases r3)
      case (Inl e)
      have "st_conversations st3 = st_conversations st2"
        using 3 True unfolding Inl enqueue_parser_public_job_def by simp (erule ask_kept [rotated 2], simp_all add: u parser_question_def question_def)
      then have "kept st st3" using kept_eq(1) k2 by blast
      then show ?thesis using True 1 2(1) 3 by (simp add: ask_parser_stage_def Inr fs Inl settled_simps)
    next
      case i: (Inr i)
      obtain res st4 where 4: "wait_for_terminal_job (ca_gateway app) i envs st3 = (res, st4)" by fastforce
      show ?thesis using True 1 2(1) 3 4
        by (cases stream; cases "completed_text res")
          (simp_all add: ask_parser_stage_def Inr fs i files_json_def settled_simps settled_back [OF u bound])
    qed
  qed
qed

lemma settled_failure:
  assumes "settled_question u t h st (Inl e, st')"
  shows "settled_question u t h st (file_failure e, st')"
  using assms by (cases e) (simp_all add: file_failure_def settled_simps)

lemma settled_route:
  assumes good: "conv.good u msgs s" and sd: "st_conversations st = (s, d)" and t: "normalize_thread_id (Some t) = t"
    and run: "(if cutover then ask_parser_stage app c en stream files req m prompt t u envs st
        else ask_documents app c en stream files m prompt t u envs retry_envs st) = (r, st')"
    and out: "result = (case r of Inl e \<Rightarrow> file_failure e | Inr y \<Rightarrow> Inr y)"
  shows "(cutover \<and> (\<exists>a. result = Inr (Answer a))) \<or> settled_question u t (msgs t) st (result, st')"
proof -
  have "(cutover \<and> (\<exists>a. r = Inr (Answer a))) \<or> settled_question u t (msgs t) st (r, st')"
    using settled_parser [OF good sd t, of c en stream files req m prompt envs]
      settled_documents [OF good sd t, of c en stream files m prompt envs retry_envs] run by (auto split: if_splits)
  then show ?thesis using settled_failure out by (cases r) auto
qed

text \<open>The end of \<open>api_chat\<close>: the conversation is read, the job is enqueued and the question is written.\<close>

lemma asked_question:
  assumes good: "conv.good u msgs s" and sd: "st_conversations st = (s, d)" and t: "normalize_thread_id (Some t) = t"
    and run: "obind (on_conversations (on_chat (get_history (cw_chat (ca_writer app)) c u (Some t))) st) (\<lambda>h st.
        obind (ask app c uuid (question u t m prompt (budgeted h)) prompt st) (\<lambda>i st. (Inr (Answer i), st))) = (r, st')"
  obtains (refused) e where "r = Inl e" "jobs_of st' = jobs_of st" "kept st st'"
  | (asked) w p kind info where "r = Inr (Answer uuid)"
      "jobs_of st' = (jobs_of st)(uuid := Some (new_job (gw_cfg (ca_gateway app)) c (question u t m prompt (budgeted (msgs t))) uuid w p kind info))"
      "\<And>v q. plain_user v \<Longrightarrow> threads_of st' (v, q) = spec_append (max_history (cw_chat (ca_writer app))) u t
         (Entry \<lparr>ce_role = ''user'', ce_content = Some prompt, ce_created_at = Some (MInt (now c))\<rparr>) (threads_of st) (v, q)"
proof -
  have u: "plain_user u" using good by (simp add: conv.good_def)
  obtain s3 where 3: "on_conversations (on_chat (get_history (cw_chat (ca_writer app)) c u (Some t))) st
      = (Inr (msgs t), st\<lparr>st_conversations := (s3, d)\<rparr>)" "conv.same_threads s s3"
    using history_state [OF good sd, of c "Some t"] t by metis
  let ?st3 = "st\<lparr>st_conversations := (s3, d)\<rparr>" and ?rq = "question u t m prompt (budgeted (msgs t))"
  have kept: "kept st ?st3" using 3(2) sd by (simp add: kept_def conv.same_threads_def)
  obtain r4 st4 where 4: "ask app c uuid ?rq prompt ?st3 = (r4, st4)" by fastforce
  have out: "r = map_sum id Answer r4" "st' = st4" using run unfolding 3(1) obind_simps 4 by (cases r4; simp)+
  have pl: "plain_user (eq_username ?rq)" "eq_job_id_override ?rq = None" using u by simp_all
  show thesis
  proof (rule ask_cases [OF pl 4])
    fix e assume "r4 = Inl e" "jobs_of st4 = jobs_of ?st3" "st_conversations st4 = st_conversations ?st3"
    then show thesis using kept_eq(1) [OF _ kept] by (intro refused [of e]) (simp_all add: out)
  next
    fix w p kind info
    assume "r4 = Inr uuid" "jobs_of st4 = (jobs_of ?st3)(uuid := Some (new_job (gw_cfg (ca_gateway app)) c ?rq uuid w p kind info))"
      "\<And>v q. plain_user v \<Longrightarrow> threads_of st4 (v, q) = spec_append (max_history (cw_chat (ca_writer app))) (eq_username ?rq)
         (normalize_thread_id (eq_thread_id ?rq)) (Entry \<lparr>ce_role = ''user'', ce_content = Some prompt, ce_created_at = Some (MInt (now c))\<rparr>)
         (threads_of ?st3) (v, q)"
    then show thesis using kept u by (intro asked [of w p kind info]) (simp_all add: out t kept_def spec_append_def)
  qed
qed

end

lemma filtered_not_suspicious: "\<not> suspicious (filter_prompt_injection p)"
proof -
  have "\<not> suspicious SECURITY_WARNING" by code_simp
  then show ?thesis by (simp add: filter_prompt_injection_def)
qed

section \<open>An application for the examples\<close>

text \<open>All servers in memory, the model policy of two categories, and one served model that the user may use.\<close>

definition demo_app :: "(auth_space, chat_space, tables, gspace, (string, unit, unit, unit) keyspace) chat_app" where
  "demo_app = \<lparr>ca_web = demo_web, ca_writer = mem_coordinator, ca_db_millis = (\<lambda>t. 1000 * t), ca_markdown = (\<lambda>t. t),
     PERSISTENT_DB_READ_THREADS = False, PERSISTENT_DB_READ_MESSAGES = False, PERSISTENT_DB_SHADOW_COMPARE = False,
     ca_gateway = mem_gateway default_settings, ca_limiter = new_rate_limiter (Some mem_redis) 10 60 ''rl'',
     ca_files = demo_files False, ca_readers = demo_readers\<rparr>"

definition demo_state :: "(chat_space, tables, gspace, (string, unit, unit, unit) keyspace) api_state" where
  "demo_state = \<lparr>st_gateway = catalog_space, st_conversations = (listed_space, empty_tables), st_limiter = empty_keyspace,
     st_staging = Map.empty\<rparr>"

definition demo_entropy :: entropy where
  "demo_entropy = \<lparr>en_rate_hex = ''r'', en_rate_fault = False, en_job_id = ''u1'', en_retry_job_id = ''u2'', en_staging_id = ''s1''\<rparr>"

definition demo_upload :: "(string \<times> upload) list" where
  "demo_upload = [(''f'', \<lparr>up_filename = Some ''a.txt'', up_content_type = Some ''text/plain'', up_chunks = [''abc'']\<rparr>)]"

lemma demo_parts: "ca_gateway demo_app = mem_gateway default_settings" "ca_writer demo_app = mem_coordinator" "ca_web demo_app = demo_web"
    "ca_files demo_app = demo_files False" "ca_readers demo_app = demo_readers" "ca_limiter demo_app = new_rate_limiter (Some mem_redis) 10 60 ''rl''"
  by (simp_all add: demo_app_def)

interpretation memqt: question_tier mem_redis "\<lambda>s. s" mem_redis "\<lambda>s. s" demo_app
  unfolding question_tier_def demo_parts
  by (intro conjI memg.gateway_store_axioms memconv.conversation_tier_axioms)

lemma demo_texts: "filter_prompt_injection (py_strip ''what?'') = ''what?''" "normalized_model None = None"
    "normalize_thread_id (Some ''b'') = ''b''"
    "py_strip ''m'' = ''m''"
    "budgeted [\<lparr>m_role = ''user'', m_content = ''hi''\<rparr>] = [\<lparr>m_role = ''user'', m_content = ''hi''\<rparr>]"
    "normalize_snapshot [\<lparr>m_role = ''user'', m_content = ''hi''\<rparr>] = [\<lparr>m_role = ''user'', m_content = ''hi''\<rparr>]"
  by code_simp+

lemma demo_no_stream: "\<not> wants_event_stream demo_rq"
proof -
  have "py_lower ''accept'' = ''accept''" by code_simp
  then have "header demo_rq ''accept'' = None" by (simp add: header_def demo_rq_def)
  moreover have "\<not> py_contains ''text/event-stream'' (py_lower [])" by code_simp
  ultimately show ?thesis by (simp add: wants_event_stream_def)
qed

lemma demo_user_models: "map_sum id (map (apsnd mi_name)) (get_allowed_models_for_user default_auth_settings (demo_files False) [] demo_user [(''m'', demo_model)])
    = Inr [(''m'', ''m'')]"
  by code_simp

lemma demo_resolve: "\<exists>m. mc_key m = ''m'' \<and> resolve_runtime_model default_auth_settings (demo_files False) [] demo_user [(''m'', demo_model)] None False = Inr m"
proof -
  obtain a where a: "get_allowed_models_for_user default_auth_settings (demo_files False) [] demo_user [(''m'', demo_model)] = Inr [(''m'', a)]"
    using demo_user_models
    by (cases "get_allowed_models_for_user default_auth_settings (demo_files False) [] demo_user [(''m'', demo_model)]") auto
  have u: "ui_model_key demo_user = Some ''m''" "strip_opt None = []" "strip_opt (Some ''m'') = ''m''"
    by (simp_all add: demo_user_def strip_opt_def demo_texts)
  show ?thesis
    by (simp add: resolve_runtime_model_def resolve_requested_model_def a resolve_model_def resolve_model_identifier_def u choice_of_def)
qed

lemma demo_guarded: "\<exists>l. guarded demo_app demo_clock demo_entropy demo_rq demo_user demo_state = (Inr (), demo_state\<lparr>st_limiter := l\<rparr>)"
proof -
  have "py_strip ''rl'' = ''rl''" by code_simp
  then have "fst (check (ca_limiter demo_app) 100000 ''r'' False ''ann'' empty_keyspace) = Inr ()"
    by (simp add: check_def demo_parts new_rate_limiter_def mem_redis_def empty_keyspace_def rate_key_def zset_add_def Let_def)
  then obtain l where "check (ca_limiter demo_app) 100000 ''r'' False ''ann'' empty_keyspace = (Inr (), l)" by (metis prod.collapse)
  then show ?thesis
    by (simp add: guarded_def demo_parts demo_guard on_limiter_def demo_state_def demo_entropy_def demo_clock_def demo_user_def)
qed

lemma catalog_quiet: "list_active_targets (mem_gateway default_settings) catalog_space = ([], catalog_space)"
    "list_active_workers (mem_gateway default_settings) catalog_space = ([], catalog_space)"
  by (simp_all add: list_active_targets_def list_active_workers_def mem_gateway_def mem_redis_def catalog_space_def
      empty_keyspace_def List.map_filter_def)

lemma catalog_facts: "dynamic_queue_limit (mem_gateway default_settings) catalog_space = (64, catalog_space)"
    "get_total_pending_jobs (mem_gateway default_settings) catalog_space = 0"
    "get_model_catalog (mem_gateway default_settings) c catalog_space = ([(''m'', demo_model)], catalog_space)"
  by (simp add: dynamic_queue_limit_def catalog_quiet, simp add: mem_gateway_def default_settings_def)
    (simp add: memg.pending_total QUEUE_ORDER_def catalog_space_def empty_keyspace_def,
      simp add: get_model_catalog_def mem_gateway_def mem_redis_def catalog_space_def)

lemma demo_choice: "\<exists>m. mc_key m = ''m'' \<and> choose_model demo_app demo_clock demo_user None catalog_space = (Inr (Inr m), catalog_space)"
proof -
  obtain m where m: "mc_key m = ''m''"
    "resolve_runtime_model default_auth_settings (demo_files False) [] demo_user [(''m'', demo_model)] None False = Inr m"
    using demo_resolve by blast
  have "gw_available_models (mem_gateway default_settings) = []" "wb_cfg demo_web = default_auth_settings"
    by (simp_all add: mem_gateway_def demo_web_def)
  with m show ?thesis
    by (simp add: choose_model_def get_queue_pressure_def demo_parts catalog_quiet catalog_facts)
qed

lemma demo_enqueued: "mc_key m = ''m'' \<Longrightarrow> fst (enqueue_job (mem_gateway default_settings) c ''u1'' (question ''ann'' t m p h) catalog_space) = Inr ''u1''"
proof -
  assume "mc_key m = ''m''"
  moreover have "gw_redis (mem_gateway default_settings) = Some mem_redis" by (simp add: mem_gateway_def)
  ultimately show ?thesis by (simp add: enqueue_job_def question_def catalog_facts case_prod_beta Let_def)
qed

lemma demo_listed: "bounded (max_history mem_chat) (fst (st_conversations demo_state))"
    "decode_entries (threads (max_history mem_chat) (fst (st_conversations demo_state)) (''ann'', t)) = Inr (if t = ''b'' then [\<lparr>m_role = ''user'', m_content = ''hi''\<rparr>] else [])"
  using listed_readable by (simp_all add: demo_state_def)

lemma demo_is: "question_tier mem_redis (\<lambda>s. s) mem_redis (\<lambda>s. s) demo_app" "ui_username demo_user = ''ann''" "plain_user ''ann''"
    "cw_chat (ca_writer demo_app) = mem_chat" "st_conversations demo_state = (listed_space, empty_tables)"
    "st_gateway demo_state = catalog_space"
  using memqt.question_tier_axioms by (simp_all add: demo_user_def demo_names demo_parts mem_coordinator_def demo_state_def)

lemma waiting_never_answers:
  assumes "\<not> wants_event_stream request" and "\<not> ENABLE_PARSER_PUBLIC_CUTOVER (gw_cfg (ca_gateway app))"
  shows "fst (api_chat_with_files app c en msg model thread files [] retry_envs request user st) \<noteq> Inr (Answer a)"
proof -
  have rolled: "fst (rolled_back app c u t h code m st) \<noteq> Inr (Answer a)" for u t h code m st
    by (cases "restore_chat_history app c u t h st"; cases "fst (restore_chat_history app c u t h st)") (auto simp: rolled_back_def)
  have prepared: "fst (ask_prepared app c en False u t m p p' h entry fs meta [] retry_envs st) \<noteq> Inr (Answer a)" for u t m p p' h entry fs meta st
    by (cases "enqueue_document_job app c (en_job_id en) u t m p h entry meta st"; cases "fst (enqueue_document_job app c (en_job_id en) u t m p h entry meta st)")
      (auto simp: ask_prepared_def completed_text_def unanswered_def rolled)
  have documents: "fst (ask_documents app c en False files m p t u [] retry_envs st) \<noteq> Inr (Answer a)" for m p t u st
    unfolding ask_documents_def Let_def obind_def by (auto simp: prepared split: sum.split prod.split)
  have failure: "file_failure e \<noteq> Inr (Answer a)" for e by (cases e) (simp_all add: file_failure_def)
  show ?thesis
    using assms documents failure unfolding api_chat_with_files_def Let_def obind_def
    by (auto split: sum.split prod.split) (metis fst_conv)+
qed

section \<open>Properties\<close>

text \<open>
  C8: a question is answered behind all guards or changes nothing. If the route answers with
  a job, the request was not forged and within the rate limit, and exactly one job was added:
  queued under the fresh identifier, for this user and thread, with a model that the policy
  allows the user, with the filtered text (never empty, never suspicious) and the stored
  conversation cut to the history budget; the question was appended to this thread and to no
  other. In every other case no job and no conversation of anyone has changed.
\<close>

theorem chat_question_effect:
  assumes tier: "question_tier R view C cview app" and u: "plain_user (ui_username user)" "plain_user v"
    and n: "n = max_history (cw_chat (ca_writer app))" and s: "st_conversations st = (s, d)"
    and inv: "bounded n (cview s)"
    and readable: "\<And>t. decode_entries (threads n (cview s) (ui_username user, t)) = Inr (msgs t)"
    and run: "api_chat app c en payload request user st = (result, st')"
  shows "case result of
      Inr (Answer i) \<Rightarrow> i = en_job_id en \<and> enforce_csrf (ca_web app) request = Inr ()
        \<and> fst (check (ca_limiter app) (now_ms c) (en_rate_hex en) (en_rate_fault en) (ui_username user) (st_limiter st)) = Inr ()
        \<and> (\<exists>p j available allowed kv. payload = Some p \<and> jobs (view (st_gateway st')) = (jobs (view (st_gateway st)))(i := Some j)
          \<and> j_id j = i \<and> j_status j = Queued \<and> j_username j = ui_username user \<and> j_thread_id j = normalize_thread_id (pr_thread_id p)
          \<and> j_prompt j = filter_prompt_injection (py_strip (pr_prompt p)) \<and> j_prompt j \<noteq> [] \<and> \<not> suspicious (j_prompt j)
          \<and> j_history j = budgeted (msgs (j_thread_id j))
          \<and> get_allowed_models_for_user (wb_cfg (ca_web app)) (ca_files app) (gw_available_models (ca_gateway app)) user available = Inr allowed
          \<and> kv \<in> set allowed \<and> j_model_key j = fst kv
          \<and> threads n (cview (fst (st_conversations st'))) (v, q) = spec_append n (ui_username user) (j_thread_id j)
              (Entry \<lparr>ce_role = ''user'', ce_content = Some (j_prompt j), ce_created_at = Some (MInt (now c))\<rparr>) (threads n (cview s)) (v, q))
    | _ \<Rightarrow> jobs (view (st_gateway st')) = jobs (view (st_gateway st))
        \<and> threads n (cview (fst (st_conversations st'))) (v, q) = threads n (cview s) (v, q)"
proof -
  let ?u = "ui_username user"
  have ct: "conversation_tier C cview (ca_writer app)" using tier by (simp add: question_tier_def)
  note same = conversation_tier.same_threads_def [OF ct]
  have good: "conversation_tier.good cview (ca_writer app) ?u msgs s" using u inv readable by (simp add: conversation_tier.good_def [OF ct] n)
  obtain r1 st1 where 1: "guarded app c en request user st = (r1, st1)" by fastforce
  note g = guarded_cases [OF 1]
  show ?thesis
  proof (cases "\<exists>p. r1 = Inr () \<and> payload = Some p \<and> filter_prompt_injection (py_strip (pr_prompt p)) \<noteq> []")
    case False
    then show ?thesis using run 1 g(1,2) s by (cases r1; cases payload) (auto simp: api_chat_def Let_def)
  next
    case True
    then obtain p where r1: "r1 = Inr ()" and p: "payload = Some p" "filter_prompt_injection (py_strip (pr_prompt p)) \<noteq> []" by blast
    define prompt where "prompt = filter_prompt_injection (py_strip (pr_prompt p))"
    define tid where "tid = normalize_chat_thread_id (pr_thread_id p)"
    have tid: "normalize_thread_id (Some tid) = tid" "normalize_thread_id (pr_thread_id p) = tid" by (simp_all add: tid_def)
    obtain r2 st2 where 2: "on_gateway (choose_model app c user (normalized_model (pr_model p))) st1 = (r2, st2)" by fastforce
    note ch = question_tier.choose_state [OF tier 2]
    have s2: "st_conversations st2 = (s, d)" using ch(2) g(2) s by simp
    show ?thesis
    proof (cases "\<exists>m. r2 = Inr (Inr m)")
      case False
      then show ?thesis using run 1 2 g(1,2) r1 p ch s by (cases r2; cases "projr r2") (auto simp: api_chat_def Let_def)
    next
      case True
      then obtain m where m: "r2 = Inr (Inr m)" by blast
      from ch(3) [OF this] obtain available allowed kv where model:
        "get_allowed_models_for_user (wb_cfg (ca_web app)) (ca_files app) (gw_available_models (ca_gateway app)) user available = Inr allowed"
        "kv \<in> set allowed" "mc_key m = fst kv" using choose_allowed by fastforce
      note run = run [unfolded api_chat_def 1 r1 obind_simps p(1) option.case Let_def prompt_def [symmetric] tid_def [symmetric]
          if_not_P [OF p(2) [folded prompt_def]] 2 m sum.case]
      show ?thesis
      proof (rule question_tier.asked_question [OF tier good s2 tid(1) run])
        fix e assume "result = Inl e" "jobs (view (st_gateway st')) = jobs (view (st_gateway st2))" "question_tier.kept cview app st2 st'"
        then show ?thesis using ch(1) g(1) s2 u by (simp add: question_tier.kept_def [OF tier] n)
      next
        fix w pr kind info
        let ?j = "new_job (gw_cfg (ca_gateway app)) c (question ?u tid m prompt (budgeted (msgs tid))) (en_job_id en) w pr kind info"
        assume a: "result = Inr (Answer (en_job_id en))" "jobs (view (st_gateway st')) = (jobs (view (st_gateway st2)))(en_job_id en := Some ?j)"
          "\<And>v q. plain_user v \<Longrightarrow> threads (max_history (cw_chat (ca_writer app))) (cview (fst (st_conversations st'))) (v, q)
             = spec_append (max_history (cw_chat (ca_writer app))) ?u tid (Entry \<lparr>ce_role = ''user'', ce_content = Some prompt, ce_created_at = Some (MInt (now c))\<rparr>)
                 (threads (max_history (cw_chat (ca_writer app))) (cview (fst (st_conversations st2)))) (v, q)"
        have "prompt \<noteq> []" "\<not> suspicious prompt" using p(2) filtered_not_suspicious by (simp_all add: prompt_def)
        moreover have "jobs (view (st_gateway st')) = (jobs (view (st_gateway st)))(en_job_id en := Some ?j)" using a(2) ch(1) g(1) by simp
        ultimately show ?thesis
          unfolding a(1) sum.case answer.case using a(3) [OF u(2), of q] g(3) [OF r1] model s2
          by (intro conjI exI [of _ p] exI [of _ ?j] exI [of _ available] exI [of _ allowed] exI [of _ kv])
            (simp_all add: new_job_fields p(1) tid prompt_def n)
      qed
    qed
  qed
qed

theorem chat_question_effect_witness:
  "\<exists>st' j. api_chat demo_app demo_clock demo_entropy (Some \<lparr>pr_prompt = ''what?'', pr_model = None, pr_thread_id = Some ''b''\<rparr>)
       demo_rq demo_user demo_state = (Inr (Answer ''u1''), st')
     \<and> jobs (st_gateway st') = [''u1'' \<mapsto> j] \<and> j_prompt j = ''what?'' \<and> j_thread_id j = ''b'' \<and> j_history j = [\<lparr>m_role = ''user'', m_content = ''hi''\<rparr>]"
proof -
  let ?app = demo_app and ?w = "ca_writer demo_app" and ?c = demo_clock and ?hi = "[\<lparr>m_role = ''user'', m_content = ''hi''\<rparr>]"
  let ?p = "\<lparr>pr_prompt = ''what?'', pr_model = None, pr_thread_id = Some ''b''\<rparr>" and ?msgs = "\<lambda>t. if t = ''b'' then [\<lparr>m_role = ''user'', m_content = ''hi''\<rparr>] else []"
  obtain l where g: "guarded ?app ?c demo_entropy demo_rq demo_user demo_state = (Inr (), demo_state\<lparr>st_limiter := l\<rparr>)"
    using demo_guarded by blast
  let ?st1 = "demo_state\<lparr>st_limiter := l\<rparr>"
  obtain m where m: "mc_key m = ''m''" "choose_model ?app ?c demo_user None catalog_space = (Inr (Inr m), catalog_space)"
    using demo_choice by blast
  have 2: "on_gateway (choose_model ?app ?c demo_user None) ?st1 = (Inr (Inr m), ?st1)"
    by (simp add: on_gateway_def m(2) demo_state_def)
  have good: "memqt.conv.good ''ann'' ?msgs listed_space"
    using listed_readable by (simp add: memqt.conv.good_def demo_is)
  obtain s3 where 3: "on_conversations (on_chat (get_history (cw_chat ?w) ?c ''ann'' (Some ''b''))) ?st1
      = (Inr ?hi, ?st1\<lparr>st_conversations := (s3, empty_tables)\<rparr>)"
    using memqt.history_state [OF good, of ?st1 empty_tables ?c "Some ''b''"] by (auto simp: demo_is demo_texts)
  obtain g' where g': "enqueue_job (ca_gateway ?app) ?c ''u1'' (question ''ann'' ''b'' m ''what?'' ?hi) catalog_space = (Inr ''u1'', g')"
    using demo_enqueued [OF m(1)] by (metis demo_parts(1) prod.collapse)
  obtain s4 where "append_message (cw_chat ?w) ?c ''ann'' ''user'' ''what?'' (Some ''b'') s3 = (Inr (), s4)"
    using memqt.conv.append_refines [OF demo_is(3) demo_is(3)] by (metis prod.collapse)
  then obtain st4 where 4: "ask ?app ?c ''u1'' (question ''ann'' ''b'' m ''what?'' ?hi) ''what?'' (?st1\<lparr>st_conversations := (s3, empty_tables)\<rparr>) = (Inr ''u1'', st4)"
    using g' by (simp add: ask_def on_gateway_def on_conversations_def append_message_cw_def then_mirror_def demo_is)
  have run: "api_chat ?app ?c demo_entropy (Some ?p) demo_rq demo_user demo_state = (Inr (Answer ''u1''), st4)"
    unfolding api_chat_def g obind_simps option.case prompt_request.simps demo_texts Let_def demo_is(2)
    using 2 3 4 by (simp add: demo_texts demo_entropy_def)
  have "plain_user (ui_username demo_user)" by (simp add: demo_is)
  note effect = chat_question_effect [OF demo_is(1) this this refl demo_is(5) _ _ run, where msgs = ?msgs and q = "''b''"]
  have "en_job_id demo_entropy = ''u1''" by (simp add: demo_entropy_def)
  with effect obtain j where "jobs (st_gateway st4) = (jobs catalog_space)(''u1'' \<mapsto> j)" "j_prompt j = ''what?''" "j_thread_id j = ''b''"
    "j_history j = budgeted (?msgs (j_thread_id j))" using listed_readable by (auto simp: demo_is demo_texts)
  moreover have "jobs catalog_space = Map.empty" by (simp add: jobs_def catalog_space_def fun_eq_iff)
  ultimately show ?thesis using run by (auto simp: demo_texts)
qed

text \<open>
  C9: a question with files ends settled. An answer is given only to a request that is not
  forged and within the rate limit; an answer that is waited for and not made by the parser
  stage never asks the user for the file again. Whatever fails on the way (the policy, a file
  that cannot be read, the queue, the job, the second round, the deadline), and whatever the
  other processes do meanwhile, the thread of the user is then as it was before, or it is the
  part of the old conversation within the history budget, in normal form: the question that was
  not answered does not stay, but messages beyond the budget do not come back.
\<close>

theorem files_question_settled:
  assumes tier: "question_tier R view C cview app" and u: "plain_user (ui_username user)"
    and n: "n = max_history (cw_chat (ca_writer app))" and s: "st_conversations st = (s, d)"
    and inv: "bounded n (cview s)"
    and readable: "\<And>t. decode_entries (threads n (cview s) (ui_username user, t)) = Inr (msgs t)"
    and tid: "tid = normalize_chat_thread_id thread"
    and run: "api_chat_with_files app c en msg model thread files envs retry_envs request user st = (result, st')"
  shows "case result of
      Inr (Answer a) \<Rightarrow> enforce_csrf (ca_web app) request = Inr ()
        \<and> fst (check (ca_limiter app) (now_ms c) (en_rate_hex en) (en_rate_fault en) (ui_username user) (st_limiter st)) = Inr ()
        \<and> (case a of Files_Stream i \<Rightarrow> True
           | Files_Json fa \<Rightarrow> ENABLE_PARSER_PUBLIC_CUTOVER (gw_cfg (ca_gateway app)) \<or> \<not> response_requires_document_retry (fa_response fa))
    | _ \<Rightarrow> threads n (cview (fst (st_conversations st'))) (ui_username user, tid) = threads n (cview s) (ui_username user, tid)
        \<or> decode_entries (threads n (cview (fst (st_conversations st'))) (ui_username user, tid)) = Inr (normalize_snapshot (budgeted (msgs tid)))"
proof -
  let ?u = "ui_username user" and ?cut = "ENABLE_PARSER_PUBLIC_CUTOVER (gw_cfg (ca_gateway app))"
  have ct: "conversation_tier C cview (ca_writer app)" using tier by (simp add: question_tier_def)
  have good: "conversation_tier.good cview (ca_writer app) ?u msgs s" using u inv readable by (simp add: conversation_tier.good_def [OF ct] n)
  have t: "normalize_thread_id (Some tid) = tid" by (simp add: tid)
  obtain r1 st1 where 1: "guarded app c en request user st = (r1, st1)" by fastforce
  note g = guarded_cases [OF 1]
  show ?thesis
  proof (cases r1)
    case (Inl e)
    then show ?thesis using run 1 g(2) s by (auto simp: api_chat_with_files_def)
  next
    case (Inr x)
    then have r1: "r1 = Inr ()" by simp
    let ?prompt = "filter_prompt_injection (py_strip msg)" and ?req = "normalized_model model" and ?stream = "wants_event_stream request"
    obtain r2 st2 where 2: "on_gateway (choose_model app c user ?req) st1 = (r2, st2)" by fastforce
    have s2: "st_conversations st2 = (s, d)" using question_tier.choose_state(2) [OF tier 2] g(2) s by simp
    note run = run [unfolded api_chat_with_files_def 1 r1 obind_simps Let_def tid [symmetric] 2]
    show ?thesis
    proof (cases "\<exists>m. r2 = Inr (Inr m)")
      case False
      then show ?thesis using run s2 by (cases r2; cases "projr r2") auto
    next
      case True
      then obtain m where m: "r2 = Inr (Inr m)" by blast
      let ?body = "if ?cut then ask_parser_stage app c en ?stream files ?req m ?prompt tid ?u envs st2
        else ask_documents app c en ?stream files m ?prompt tid ?u envs retry_envs st2"
      obtain r3 st3 where 3: "?body = (r3, st3)" by fastforce
      have out: "result = (case r3 of Inl e \<Rightarrow> file_failure e | Inr y \<Rightarrow> Inr y)" "st' = st3"
        using run unfolding m by (auto simp: 3 split: sum.splits)
      have "(?cut \<and> (\<exists>a. result = Inr (Answer a))) \<or> question_tier.settled_question cview app ?u tid (msgs tid) st2 (result, st')"
        unfolding out(2) by (rule question_tier.settled_route [OF tier good s2 t 3 out(1)])
      moreover have "enforce_csrf (ca_web app) request = Inr ()"
        "fst (check (ca_limiter app) (now_ms c) (en_rate_hex en) (en_rate_fault en) ?u (st_limiter st)) = Inr ()"
        using g(3) [OF r1] by simp_all
      ultimately show ?thesis
        using s2 u t
        by (auto simp: question_tier.settled_question_def [OF tier] question_tier.kept_def [OF tier] question_tier.rolled_def [OF tier] n
            split: sum.splits answer.splits files_reply.splits)
    qed
  qed
qed

theorem files_question_settled_witness:
  "\<exists>result st'. api_chat_with_files demo_app demo_clock demo_entropy ''what?'' None (Some ''b'') demo_upload [] [] demo_rq demo_user demo_state = (result, st')
     \<and> (\<forall>a. result \<noteq> Inr (Answer a))
     \<and> decode_entries (threads (max_history mem_chat) (fst (st_conversations st')) (''ann'', ''b'')) = Inr [\<lparr>m_role = ''user'', m_content = ''hi''\<rparr>]"
proof -
  let ?run = "api_chat_with_files demo_app demo_clock demo_entropy ''what?'' None (Some ''b'') demo_upload [] [] demo_rq demo_user demo_state"
  obtain result st' where run: "?run = (result, st')" by fastforce
  have "gw_cfg (ca_gateway demo_app) = default_settings" by (simp add: demo_parts mem_gateway_def)
  then have "\<not> ENABLE_PARSER_PUBLIC_CUTOVER (gw_cfg (ca_gateway demo_app))" by (simp add: default_settings_def)
  from waiting_never_answers [OF demo_no_stream this, of demo_clock demo_entropy "''what?''" None "Some ''b''" demo_upload "[]" demo_user demo_state] run
  have no: "result \<noteq> Inr (Answer a)" for a by simp
  have "plain_user (ui_username demo_user)" by (simp add: demo_is)
  from files_question_settled [OF demo_is(1) this refl demo_is(5) _ _ refl run,
      where msgs = "\<lambda>t. if t = ''b'' then [\<lparr>m_role = ''user'', m_content = ''hi''\<rparr>] else []"]
  have "decode_entries (threads (max_history mem_chat) (fst (st_conversations st')) (''ann'', ''b'')) = Inr [\<lparr>m_role = ''user'', m_content = ''hi''\<rparr>]"
    using no demo_listed by (cases result rule: sum.exhaust; cases "projr result") (auto simp: demo_is demo_texts)
  with run no show ?thesis by blast
qed

end
