(* ===== verification/Spec2Isabelle.thy ===== *)
theory Spec2Isabelle
  imports Control_Plane Local_Admin Chat_Api
begin

text \<open>
  \<^bold>\<open>The program.\<close> A corporate AI assistant: a web tier (\<open>app.py\<close>) accepts chat and file
  questions, puts them as jobs into a control plane in Redis (\<open>llm_gateway.py\<close>), a
  scheduler (\<open>scheduler.py\<close>) admits jobs to compute targets under token and memory budgets,
  and workers (\<open>worker.py\<close>) claim admitted jobs, stream the answer of an Ollama server back
  as events, and store the conversation. Uploaded documents pass a parser stage
  (\<open>parser_stage.py\<close>) that stages, reads and budgets them before a child job asks the
  model. Conversations live in Redis and may be mirrored to a relational database
  (\<open>persistence/\<close>).

  \<^bold>\<open>How the program is modelled.\<close> Every operation is a function from the objects it uses
  (the gateway, the chat store, the coordinator), the clock and the state of the servers to
  its result and the new state; exceptions are values of a sum type. Redis is the interface
  \<open>redis_store\<close> (a record of commands with their laws against a keyspace), the database the
  interface \<open>sql_store\<close>; both have in-memory instances that make every operation executable.
  Text is a list of characters in code page 1251, so that the Russian literals of the
  source are kept. Integers are unbounded as in Python; floats are the binary64 values
  nearest to the exact results. Code outside the repository (the Ollama server, readers of
  PDF and image files, the operating system) is an argument of the definitions that use it.

  \<^bold>\<open>Theories, in the order they build on each other.\<close>
  \<^item> \<open>Prelude\<close>: Python's string, integer and float primitives; outcomes of fallible steps.
  \<^item> \<open>Redis_Store\<close>, \<open>Sql_Store\<close>: the two storage interfaces as locales and their in-memory
    interpretations.
  \<^item> \<open>Config\<close>: the settings with their defaults (\<open>config.py\<close>).
  \<^item> \<open>Prompt_Budget\<close>: the context budgets of \<open>llm_gateway.py\<close>: which history and which part
    of a prompt reach the model. The properties bound the result, fix its shape, and say
    what is kept of a document request.
  \<^item> \<open>Jobs\<close>: job, target, worker and event records, keys, and normalisation of requests.
  \<^item> \<open>Gateway\<close>, \<open>Lifecycle\<close>: job persistence, events, heartbeats, release of capacity, the
    terminal transitions, cancellation of linked jobs. \<open>Gateway\<close> holds the operations and the
    locale \<open>gateway_store\<close>; \<open>Lifecycle\<close> the capacity ledger (the counters of a target are the
    sums of the reservations of the jobs that hold it), which operations keep it, and by how
    much the settling of a child leaves it until its root is parked.
  \<^item> \<open>Admission\<close>: enqueueing with back-pressure, child jobs, the admission decision and its
    commit, claiming and leases. The properties: no target is over-committed, protected
    shares stay free, a full queue refuses.
  \<^item> \<open>Scheduler\<close>: the reaper of stale jobs and one pass of the schedule loop.
  \<^item> \<open>Control_Plane\<close>: all of these operations as one step relation, in any order and with any
    arguments, where each step is labelled as a race or not. The capacity ledger is an
    invariant of the runs without races, only a race can break it, and one race (a settled
    job that is still in a dispatch queue) is followed to the state where it is broken.
  \<^item> \<open>Events\<close>: the generator of server-sent events of a job.
  \<^item> \<open>Chat_Store\<close>, \<open>Rate_Limiter\<close>, \<open>Observability\<close>: the other Redis-backed components and the
    fields of log records. The chat store refines a map from users and threads to message
    lists; the limiter keeps its bound in every window.
  \<^item> \<open>Conversation_Db\<close>, \<open>Dual_Write\<close>: the relational store (a refinement of the same map),
    the write coordinator, parity check and migration: Redis holds the last messages of what
    the database holds, and the parity check tells whether that is all of it.
  \<^item> \<open>Parser_Stage\<close>: upload names, staging, extraction, document budget and prompts, with the
    round trip of a document prompt through the gateway's budget.
  \<^item> \<open>Ollama_Client\<close>: retries against the model server, the model catalog, and the capacity
    that a worker reports.
  \<^item> \<open>Worker\<close>: the worker process on top of all of these: generation from a stream, chat,
    file-chat and parser jobs, and one turn of each loop. Other processes appear as steps
    between the lines of a stream and during document preparation. Every job that is
    processed ends terminal, and the user sees exactly the stored answer.
  \<^item> \<open>Identity\<close> (\<open>auth_kerberos.py\<close>): normal forms of user names and groups and the identity
    contract that every kind of login produces; normal forms are fixed points.
  \<^item> \<open>Web_Base\<close>: requests, responses and cookies, JSON and Base64 text with their round trips,
    the authentication data in Redis, and the token library as the interface \<open>jwt_codec\<close>.
  \<^item> \<open>Session\<close> (\<open>auth_kerberos.py\<close>, \<open>app.py\<close>): tokens in cookies, revocation, the current
    user, the guard against forged requests, logout and refresh. An identity survives any
    number of renewals, a logout ends the session, a refresh token works once.
  \<^item> \<open>Trusted_Proxy\<close> (\<open>app.py\<close>, \<open>sso_proxy_auth.py\<close>): sign-on through the reverse proxy, from
    the Kerberos token to the identity that the web tier rebuilds from headers; headers are
    believed only from the proxy's addresses, and both ends agree on who the user is.
  \<^item> \<open>Local_Admin\<close> (\<open>local_admin_security.py\<close>, \<open>app.py\<close>): the password hash, the state and
    the sessions of the local administrator and the handlers around them. A login is accepted
    for the right name and password only, and a new password ends the sessions under the old.
  \<^item> \<open>Model_Policy\<close> (\<open>auth_kerberos.py\<close>, \<open>config.py\<close>, \<open>app.py\<close>): the policy directory, the model
    registry, which models a user may use, and which model a request gets.
  \<^item> \<open>Conversation_Api\<close> (\<open>app.py\<close>): the thread routes over chat store, coordinator and database.
    Reading from the database never changes what a user sees, a route shows the stored
    conversation, and there is always a thread to show.
  \<^item> \<open>Chat_Api\<close> (\<open>app.py\<close>): the chat routes, where everything above meets: guards, rate limit,
    queue pressure, model policy, the job, the conversation, the wait for the answer. A request
    adds one job and one message or nothing, and a question with files ends with an answer
    or with the conversation rolled back, whatever the other processes do meanwhile.

  \<^bold>\<open>Bounds and fuel.\<close> Loops are structural recursion or have a termination proof. The only
  fuel is the recursion depth of \<open>cancel_job\<close>, which follows links between jobs; running out
  of it is Python's \<open>RecursionError\<close>, and the properties of cancellation hold for every depth.

  \<^bold>\<open>Not modelled.\<close> Log lines; start-up and shutdown of the processes; the command lines of
  \<open>kinit\<close>, \<open>klist\<close> and \<open>ldapsearch\<close> and the login that rests on them; the dashboard and
  debug routes of \<open>app.py\<close>, its templates and metrics; the dashboard telemetry, start scripts,
  health checks, smoke and load scripts: they glue frameworks and external programs together. SHA-256, PBKDF2, the token library,
  GSSAPI, the directory and the module \<open>ipaddress\<close> are parameters. Expiry of Redis keys is not
  modelled (a key that a component sets with a time to live stays), nor are failures of
  Redis in the middle of an operation; an operation of the gateway is one step. Lists and sorted
  sets are separate maps of the keyspace, so the conversation with the thread id \<open>threads\<close>,
  whose list has the key of the thread registry, is outside the model, and so are texts
  that are longer than their database columns and failures of the file system while uploads
  are staged or removed.
\<close>

end
